(* ===== verification/JsPrelude.thy ===== *)
theory JsPrelude
  imports Complex_Main "HOL-Library.Word"
begin

text \<open>
  What every component of the app shares: the numbers of JavaScript, results
  that may be an exception, list operations as the language has them, and the
  three contracts (a state machine with an invariant, a projection onto a set
  of admissible values, a key-value slot) that several components satisfy.

  A JavaScript number is a rational, NaN or one of the two infinities.
  Arithmetic on the rationals is exact: the rounding of IEEE doubles is not
  modelled (the one routine whose result depends on it, the seeded generator
  of the lesson charts, writes its rounding out), and the two zeros are one.
  Everything the code guards against with isFinite, with \<open>|| 0\<close> or with a
  comparison that is false for NaN is a branch of the model.
\<close>

named_theorems js_eval \<open>equations that evaluate the primitives of the language\<close>
named_theorems handler \<open>definitions of handlers, unfolded to look at one step\<close>

section \<open>Numbers\<close>

datatype jsnum = Num rat | NaN | PosInf | NegInf

definition inf_of_sign :: "rat \<Rightarrow> jsnum" where
  "inf_of_sign q = (if q = 0 then NaN else if q > 0 then PosInf else NegInf)"

instantiation jsnum :: "{zero, one, plus, uminus, minus, times, inverse, ord}"
begin

definition zero_jsnum :: jsnum where "zero_jsnum = Num 0"

definition one_jsnum :: jsnum where "one_jsnum = Num 1"

fun plus_jsnum :: "jsnum \<Rightarrow> jsnum \<Rightarrow> jsnum" where
  "plus_jsnum (Num a) (Num b) = Num (a + b)"
| "plus_jsnum NaN y = NaN"
| "plus_jsnum x NaN = NaN"
| "plus_jsnum PosInf NegInf = NaN"
| "plus_jsnum NegInf PosInf = NaN"
| "plus_jsnum PosInf y = PosInf"
| "plus_jsnum NegInf y = NegInf"
| "plus_jsnum x PosInf = PosInf"
| "plus_jsnum x NegInf = NegInf"

fun uminus_jsnum :: "jsnum \<Rightarrow> jsnum" where
  "uminus_jsnum (Num a) = Num (- a)"
| "uminus_jsnum NaN = NaN"
| "uminus_jsnum PosInf = NegInf"
| "uminus_jsnum NegInf = PosInf"

definition minus_jsnum :: "jsnum \<Rightarrow> jsnum \<Rightarrow> jsnum" where
  "minus_jsnum x y = x + (- y)"

fun times_jsnum :: "jsnum \<Rightarrow> jsnum \<Rightarrow> jsnum" where
  "times_jsnum (Num a) (Num b) = Num (a * b)"
| "times_jsnum NaN y = NaN"
| "times_jsnum x NaN = NaN"
| "times_jsnum (Num a) PosInf = inf_of_sign a"
| "times_jsnum (Num a) NegInf = inf_of_sign (- a)"
| "times_jsnum PosInf (Num b) = inf_of_sign b"
| "times_jsnum NegInf (Num b) = inf_of_sign (- b)"
| "times_jsnum PosInf PosInf = PosInf"
| "times_jsnum NegInf NegInf = PosInf"
| "times_jsnum PosInf NegInf = NegInf"
| "times_jsnum NegInf PosInf = NegInf"

text \<open>Division: by zero it is an infinity of the numerator's sign, and NaN for 0 / 0.\<close>

fun inverse_jsnum :: "jsnum \<Rightarrow> jsnum" where
  "inverse_jsnum (Num a) = (if a = 0 then PosInf else Num (1 / a))"
| "inverse_jsnum NaN = NaN"
| "inverse_jsnum PosInf = Num 0"
| "inverse_jsnum NegInf = Num 0"

definition divide_jsnum :: "jsnum \<Rightarrow> jsnum \<Rightarrow> jsnum" where
  "divide_jsnum x y = x * inverse y"

text \<open>Comparisons are false when either side is NaN.\<close>

fun less_jsnum :: "jsnum \<Rightarrow> jsnum \<Rightarrow> bool" where
  "less_jsnum (Num a) (Num b) = (a < b)"
| "less_jsnum NegInf (Num b) = True"
| "less_jsnum NegInf PosInf = True"
| "less_jsnum (Num a) PosInf = True"
| "less_jsnum x y = False"

fun less_eq_jsnum :: "jsnum \<Rightarrow> jsnum \<Rightarrow> bool" where
  "less_eq_jsnum (Num a) (Num b) = (a \<le> b)"
| "less_eq_jsnum NegInf (Num b) = True"
| "less_eq_jsnum NegInf PosInf = True"
| "less_eq_jsnum (Num a) PosInf = True"
| "less_eq_jsnum PosInf PosInf = True"
| "less_eq_jsnum NegInf NegInf = True"
| "less_eq_jsnum x y = False"

instance ..

end

text \<open>A sum that meets a NaN, or both infinities, is NaN however it is bracketed.\<close>

lemma jsnum_plus_assoc: "x + y + z = x + (y + (z::jsnum))"
  by (cases x; cases y; cases z) simp_all

lemma jsnum_plus_commute: "x + y = y + (x::jsnum)"
  by (cases x; cases y) (simp_all add: add.commute)

lemma jsnum_zero_plus: "0 + x = (x::jsnum)"
  by (cases x) (simp_all add: zero_jsnum_def)

instance jsnum :: comm_monoid_add
  by standard (rule jsnum_plus_assoc jsnum_plus_commute jsnum_zero_plus)+

instance jsnum :: numeral ..

lemma numeral_Num [js_eval]: "numeral n = Num (numeral n)"
proof (induction n rule: num_induct)
  case One
  show ?case by (simp add: one_jsnum_def)
next
  case (inc x)
  then show ?case by (simp only: numeral_inc one_jsnum_def plus_jsnum.simps)
qed

lemma zero_Num [js_eval]: "(0::jsnum) = Num 0" by (simp add: zero_jsnum_def)
lemma one_Num [js_eval]: "(1::jsnum) = Num 1" by (simp add: one_jsnum_def)

lemma minus_Num [simp]: "Num a - Num b = Num (a - b)"
  by (simp add: minus_jsnum_def)

lemma divide_Num [simp]: "Num a / Num b = (if b = 0 then inf_of_sign a else Num (a / b))"
  by (simp add: divide_jsnum_def divide_inverse)

lemma NaN_arith [simp]:
  "NaN - x = NaN" "x - NaN = NaN" "NaN / x = NaN" "x / NaN = NaN" "x * NaN = NaN" "x + NaN = NaN"
  by (cases x; simp add: minus_jsnum_def divide_jsnum_def)+

lemma NaN_compare [simp]:
  "\<not> (NaN < x)" "\<not> (x < NaN)" "\<not> (NaN \<le> x)" "\<not> (x \<le> NaN)"
  by (cases x; simp)+

lemma Num_le_trans: "x \<le> y \<Longrightarrow> y \<le> z \<Longrightarrow> x \<le> (z::jsnum)"
  by (cases x; cases y; cases z) auto

lemma inf_of_sign_simps [simp]:
  "inf_of_sign 0 = NaN" "q > 0 \<Longrightarrow> inf_of_sign q = PosInf" "q < 0 \<Longrightarrow> inf_of_sign q = NegInf"
  by (auto simp: inf_of_sign_def)

subsection \<open>The operations of Math and Number the code uses\<close>

fun is_finite :: "jsnum \<Rightarrow> bool" where
  "is_finite (Num a) = True"
| "is_finite x = False"

fun the_num :: "jsnum \<Rightarrow> rat" where
  "the_num (Num a) = a"
| "the_num x = 0"

text \<open>The comparison \<open>===\<close>: NaN is not equal to itself.\<close>

definition num_eq :: "jsnum \<Rightarrow> jsnum \<Rightarrow> bool" where
  "num_eq x y \<longleftrightarrow> x = y \<and> x \<noteq> NaN"

text \<open>A number used as a condition, and \<open>x || y\<close>.\<close>

definition truthy :: "jsnum \<Rightarrow> bool" where
  "truthy x \<longleftrightarrow> x \<noteq> NaN \<and> x \<noteq> Num 0"

definition num_or :: "jsnum \<Rightarrow> jsnum \<Rightarrow> jsnum" where
  "num_or x y = (if truthy x then x else y)"

definition math_max :: "jsnum \<Rightarrow> jsnum \<Rightarrow> jsnum" where
  "math_max x y = (if x = NaN \<or> y = NaN then NaN else if x \<le> y then y else x)"

definition math_min :: "jsnum \<Rightarrow> jsnum \<Rightarrow> jsnum" where
  "math_min x y = (if x = NaN \<or> y = NaN then NaN else if x \<le> y then x else y)"

text \<open>The variadic forms: no argument gives the neutral infinity.\<close>

definition math_max_list :: "jsnum list \<Rightarrow> jsnum" where
  "math_max_list xs = foldl math_max NegInf xs"

definition math_min_list :: "jsnum list \<Rightarrow> jsnum" where
  "math_min_list xs = foldl math_min PosInf xs"

fun math_abs :: "jsnum \<Rightarrow> jsnum" where
  "math_abs (Num a) = Num \<bar>a\<bar>"
| "math_abs NaN = NaN"
| "math_abs x = PosInf"

fun math_floor :: "jsnum \<Rightarrow> jsnum" where
  "math_floor (Num a) = Num (of_int \<lfloor>a\<rfloor>)"
| "math_floor x = x"

fun math_ceil :: "jsnum \<Rightarrow> jsnum" where
  "math_ceil (Num a) = Num (of_int \<lceil>a\<rceil>)"
| "math_ceil x = x"

text \<open>Math.round: to the nearest integer, a half up.\<close>

fun math_round :: "jsnum \<Rightarrow> jsnum" where
  "math_round (Num a) = Num (of_int \<lfloor>a + 1/2\<rfloor>)"
| "math_round x = x"

lemma math_max_Num [simp]: "math_max (Num a) (Num b) = Num (max a b)"
  by (simp add: math_max_def max_def)

lemma math_min_Num [simp]: "math_min (Num a) (Num b) = Num (min a b)"
  by (simp add: math_min_def min_def)

lemma math_max_NaN [simp]: "math_max NaN x = NaN" "math_max x NaN = NaN"
  by (simp_all add: math_max_def)

lemma math_min_NaN [simp]: "math_min NaN x = NaN" "math_min x NaN = NaN"
  by (simp_all add: math_min_def)

lemma math_min_le: "math_min x y = Num q \<Longrightarrow> Num q \<le> x \<and> Num q \<le> y"
  by (cases x; cases y) (auto simp: math_min_def split: if_splits)

lemma math_max_ge: "math_max x y = Num q \<Longrightarrow> x \<le> Num q \<and> y \<le> Num q"
  by (cases x; cases y) (auto simp: math_max_def split: if_splits)

lemma math_max_list_Num:
  "math_max_list (Num a # map Num xs) = Num (foldl max a xs)"
proof -
  have "foldl math_max (Num a) (map Num xs) = Num (foldl max a xs)" for a
    by (induction xs arbitrary: a) simp_all
  moreover have "math_max NegInf (Num a) = Num a" by (simp add: math_max_def)
  ultimately show ?thesis by (simp add: math_max_list_def)
qed

lemma foldl_max_ge: "(a::'a::linorder) \<le> foldl max a xs" "x \<in> set xs \<Longrightarrow> x \<le> foldl max a xs"
proof -
  have ge: "b \<le> foldl max b xs" for b :: 'a and xs
    by (induction xs arbitrary: b) (auto, metis max.bounded_iff)
  show "a \<le> foldl max a xs" by (rule ge)
  show "x \<in> set xs \<Longrightarrow> x \<le> foldl max a xs"
    by (induction xs arbitrary: a) (auto, metis ge max.bounded_iff)
qed

lemma foldl_max_mem: "foldl max (a::'a::linorder) xs \<in> insert a (set xs)"
  by (induction xs arbitrary: a) (auto simp: max_def)

section \<open>Results, lists\<close>

text \<open>An asynchronous call either throws (Inl) or returns (Inr).\<close>

fun is_ok :: "'e + 'a \<Rightarrow> bool" where
  "is_ok (Inl e) = False"
| "is_ok (Inr x) = True"

text \<open>Array.prototype.slice with bounds that are not negative.\<close>

definition js_slice :: "nat \<Rightarrow> nat \<Rightarrow> 'a list \<Rightarrow> 'a list" where
  "js_slice from to xs = take (to - from) (drop from xs)"

lemma js_slice_length [simp]: "length (js_slice a b xs) = min (b - a) (length xs - a)"
  by (simp add: js_slice_def)

lemma js_slice_append: "a \<le> b \<Longrightarrow> b \<le> c \<Longrightarrow> js_slice a b xs @ js_slice b c xs = js_slice a c xs"
proof -
  assume "a \<le> b" "b \<le> c"
  then have split: "c - a = (b - a) + (c - b)" and "drop b xs = drop (b - a) (drop a xs)" by simp_all
  then show ?thesis by (simp add: js_slice_def split take_add)
qed

text \<open>Set and Map of the language keep the order of first insertion.\<close>

fun js_dedup :: "'a list \<Rightarrow> 'a list" where
  "js_dedup [] = []"
| "js_dedup (x # xs) = x # filter (\<lambda>y. y \<noteq> x) (js_dedup xs)"

lemma set_js_dedup [simp]: "set (js_dedup xs) = set xs"
  by (induction xs) auto

lemma distinct_js_dedup [simp]: "distinct (js_dedup xs)"
  by (induction xs) auto

section \<open>Contracts that components share\<close>

text \<open>A component that only moves by its operations, and what they keep.\<close>

locale state_machine =
  fixes step :: "'s \<Rightarrow> 'e \<Rightarrow> 's"
    and inv :: "'s \<Rightarrow> bool"
  assumes step_inv: "inv s \<Longrightarrow> inv (step s e)"
begin

lemma run_inv: "inv s \<Longrightarrow> inv (foldl step s es)"
  by (induction es arbitrary: s) (auto intro: step_inv)

lemma run_invs: "inv s \<Longrightarrow> \<forall>k \<le> length es. inv (foldl step s (take k es))"
  by (simp add: run_inv)

end

text \<open>The same when the outside world keeps its side: inputs that are not
  \<open>ok\<close> do not happen, which is the machine that ignores them.\<close>

locale guarded_machine =
  fixes step :: "'s \<Rightarrow> 'e \<Rightarrow> 's"
    and ok :: "'e \<Rightarrow> bool"
    and inv :: "'s \<Rightarrow> bool"
  assumes guarded_inv: "inv s \<Longrightarrow> ok e \<Longrightarrow> inv (step s e)"

sublocale guarded_machine \<subseteq> machine: state_machine "\<lambda>s e. if ok e then step s e else s" inv
  by unfold_locales (simp add: guarded_inv)

context guarded_machine begin

lemma guarded_run: "inv s \<Longrightarrow> list_all ok es \<Longrightarrow> inv (foldl step s es)"
  by (induction es arbitrary: s) (auto intro: guarded_inv)

end

text \<open>Bringing a value inside what is allowed, once.\<close>

locale projection =
  fixes proj :: "'a \<Rightarrow> 'a"
    and inside :: "'a \<Rightarrow> bool"
    and sane :: "'a \<Rightarrow> bool"
  assumes proj_inside: "sane x \<Longrightarrow> inside (proj x)"
    and inside_fixed: "inside x \<Longrightarrow> proj x = x"
begin

lemma proj_idem: "sane x \<Longrightarrow> proj (proj x) = proj x"
  by (simp add: inside_fixed proj_inside)

lemma proj_iterate: "sane x \<Longrightarrow> 0 < n \<Longrightarrow> (proj ^^ n) x = proj x"
proof (induction n)
  case (Suc n)
  then show ?case by (cases n) (simp_all add: proj_idem)
qed simp

end

text \<open>One slot of a store: what was saved is what is read, until it is cleared.
  \<open>works\<close> says the storage can be written at all.\<close>

locale slot =
  fixes load :: "'st \<Rightarrow> 'v option"
    and save :: "'v \<Rightarrow> 'st \<Rightarrow> 'st"
    and works :: "'st \<Rightarrow> bool"
  assumes load_save: "works s \<Longrightarrow> load (save v s) = Some v"
    and works_save: "works s \<Longrightarrow> works (save v s)"
begin

lemma last_save_wins: "works s \<Longrightarrow> load (save w (save v s)) = Some w"
  by (simp add: load_save works_save)

lemma works_saves: "works s \<Longrightarrow> works (foldl (\<lambda>st v. save v st) s vs)"
  by (induction vs arbitrary: s) (simp_all add: works_save)

lemma saves_last:
  assumes "works s" and "vs \<noteq> []"
  shows "load (foldl (\<lambda>st v. save v st) s vs) = Some (last vs)"
  using assms by (induction vs rule: rev_induct) (simp_all add: load_save works_saves)

end

locale clearable_slot = slot +
  fixes clear :: "'a \<Rightarrow> 'a"
  assumes load_clear: "works s \<Longrightarrow> load (clear s) = None"
    and works_clear: "works s \<Longrightarrow> works (clear s)"
begin

lemma cleared_for_good: "works s \<Longrightarrow> load (clear (save v s)) = None"
  by (simp add: load_clear works_save)

lemma saved_after_clear: "works s \<Longrightarrow> load (save v (clear s)) = Some v"
  by (simp add: load_save works_clear)

end

end
