(* ===== verification/JsText.thy ===== *)
theory JsText
  imports JsPrelude
begin

text \<open>
  Strings. A string is a list of characters; text outside ASCII is its UTF-8
  bytes, and nothing in the model takes the length of such text. Here are the
  decimal numerals (String of an integer, Number of a string, toFixed), the
  case conversions and the searches the code uses, with the facts that make
  identifiers built from them unambiguous.
\<close>

section \<open>Characters\<close>

definition code_of :: "char \<Rightarrow> nat" where
  "code_of c = of_char c"

definition is_digit :: "char \<Rightarrow> bool" where
  "is_digit c \<longleftrightarrow> 48 \<le> code_of c \<and> code_of c \<le> 57"

definition digit_char :: "nat \<Rightarrow> char" where
  "digit_char d = char_of (48 + d)"

definition lower_char :: "char \<Rightarrow> char" where
  "lower_char c = (if 65 \<le> code_of c \<and> code_of c \<le> 90 then char_of (code_of c + 32) else c)"

definition upper_char :: "char \<Rightarrow> char" where
  "upper_char c = (if 97 \<le> code_of c \<and> code_of c \<le> 122 then char_of (code_of c - 32) else c)"

text \<open>toLowerCase and toUpperCase, on the ASCII text they are applied to.\<close>

definition lower :: "string \<Rightarrow> string" where
  "lower s = List.map lower_char s"

definition upper :: "string \<Rightarrow> string" where
  "upper s = List.map upper_char s"

lemma code_of_char_of [simp]: "n < 256 \<Longrightarrow> code_of (char_of n) = n"
  by (simp add: code_of_def)

lemma code_of_digit [simp]: "d < 10 \<Longrightarrow> code_of (digit_char d) = 48 + d"
  by (simp add: digit_char_def)

lemma is_digit_digit [simp]: "d < 10 \<Longrightarrow> is_digit (digit_char d)"
  by (simp add: is_digit_def)

lemma upper_char_idem [simp]: "upper_char (upper_char c) = upper_char c"
  by (auto simp: upper_char_def)

lemma upper_idem [simp]: "upper (upper s) = upper s"
  by (simp add: upper_def)

lemma lower_char_idem [simp]: "lower_char (lower_char c) = lower_char c"
  by (auto simp: lower_char_def)

lemma lower_idem [simp]: "lower (lower s) = lower s"
  by (simp add: lower_def)

lemma lower_append [simp]: "lower (s @ t) = lower s @ lower t"
  by (simp add: lower_def)

section \<open>Decimal numerals\<close>

fun show_nat :: "nat \<Rightarrow> string" where
  "show_nat n = (if n < 10 then [digit_char n] else show_nat (n div 10) @ [digit_char (n mod 10)])"

declare show_nat.simps [simp del]

definition show_int :: "int \<Rightarrow> string" where
  "show_int i = (if i < 0 then ''-'' @ show_nat (nat (- i)) else show_nat (nat i))"

text \<open>The value of a run of digits, after what has been read.\<close>

definition digits_value :: "nat \<Rightarrow> string \<Rightarrow> nat" where
  "digits_value = foldl (\<lambda>acc c. 10 * acc + (code_of c - 48))"

lemma digits_value_simps [simp]:
  "digits_value acc [] = acc"
  "digits_value acc (c # cs) = digits_value (10 * acc + (code_of c - 48)) cs"
  "digits_value acc (xs @ ys) = digits_value (digits_value acc xs) ys"
  by (simp_all add: digits_value_def)

lemma show_nat_nonempty [simp]: "show_nat n \<noteq> []"
  by (subst show_nat.simps) simp

lemma show_nat_digits: "c \<in> set (show_nat n) \<Longrightarrow> is_digit c"
proof (induction n rule: show_nat.induct)
  case (1 n)
  show ?case
  proof (cases "n < 10")
    case True
    with "1.prems" show ?thesis by (simp add: show_nat.simps [of n])
  next
    case False
    with 1 show ?thesis by (auto simp: show_nat.simps [of n])
  qed
qed

lemma digits_value_show_nat [simp]: "digits_value 0 (show_nat n) = n"
proof (induction n rule: show_nat.induct)
  case (1 n)
  show ?case
  proof (cases "n < 10")
    case True
    then show ?thesis by (simp add: show_nat.simps [of n])
  next
    case False
    with 1 show ?thesis by (simp add: show_nat.simps [of n])
  qed
qed

lemma show_nat_inj [simp]: "show_nat m = show_nat n \<longleftrightarrow> m = n"
  by (metis digits_value_show_nat)

lemma dash_not_digit [simp]: "\<not> is_digit (CHR ''-'')" "\<not> is_digit (CHR ''.'')"
  by (simp_all add: is_digit_def code_of_def)

lemma show_nat_no_dash [simp]: "CHR ''-'' \<notin> set (show_nat n)" "CHR ''.'' \<notin> set (show_nat n)"
  using show_nat_digits [of _ n] by fastforce+

section \<open>Searching and cutting\<close>

text \<open>\<open>split(c)\<close> at the first occurrence: what precedes it and what follows it.\<close>

definition split_at :: "char \<Rightarrow> string \<Rightarrow> string \<times> string option" where
  "split_at c s = (let p = takeWhile (\<lambda>x. x \<noteq> c) s in
     (p, case drop (length p) s of [] \<Rightarrow> None | _ # r \<Rightarrow> Some (takeWhile (\<lambda>x. x \<noteq> c) r)))"

text \<open>The replacement of the regular expression \<open>0+$\<close> by nothing, and of \<open>.?0+$\<close>:
  a run of zeros at the end goes, and with it one point before the run.\<close>

definition drop_zeros :: "string \<Rightarrow> string" where
  "drop_zeros s = rev (dropWhile (\<lambda>c. c = CHR ''0'') (rev s))"

definition drop_point_zeros :: "string \<Rightarrow> string" where
  "drop_point_zeros s = (let t = drop_zeros s in
     if t \<noteq> s \<and> t \<noteq> [] \<and> last t = CHR ''.'' then butlast t else t)"

definition pad_start :: "nat \<Rightarrow> char \<Rightarrow> string \<Rightarrow> string" where
  "pad_start w c s = replicate (w - length s) c @ s"

text \<open>Array.join.\<close>

fun join :: "string \<Rightarrow> string list \<Rightarrow> string" where
  "join sep [] = []"
| "join sep [s] = s"
| "join sep (s # t # ss) = s @ sep @ join sep (t # ss)"

text \<open>The text before a separator that does not occur in it is unique.\<close>

lemma split_unique:
  assumes "x \<notin> set xs" and "x \<notin> set ys" and "xs @ x # xr = ys @ x # yr"
  shows "xs = ys \<and> xr = yr"
  using assms
proof (induction xs arbitrary: ys)
  case Nil
  then show ?case by (cases ys) auto
next
  case (Cons a xs)
  then show ?case by (cases ys) auto
qed

lemma drop_zeros_append_zeros [simp]: "drop_zeros (s @ replicate n (CHR ''0'')) = drop_zeros s"
  by (simp add: drop_zeros_def dropWhile_append)

lemma drop_zeros_last: "drop_zeros s \<noteq> [] \<Longrightarrow> last (drop_zeros s) \<noteq> CHR ''0''"
proof -
  assume "drop_zeros s \<noteq> []"
  then have ne: "dropWhile (\<lambda>c. c = CHR ''0'') (rev s) \<noteq> []" by (simp add: drop_zeros_def)
  from hd_dropWhile [OF ne] ne show ?thesis by (simp add: drop_zeros_def last_rev)
qed

lemma drop_zeros_idem [simp]: "drop_zeros (drop_zeros s) = drop_zeros s"
  by (simp add: drop_zeros_def)

section \<open>Number of a string\<close>

definition is_space :: "char \<Rightarrow> bool" where
  "is_space c \<longleftrightarrow> code_of c \<in> {9, 10, 11, 12, 13, 32}"

definition strip :: "string \<Rightarrow> string" where
  "strip s = rev (dropWhile is_space (rev (dropWhile is_space s)))"

text \<open>The exponent part: absent, or e with an optional sign and digits.\<close>

definition read_exponent :: "string \<Rightarrow> int option" where
  "read_exponent s = (case s of
     [] \<Rightarrow> Some 0
   | c # r \<Rightarrow>
       if c = CHR ''e'' \<or> c = CHR ''E'' then
         (case r of
            [] \<Rightarrow> None
          | d # ds \<Rightarrow>
              if d = CHR ''-'' then (if ds \<noteq> [] \<and> list_all is_digit ds then Some (- int (digits_value 0 ds)) else None)
              else if d = CHR ''+'' then (if ds \<noteq> [] \<and> list_all is_digit ds then Some (int (digits_value 0 ds)) else None)
              else if list_all is_digit (d # ds) then Some (int (digits_value 0 (d # ds))) else None)
       else None)"

definition ten_to :: "int \<Rightarrow> rat" where
  "ten_to e = (if 0 \<le> e then 10 ^ nat e else 1 / 10 ^ nat (- e))"

definition read_unsigned :: "string \<Rightarrow> jsnum" where
  "read_unsigned s = (if s = ''Infinity'' then PosInf else
     let ip = takeWhile is_digit s;
         rest = dropWhile is_digit s;
         pointed = (rest \<noteq> [] \<and> hd rest = CHR ''.'');
         fp = (if pointed then takeWhile is_digit (tl rest) else []);
         tail = (if pointed then dropWhile is_digit (tl rest) else rest)
     in if ip = [] \<and> fp = [] then NaN
        else (case read_exponent tail of
           None \<Rightarrow> NaN
         | Some e \<Rightarrow> Num (of_nat (digits_value 0 (ip @ fp)) * ten_to (e - int (length fp)))))"

definition digit_of_char :: "char \<Rightarrow> nat option" where
  "digit_of_char c = (let n = code_of (lower_char c) in
     if 48 \<le> n \<and> n \<le> 57 then Some (n - 48)
     else if 97 \<le> n \<and> n \<le> 122 then Some (n - 87) else None)"

text \<open>A run of digits to a base, or nothing when one of them is not such a digit.\<close>

fun read_base :: "nat \<Rightarrow> nat \<Rightarrow> string \<Rightarrow> nat option" where
  "read_base b acc [] = Some acc"
| "read_base b acc (c # cs) = (case digit_of_char c of
     None \<Rightarrow> None
   | Some d \<Rightarrow> if d < b then read_base b (b * acc + d) cs else None)"

definition read_radix :: "nat \<Rightarrow> string \<Rightarrow> jsnum" where
  "read_radix b s = (case s of [] \<Rightarrow> NaN | _ \<Rightarrow> (case read_base b 0 s of None \<Rightarrow> NaN | Some n \<Rightarrow> Num (of_nat n)))"

definition js_number :: "string \<Rightarrow> jsnum" where
  "js_number s = (case strip s of
     [] \<Rightarrow> Num 0
   | c # r \<Rightarrow>
       if c = CHR ''-'' then - read_unsigned r
       else if c = CHR ''+'' then read_unsigned r
       else if c = CHR ''0'' \<and> r \<noteq> [] \<and> lower_char (hd r) = CHR ''x'' then read_radix 16 (tl r)
       else if c = CHR ''0'' \<and> r \<noteq> [] \<and> lower_char (hd r) = CHR ''o'' then read_radix 8 (tl r)
       else if c = CHR ''0'' \<and> r \<noteq> [] \<and> lower_char (hd r) = CHR ''b'' then read_radix 2 (tl r)
       else read_unsigned (c # r))"

text \<open>Number of a field that may be absent: undefined is NaN.\<close>

definition js_number_opt :: "string option \<Rightarrow> jsnum" where
  "js_number_opt v = (case v of None \<Rightarrow> NaN | Some s \<Rightarrow> js_number s)"

text \<open>A text without the slash at its end.\<close>

definition drop_slash :: "string \<Rightarrow> string" where
  "drop_slash s = (if s \<noteq> [] \<and> last s = CHR ''/'' then butlast s else s)"

text \<open>The dashes and the arrow, in UTF-8 as every text here.\<close>

definition em_dash :: string where "em_dash = [CHR 0xE2, CHR 0x80, CHR 0x94]"

definition en_dash :: string where "en_dash = [CHR '' '', CHR 0xE2, CHR 0x80, CHR 0x93, CHR '' '']"

definition right_arrow :: string where "right_arrow = [CHR '' '', CHR 0xE2, CHR 0x86, CHR 0x92, CHR '' '']"

section \<open>A number as text\<close>

text \<open>The decimal with exactly \<open>d\<close> places nearest to a non-negative rational, a half up.\<close>

definition fixed_abs :: "rat \<Rightarrow> nat \<Rightarrow> string" where
  "fixed_abs q d = (let s = pad_start (d + 1) (CHR ''0'') (show_nat (nat \<lfloor>q * 10 ^ d + 1/2\<rfloor>)) in
     if d = 0 then s else take (length s - d) s @ ''.'' @ drop (length s - d) s)"

text \<open>How many digits stand before the point of a positive rational; zero or less
  when it starts with zeros after the point.\<close>

definition magnitude :: "rat \<Rightarrow> int" where
  "magnitude q = (if 1 \<le> q then int (length (show_nat (nat \<lfloor>q\<rfloor>)))
     else (case List.find (\<lambda>j. 1 \<le> q * 10 ^ j) [1..<Suc (length (show_nat (nat (snd (quotient_of q)))))] of
        Some j \<Rightarrow> 1 - int j | None \<Rightarrow> 0))"

text \<open>Up to 17 significant digits: the fewest that give the number, all 17 when none do.\<close>

definition significant :: "rat \<Rightarrow> nat" where
  "significant q = (let n = magnitude q;
      exact = (\<lambda>k. (let v = q * ten_to (int k - n) in of_int \<lfloor>v\<rfloor> = v)) in
    (case List.find exact [1..<18] of Some k \<Rightarrow> k | None \<Rightarrow> 17))"

definition js_string_pos :: "rat \<Rightarrow> string" where
  "js_string_pos q = (let n = magnitude q; k = significant q;
      ds = show_nat (nat \<lfloor>q * ten_to (int k - n) + 1/2\<rfloor>);
      kd = int (length ds);
      e = n - 1;
      expo = (if e < 0 then ''-'' else ''+'') @ show_nat (nat \<bar>e\<bar>) in
    if kd \<le> n \<and> n \<le> 21 then ds @ replicate (nat (n - kd)) (CHR ''0'')
    else if 0 < n \<and> n \<le> 21 then take (nat n) ds @ ''.'' @ drop (nat n) ds
    else if -6 < n \<and> n \<le> 0 then ''0.'' @ replicate (nat (- n)) (CHR ''0'') @ ds
    else if length ds = 1 then ds @ ''e'' @ expo
    else take 1 ds @ ''.'' @ drop 1 ds @ ''e'' @ expo)"

fun js_string :: "jsnum \<Rightarrow> string" where
  "js_string NaN = ''NaN''"
| "js_string PosInf = ''Infinity''"
| "js_string NegInf = ''-Infinity''"
| "js_string (Num q) = (if q = 0 then ''0''
     else if of_int \<lfloor>q\<rfloor> = q \<and> \<bar>q\<bar> < 10 ^ 21 then show_int \<lfloor>q\<rfloor>
     else if q < 0 then ''-'' @ js_string_pos (- q) else js_string_pos q)"

fun to_fixed :: "jsnum \<Rightarrow> nat \<Rightarrow> string" where
  "to_fixed (Num q) d = (if 10 ^ 21 \<le> \<bar>q\<bar> then js_string (Num q)
     else if q < 0 then ''-'' @ fixed_abs (- q) d else fixed_abs q d)"
| "to_fixed x d = js_string x"

section \<open>Reading a decimal back\<close>

lemma digit_plain:
  assumes "is_digit c"
  shows "\<not> is_space c" "c \<noteq> CHR ''-''" "c \<noteq> CHR ''+''" "c \<noteq> CHR ''.''"
    "lower_char c \<noteq> CHR ''x''" "lower_char c \<noteq> CHR ''o''" "lower_char c \<noteq> CHR ''b''" "c \<noteq> CHR ''I''"
proof -
  have r: "48 \<le> code_of c" "code_of c \<le> 57" using assms by (simp_all add: is_digit_def)
  then have l: "lower_char c = c" by (simp add: lower_char_def)
  show "\<not> is_space c" using r by (auto simp: is_space_def)
  have other: "c \<noteq> d" if "code_of d < 48 \<or> 57 < code_of d" for d
    using that r by auto
  show "c \<noteq> CHR ''-''" "c \<noteq> CHR ''+''" "c \<noteq> CHR ''.''" "c \<noteq> CHR ''I''"
    by (rule other, simp add: code_of_def)+
  show "lower_char c \<noteq> CHR ''x''" "lower_char c \<noteq> CHR ''o''" "lower_char c \<noteq> CHR ''b''"
    unfolding l by (rule other, simp add: code_of_def)+
qed

definition pointed_text :: "string \<Rightarrow> string \<Rightarrow> string" where
  "pointed_text ip fp = (if fp = [] then ip else ip @ ''.'' @ fp)"

lemma point_plain: "\<not> is_space (CHR ''.'')" "lower_char (CHR ''.'') = CHR ''.''"
  by (simp_all add: is_space_def lower_char_def code_of_def)

lemma dropWhile_none: "\<forall>x \<in> set xs. \<not> P x \<Longrightarrow> dropWhile P xs = xs"
  by (cases xs) auto

lemma strip_none: "\<forall>c \<in> set s. \<not> is_space c \<Longrightarrow> strip s = s"
  by (simp add: strip_def dropWhile_none)

lemma takeWhile_digits: "list_all is_digit xs \<Longrightarrow> takeWhile is_digit (xs @ ys) = xs @ takeWhile is_digit ys"
  by (simp add: list_all_iff takeWhile_append2)

lemma dropWhile_digits: "list_all is_digit xs \<Longrightarrow> dropWhile is_digit (xs @ ys) = dropWhile is_digit ys"
  by (simp add: list_all_iff dropWhile_append2)

lemma js_number_pointed:
  assumes ip: "ip \<noteq> []" "list_all is_digit ip" and fp: "list_all is_digit fp"
  shows "js_number (pointed_text ip fp) = Num (of_nat (digits_value 0 (ip @ fp)) / 10 ^ length fp)"
proof -
  obtain c r where c: "ip = c # r" using ip by (cases ip) auto
  have dc: "is_digit c" and dr: "list_all is_digit r" using ip c by simp_all
  let ?s = "pointed_text ip fp"
  have "\<forall>x \<in> set ?s. \<not> is_space x"
    using ip fp by (auto simp: pointed_text_def list_all_iff point_plain dest: digit_plain(1))
  then have strip: "strip ?s = ?s" by (rule strip_none)
  obtain t where t: "?s = c # t" and tdef: "t = r @ (if fp = [] then [] else ''.'' @ fp)"
    by (auto simp: pointed_text_def c)
  have second: "t \<noteq> [] \<Longrightarrow> lower_char (hd t) \<notin> {CHR ''x'', CHR ''o'', CHR ''b''}"
    using dr by (cases r) (auto simp: tdef point_plain dest: digit_plain(5,6,7) split: if_splits)
  have "js_number ?s = read_unsigned ?s"
    using digit_plain(2,3)[OF dc] second by (auto simp: js_number_def strip[unfolded t] t)
  also have "\<dots> = Num (of_nat (digits_value 0 (ip @ fp)) * ten_to (- int (length fp)))"
  proof -
    have ni: "?s \<noteq> ''Infinity''" using digit_plain(8)[OF dc] by (simp add: t)
    have tw: "takeWhile is_digit ?s = ip"
      using ip fp using takeWhile_digits[of ip "[]"] by (simp add: pointed_text_def takeWhile_digits)
    have dw: "dropWhile is_digit ?s = (if fp = [] then [] else ''.'' @ fp)"
      using ip fp using dropWhile_digits[of ip "[]"] by (simp add: pointed_text_def dropWhile_digits)
    have fpw: "takeWhile is_digit fp = fp" "dropWhile is_digit fp = []"
      using fp by (simp_all add: list_all_iff)
    show ?thesis using ni ip(1) by (simp add: read_unsigned_def tw dw fpw read_exponent_def Let_def)
  qed
  also have "ten_to (- int (length fp)) = 1 / 10 ^ length fp"
    by (simp add: ten_to_def)
  finally show ?thesis by simp
qed

lemma digits_value_zeros: "digits_value 0 (replicate k (CHR ''0'') @ s) = digits_value 0 s"
proof -
  have "digits_value 0 (replicate k (CHR ''0'')) = 0"
    by (induction k) (simp_all add: code_of_def)
  then show ?thesis by simp
qed

lemma js_number_fixed_abs:
  "js_number (fixed_abs q d) = Num (of_nat (nat \<lfloor>q * 10 ^ d + 1/2\<rfloor>) / 10 ^ d)"
proof -
  define n where "n = nat \<lfloor>q * 10 ^ d + 1/2\<rfloor>"
  define s where "s = pad_start (d + 1) (CHR ''0'') (show_nat n)"
  have digs: "list_all is_digit s"
    by (auto simp: s_def pad_start_def list_all_iff is_digit_def code_of_def dest: show_nat_digits[unfolded is_digit_def code_of_def])
  have len: "d + 1 \<le> length s" by (simp add: s_def pad_start_def)
  have val: "digits_value 0 s = n" unfolding s_def pad_start_def by (simp only: digits_value_zeros digits_value_show_nat)
  let ?ip = "take (length s - d) s" and ?fp = "drop (length s - d) s"
  have pt: "fixed_abs q d = pointed_text ?ip ?fp"
    using len by (auto simp: fixed_abs_def pointed_text_def Let_def n_def s_def)
  have "js_number (pointed_text ?ip ?fp) = Num (of_nat (digits_value 0 (?ip @ ?fp)) / 10 ^ length ?fp)"
    using len digs by (intro js_number_pointed) (auto simp: list_all_iff dest: in_set_takeD in_set_dropD)
  then show ?thesis using len val by (simp add: pt n_def)
qed

lemma fixed_close:
  assumes "0 \<le> q"
  shows "\<exists>r. js_number (fixed_abs q d) = Num r \<and> 0 \<le> r \<and> \<bar>r - q\<bar> \<le> 1 / (2 * 10 ^ d)"
proof -
  let ?t = "(10::rat) ^ d"
  have t: "0 < ?t" by simp
  let ?k = "\<lfloor>q * ?t + 1/2\<rfloor>"
  have k0: "0 \<le> ?k" using assms t by simp
  then have r: "js_number (fixed_abs q d) = Num (of_int ?k / ?t)"
    by (simp add: js_number_fixed_abs)
  have "of_int ?k \<le> q * ?t + 1/2" "q * ?t + 1/2 < of_int ?k + 1" by linarith+
  then have "\<bar>of_int ?k - q * ?t\<bar> \<le> 1/2" by linarith
  moreover have "of_int ?k / ?t - q = (of_int ?k - q * ?t) / ?t" using t by (simp add: field_simps)
  ultimately have "\<bar>of_int ?k / ?t - q\<bar> \<le> (1/2) / ?t"
    using divide_right_mono[of "\<bar>of_int ?k - q * ?t\<bar>" "1/2" ?t] t by (simp add: abs_divide)
  then show ?thesis using r k0 t by (intro exI[of _ "of_int ?k / ?t"]) simp
qed

section \<open>Evaluation\<close>

text \<open>Rules that compute the primitives on literals; the numerals keep the
  recursive ones from unfolding on anything that is not a literal.\<close>

lemma floor_rat [js_eval]:
  "\<lfloor>numeral a / numeral b :: rat\<rfloor> = numeral a div numeral b"
  "\<lfloor>1 / numeral b :: rat\<rfloor> = 1 div numeral b"
  "\<lfloor>- (numeral a / numeral b) :: rat\<rfloor> = (- numeral a) div numeral b"
  "\<lfloor>- (1 / numeral b) :: rat\<rfloor> = (- 1) div numeral b"
  using floor_divide_of_int_eq [of "numeral a" "numeral b", where 'a = rat]
    floor_divide_of_int_eq [of 1 "numeral b", where 'a = rat]
    floor_divide_of_int_eq [of "- numeral a" "numeral b", where 'a = rat]
    floor_divide_of_int_eq [of "- 1" "numeral b", where 'a = rat]
  by simp_all

lemma ceiling_rat [js_eval]:
  "\<lceil>numeral a / numeral b :: rat\<rceil> = - ((- numeral a) div numeral b)"
  "\<lceil>1 / numeral b :: rat\<rceil> = - ((- 1) div numeral b)"
  by (simp_all add: ceiling_def floor_rat)

lemma eq_char_of [js_eval]: "c = char_of (n::nat) \<longleftrightarrow> take_bit 8 n = of_char c"
  using char_of_eq_iff [of n c] by auto

lemmas show_nat_literal [js_eval] =
  show_nat.simps [of 0] show_nat.simps [of 1] show_nat.simps [of "Suc 0"]
  show_nat.simps [of "numeral n" for n]

lemmas text_eval [js_eval] =
  char_of_eq_iff digit_char_def lower_def lower_char_def upper_def upper_char_def code_of_def
  js_number_def js_number_opt_def strip_def is_space_def read_unsigned_def read_exponent_def
  is_digit_def ten_to_def fixed_abs_def pad_start_def show_int_def num_eq_def truthy_def num_or_def

end
