(* ===== verification/PrizeIndexer.thy ===== *)
theory PrizeIndexer
  imports JsText
begin

text \<open>
  The prize-pool indexer (indexers/prize-pool/src/handlers/StrategyPrizePool.ts):
  its entities, the identifiers they are stored under, and the three event
  handlers. Bigints are integers, a week (uint64 in the event) is a natural
  number, and the context's get and set are lookup and update of a map. The
  store itself belongs to the Envio library.
\<close>

section \<open>Entities\<close>

record pool =
  pl_id :: string
  pl_week :: nat
  pl_strategy :: string
  pl_funded :: int
  pl_fundings :: nat
  pl_settled :: bool
  pl_settled_at :: "int option"
  pl_carried :: int
  pl_winners :: nat
  pl_claimed :: int

record prize =
  pz_id :: string
  pz_pool_id :: string
  pz_week :: nat
  pz_strategy :: string
  pz_wallet :: string
  pz_rank :: nat
  pz_amount :: int
  pz_pnl :: int
  pz_claimed :: bool
  pz_claimed_at :: "int option"
  pz_claim_tx :: "string option"

record funding =
  fd_id :: string
  fd_pool_id :: string
  fd_week :: nat
  fd_strategy :: string
  fd_from :: string
  fd_amount :: int
  fd_total :: int
  fd_timestamp :: int
  fd_tx :: string

record claim =
  cl_id :: string
  cl_prize_id :: string
  cl_wallet :: string
  cl_amount :: int
  cl_timestamp :: int
  cl_tx :: string

record totals =
  tt_id :: string
  tt_funded :: int
  tt_paid :: int
  tt_claimed :: int
  tt_pools :: nat
  tt_settled_pools :: nat

record context_db =
  Pool :: "string \<rightharpoonup> pool"
  Prize :: "string \<rightharpoonup> prize"
  Funding :: "string \<rightharpoonup> funding"
  Claim :: "string \<rightharpoonup> claim"
  Totals :: "string \<rightharpoonup> totals"

definition empty_db :: context_db where
  "empty_db = \<lparr>Pool = Map.empty, Prize = Map.empty, Funding = Map.empty, Claim = Map.empty, Totals = Map.empty\<rparr>"

section \<open>Events\<close>

text \<open>Where an event was emitted: \<open>event.chainId\<close>, \<open>block\<close>, \<open>logIndex\<close> and \<open>transaction.hash\<close>.\<close>

record event_meta =
  chain_id :: nat
  block_number :: nat
  block_timestamp :: int
  log_index :: nat
  tx_hash :: string

datatype pool_event =
    Funded (ev_week: nat) (ev_strategy: string) (ev_from: string) (ev_amount: int) (ev_total: int)
  | Settled (ev_week: nat) (ev_strategy: string) (ev_winners: "string list") (ev_amounts: "int list") (ev_pnls: "int list") (ev_carried: int)
  | Claimed (ev_week: nat) (ev_strategy: string) (ev_wallet: string) (ev_amount: int)

section \<open>Identifiers\<close>

definition totals_id :: string where
  "totals_id = ''all''"

definition pool_id :: "nat \<Rightarrow> string \<Rightarrow> string" where
  "pool_id week strategy = show_nat week @ ''-'' @ strategy"

definition prize_id :: "nat \<Rightarrow> string \<Rightarrow> string \<Rightarrow> string" where
  "prize_id week strategy wallet = show_nat week @ ''-'' @ strategy @ ''-'' @ lower wallet"

definition event_id :: "event_meta \<Rightarrow> string" where
  "event_id m = show_nat (chain_id m) @ ''_'' @ show_nat (block_number m) @ ''_'' @ show_nat (log_index m)"

section \<open>Loading with a default\<close>

definition load_totals :: "context_db \<Rightarrow> totals" where
  "load_totals db = (case Totals db totals_id of
     Some t \<Rightarrow> t
   | None \<Rightarrow> \<lparr>tt_id = totals_id, tt_funded = 0, tt_paid = 0, tt_claimed = 0, tt_pools = 0, tt_settled_pools = 0\<rparr>)"

definition fresh_pool :: "nat \<Rightarrow> string \<Rightarrow> pool" where
  "fresh_pool week strategy =
     \<lparr>pl_id = pool_id week strategy, pl_week = week, pl_strategy = strategy, pl_funded = 0, pl_fundings = 0,
      pl_settled = False, pl_settled_at = None, pl_carried = 0, pl_winners = 0, pl_claimed = 0\<rparr>"

text \<open>The pool and whether it is new.\<close>

definition load_pool :: "context_db \<Rightarrow> nat \<Rightarrow> string \<Rightarrow> pool \<times> bool" where
  "load_pool db week strategy = (case Pool db (pool_id week strategy) of
     Some p \<Rightarrow> (p, False)
   | None \<Rightarrow> (fresh_pool week strategy, True))"

definition set_pool :: "pool \<Rightarrow> context_db \<Rightarrow> context_db" where
  "set_pool p db = db\<lparr>Pool := (Pool db)(pl_id p \<mapsto> p)\<rparr>"

definition set_prize :: "prize \<Rightarrow> context_db \<Rightarrow> context_db" where
  "set_prize z db = db\<lparr>Prize := (Prize db)(pz_id z \<mapsto> z)\<rparr>"

definition set_totals :: "totals \<Rightarrow> context_db \<Rightarrow> context_db" where
  "set_totals t db = db\<lparr>Totals := (Totals db)(tt_id t \<mapsto> t)\<rparr>"

section \<open>The handlers\<close>

definition on_funded :: "event_meta \<Rightarrow> nat \<Rightarrow> string \<Rightarrow> string \<Rightarrow> int \<Rightarrow> int \<Rightarrow> context_db \<Rightarrow> context_db" where
  "on_funded m week strategy from amount new_total db =
     (let (pool, created) = load_pool db week strategy;
          totals = load_totals db;
          db1 = set_pool (pool\<lparr>pl_funded := new_total, pl_fundings := pl_fundings pool + 1\<rparr>) db;
          funding = \<lparr>fd_id = event_id m, fd_pool_id = pl_id pool, fd_week = week, fd_strategy = strategy, fd_from = from,
                     fd_amount = amount, fd_total = new_total, fd_timestamp = block_timestamp m, fd_tx = tx_hash m\<rparr>;
          db2 = db1\<lparr>Funding := (Funding db1)(fd_id funding \<mapsto> funding)\<rparr>
      in set_totals (totals\<lparr>tt_funded := tt_funded totals + amount,
                            tt_pools := tt_pools totals + (if created then 1 else 0)\<rparr>) db2)"

text \<open>\<open>amounts[i] ?? 0n\<close>\<close>

definition at_or_zero :: "int list \<Rightarrow> nat \<Rightarrow> int" where
  "at_or_zero xs i = (if i < length xs then xs ! i else 0)"

definition settled_prize :: "nat \<Rightarrow> string \<Rightarrow> string \<Rightarrow> int list \<Rightarrow> int list \<Rightarrow> string \<Rightarrow> nat \<Rightarrow> prize" where
  "settled_prize week strategy pid amounts pnls wallet i =
     \<lparr>pz_id = prize_id week strategy wallet, pz_pool_id = pid, pz_week = week, pz_strategy = strategy,
      pz_wallet = lower wallet, pz_rank = i + 1, pz_amount = at_or_zero amounts i, pz_pnl = at_or_zero pnls i,
      pz_claimed = False, pz_claimed_at = None, pz_claim_tx = None\<rparr>"

text \<open>The loop over the winners: the prizes stored, and what they add up to.\<close>

fun store_prizes :: "nat \<Rightarrow> string \<Rightarrow> string \<Rightarrow> int list \<Rightarrow> int list \<Rightarrow> nat \<Rightarrow> string list \<Rightarrow> context_db \<times> int \<Rightarrow> context_db \<times> int" where
  "store_prizes week strategy pid amounts pnls i [] acc = acc"
| "store_prizes week strategy pid amounts pnls i (wallet # ws) (db, paid) =
     store_prizes week strategy pid amounts pnls (i + 1) ws
       (set_prize (settled_prize week strategy pid amounts pnls wallet i) db, paid + at_or_zero amounts i)"

definition on_settled ::
  "event_meta \<Rightarrow> nat \<Rightarrow> string \<Rightarrow> string list \<Rightarrow> int list \<Rightarrow> int list \<Rightarrow> int \<Rightarrow> context_db \<Rightarrow> context_db" where
  "on_settled m week strategy winners amounts pnls carried db =
     (let (pool, created) = load_pool db week strategy;
          totals = load_totals db;
          (db1, paid) = store_prizes week strategy (pl_id pool) amounts pnls 0 winners (db, 0);
          db2 = set_pool (pool\<lparr>pl_settled := True, pl_settled_at := Some (block_timestamp m), pl_carried := carried,
                               pl_winners := length winners\<rparr>) db1
      in set_totals (totals\<lparr>tt_paid := tt_paid totals + paid,
                            tt_pools := tt_pools totals + (if created then 1 else 0),
                            tt_settled_pools := tt_settled_pools totals + 1\<rparr>) db2)"

definition on_claimed :: "event_meta \<Rightarrow> nat \<Rightarrow> string \<Rightarrow> string \<Rightarrow> int \<Rightarrow> context_db \<Rightarrow> context_db" where
  "on_claimed m week strategy wallet amount db =
     (let id = prize_id week strategy wallet;
          totals = load_totals db;
          db1 = (case Prize db id of
             None \<Rightarrow> db
           | Some prize \<Rightarrow>
               let db' = set_prize (prize\<lparr>pz_claimed := True, pz_claimed_at := Some (block_timestamp m),
                                          pz_claim_tx := Some (tx_hash m)\<rparr>) db
               in (case Pool db' (pz_pool_id prize) of
                     None \<Rightarrow> db'
                   | Some pool \<Rightarrow> set_pool (pool\<lparr>pl_claimed := pl_claimed pool + amount\<rparr>) db'));
          claim = \<lparr>cl_id = event_id m, cl_prize_id = id, cl_wallet = lower wallet, cl_amount = amount,
                   cl_timestamp = block_timestamp m, cl_tx = tx_hash m\<rparr>;
          db2 = db1\<lparr>Claim := (Claim db1)(cl_id claim \<mapsto> claim)\<rparr>
      in set_totals (totals\<lparr>tt_claimed := tt_claimed totals + amount\<rparr>) db2)"

fun handle_event :: "context_db \<Rightarrow> event_meta \<times> pool_event \<Rightarrow> context_db" where
  "handle_event db (m, Funded w s from a t) = on_funded m w s from a t db"
| "handle_event db (m, Settled w s ws as ps c) = on_settled m w s ws as ps c db"
| "handle_event db (m, Claimed w s wallet a) = on_claimed m w s wallet a db"

definition index_events :: "context_db \<Rightarrow> (event_meta \<times> pool_event) list \<Rightarrow> context_db" where
  "index_events = foldl handle_event"

section \<open>Identifiers are unambiguous\<close>

lemma pool_id_inj [simp]: "pool_id w s = pool_id w' s' \<longleftrightarrow> w = w' \<and> s = s'"
  using split_unique [of "CHR ''-''" "show_nat w" "show_nat w'" s s']
  by (auto simp: pool_id_def)

lemma prize_id_inj:
  assumes "CHR ''-'' \<notin> set s" and "CHR ''-'' \<notin> set s'"
  shows "prize_id w s a = prize_id w' s' a' \<longleftrightarrow> w = w' \<and> s = s' \<and> lower a = lower a'"
proof
  assume "prize_id w s a = prize_id w' s' a'"
  then have eq: "show_nat w @ CHR ''-'' # s @ CHR ''-'' # lower a = show_nat w' @ CHR ''-'' # s' @ CHR ''-'' # lower a'"
    by (simp add: prize_id_def)
  from split_unique [OF _ _ eq] have w: "w = w'" and "s @ CHR ''-'' # lower a = s' @ CHR ''-'' # lower a'"
    by simp_all
  with split_unique [OF assms] show "w = w' \<and> s = s' \<and> lower a = lower a'" by blast
qed (simp add: prize_id_def)

lemma prize_id_lower [simp]: "prize_id w s (lower a) = prize_id w s a"
  by (simp add: prize_id_def)

section \<open>What one handler writes\<close>

lemma set_simps [simp]:
  "Pool (set_pool p db) = (Pool db)(pl_id p \<mapsto> p)" "Prize (set_pool p db) = Prize db"
  "Totals (set_pool p db) = Totals db" "Funding (set_pool p db) = Funding db" "Claim (set_pool p db) = Claim db"
  "Pool (set_prize z db) = Pool db" "Prize (set_prize z db) = (Prize db)(pz_id z \<mapsto> z)"
  "Totals (set_prize z db) = Totals db" "Funding (set_prize z db) = Funding db" "Claim (set_prize z db) = Claim db"
  "Pool (set_totals t db) = Pool db" "Prize (set_totals t db) = Prize db"
  "Totals (set_totals t db) = (Totals db)(tt_id t \<mapsto> t)"
  "Funding (set_totals t db) = Funding db" "Claim (set_totals t db) = Claim db"
  by (simp_all add: set_pool_def set_prize_def set_totals_def)

lemma store_prizes_frame:
  "store_prizes w s pid as ps i ws (db, paid) = (db', paid') \<Longrightarrow>
     Pool db' = Pool db \<and> Totals db' = Totals db \<and> Funding db' = Funding db \<and> Claim db' = Claim db"
  by (induction ws arbitrary: i db paid) force+

lemma store_prizes_paid:
  "snd (store_prizes w s pid as ps i ws (db, paid)) = paid + (\<Sum>k < length ws. at_or_zero as (i + k))"
proof (induction ws arbitrary: i db paid)
  case (Cons a ws)
  have "(\<Sum>k < length (a # ws). at_or_zero as (i + k)) = at_or_zero as i + (\<Sum>k < length ws. at_or_zero as (Suc i + k))"
    by (simp only: length_Cons sum.lessThan_Suc_shift) simp
  with Cons show ?case by simp
qed simp

text \<open>Every prize of the result is an old one or one of this settlement.\<close>

lemma store_prizes_range:
  assumes "store_prizes w s pid as ps i ws (db, paid) = (db', paid')" and "Prize db' k = Some z"
  shows "Prize db k = Some z \<or> (\<exists>a j. a \<in> set ws \<and> z = settled_prize w s pid as ps a j \<and> k = pz_id z)"
  using assms
proof (induction ws arbitrary: i db paid)
  case (Cons a ws)
  from Cons.prems(1) have "store_prizes w s pid as ps (i + 1) ws
       (set_prize (settled_prize w s pid as ps a i) db, paid + at_or_zero as i) = (db', paid')" by simp
  from Cons.IH [OF this Cons.prems(2)] show ?case by (auto split: if_splits)
qed simp

lemma settled_prize_fields [simp]:
  "pz_id (settled_prize w s pid as ps a i) = prize_id w s a" "pz_week (settled_prize w s pid as ps a i) = w"
  "pz_strategy (settled_prize w s pid as ps a i) = s" "pz_wallet (settled_prize w s pid as ps a i) = lower a"
  "pz_pool_id (settled_prize w s pid as ps a i) = pid" "pz_rank (settled_prize w s pid as ps a i) = i + 1"
  "pz_amount (settled_prize w s pid as ps a i) = at_or_zero as i" "pz_claimed (settled_prize w s pid as ps a i) = False"
  by (simp_all add: settled_prize_def)

lemma fresh_pool_fields [simp]:
  "pl_id (fresh_pool w s) = pool_id w s" "pl_week (fresh_pool w s) = w" "pl_strategy (fresh_pool w s) = s"
  "pl_funded (fresh_pool w s) = 0" "pl_fundings (fresh_pool w s) = 0" "pl_settled (fresh_pool w s) = False"
  "pl_carried (fresh_pool w s) = 0" "pl_winners (fresh_pool w s) = 0" "pl_claimed (fresh_pool w s) = 0"
  by (simp_all add: fresh_pool_def)

section \<open>The invariant of the store\<close>

text \<open>
  Every row is stored under the identifier it carries and that identifier is
  built from its own fields; a prize belongs to a stored pool of the same week
  and strategy; the totals row counts the pools.
\<close>

definition pool_row_ok :: "string \<Rightarrow> pool \<Rightarrow> bool" where
  "pool_row_ok k p \<longleftrightarrow> pl_id p = k \<and> k = pool_id (pl_week p) (pl_strategy p)"

definition prize_row_ok :: "string \<Rightarrow> prize \<Rightarrow> bool" where
  "prize_row_ok k z \<longleftrightarrow> pz_id z = k \<and> k = prize_id (pz_week z) (pz_strategy z) (pz_wallet z) \<and>
     pz_pool_id z = pool_id (pz_week z) (pz_strategy z) \<and> 1 \<le> pz_rank z"

definition db_ok :: "context_db \<Rightarrow> bool" where
  "db_ok db \<longleftrightarrow> finite (dom (Pool db)) \<and>
     (\<forall>k p. Pool db k = Some p \<longrightarrow> pool_row_ok k p) \<and>
     (\<forall>k z. Prize db k = Some z \<longrightarrow> prize_row_ok k z \<and> pz_pool_id z \<in> dom (Pool db)) \<and>
     tt_id (load_totals db) = totals_id \<and> tt_pools (load_totals db) = card (dom (Pool db))"

lemma db_okD:
  assumes "db_ok db"
  shows "finite (dom (Pool db))"
    and "Pool db k = Some p \<Longrightarrow> pl_id p = k \<and> k = pool_id (pl_week p) (pl_strategy p)"
    and "Prize db k = Some z \<Longrightarrow> prize_row_ok k z \<and> pz_pool_id z \<in> dom (Pool db)"
    and "tt_id (load_totals db) = totals_id"
    and "tt_pools (load_totals db) = card (dom (Pool db))"
  using assms by (auto simp: db_ok_def pool_row_ok_def)

lemma db_ok_empty: "db_ok empty_db"
  by (simp add: db_ok_def empty_db_def load_totals_def)

lemma load_pool_id:
  assumes "db_ok db" and "load_pool db w s = (p, created)"
  shows "pl_id p = pool_id w s \<and> pl_week p = w \<and> pl_strategy p = s \<and> (created \<longleftrightarrow> Pool db (pool_id w s) = None)"
  using assms by (auto simp: load_pool_def split: option.splits dest: db_okD(2))

lemma load_totals_set [simp]: "tt_id t = totals_id \<Longrightarrow> load_totals (set_totals t db) = t"
  by (simp add: load_totals_def)

lemma card_new_pool:
  assumes "finite (dom m)"
  shows "card (dom (m(k \<mapsto> p))) = card (dom m) + (if m k = None then 1 else 0)"
  using assms by (auto simp: card_insert_if domIff)

text \<open>A pool row and the count of pools move together.\<close>

lemma db_ok_write_pool:
  assumes ok: "db_ok db" and row: "pool_row_ok (pool_id w s) p"
    and prizes: "\<And>k z. Prize db' k = Some z \<Longrightarrow> Prize db k = Some z \<or>
        prize_row_ok k z \<and> pz_pool_id z = pool_id w s"
    and pools: "Pool db' = (Pool db)(pool_id w s \<mapsto> p)"
    and tot: "Totals db' totals_id = Some t" "tt_id t = totals_id"
      "tt_pools t = tt_pools (load_totals db) + (if Pool db (pool_id w s) = None then 1 else 0)"
  shows "db_ok db'"
proof -
  have "tt_pools t = card (dom (Pool db'))"
    unfolding tot(3) pools card_new_pool [OF db_okD(1) [OF ok]] db_okD(5) [OF ok] by simp
  moreover have "load_totals db' = t" using tot(1) by (simp add: load_totals_def)
  moreover have "\<And>k q. Pool db' k = Some q \<Longrightarrow> pool_row_ok k q"
    using ok row by (auto simp: pools db_ok_def split: if_splits)
  moreover have "\<And>k z. Prize db' k = Some z \<Longrightarrow> prize_row_ok k z \<and> pz_pool_id z \<in> dom (Pool db')"
    using prizes db_okD(3) [OF ok] by (fastforce simp: pools)
  ultimately show ?thesis
    using tot(2) db_okD(1) [OF ok] by (simp add: db_ok_def pools)
qed

lemma on_funded_eq:
  assumes "load_pool db w s = (p, created)"
  shows "on_funded m w s from a t db =
    (let db1 = set_pool (p\<lparr>pl_funded := t, pl_fundings := pl_fundings p + 1\<rparr>) db;
         f = \<lparr>fd_id = event_id m, fd_pool_id = pl_id p, fd_week = w, fd_strategy = s, fd_from = from,
              fd_amount = a, fd_total = t, fd_timestamp = block_timestamp m, fd_tx = tx_hash m\<rparr>
     in set_totals ((load_totals db)\<lparr>tt_funded := tt_funded (load_totals db) + a,
          tt_pools := tt_pools (load_totals db) + (if created then 1 else 0)\<rparr>)
        (db1\<lparr>Funding := (Funding db1)(event_id m \<mapsto> f)\<rparr>))"
  using assms by (simp add: on_funded_def Let_def)

lemma on_settled_eq:
  assumes "load_pool db w s = (p, created)"
    and "store_prizes w s (pl_id p) as ps 0 ws (db, 0) = (db1, paid)"
  shows "on_settled m w s ws as ps c db =
    set_totals ((load_totals db)\<lparr>tt_paid := tt_paid (load_totals db) + paid,
        tt_pools := tt_pools (load_totals db) + (if created then 1 else 0),
        tt_settled_pools := tt_settled_pools (load_totals db) + 1\<rparr>)
      (set_pool (p\<lparr>pl_settled := True, pl_settled_at := Some (block_timestamp m), pl_carried := c,
        pl_winners := length ws\<rparr>) db1)"
  using assms by (simp add: on_settled_def Let_def)

text \<open>What a claim does to the pools and prizes: the named prize, if stored, and its pool.\<close>

lemma on_claimed_prize:
  "Prize (on_claimed m w s a amount db) = (case Prize db (prize_id w s a) of
      None \<Rightarrow> Prize db
    | Some z \<Rightarrow> (Prize db)(pz_id z \<mapsto> z\<lparr>pz_claimed := True, pz_claimed_at := Some (block_timestamp m),
                                   pz_claim_tx := Some (tx_hash m)\<rparr>))"
  by (simp add: on_claimed_def Let_def split: option.splits)

lemma on_claimed_pool:
  "Pool (on_claimed m w s a amount db) = (case Prize db (prize_id w s a) of
      None \<Rightarrow> Pool db
    | Some z \<Rightarrow> (case Pool db (pz_pool_id z) of
        None \<Rightarrow> Pool db
      | Some p \<Rightarrow> (Pool db)(pl_id p \<mapsto> p\<lparr>pl_claimed := pl_claimed p + amount\<rparr>)))"
  by (simp add: on_claimed_def Let_def split: option.splits)

lemma on_claimed_totals:
  "tt_id (load_totals db) = totals_id \<Longrightarrow>
   load_totals (on_claimed m w s a amount db) = (load_totals db)\<lparr>tt_claimed := tt_claimed (load_totals db) + amount\<rparr>"
  by (simp add: on_claimed_def Let_def)

lemma on_funded_ok: "db_ok db \<Longrightarrow> db_ok (on_funded m w s from a t db)"
proof -
  assume ok: "db_ok db"
  obtain p created where lp: "load_pool db w s = (p, created)" by fastforce
  note id = load_pool_id [OF ok lp]
  show ?thesis
    by (rule db_ok_write_pool [OF ok, where w = w and s = s
          and p = "p\<lparr>pl_funded := t, pl_fundings := pl_fundings p + 1\<rparr>"
          and t = "(load_totals db)\<lparr>tt_funded := tt_funded (load_totals db) + a,
             tt_pools := tt_pools (load_totals db) + (if created then 1 else 0)\<rparr>"])
      (use id db_okD(4) [OF ok] in \<open>auto simp: on_funded_eq [OF lp] Let_def pool_row_ok_def\<close>)
qed

lemma on_settled_ok: "db_ok db \<Longrightarrow> db_ok (on_settled m w s ws as ps c db)"
proof -
  assume ok: "db_ok db"
  obtain p created where lp: "load_pool db w s = (p, created)" by fastforce
  obtain db1 paid where st: "store_prizes w s (pl_id p) as ps 0 ws (db, 0) = (db1, paid)" by fastforce
  note id = load_pool_id [OF ok lp] and frame = store_prizes_frame [OF st]
  have new: "Prize db k = Some z \<or> prize_row_ok k z \<and> pz_pool_id z = pool_id w s" if "Prize db1 k = Some z" for k z
    using store_prizes_range [OF st that] id by (auto simp: prize_row_ok_def)
  show ?thesis
    by (rule db_ok_write_pool [OF ok, where w = w and s = s
          and p = "p\<lparr>pl_settled := True, pl_settled_at := Some (block_timestamp m), pl_carried := c, pl_winners := length ws\<rparr>"
          and t = "(load_totals db)\<lparr>tt_paid := tt_paid (load_totals db) + paid,
             tt_pools := tt_pools (load_totals db) + (if created then 1 else 0),
             tt_settled_pools := tt_settled_pools (load_totals db) + 1\<rparr>"])
      (use id db_okD(4) [OF ok] frame new in \<open>auto simp: on_settled_eq [OF lp st] pool_row_ok_def\<close>)
qed

lemma on_claimed_ok: "db_ok db \<Longrightarrow> db_ok (on_claimed m w s a amount db)"
proof -
  assume ok: "db_ok db"
  have dom: "dom (Pool (on_claimed m w s a amount db)) = dom (Pool db)"
    using db_okD(2) [OF ok] by (auto simp: on_claimed_pool split: option.splits)
  have pools: "pool_row_ok k p" if "Pool (on_claimed m w s a amount db) k = Some p" for k p
    using that db_okD(2) [OF ok] by (fastforce simp: on_claimed_pool pool_row_ok_def split: option.splits if_splits)
  have prizes: "prize_row_ok k z \<and> pz_pool_id z \<in> dom (Pool db)"
    if "Prize (on_claimed m w s a amount db) k = Some z" for k z
    using that db_okD(3) [OF ok] by (fastforce simp: on_claimed_prize prize_row_ok_def split: option.splits if_splits)
  show ?thesis
    using pools prizes ok by (simp add: db_ok_def dom on_claimed_totals)
qed

lemma handle_event_ok: "db_ok db \<Longrightarrow> db_ok (handle_event db e)"
  by (cases "(db, e)" rule: handle_event.cases) (simp_all add: on_funded_ok on_settled_ok on_claimed_ok)

interpretation indexer: state_machine handle_event db_ok
  by unfold_locales (rule handle_event_ok)

section \<open>The totals row\<close>

fun funded_by :: "pool_event \<Rightarrow> int" where
  "funded_by (Funded w s from a t) = a"
| "funded_by e = 0"

fun paid_by :: "pool_event \<Rightarrow> int" where
  "paid_by (Settled w s ws as ps c) = (\<Sum>k < length ws. at_or_zero as k)"
| "paid_by e = 0"

fun claimed_by :: "pool_event \<Rightarrow> int" where
  "claimed_by (Claimed w s a amount) = amount"
| "claimed_by e = 0"

fun settles :: "pool_event \<Rightarrow> bool" where
  "settles (Settled w s ws as ps c) = True"
| "settles e = False"

lemma handle_event_totals:
  assumes ok: "db_ok db"
  shows "tt_funded (load_totals (handle_event db (m, e))) = tt_funded (load_totals db) + funded_by e \<and>
    tt_paid (load_totals (handle_event db (m, e))) = tt_paid (load_totals db) + paid_by e \<and>
    tt_claimed (load_totals (handle_event db (m, e))) = tt_claimed (load_totals db) + claimed_by e \<and>
    tt_settled_pools (load_totals (handle_event db (m, e))) = tt_settled_pools (load_totals db) + (if settles e then 1 else 0)"
proof (cases e)
  case (Funded w s src a t)
  obtain p created where lp: "load_pool db w s = (p, created)" by fastforce
  show ?thesis using db_okD(4) [OF ok] by (simp add: Funded on_funded_eq [OF lp] Let_def)
next
  case (Settled w s ws amts ps c)
  obtain p created where lp: "load_pool db w s = (p, created)" by fastforce
  obtain db1 paid where st: "store_prizes w s (pl_id p) amts ps 0 ws (db, 0) = (db1, paid)" by fastforce
  have "paid = (\<Sum>k < length ws. at_or_zero amts k)"
    using store_prizes_paid [of w s "pl_id p" amts ps 0 ws db 0] st by simp
  with db_okD(4) [OF ok] show ?thesis by (simp add: Settled on_settled_eq [OF lp st])
next
  case (Claimed w s a amount)
  then show ?thesis using db_okD(4) [OF ok] by (simp add: on_claimed_totals)
qed

lemma index_events_totals:
  assumes "db_ok db"
  shows "tt_funded (load_totals (index_events db es)) = tt_funded (load_totals db) + sum_list (List.map (funded_by \<circ> snd) es) \<and>
    tt_paid (load_totals (index_events db es)) = tt_paid (load_totals db) + sum_list (List.map (paid_by \<circ> snd) es) \<and>
    tt_claimed (load_totals (index_events db es)) = tt_claimed (load_totals db) + sum_list (List.map (claimed_by \<circ> snd) es) \<and>
    tt_settled_pools (load_totals (index_events db es)) = tt_settled_pools (load_totals db) + length (filter (settles \<circ> snd) es)"
  using assms
proof (induction es arbitrary: db)
  case Nil
  show ?case by (simp add: index_events_def)
next
  case (Cons e es)
  obtain m x where e: "e = (m, x)" by fastforce
  from Cons.IH [OF handle_event_ok [OF Cons.prems], of e] handle_event_totals [OF Cons.prems, of m x]
  show ?case by (simp add: index_events_def e)
qed

end
