(* ===== verification/PrizePool.thy ===== *)
theory PrizePool
  imports PrizeIndexer
begin

text \<open>
  The contract the indexer follows (contracts/src/StrategyPrizePool.sol) and
  the simulation between the two: after any run of the contract, the store
  the handlers built from its events agrees with the contract's own state.

  Addresses and bytes32 keys are numbers; the text they have in an event is
  the indexing library's. A call carries the sender, the block's timestamp
  where the code reads it, and the answer of the external token where the code
  asks it. Arithmetic is checked, as Solidity 0.8 has it: an overflow reverts.
\<close>

type_synonym address = nat
type_synonym key = nat

record vault =
  v_owner :: address
  v_settlers :: "address \<Rightarrow> bool"
  v_pool :: "nat \<Rightarrow> key \<Rightarrow> nat"
  v_settled :: "nat \<Rightarrow> key \<Rightarrow> bool"
  v_prizes :: "nat \<Rightarrow> key \<Rightarrow> address \<Rightarrow> nat"
  v_taken :: "nat \<Rightarrow> key \<Rightarrow> address \<Rightarrow> bool"
  v_carried_in :: "nat \<Rightarrow> key \<Rightarrow> nat"
  v_retained :: nat

datatype vault_error =
    NotOwner | NotSettler | WeekNotOver nat | AlreadySettled nat key | NotSettled nat key
  | LengthMismatch | ExceedsPool nat nat | NothingToClaim | TransferFailed | ZeroAmount | Panic

datatype vault_event =
    EFunded nat key address nat nat
  | ESettled nat key "address list" "nat list" "int list" nat
  | EClaimed nat key address nat
  | ESettlerSet address bool
  | ERetained nat key nat nat
  | ESwept address nat
  | EOwnerSet address

type_synonym outcome = "vault_error + vault \<times> vault_event list"

definition uint256 :: "nat \<Rightarrow> bool" where
  "uint256 n \<longleftrightarrow> n < 2 ^ 256"

definition uint64 :: "nat \<Rightarrow> bool" where
  "uint64 n \<longleftrightarrow> n < 2 ^ 64"

text \<open>One cell of a mapping from a week and a strategy.\<close>

definition put :: "nat \<Rightarrow> key \<Rightarrow> 'a \<Rightarrow> (nat \<Rightarrow> key \<Rightarrow> 'a) \<Rightarrow> nat \<Rightarrow> key \<Rightarrow> 'a" where
  "put w k x m = m(w := (m w)(k := x))"

lemma put_apply [simp]: "put w k x m w' k' = (if w' = w \<and> k' = k then x else m w' k')"
  by (simp add: put_def)

section \<open>The operations\<close>

definition construct :: "address \<Rightarrow> address \<Rightarrow> vault \<times> vault_event list" where
  "construct sender settler =
     (\<lparr>v_owner = sender, v_settlers = (\<lambda>a. settler \<noteq> 0 \<and> a = settler), v_pool = (\<lambda>_ _. 0), v_settled = (\<lambda>_ _. False),
       v_prizes = (\<lambda>_ _ _. 0), v_taken = (\<lambda>_ _ _. False), v_carried_in = (\<lambda>_ _. 0), v_retained = 0\<rparr>,
      EOwnerSet sender # (if settler \<noteq> 0 then [ESettlerSet settler True] else []))"

definition set_settler :: "address \<Rightarrow> address \<Rightarrow> bool \<Rightarrow> vault \<Rightarrow> outcome" where
  "set_settler sender settler allowed c =
     (if sender \<noteq> v_owner c then Inl NotOwner
      else Inr (c\<lparr>v_settlers := (v_settlers c)(settler := allowed)\<rparr>, [ESettlerSet settler allowed]))"

definition set_owner :: "address \<Rightarrow> address \<Rightarrow> vault \<Rightarrow> outcome" where
  "set_owner sender next_owner c =
     (if sender \<noteq> v_owner c then Inl NotOwner
      else Inr (c\<lparr>v_owner := next_owner\<rparr>, [EOwnerSet next_owner]))"

definition monday_shift :: nat where
  "monday_shift = 3 * 86400"

text \<open>\<open>weekOf(uint64(t))\<close>: the cast wraps, the sum is checked.\<close>

definition week_of :: "nat \<Rightarrow> nat option" where
  "week_of t = (let u = t mod 2 ^ 64 in
     if uint64 (u + monday_shift) then Some ((u + monday_shift) div 604800) else None)"

definition fund :: "address \<Rightarrow> bool \<Rightarrow> nat \<Rightarrow> key \<Rightarrow> nat \<Rightarrow> vault \<Rightarrow> outcome" where
  "fund sender token_ok w k amount c =
     (if amount = 0 then Inl ZeroAmount
      else if v_settled c w k then Inl (AlreadySettled w k)
      else if \<not> token_ok then Inl TransferFailed
      else let p = v_pool c w k + amount in
        if \<not> uint256 p then Inl Panic
        else Inr (c\<lparr>v_pool := put w k p (v_pool c)\<rparr>, [EFunded w k sender amount p]))"

text \<open>The checked sum of the amounts.\<close>

fun total_of :: "nat \<Rightarrow> nat list \<Rightarrow> nat option" where
  "total_of acc [] = Some acc"
| "total_of acc (x # xs) = (if uint256 (acc + x) then total_of (acc + x) xs else None)"

text \<open>\<open>prizes[week][strategy][winners[i]] += amounts[i]\<close>, over the list; each cell stays
  below the total, which has been checked.\<close>

fun add_prizes :: "(address \<times> nat) list \<Rightarrow> (address \<Rightarrow> nat) \<Rightarrow> address \<Rightarrow> nat" where
  "add_prizes [] f = f"
| "add_prizes ((a, x) # xs) f = add_prizes xs (f(a := f a + x))"

text \<open>\<open>_carry\<close>: what travels to the next week, announced as a funding by the contract itself.\<close>

definition carry :: "address \<Rightarrow> nat \<Rightarrow> key \<Rightarrow> nat \<Rightarrow> vault \<Rightarrow> outcome" where
  "carry self w k carried c =
     (if carried = 0 then Inr (c, [])
      else let n = w + 1; p = v_pool c n k + carried; i = v_carried_in c n k + carried in
        if \<not> uint64 n \<or> \<not> uint256 p \<or> \<not> uint256 i then Inl Panic
        else Inr (c\<lparr>v_pool := put n k p (v_pool c), v_carried_in := put n k i (v_carried_in c)\<rparr>,
                  [EFunded n k self carried p]))"

text \<open>How much of what is left travels: no more than this week's own contributions.\<close>

definition travels :: "vault \<Rightarrow> nat \<Rightarrow> key \<Rightarrow> nat \<Rightarrow> nat \<Rightarrow> nat" where
  "travels c w k available paid =
     (let left = available - paid; fresh = available - v_carried_in c w k in if left < fresh then left else fresh)"

definition rest :: "address \<Rightarrow> nat \<Rightarrow> key \<Rightarrow> nat \<Rightarrow> nat \<Rightarrow> vault \<Rightarrow> outcome" where
  "rest self w k available paid c =
     (if available < paid \<or> available < v_carried_in c w k then Inl Panic
      else let carried = travels c w k available paid; stale = available - paid - carried in
        (case carry self w k carried c of
           Inl e \<Rightarrow> Inl e
         | Inr (c', evs) \<Rightarrow>
             if stale = 0 then Inr (c', evs)
             else if \<not> uint256 (v_retained c' + stale) then Inl Panic
             else Inr (c'\<lparr>v_retained := v_retained c' + stale\<rparr>, evs @ [ERetained w k stale (v_retained c' + stale)])))"

definition settle ::
  "address \<Rightarrow> address \<Rightarrow> nat \<Rightarrow> nat \<Rightarrow> key \<Rightarrow> address list \<Rightarrow> nat list \<Rightarrow> int list \<Rightarrow> vault \<Rightarrow> outcome" where
  "settle self sender now w k winners amounts pnls c =
     (if \<not> v_settlers c sender then Inl NotSettler
      else case week_of now of None \<Rightarrow> Inl Panic | Some this_week \<Rightarrow>
        if w \<ge> this_week then Inl (WeekNotOver w)
        else if v_settled c w k then Inl (AlreadySettled w k)
        else if length winners \<noteq> length amounts \<or> length winners \<noteq> length pnls then Inl LengthMismatch
        else case total_of 0 amounts of None \<Rightarrow> Inl Panic | Some total_paid \<Rightarrow>
          let available = v_pool c w k in
          if total_paid > available then Inl (ExceedsPool total_paid available)
          else let c1 = c\<lparr>v_prizes := put w k (add_prizes (zip winners amounts) (v_prizes c w k)) (v_prizes c),
                          v_pool := put w k total_paid (v_pool c),
                          v_settled := put w k True (v_settled c)\<rparr> in
            (case rest self w k available total_paid c1 of
               Inl e \<Rightarrow> Inl e
             | Inr (c2, evs) \<Rightarrow>
                 Inr (c2, evs @ [ESettled w k winners amounts pnls (travels c1 w k available total_paid)])))"

definition sweep :: "address \<Rightarrow> bool \<Rightarrow> address \<Rightarrow> vault \<Rightarrow> outcome" where
  "sweep sender token_ok to c =
     (if sender \<noteq> v_owner c then Inl NotOwner
      else if v_retained c = 0 then Inl ZeroAmount
      else if \<not> token_ok then Inl TransferFailed
      else Inr (c\<lparr>v_retained := 0\<rparr>, [ESwept to (v_retained c)]))"

definition claim_prize :: "address \<Rightarrow> bool \<Rightarrow> nat \<Rightarrow> key \<Rightarrow> vault \<Rightarrow> outcome" where
  "claim_prize sender token_ok w k c =
     (if \<not> v_settled c w k then Inl (NotSettled w k)
      else let amount = v_prizes c w k sender in
        if amount = 0 \<or> v_taken c w k sender then Inl NothingToClaim
        else if \<not> token_ok then Inl TransferFailed
        else Inr (c\<lparr>v_taken := put w k ((v_taken c w k)(sender := True)) (v_taken c)\<rparr>, [EClaimed w k sender amount]))"

datatype vault_call =
    CSetSettler address bool
  | CSetOwner address
  | CFund bool nat key nat
  | CSettle nat nat key "address list" "nat list" "int list"
  | CSweep bool address
  | CClaim bool nat key

fun call_vault :: "address \<Rightarrow> address \<Rightarrow> vault_call \<Rightarrow> vault \<Rightarrow> outcome" where
  "call_vault self sender (CSetSettler a b) c = set_settler sender a b c"
| "call_vault self sender (CSetOwner a) c = set_owner sender a c"
| "call_vault self sender (CFund ok w k n) c = fund sender ok w k n c"
| "call_vault self sender (CSettle now w k ws ns ps) c = settle self sender now w k ws ns ps c"
| "call_vault self sender (CSweep ok to) c = sweep sender ok to c"
| "call_vault self sender (CClaim ok w k) c = claim_prize sender ok w k c"

text \<open>A transaction that reverts leaves the state as it was and emits nothing.\<close>

definition transact :: "address \<Rightarrow> vault \<times> vault_event list \<Rightarrow> address \<times> vault_call \<Rightarrow> vault \<times> vault_event list" where
  "transact self st x = (case call_vault self (fst x) (snd x) (fst st) of
     Inl e \<Rightarrow> st
   | Inr (c', evs) \<Rightarrow> (c', snd st @ evs))"

section \<open>What every operation keeps\<close>

text \<open>Before settlement a pool has no prizes and nothing taken, and holds at
  least what was carried into it; only a prize that is not zero is taken.\<close>

definition vault_ok :: "vault \<Rightarrow> bool" where
  "vault_ok c \<longleftrightarrow> (\<forall>w k. (\<not> v_settled c w k \<longrightarrow>
        v_prizes c w k = (\<lambda>_. 0) \<and> v_taken c w k = (\<lambda>_. False) \<and> v_carried_in c w k \<le> v_pool c w k) \<and>
     (\<forall>a. v_taken c w k a \<longrightarrow> v_prizes c w k a \<noteq> 0))"

lemma vault_okD:
  assumes "vault_ok c" and "\<not> v_settled c w k"
  shows "v_prizes c w k = (\<lambda>_. 0)" "v_taken c w k = (\<lambda>_. False)" "v_carried_in c w k \<le> v_pool c w k"
  using assms by (auto simp: vault_ok_def)

lemma vault_ok_construct: "vault_ok (fst (construct sender settler))"
  by (simp add: construct_def vault_ok_def)

text \<open>What a carry changes: one cell of the pool and of what was carried in, by the same amount.\<close>

lemma carry_eq:
  "carry self w k n c = Inr (c', evs) \<Longrightarrow>
     v_pool c' = put (w + 1) k (v_pool c (w + 1) k + n) (v_pool c) \<and>
     v_carried_in c' = put (w + 1) k (v_carried_in c (w + 1) k + n) (v_carried_in c) \<and>
     v_settled c' = v_settled c \<and> v_prizes c' = v_prizes c \<and> v_taken c' = v_taken c \<and>
     v_retained c' = v_retained c \<and> v_owner c' = v_owner c \<and> v_settlers c' = v_settlers c \<and>
     evs = (if n = 0 then [] else [EFunded (w + 1) k self n (v_pool c' (w + 1) k)])"
  by (auto simp: carry_def Let_def put_def fun_eq_iff split: if_splits)

lemma rest_eq:
  assumes "rest self w k available paid c = Inr (c', evs)"
  shows "paid \<le> available \<and> v_carried_in c w k \<le> available \<and>
     (let n = travels c w k available paid; stale = available - paid - n in
       v_pool c' = put (w + 1) k (v_pool c (w + 1) k + n) (v_pool c) \<and>
       v_carried_in c' = put (w + 1) k (v_carried_in c (w + 1) k + n) (v_carried_in c) \<and>
       v_settled c' = v_settled c \<and> v_prizes c' = v_prizes c \<and> v_taken c' = v_taken c \<and>
       v_retained c' = v_retained c + stale \<and>
       evs = (if n = 0 then [] else [EFunded (w + 1) k self n (v_pool c' (w + 1) k)]) @
             (if stale = 0 then [] else [ERetained w k stale (v_retained c')]))"
  using assms by (auto simp: rest_def Let_def split: if_splits sum.splits prod.splits dest!: carry_eq)

text \<open>A settlement that goes through, read backwards.\<close>

lemma settle_eq:
  assumes "settle self sender now w k ws ns ps c = Inr (c', evs)"
  obtains tot week where
    "v_settlers c sender" "week_of now = Some week" "w < week" "\<not> v_settled c w k"
    "length ws = length ns" "length ws = length ps" "total_of 0 ns = Some tot" "tot \<le> v_pool c w k"
    "v_carried_in c w k \<le> v_pool c w k"
    "v_settled c' = put w k True (v_settled c)"
    "v_prizes c' = put w k (add_prizes (zip ws ns) (v_prizes c w k)) (v_prizes c)"
    "v_taken c' = v_taken c"
    "v_pool c' = put (w + 1) k (v_pool c (w + 1) k + travels c w k (v_pool c w k) tot) (put w k tot (v_pool c))"
    "v_carried_in c' = put (w + 1) k (v_carried_in c (w + 1) k + travels c w k (v_pool c w k) tot) (v_carried_in c)"
    "v_retained c' = v_retained c + (v_pool c w k - tot - travels c w k (v_pool c w k) tot)"
    "evs = (if travels c w k (v_pool c w k) tot = 0 then []
              else [EFunded (w + 1) k self (travels c w k (v_pool c w k) tot) (v_pool c' (w + 1) k)]) @
           (if v_pool c w k - tot - travels c w k (v_pool c w k) tot = 0 then []
              else [ERetained w k (v_pool c w k - tot - travels c w k (v_pool c w k) tot) (v_retained c')]) @
           [ESettled w k ws ns ps (travels c w k (v_pool c w k) tot)]"
proof -
  from assms obtain week where A: "v_settlers c sender" "week_of now = Some week" "w < week" "\<not> v_settled c w k"
      "length ws = length ns" "length ws = length ps"
    by (auto simp: settle_def split: if_splits option.splits)
  with assms obtain tot where B: "total_of 0 ns = Some tot" "tot \<le> v_pool c w k"
    by (auto simp: settle_def Let_def split: if_splits option.splits)
  define c1 where "c1 = c\<lparr>v_prizes := put w k (add_prizes (zip ws ns) (v_prizes c w k)) (v_prizes c),
      v_pool := put w k tot (v_pool c), v_settled := put w k True (v_settled c)\<rparr>"
  have trav: "travels c1 w k (v_pool c w k) tot = travels c w k (v_pool c w k) tot"
    by (simp add: travels_def c1_def)
  from assms A B obtain c2 evs' where R: "rest self w k (v_pool c w k) tot c1 = Inr (c2, evs')"
      and E: "c' = c2" "evs = evs' @ [ESettled w k ws ns ps (travels c1 w k (v_pool c w k) tot)]"
    by (auto simp: settle_def Let_def c1_def split: sum.splits)
  from rest_eq [OF R] show thesis
    by (intro that [OF A B]) (auto simp: Let_def trav E, simp_all add: c1_def)
qed

lemma fund_eq:
  "fund sender ok w k n c = Inr (c', evs) \<Longrightarrow>
     n \<noteq> 0 \<and> \<not> v_settled c w k \<and> c' = c\<lparr>v_pool := put w k (v_pool c w k + n) (v_pool c)\<rparr> \<and>
     evs = [EFunded w k sender n (v_pool c w k + n)]"
  by (auto simp: fund_def Let_def split: if_splits)

lemma claim_eq:
  "claim_prize sender ok w k c = Inr (c', evs) \<Longrightarrow>
     v_settled c w k \<and> v_prizes c w k sender \<noteq> 0 \<and> \<not> v_taken c w k sender \<and>
     c' = c\<lparr>v_taken := put w k ((v_taken c w k)(sender := True)) (v_taken c)\<rparr> \<and>
     evs = [EClaimed w k sender (v_prizes c w k sender)]"
  by (auto simp: claim_prize_def Let_def split: if_splits)

lemma settle_ok:
  assumes ok: "vault_ok c" and run: "settle self sender now w k ws ns ps c = Inr (c', evs)"
  shows "vault_ok c'"
  using run
proof (rule settle_eq)
  fix tot week
  assume eqs: "\<not> v_settled c w k" "v_settled c' = put w k True (v_settled c)"
    "v_prizes c' = put w k (add_prizes (zip ws ns) (v_prizes c w k)) (v_prizes c)" "v_taken c' = v_taken c"
    "v_pool c' = put (w + 1) k (v_pool c (w + 1) k + travels c w k (v_pool c w k) tot) (put w k tot (v_pool c))"
    "v_carried_in c' = put (w + 1) k (v_carried_in c (w + 1) k + travels c w k (v_pool c w k) tot) (v_carried_in c)"
  show ?thesis
    using ok vault_okD(2) [OF ok eqs(1)] by (auto simp: vault_ok_def eqs(2-))
qed

lemma call_vault_ok: "vault_ok c \<Longrightarrow> call_vault self sender x c = Inr (c', evs) \<Longrightarrow> vault_ok c'"
proof (cases x)
  case (CFund ok w k n)
  assume "vault_ok c" "call_vault self sender x c = Inr (c', evs)"
  then show ?thesis using CFund by (auto simp: vault_ok_def trans_le_add1 dest!: fund_eq)
next
  case (CClaim ok w k)
  assume "vault_ok c" "call_vault self sender x c = Inr (c', evs)"
  then show ?thesis using CClaim by (auto simp: vault_ok_def dest!: claim_eq split: if_splits)
next
  case (CSettle now w k ws ns ps)
  assume "vault_ok c" "call_vault self sender x c = Inr (c', evs)"
  then show ?thesis using CSettle by (auto dest: settle_ok)
qed (auto simp: set_settler_def set_owner_def sweep_def vault_ok_def split: if_splits)

lemma transact_ok: "vault_ok (fst st) \<Longrightarrow> vault_ok (fst (transact self st x))"
  by (auto simp: transact_def call_vault_ok split: sum.splits prod.splits)

interpretation vault: state_machine "transact self" "\<lambda>st. vault_ok (fst st)" for self
  by unfold_locales (rule transact_ok)

text \<open>Settled stays settled, and with it the prizes; a prize that was taken stays taken.\<close>

lemma call_vault_final:
  assumes "call_vault self sender x c = Inr (c', evs)" and "v_settled c w k"
  shows "v_settled c' w k \<and> v_prizes c' w k = v_prizes c w k \<and> (v_taken c w k a \<longrightarrow> v_taken c' w k a) \<and>
    v_pool c w k \<le> v_pool c' w k"
proof (cases x)
  case (CSettle now w' k' ws ns ps)
  with assms(1) have "settle self sender now w' k' ws ns ps c = Inr (c', evs)" by simp
  then show ?thesis by (rule settle_eq) (use assms(2) in auto)
next
  case (CFund ok w k n)
  then show ?thesis using assms by (auto dest!: fund_eq)
next
  case (CClaim ok w k)
  then show ?thesis using assms by (auto dest!: claim_eq)
qed (use assms in \<open>auto simp: set_settler_def set_owner_def sweep_def split: if_splits\<close>)

definition final_from :: "nat \<Rightarrow> key \<Rightarrow> vault \<Rightarrow> vault \<times> vault_event list \<Rightarrow> bool" where
  "final_from w k c st \<longleftrightarrow> v_settled (fst st) w k \<and> v_prizes (fst st) w k = v_prizes c w k \<and>
     (\<forall>a. v_taken c w k a \<longrightarrow> v_taken (fst st) w k a) \<and> v_pool c w k \<le> v_pool (fst st) w k"

lemma transact_final: "final_from w k c st \<Longrightarrow> final_from w k c (transact self st x)"
  by (auto simp: final_from_def transact_def split: sum.splits prod.splits
      dest: call_vault_final [where w = w and k = k] intro: order_trans)

interpretation vault_final: state_machine "transact self" "final_from w k c" for self w k c
  by unfold_locales (rule transact_final)

section \<open>The events as the indexer reads them\<close>

text \<open>
  The text of an address and of a key inside an event. Two addresses never
  differ in the case of their letters only, and the text of a key has no dash:
  both are hexadecimal.
\<close>

locale event_text =
  fixes atxt :: "address \<Rightarrow> string"
    and ktxt :: "key \<Rightarrow> string"
  assumes atxt_inj: "lower (atxt a) = lower (atxt b) \<Longrightarrow> a = b"
    and ktxt_inj: "ktxt k = ktxt l \<Longrightarrow> k = l"
    and ktxt_no_dash: "CHR ''-'' \<notin> set (ktxt k)"
begin

lemma ktxt_eq [simp]: "ktxt k = ktxt k' \<longleftrightarrow> k = k'"
  using ktxt_inj by auto

lemma prize_cell [simp]:
  "prize_id w (ktxt k) (atxt a) = prize_id w' (ktxt k') (atxt a') \<longleftrightarrow> w = w' \<and> k = k' \<and> a = a'"
  using prize_id_inj [OF ktxt_no_dash ktxt_no_dash] atxt_inj ktxt_inj by blast

lemma prize_cell_lower [simp]:
  "prize_id w (ktxt k) (lower (atxt a)) = prize_id w' (ktxt k') (atxt a') \<longleftrightarrow> w = w' \<and> k = k' \<and> a = a'"
  by simp

end

fun render :: "(address \<Rightarrow> string) \<Rightarrow> (key \<Rightarrow> string) \<Rightarrow> vault_event \<Rightarrow> pool_event list" where
  "render atxt ktxt (EFunded w k a n t) = [Funded w (ktxt k) (atxt a) (int n) (int t)]"
| "render atxt ktxt (ESettled w k ws ns ps c) = [Settled w (ktxt k) (List.map atxt ws) (List.map int ns) ps (int c)]"
| "render atxt ktxt (EClaimed w k a n) = [Claimed w (ktxt k) (atxt a) (int n)]"
| "render atxt ktxt e = []"

section \<open>The store agrees with the contract\<close>

definition pool_agrees :: "vault \<Rightarrow> context_db \<Rightarrow> (key \<Rightarrow> string) \<Rightarrow> nat \<Rightarrow> key \<Rightarrow> bool" where
  "pool_agrees c db ktxt w k = (case Pool db (pool_id w (ktxt k)) of
     None \<Rightarrow> v_pool c w k = 0 \<and> \<not> v_settled c w k
   | Some p \<Rightarrow> pl_settled p = v_settled c w k \<and> (\<not> v_settled c w k \<longrightarrow> pl_funded p = int (v_pool c w k)))"

definition prize_agrees :: "vault \<Rightarrow> context_db \<Rightarrow> (address \<Rightarrow> string) \<Rightarrow> (key \<Rightarrow> string) \<Rightarrow> nat \<Rightarrow> key \<Rightarrow> address \<Rightarrow> bool" where
  "prize_agrees c db atxt ktxt w k a = (case Prize db (prize_id w (ktxt k) (atxt a)) of
     None \<Rightarrow> v_prizes c w k a = 0
   | Some z \<Rightarrow> v_settled c w k \<and> pz_amount z = int (v_prizes c w k a) \<and> pz_claimed z = v_taken c w k a)"

definition agrees :: "(address \<Rightarrow> string) \<Rightarrow> (key \<Rightarrow> string) \<Rightarrow> vault \<Rightarrow> context_db \<Rightarrow> bool" where
  "agrees atxt ktxt c db \<longleftrightarrow> db_ok db \<and> (\<forall>w k. pool_agrees c db ktxt w k) \<and> (\<forall>w k a. prize_agrees c db atxt ktxt w k a)"

lemma agrees_cong:
  "v_pool c = v_pool c' \<Longrightarrow> v_settled c = v_settled c' \<Longrightarrow> v_prizes c = v_prizes c' \<Longrightarrow> v_taken c = v_taken c' \<Longrightarrow>
     agrees atxt ktxt c db = agrees atxt ktxt c' db"
proof -
  assume eqs: "v_pool c = v_pool c'" "v_settled c = v_settled c'" "v_prizes c = v_prizes c'" "v_taken c = v_taken c'"
  show ?thesis unfolding agrees_def pool_agrees_def prize_agrees_def eqs by (rule refl)
qed

lemma agrees_admin [simp]:
  "agrees atxt ktxt (c\<lparr>v_settlers := x\<rparr>) db = agrees atxt ktxt c db"
  "agrees atxt ktxt (c\<lparr>v_owner := y\<rparr>) db = agrees atxt ktxt c db"
  "agrees atxt ktxt (c\<lparr>v_retained := z\<rparr>) db = agrees atxt ktxt c db"
  by (rule agrees_cong; simp)+

lemma agrees_start: "agrees atxt ktxt (fst (construct sender settler)) empty_db"
  by (simp add: agrees_def pool_agrees_def prize_agrees_def db_ok_empty) (simp add: construct_def empty_db_def)

lemma put_same [simp]: "put w k (m w k) m = m"
  by (auto simp: put_def)

lemma add_prizes_other: "a \<notin> set ws \<Longrightarrow> add_prizes (zip ws ns) f a = f a"
proof (induction ws arbitrary: ns f)
  case (Cons x xs)
  then show ?case by (cases ns) auto
qed simp

lemma add_prizes_nth:
  assumes "length ws = length ns" and "distinct ws" and "j < length ws"
  shows "add_prizes (zip ws ns) f (ws ! j) = f (ws ! j) + ns ! j"
  using assms
proof (induction ws ns arbitrary: f j rule: list_induct2)
  case (Cons x xs y ys)
  show ?case
  proof (cases j)
    case 0
    with Cons.prems show ?thesis by (simp add: add_prizes_other)
  next
    case (Suc j')
    with Cons.prems have "xs ! j' \<noteq> x" by (auto simp: in_set_conv_nth)
    with Suc Cons.prems Cons.IH [of j' "f(x := f x + y)"] show ?thesis by (simp del: fun_upd_apply) simp
  qed
qed simp

text \<open>The winners of a settlement are named once each.\<close>

fun distinct_winners :: "vault_call \<Rightarrow> bool" where
  "distinct_winners (CSettle now w k ws ns ps) = distinct ws"
| "distinct_winners x = True"

text \<open>The events of one block handled one after the other.\<close>

definition handle_all :: "event_meta \<Rightarrow> context_db \<Rightarrow> pool_event list \<Rightarrow> context_db" where
  "handle_all m db es = foldl (\<lambda>d e. handle_event d (m, e)) db es"

text \<open>The contract and the indexer side by side: each transaction that goes
  through changes the contract, and its events the store; one that reverts
  changes neither.\<close>

fun follow :: "(address \<Rightarrow> string) \<Rightarrow> (key \<Rightarrow> string) \<Rightarrow> address \<Rightarrow> vault \<times> context_db \<Rightarrow>
    (event_meta \<times> address \<times> vault_call) list \<Rightarrow> vault \<times> context_db" where
  "follow atxt ktxt self st [] = st"
| "follow atxt ktxt self (c, db) ((m, sender, x) # txs) =
     follow atxt ktxt self (case call_vault self sender x c of
       Inl e \<Rightarrow> (c, db)
     | Inr (c', evs) \<Rightarrow> (c', handle_all m db (concat (List.map (render atxt ktxt) evs)))) txs"

context event_text
begin

lemma store_prizes_others:
  assumes "store_prizes w (ktxt k) pid amts ps i (List.map atxt ws) (db, paid) = (db', paid')"
    and "\<not> (w' = w \<and> k' = k \<and> a \<in> set ws)"
  shows "Prize db' (prize_id w' (ktxt k') (atxt a)) = Prize db (prize_id w' (ktxt k') (atxt a))"
  using assms
proof (induction ws arbitrary: i db paid)
  case (Cons x ws)
  from Cons.prems(1) have step: "store_prizes w (ktxt k) pid amts ps (i + 1) (List.map atxt ws)
       (set_prize (settled_prize w (ktxt k) pid amts ps (atxt x) i) db, paid + at_or_zero amts i) = (db', paid')" by simp
  from Cons.IH [OF this] Cons.prems(2) show ?case by auto
qed simp

lemma store_prizes_at:
  assumes "store_prizes w (ktxt k) pid amts ps i (List.map atxt ws) (db, paid) = (db', paid')"
    and "distinct ws" and "j < length ws"
  shows "Prize db' (prize_id w (ktxt k) (atxt (ws ! j))) = Some (settled_prize w (ktxt k) pid amts ps (atxt (ws ! j)) (i + j))"
  using assms
proof (induction ws arbitrary: i db paid j)
  case (Cons x ws)
  from Cons.prems(1) have step: "store_prizes w (ktxt k) pid amts ps (i + 1) (List.map atxt ws)
       (set_prize (settled_prize w (ktxt k) pid amts ps (atxt x) i) db, paid + at_or_zero amts i) = (db', paid')" by simp
  show ?case
  proof (cases j)
    case 0
    with Cons.prems(2) store_prizes_others [OF step, of w k x] show ?thesis by simp
  next
    case (Suc j')
    with Cons.prems Cons.IH [OF step, of j'] show ?thesis by simp
  qed
qed simp

lemma agrees_funded:
  assumes ag: "agrees atxt ktxt c db"
  shows "agrees atxt ktxt (c\<lparr>v_pool := put w k t (v_pool c)\<rparr>) (on_funded m w (ktxt k) src n (int t) db)"
proof -
  from ag have ok: "db_ok db" by (simp add: agrees_def)
  obtain p created where lp: "load_pool db w (ktxt k) = (p, created)" by fastforce
  from load_pool_id [OF ok lp] have pid: "pl_id p = pool_id w (ktxt k)" by simp
  have "pool_agrees c db ktxt w k" using ag by (simp add: agrees_def)
  with lp have set: "pl_settled p = v_settled c w k"
    by (auto simp: pool_agrees_def load_pool_def split: option.splits)
  have "pool_agrees (c\<lparr>v_pool := put w k t (v_pool c)\<rparr>) (on_funded m w (ktxt k) src n (int t) db) ktxt w' k'" for w' k'
  proof -
    from ag have "pool_agrees c db ktxt w' k'" by (simp add: agrees_def)
    then show ?thesis using pid set by (auto simp: pool_agrees_def on_funded_eq [OF lp] Let_def split: option.splits)
  qed
  moreover have "prize_agrees (c\<lparr>v_pool := put w k t (v_pool c)\<rparr>) (on_funded m w (ktxt k) src n (int t) db) atxt ktxt w' k' a" for w' k' a
  proof -
    from ag have "prize_agrees c db atxt ktxt w' k' a" by (simp add: agrees_def)
    then show ?thesis by (auto simp: prize_agrees_def on_funded_eq [OF lp] Let_def split: option.splits)
  qed
  ultimately show ?thesis using on_funded_ok [OF ok] by (simp add: agrees_def)
qed

lemma agrees_claimed:
  assumes ag: "agrees atxt ktxt c db" and pos: "v_prizes c w k a \<noteq> 0"
  shows "agrees atxt ktxt (c\<lparr>v_taken := put w k ((v_taken c w k)(a := True)) (v_taken c)\<rparr>)
    (on_claimed m w (ktxt k) (atxt a) n db)"
proof -
  let ?db = "on_claimed m w (ktxt k) (atxt a) n db"
  let ?c = "c\<lparr>v_taken := put w k ((v_taken c w k)(a := True)) (v_taken c)\<rparr>"
  from ag have ok: "db_ok db" by (simp add: agrees_def)
  from ag have pr: "prize_agrees c db atxt ktxt w k a" by (simp add: agrees_def)
  with pos obtain z where z: "Prize db (prize_id w (ktxt k) (atxt a)) = Some z" "pz_amount z = int (v_prizes c w k a)" "v_settled c w k"
    by (auto simp: prize_agrees_def split: option.splits)
  from db_okD(3) [OF ok z(1)] have zid: "pz_id z = prize_id w (ktxt k) (atxt a)" and "pz_pool_id z \<in> dom (Pool db)"
    by (auto simp: prize_row_ok_def)
  then obtain p where p: "Pool db (pz_pool_id z) = Some p" by auto
  from db_okD(2) [OF ok p] have pid: "pl_id p = pz_pool_id z" by simp
  have "pool_agrees ?c ?db ktxt w' k'" for w' k'
  proof -
    from ag have "pool_agrees c db ktxt w' k'" by (simp add: agrees_def)
    then show ?thesis using z(1) p pid by (auto simp: pool_agrees_def on_claimed_pool split: option.splits)
  qed
  moreover have "prize_agrees ?c ?db atxt ktxt w' k' a'" for w' k' a'
  proof -
    from ag have "prize_agrees c db atxt ktxt w' k' a'" by (simp add: agrees_def)
    then show ?thesis using z zid by (auto simp: prize_agrees_def on_claimed_prize split: option.splits)
  qed
  ultimately show ?thesis using on_claimed_ok [OF ok] by (simp add: agrees_def)
qed

lemma agrees_settled:
  assumes ag: "agrees atxt ktxt c db" and fresh: "v_prizes c w k = (\<lambda>_. 0)" "v_taken c w k = (\<lambda>_. False)"
    and ws: "distinct ws" "length ws = length ns"
  shows "agrees atxt ktxt
      (c\<lparr>v_settled := put w k True (v_settled c), v_pool := put w k t (v_pool c),
         v_prizes := put w k (add_prizes (zip ws ns) (v_prizes c w k)) (v_prizes c)\<rparr>)
      (on_settled m w (ktxt k) (List.map atxt ws) (List.map int ns) ps carried db)"
    (is "agrees _ _ ?c ?db")
proof -
  from ag have ok: "db_ok db" by (simp add: agrees_def)
  obtain p created where lp: "load_pool db w (ktxt k) = (p, created)" by fastforce
  from load_pool_id [OF ok lp] have pid: "pl_id p = pool_id w (ktxt k)" by simp
  obtain db1 paid where st: "store_prizes w (ktxt k) (pl_id p) (List.map int ns) ps 0 (List.map atxt ws) (db, 0) = (db1, paid)"
    by fastforce
  note eq = on_settled_eq [OF lp st] and frame = store_prizes_frame [OF st]
  have "pool_agrees ?c ?db ktxt w' k'" for w' k'
  proof -
    from ag have "pool_agrees c db ktxt w' k'" by (simp add: agrees_def)
    then show ?thesis using pid frame by (auto simp: pool_agrees_def eq split: option.splits)
  qed
  moreover have "prize_agrees ?c ?db atxt ktxt w' k' a" for w' k' a
  proof (cases "w' = w \<and> k' = k \<and> a \<in> set ws")
    case True
    then obtain j where j: "j < length ws" "a = ws ! j" by (auto simp: in_set_conv_nth)
    from store_prizes_at [OF st ws(1) j(1)] j ws True fresh show ?thesis
      by (simp add: prize_agrees_def eq at_or_zero_def add_prizes_nth)
  next
    case False
    from ag have "prize_agrees c db atxt ktxt w' k' a" by (simp add: agrees_def)
    with store_prizes_others [OF st, of w' k' a] False fresh show ?thesis
      by (auto simp: prize_agrees_def eq add_prizes_other split: option.splits)
  qed
  ultimately show ?thesis using on_settled_ok [OF ok] by (simp add: agrees_def)
qed

lemma agrees_transaction:
  assumes ag: "agrees atxt ktxt c db" and ok: "vault_ok c"
    and run: "call_vault self sender x c = Inr (c', evs)" and dist: "distinct_winners x"
  shows "agrees atxt ktxt c' (handle_all m db (concat (List.map (render atxt ktxt) evs)))"
proof (cases x)
  case (CFund tok w k n)
  with run have "fund sender tok w k n c = Inr (c', evs)" by simp
  from fund_eq [OF this] agrees_funded [OF ag] show ?thesis by (simp add: handle_all_def del: of_nat_add)
next
  case (CClaim tok w k)
  with run have "claim_prize sender tok w k c = Inr (c', evs)" by simp
  from claim_eq [OF this] agrees_claimed [OF ag] show ?thesis by (simp add: handle_all_def)
next
  case (CSettle now w k ws ns ps)
  with run have "settle self sender now w k ws ns ps c = Inr (c', evs)" by simp
  then show ?thesis
  proof (rule settle_eq)
    fix tot week
    let ?n = "travels c w k (v_pool c w k) tot"
    assume A: "\<not> v_settled c w k" "length ws = length ns" "v_settled c' = put w k True (v_settled c)"
      "v_prizes c' = put w k (add_prizes (zip ws ns) (v_prizes c w k)) (v_prizes c)" "v_taken c' = v_taken c"
      and P: "v_pool c' = put (w + 1) k (v_pool c (w + 1) k + ?n) (put w k tot (v_pool c))"
      and E: "evs = (if ?n = 0 then [] else [EFunded (w + 1) k self ?n (v_pool c' (w + 1) k)]) @
           (if v_pool c w k - tot - ?n = 0 then [] else [ERetained w k (v_pool c w k - tot - ?n) (v_retained c')]) @
           [ESettled w k ws ns ps ?n]"
    define c1 where "c1 = c\<lparr>v_pool := put (w + 1) k (v_pool c (w + 1) k + ?n) (v_pool c)\<rparr>"
    define db1 where "db1 = (if ?n = 0 then db else
        on_funded m (w + 1) (ktxt k) (atxt self) (int ?n) (int (v_pool c (w + 1) k + ?n)) db)"
    have ag1: "agrees atxt ktxt c1 db1"
      using ag agrees_funded [OF ag, of "w + 1" k "v_pool c (w + 1) k + ?n"] by (simp add: c1_def db1_def)
    from ok A(1) have fresh: "v_prizes c1 w k = (\<lambda>_. 0)" "v_taken c1 w k = (\<lambda>_. False)"
      by (simp_all add: c1_def vault_okD)
    from dist CSettle have "distinct ws" by simp
    from agrees_settled [OF ag1 fresh this A(2), of tot m ps "int ?n"]
    have "agrees atxt ktxt c' (on_settled m w (ktxt k) (List.map atxt ws) (List.map int ns) ps (int ?n) db1)"
      by (rule agrees_cong [THEN iffD1, rotated -1]) (auto simp: c1_def A P put_def fun_eq_iff)
    then show ?thesis by (auto simp: E handle_all_def db1_def P)
  qed
qed (use ag run in \<open>auto simp: set_settler_def set_owner_def sweep_def handle_all_def split: if_splits\<close>)

text \<open>A run, with the block each transaction was mined in.\<close>

lemma agrees_run:
  assumes "agrees atxt ktxt c db" and "vault_ok c" and "\<forall>(m, sender, x) \<in> set txs. distinct_winners x"
  shows "agrees atxt ktxt (fst (follow atxt ktxt self (c, db) txs)) (snd (follow atxt ktxt self (c, db) txs))"
  using assms
proof (induction txs arbitrary: c db)
  case (Cons t txs)
  obtain m sender x where t: "t = (m, sender, x)" by (cases t)
  show ?case
  proof (cases "call_vault self sender x c")
    case (Inl e)
    with Cons t show ?thesis by simp
  next
    case (Inr r)
    obtain c' evs where r: "r = (c', evs)" by fastforce
    from Cons.prems t have "distinct_winners x" by auto
    from agrees_transaction [OF Cons.prems(1,2) _ this] Inr r
    have "agrees atxt ktxt c' (handle_all m db (concat (List.map (render atxt ktxt) evs)))" by simp
    from Cons.IH [OF this call_vault_ok [OF Cons.prems(2)]] Cons.prems(3) Inr r t show ?thesis by simp
  qed
qed simp

end

section \<open>Hexadecimal text\<close>

text \<open>The text of keys and addresses, in lower case: 0x and the digits to base 16.\<close>

definition hex_char :: "nat \<Rightarrow> char" where
  "hex_char d = (if d < 10 then char_of (48 + d) else char_of (87 + d))"

fun hex_digits :: "nat \<Rightarrow> string" where
  "hex_digits n = (if n < 16 then [hex_char n] else hex_digits (n div 16) @ [hex_char (n mod 16)])"

declare hex_digits.simps [simp del]

definition hex_text :: "nat \<Rightarrow> nat \<Rightarrow> string" where
  "hex_text width n = ''0x'' @ pad_start width (CHR ''0'') (hex_digits n)"

definition hex_number :: "nat \<Rightarrow> string \<Rightarrow> nat" where
  "hex_number = foldl (\<lambda>acc c. 16 * acc + (if code_of c \<le> 57 then code_of c - 48 else code_of c - 87))"

lemma hex_number_append [simp]: "hex_number acc (xs @ ys) = hex_number (hex_number acc xs) ys"
  by (simp add: hex_number_def)

lemma hex_number_single [simp]: "d < 16 \<Longrightarrow> hex_number acc [hex_char d] = 16 * acc + d"
  by (simp add: hex_number_def hex_char_def)

lemma hex_number_zeros [simp]: "hex_number 0 (replicate n (CHR ''0'')) = 0"
  by (induction n) (simp_all add: hex_number_def code_of_def)

lemma hex_number_digits [simp]: "hex_number 0 (hex_digits n) = n"
proof (induction n rule: hex_digits.induct)
  case (1 n)
  then show ?case by (cases "n < 16") (simp_all add: hex_digits.simps [of n])
qed

lemma lower_hex_char [simp]: "d < 16 \<Longrightarrow> lower_char (hex_char d) = hex_char d"
  by (simp add: lower_char_def hex_char_def)

lemma hex_char_not_dash [simp]: "d < 16 \<Longrightarrow> hex_char d \<noteq> CHR ''-''"
proof
  assume "d < 16" and "hex_char d = CHR ''-''"
  then have "code_of (hex_char d) = 45" by (simp add: code_of_def)
  with \<open>d < 16\<close> show False by (simp add: hex_char_def split: if_splits)
qed

lemma hex_digits_plain: "lower (hex_digits n) = hex_digits n \<and> CHR ''-'' \<notin> set (hex_digits n)"
proof (induction n rule: hex_digits.induct)
  case (1 n)
  have "CHR ''-'' \<noteq> hex_char (n mod 16)" "n < 16 \<Longrightarrow> CHR ''-'' \<noteq> hex_char n"
    using hex_char_not_dash by (metis mod_less_divisor zero_less_numeral)+
  with 1 show ?case by (cases "n < 16") (auto simp: hex_digits.simps [of n] lower_def)
qed

lemma hex_text_lower [simp]: "lower (hex_text width n) = hex_text width n"
  using hex_digits_plain [of n] by (simp add: hex_text_def pad_start_def lower_def lower_char_def code_of_def)

lemma hex_text_inj [simp]: "hex_text width m = hex_text width n \<longleftrightarrow> m = n"
proof
  assume "hex_text width m = hex_text width n"
  then have "hex_number 0 (pad_start width (CHR ''0'') (hex_digits m)) = hex_number 0 (pad_start width (CHR ''0'') (hex_digits n))"
    by (simp add: hex_text_def)
  then show "m = n" by (simp add: pad_start_def)
qed simp

interpretation hex: event_text "hex_text 40" "hex_text 64"
proof
  show "CHR ''-'' \<notin> set (hex_text 64 k)" for k
    using hex_digits_plain [of k] by (simp add: hex_text_def pad_start_def)
qed simp_all

section \<open>Properties\<close>

text \<open>
  C1. After any run of the contract from its deployment, with reverted
  transactions included, the store the indexer has built from the emitted events agrees with
  the contract: for every week and strategy a pool row exists whenever the
  contract holds money or a settlement there, it is marked settled exactly
  when the contract settled it, its funded figure is the contract's pool while
  it is open; a prize row exists for every wallet with a prize, with the
  contract's amount, marked claimed exactly when the wallet has taken it.
  The settlements name each winner once.
\<close>

theorem indexer_follows_contract:
  assumes "event_text atxt ktxt" and "\<forall>(m, sender, x) \<in> set txs. distinct_winners x"
  shows "agrees atxt ktxt
    (fst (follow atxt ktxt self (fst (construct deployer settler), empty_db) txs))
    (snd (follow atxt ktxt self (fst (construct deployer settler), empty_db) txs))"
  by (rule event_text.agrees_run [OF assms(1) agrees_start vault_ok_construct assms(2)])

definition meta0 :: event_meta where
  "meta0 = \<lparr>chain_id = 10143, block_number = 7, block_timestamp = 1000, log_index = 0, tx_hash = ''0xab''\<rparr>"

theorem indexer_follows_contract_witness:
  "agrees (hex_text 40) (hex_text 64)
    (fst (follow (hex_text 40) (hex_text 64) 9 (fst (construct 1 2), empty_db)
       [(meta0, 4, CFund True 0 3 100), (meta0, 2, CSettle 1300000 0 3 [5, 6] [60, 30] [1, -2]), (meta0, 5, CClaim True 0 3)]))
    (snd (follow (hex_text 40) (hex_text 64) 9 (fst (construct 1 2), empty_db)
       [(meta0, 4, CFund True 0 3 100), (meta0, 2, CSettle 1300000 0 3 [5, 6] [60, 30] [1, -2]), (meta0, 5, CClaim True 0 3)]))"
  by (rule indexer_follows_contract [OF hex.event_text_axioms]) simp

text \<open>
  C40. The totals row after any stream of events is the sum over the stream:
  funded adds the amount of every Funded event, paid the amounts of every
  Settled event (a missing amount counts zero), claimed the amount of every
  Claimed event, and settledPools counts the settlements; pools is the number
  of pool rows.
\<close>

theorem indexer_totals_are_sums:
  "tt_funded (load_totals (index_events empty_db es)) = sum_list (List.map (funded_by \<circ> snd) es) \<and>
   tt_paid (load_totals (index_events empty_db es)) = sum_list (List.map (paid_by \<circ> snd) es) \<and>
   tt_claimed (load_totals (index_events empty_db es)) = sum_list (List.map (claimed_by \<circ> snd) es) \<and>
   tt_settled_pools (load_totals (index_events empty_db es)) = length (filter (settles \<circ> snd) es) \<and>
   tt_pools (load_totals (index_events empty_db es)) = card (dom (Pool (index_events empty_db es)))"
proof -
  have "db_ok (index_events empty_db es)"
    unfolding index_events_def by (rule indexer.run_inv [OF db_ok_empty])
  moreover have "load_totals empty_db =
      \<lparr>tt_id = totals_id, tt_funded = 0, tt_paid = 0, tt_claimed = 0, tt_pools = 0, tt_settled_pools = 0\<rparr>"
    by (simp add: load_totals_def empty_db_def)
  ultimately show ?thesis using index_events_totals [OF db_ok_empty, of es] by (simp add: db_okD(5))
qed

text \<open>
  C17. Once a pool is settled, no sequence of later transactions changes its
  winners' prizes, un-settles it, un-claims a prize or lowers what it holds.
\<close>

theorem settlement_is_final:
  assumes "v_settled c w k"
  shows "final_from w k c (foldl (transact self) (c, evs) txs)"
  by (rule vault_final.run_inv) (simp add: final_from_def assms)

theorem settlement_is_final_witness:
  "final_from 0 3 ((fst (construct 1 2))\<lparr>v_settled := put 0 3 True (\<lambda>_ _. False)\<rparr>)
     (foldl (transact 9) ((fst (construct 1 2))\<lparr>v_settled := put 0 3 True (\<lambda>_ _. False)\<rparr>, [])
       [(2, CSettle 1300000 0 3 [5] [0] [0]), (4, CFund True 0 3 10)])"
  by (rule settlement_is_final) simp

text \<open>
  Money that travels into a week whose pool has been settled already is
  out of reach: the pool it arrives in is settled and grows by what was
  carried, while the prizes of that week stay as they were and the retained
  sum the owner may sweep does not grow by it, whatever happens afterwards.
  The contract does not check the order of settlements.
\<close>

theorem carried_into_settled_week_is_stuck:
  assumes "settle self sender now w k ws ns ps c = Inr (c', evs)" and "v_settled c (w + 1) k"
    and "total_of 0 ns = Some tot" and "travels c w k (v_pool c w k) tot = n"
  shows "final_from (w + 1) k c' (foldl (transact self) (c', hist) txs) \<and>
    v_prizes c' (w + 1) k = v_prizes c (w + 1) k \<and> v_pool c' (w + 1) k = v_pool c (w + 1) k + n \<and>
    v_retained c' = v_retained c + (v_pool c w k - tot - n)"
  using assms(1)
proof (rule settle_eq)
  fix tot' week
  assume eqs: "total_of 0 ns = Some tot'" "v_settled c' = put w k True (v_settled c)"
    "v_prizes c' = put w k (add_prizes (zip ws ns) (v_prizes c w k)) (v_prizes c)"
    "v_pool c' = put (w + 1) k (v_pool c (w + 1) k + travels c w k (v_pool c w k) tot') (put w k tot' (v_pool c))"
    "v_retained c' = v_retained c + (v_pool c w k - tot' - travels c w k (v_pool c w k) tot')"
  have "tot' = tot" using eqs(1) assms(3) by simp
  with eqs assms(2,4) vault_final.run_inv [of "w + 1" k c' "(c', hist)" self txs] show ?thesis
    by (simp add: final_from_def)
qed

definition settled_ahead :: vault where
  "settled_ahead = (fst (construct 1 2))\<lparr>v_pool := put 0 3 100 (\<lambda>_ _. 0), v_settled := put 1 3 True (\<lambda>_ _. False)\<rparr>"

theorem carried_into_settled_week_is_stuck_witness:
  "\<exists>c' evs. settle 9 2 1300000 0 3 [] [] [] settled_ahead = Inr (c', evs) \<and> v_pool c' 1 3 = 100 \<and> v_settled c' 1 3 \<and>
     v_retained c' = 0"
proof -
  have run: "is_ok (settle 9 2 1300000 0 3 [] [] [] settled_ahead)"
    by (simp add: settle_def week_of_def monday_shift_def uint64_def uint256_def settled_ahead_def construct_def
        rest_def carry_def travels_def Let_def)
  then obtain c' evs where r: "settle 9 2 1300000 0 3 [] [] [] settled_ahead = Inr (c', evs)"
    by (metis is_ok.simps(1) obj_sumE surj_pair)
  have "travels settled_ahead 0 3 (v_pool settled_ahead 0 3) 0 = 100" "v_settled settled_ahead (0 + 1) 3"
    by (simp_all add: settled_ahead_def construct_def travels_def)
  from carried_into_settled_week_is_stuck [OF r this(2) _ this(1), of "[]" "[]"] r show ?thesis
    by (auto simp: final_from_def settled_ahead_def construct_def)
qed

text \<open>
  What is carried is counted as funding twice: one wallet funds 100, the
  week is settled without a winner, and the totals row says 200 were funded.
\<close>

theorem carry_counted_twice:
  "let st = follow (hex_text 40) (hex_text 64) 9 (fst (construct 1 2), empty_db)
       [(meta0, 4, CFund True 0 3 100), (meta0, 2, CSettle 1300000 0 3 [] [] [])]
   in v_pool (fst st) 0 3 + v_pool (fst st) 1 3 = 100 \<and> tt_funded (load_totals (snd st)) = 200"
  by (simp add: construct_def fund_def settle_def week_of_def monday_shift_def uint64_def uint256_def
      rest_def carry_def travels_def handle_all_def on_funded_def on_settled_def load_pool_def load_totals_def
      empty_db_def totals_id_def set_pool_def set_totals_def Let_def split: option.splits)

end
