(* ===== verification/Storage.thy ===== *)
theory Storage
  imports JsText
begin

text \<open>
  What the app remembers on the device: trading/symbol-store.ts,
  strategy/own-store.ts, strategy/analysis-store.ts, onboarding/prefs.ts,
  theme/store.ts, invite/pending.ts, analytics/id.ts and account/storage.ts.
  Every module keeps one item under one key; the item is either a document
  JSON.parse reads back or text it refuses. The storage itself works, throws
  on every access (blocked, private mode) or is not there at all.
\<close>

section \<open>One key of the storage\<close>

datatype storage_mode = Works | Throws | Absent

datatype 'd item = Garbled | Doc 'd

record 'd place =
  pl_mode :: storage_mode
  pl_item :: "'d item option"

text \<open>getItem, setItem and removeItem through the optional chain: a throw is Inl.\<close>

definition get_item :: "'d place \<Rightarrow> unit + 'd item option" where
  "get_item p = (case pl_mode p of Works \<Rightarrow> Inr (pl_item p) | Throws \<Rightarrow> Inl () | Absent \<Rightarrow> Inr None)"

definition set_item :: "'d item \<Rightarrow> 'd place \<Rightarrow> unit + 'd place" where
  "set_item i p = (case pl_mode p of Works \<Rightarrow> Inr (p\<lparr>pl_item := Some i\<rparr>) | Throws \<Rightarrow> Inl () | Absent \<Rightarrow> Inr p)"

definition remove_item :: "'d place \<Rightarrow> unit + 'd place" where
  "remove_item p = (case pl_mode p of Works \<Rightarrow> Inr (p\<lparr>pl_item := None\<rparr>) | Throws \<Rightarrow> Inl () | Absent \<Rightarrow> Inr p)"

fun json_parse :: "'d item \<Rightarrow> unit + 'd" where
  "json_parse Garbled = Inl ()"
| "json_parse (Doc d) = Inr d"

text \<open>The body every load shares: absent, unreadable and blocked all give nothing.\<close>

definition load_doc :: "'d place \<Rightarrow> 'd option" where
  "load_doc p = (case get_item p of
     Inl _ \<Rightarrow> None
   | Inr None \<Rightarrow> None
   | Inr (Some i) \<Rightarrow> (case json_parse i of Inl _ \<Rightarrow> None | Inr d \<Rightarrow> Some d))"

text \<open>And every save and clear: a throw is swallowed.\<close>

definition quietly :: "('d place \<Rightarrow> unit + 'd place) \<Rightarrow> 'd place \<Rightarrow> 'd place" where
  "quietly f p = (case f p of Inl _ \<Rightarrow> p | Inr q \<Rightarrow> q)"

definition storage_works :: "'d place \<Rightarrow> bool" where
  "storage_works p \<longleftrightarrow> pl_mode p = Works"

lemma load_doc_set [simp]: "storage_works p \<Longrightarrow> load_doc (quietly (set_item (Doc d)) p) = Some d"
  by (simp add: load_doc_def quietly_def set_item_def get_item_def storage_works_def)

lemma load_doc_remove [simp]: "storage_works p \<Longrightarrow> load_doc (quietly remove_item p) = None"
  by (simp add: load_doc_def quietly_def remove_item_def get_item_def storage_works_def)

lemma storage_works_kept [simp]:
  "storage_works (quietly (set_item i) p) = storage_works p"
  "storage_works (quietly remove_item p) = storage_works p"
  by (cases "pl_mode p"; simp add: quietly_def set_item_def remove_item_def storage_works_def)+

text \<open>Where the storage does not work, nothing a save does is ever read back.\<close>

lemma load_doc_blocked: "\<not> storage_works p \<Longrightarrow> load_doc p = None"
  by (cases "pl_mode p") (simp_all add: load_doc_def get_item_def storage_works_def)

lemma quietly_blocked: "\<not> storage_works p \<Longrightarrow> quietly (set_item i) p = p \<and> quietly remove_item p = p"
  by (cases "pl_mode p") (simp_all add: quietly_def set_item_def remove_item_def storage_works_def)

section \<open>The stores\<close>

subsection \<open>The market each strategy was last on\<close>

type_synonym chosen_markets = "(string \<times> string) list"

definition load_symbols :: "chosen_markets place \<Rightarrow> chosen_markets" where
  "load_symbols p = (case load_doc p of None \<Rightarrow> [] | Some d \<Rightarrow> d)"

definition save_symbols :: "chosen_markets \<Rightarrow> chosen_markets place \<Rightarrow> chosen_markets place" where
  "save_symbols chosen = quietly (set_item (Doc chosen))"

subsection \<open>The draft of one's own strategy\<close>

record own_draft =
  ow_text :: string
  ow_listed :: bool

text \<open>What is stored may lack a field.\<close>

record partial_draft =
  pd_text :: "string option"
  pd_listed :: "bool option"

definition load_own_draft :: "partial_draft place \<Rightarrow> own_draft" where
  "load_own_draft p = (case load_doc p of
     None \<Rightarrow> \<lparr>ow_text = [], ow_listed = False\<rparr>
   | Some d \<Rightarrow> \<lparr>ow_text = (case pd_text d of None \<Rightarrow> [] | Some t \<Rightarrow> t),
                ow_listed = (case pd_listed d of None \<Rightarrow> False | Some b \<Rightarrow> b)\<rparr>)"

definition save_own_draft :: "own_draft \<Rightarrow> partial_draft place \<Rightarrow> partial_draft place" where
  "save_own_draft d = quietly (set_item (Doc \<lparr>pd_text = Some (ow_text d), pd_listed = Some (ow_listed d)\<rparr>))"

subsection \<open>The day the analysis was last read\<close>

definition load_analysis_day :: "string option place \<Rightarrow> string option" where
  "load_analysis_day p = (case load_doc p of None \<Rightarrow> None | Some day \<Rightarrow> day)"

definition save_analysis_day :: "string \<Rightarrow> string option place \<Rightarrow> string option place" where
  "save_analysis_day day = quietly (set_item (Doc (Some day)))"

subsection \<open>What the first visit remembers\<close>

datatype network_choice = ChoseTestnet | ChoseMainnet

record prefs =
  pr_network :: network_choice
  pr_intro_seen :: bool
  pr_lesson_seen :: bool
  pr_taught :: "string list"
  pr_swipes_seen :: bool

record prefs_change =
  pc_network :: "network_choice option"
  pc_intro_seen :: "bool option"
  pc_lesson_seen :: "bool option"
  pc_taught :: "string list option"
  pc_swipes_seen :: "bool option"

definition empty_prefs :: prefs where
  "empty_prefs = \<lparr>pr_network = ChoseTestnet, pr_intro_seen = False, pr_lesson_seen = False,
                  pr_taught = [], pr_swipes_seen = False\<rparr>"

definition no_prefs_change :: prefs_change where
  "no_prefs_change = \<lparr>pc_network = None, pc_intro_seen = None, pc_lesson_seen = None,
                      pc_taught = None, pc_swipes_seen = None\<rparr>"

text \<open>The spread of a partial object over a whole one.\<close>

definition spread_prefs :: "prefs \<Rightarrow> prefs_change \<Rightarrow> prefs" where
  "spread_prefs p c =
     \<lparr>pr_network = (case pc_network c of None \<Rightarrow> pr_network p | Some v \<Rightarrow> v),
      pr_intro_seen = (case pc_intro_seen c of None \<Rightarrow> pr_intro_seen p | Some v \<Rightarrow> v),
      pr_lesson_seen = (case pc_lesson_seen c of None \<Rightarrow> pr_lesson_seen p | Some v \<Rightarrow> v),
      pr_taught = (case pc_taught c of None \<Rightarrow> pr_taught p | Some v \<Rightarrow> v),
      pr_swipes_seen = (case pc_swipes_seen c of None \<Rightarrow> pr_swipes_seen p | Some v \<Rightarrow> v)\<rparr>"

definition whole_prefs :: "prefs \<Rightarrow> prefs_change" where
  "whole_prefs p = \<lparr>pc_network = Some (pr_network p), pc_intro_seen = Some (pr_intro_seen p),
     pc_lesson_seen = Some (pr_lesson_seen p), pc_taught = Some (pr_taught p),
     pc_swipes_seen = Some (pr_swipes_seen p)\<rparr>"

lemma spread_whole_prefs [simp]: "spread_prefs p (whole_prefs q) = q"
  by (simp add: spread_prefs_def whole_prefs_def)

lemma spread_no_change [simp]: "spread_prefs p no_prefs_change = p"
  by (simp add: spread_prefs_def no_prefs_change_def)

definition load_prefs :: "prefs_change place \<Rightarrow> prefs" where
  "load_prefs p = (case load_doc p of None \<Rightarrow> empty_prefs | Some d \<Rightarrow> spread_prefs empty_prefs d)"

definition save_prefs :: "prefs \<Rightarrow> prefs_change place \<Rightarrow> prefs_change place" where
  "save_prefs prefs = quietly (set_item (Doc (whole_prefs prefs)))"

definition clear_prefs :: "prefs_change place \<Rightarrow> prefs_change place" where
  "clear_prefs = quietly remove_item"

subsection \<open>The appearance\<close>

datatype theme_name = Paper | Night

definition parse_theme :: "string option \<Rightarrow> theme_name option" where
  "parse_theme raw = (if raw = Some ''paper'' then Some Paper
     else if raw = Some ''night'' then Some Night else None)"

fun theme_text :: "theme_name \<Rightarrow> string" where
  "theme_text Paper = ''paper''"
| "theme_text Night = ''night''"

text \<open>The stores that keep a bare string do not parse it: the document is the string.\<close>

definition raw_item :: "string place \<Rightarrow> string option" where
  "raw_item p = (case get_item p of Inr (Some (Doc s)) \<Rightarrow> Some s | _ \<Rightarrow> None)"

lemma raw_item_set [simp]: "storage_works p \<Longrightarrow> raw_item (quietly (set_item (Doc s)) p) = Some s"
  by (simp add: raw_item_def quietly_def set_item_def get_item_def storage_works_def)

lemma raw_item_remove [simp]: "storage_works p \<Longrightarrow> raw_item (quietly remove_item p) = None"
  by (simp add: raw_item_def quietly_def remove_item_def get_item_def storage_works_def)

definition load_theme_choice :: "string place \<Rightarrow> theme_name option" where
  "load_theme_choice p = parse_theme (raw_item p)"

definition save_theme_choice :: "theme_name \<Rightarrow> string place \<Rightarrow> string place" where
  "save_theme_choice name = quietly (set_item (Doc (theme_text name)))"

subsection \<open>The invite a visitor arrived on, and the id of the install\<close>

definition save_pending_invite :: "string \<Rightarrow> string place \<Rightarrow> string place" where
  "save_pending_invite code = quietly (set_item (Doc code))"

definition pending_invite :: "string place \<Rightarrow> string option" where
  "pending_invite p = raw_item p"

definition clear_pending_invite :: "string place \<Rightarrow> string place" where
  "clear_pending_invite = quietly remove_item"

definition load_install_id :: "string place \<Rightarrow> string option" where
  "load_install_id p = raw_item p"

definition save_install_id :: "string \<Rightarrow> string place \<Rightarrow> string place" where
  "save_install_id id' = quietly (set_item (Doc id'))"

subsection \<open>The account of this device\<close>

record stored_credential =
  sc_id :: string
  sc_transports :: "string list option"

record stored_account =
  sa_credential :: stored_credential
  sa_address :: string
  sa_label :: string

definition load_stored_account :: "stored_account place \<Rightarrow> stored_account option" where
  "load_stored_account = load_doc"

definition save_stored_account :: "stored_account \<Rightarrow> stored_account place \<Rightarrow> stored_account place" where
  "save_stored_account a = quietly (set_item (Doc a))"

definition clear_stored_account :: "stored_account place \<Rightarrow> stored_account place" where
  "clear_stored_account = quietly remove_item"

section \<open>Each store is a slot\<close>

interpretation symbols: slot "\<lambda>p. Some (load_symbols p)" save_symbols storage_works
  by unfold_locales (simp_all add: load_symbols_def save_symbols_def)

interpretation draft: slot "\<lambda>p. Some (load_own_draft p)" save_own_draft storage_works
  by unfold_locales (simp_all add: load_own_draft_def save_own_draft_def)

interpretation analysis: slot load_analysis_day save_analysis_day storage_works
  by unfold_locales (simp_all add: load_analysis_day_def save_analysis_day_def)

interpretation first_visit: slot "\<lambda>p. Some (load_prefs p)" save_prefs storage_works
  by unfold_locales (simp_all add: load_prefs_def save_prefs_def)

interpretation theme: slot load_theme_choice save_theme_choice storage_works
proof unfold_locales
  fix p :: "string place" and n
  assume "storage_works p"
  then show "load_theme_choice (save_theme_choice n p) = Some n"
    by (cases n) (simp_all add: load_theme_choice_def save_theme_choice_def parse_theme_def)
qed (simp add: save_theme_choice_def)

interpretation invite: clearable_slot pending_invite save_pending_invite storage_works clear_pending_invite
  by unfold_locales (simp_all add: pending_invite_def save_pending_invite_def clear_pending_invite_def)

interpretation install: slot load_install_id save_install_id storage_works
  by unfold_locales (simp_all add: load_install_id_def save_install_id_def)

interpretation device_account: clearable_slot load_stored_account save_stored_account storage_works clear_stored_account
  by unfold_locales (simp_all add: load_stored_account_def save_stored_account_def clear_stored_account_def)

end
