(* ===== verification/Wire.thy ===== *)
theory Wire
  imports JsText
begin

text \<open>
  What travels between the app and the platform (api/schema.d.ts, generated
  from api/openapi.yaml): one record per schema the modelled code reads. A
  Decimal is the string it is on the wire; an optional field is an option; a
  JSON number is a JavaScript number. Series of points that only a chart page
  reads are left out of the signals.
\<close>

type_synonym decimal = string

datatype side = Long | Short

datatype order_status =
    SUnknown | SPending | SOpen | SPartiallyFilled | SFilled | SCanceled | SExpired | SFailed

datatype charged_on = OpenOnly | EveryFill

record fees =
  fe_maker_rate :: decimal
  fe_taker_rate :: decimal
  fe_builder_rate :: decimal
  fe_charged_on :: charged_on
  fe_posting_fee :: decimal
  fe_round_trip_taker :: decimal
  fe_round_trip_taker_bps :: decimal
  fe_break_even_move_taker :: decimal

record market =
  mk_symbol :: string
  mk_max_leverage :: decimal
  mk_liquidation_leverage :: "decimal option"
  mk_price_tick :: decimal
  mk_size_step :: decimal
  mk_order_ttl_seconds :: jsnum
  mk_fees :: fees

datatype account_status = NoExchangeAccount | ForwardingDisabled | FrozenAccount | ActiveAccount

record account =
  ac_id :: string
  ac_balance :: decimal
  ac_locked :: decimal
  ac_can_trade :: bool
  ac_frozen :: bool
  ac_fee_tier :: jsnum
  ac_status :: account_status

record position =
  ps_id :: string
  ps_symbol :: string
  ps_side :: side
  ps_size :: decimal
  ps_entry_price :: decimal
  ps_notional :: decimal
  ps_collateral :: decimal
  ps_leverage :: decimal
  ps_unrealized_pnl :: decimal
  ps_fees_paid :: decimal
  ps_opened_at :: "string option"
  ps_closes_at :: "string option"
  ps_max_loss :: "decimal option"
  ps_stop_pnl :: "decimal option"
  ps_take_profit :: "decimal option"
  ps_tp_pnl :: "decimal option"
  ps_liquidation_price :: "decimal option"
  ps_strategy :: "string option"

record limits =
  lm_allowed_symbols :: "string list"
  lm_min_notional :: decimal
  lm_max_notional :: decimal
  lm_max_leverage :: decimal
  lm_max_total_exposure :: decimal
  lm_max_open_positions :: jsnum
  lm_daily_loss :: decimal
  lm_cooldown_seconds :: jsnum

record risk_now =
  rk_open_positions :: jsnum
  rk_exposure :: decimal
  rk_daily_loss :: decimal
  rk_last_open :: "string option"

datatype close_reason = Manual | Horizon | Stop | TakeProfit

record last_close =
  lc_symbol :: string
  lc_side :: side
  lc_reason :: close_reason
  lc_price :: decimal
  lc_pnl :: decimal
  lc_at :: string

record platform_state =
  pf_last_close :: "last_close option"
  pf_venue :: string
  pf_account :: account
  pf_positions :: "position list"
  pf_limits :: limits
  pf_risk :: risk_now
  pf_killed :: bool
  pf_kill_note :: "string option"

record open_request =
  rq_symbol :: string
  rq_side :: side
  rq_notional :: decimal
  rq_leverage :: "decimal option"
  rq_strategy :: "string option"
  rq_max_loss :: "decimal option"
  rq_take_profit :: "decimal option"
  rq_horizon_seconds :: "jsnum option"

record close_request =
  cq_symbol :: string
  cq_strategy :: "string option"

record amend_request =
  aq_symbol :: string
  aq_strategy :: "string option"
  aq_max_loss :: "decimal option"
  aq_take_profit :: "decimal option"
  aq_extend_seconds :: "jsnum option"

record amended =
  am_symbol :: string
  am_closes_at :: "string option"
  am_max_loss :: "decimal option"
  am_take_profit :: "decimal option"

record rejection =
  rj_code :: "string option"
  rj_detail :: "string option"

record venue_order =
  od_client_id :: string
  od_venue_id :: string
  od_symbol :: string
  od_side :: side
  od_status :: order_status
  od_size :: decimal
  od_filled_size :: decimal
  od_avg_price :: decimal
  od_fee :: decimal
  od_builder_fee :: decimal
  od_rejection :: "rejection option"
  od_updated_at :: "string option"

record error_body =
  eb_error :: "string option"
  eb_message :: "string option"
  eb_limit :: "decimal option"
  eb_actual :: "decimal option"
  eb_retry_after_seconds :: "jsnum option"

record trade =
  td_strategy :: string
  td_symbol :: string
  td_side :: side
  td_size :: decimal
  td_entry_price :: decimal
  td_entry_fee :: decimal
  td_exit_price :: "decimal option"
  td_exit_fee :: "decimal option"
  td_pnl :: "decimal option"
  td_close_reason :: "close_reason option"
  td_opened_at :: string
  td_closed_at :: "string option"
  td_id :: "string option"
  td_open_order_id :: "string option"
  td_close_order_id :: "string option"
  td_notional :: "decimal option"
  td_leverage :: "decimal option"
  td_collateral :: "decimal option"
  td_stop_pnl :: "decimal option"
  td_tp_pnl :: "decimal option"
  td_worst_pnl :: "decimal option"
  td_best_pnl :: "decimal option"

record trades_page =
  tp_trades :: "trade list"
  tp_next_cursor :: "string option"

record standing =
  sd_wallet :: string
  sd_pnl :: decimal
  sd_trades :: nat
  sd_volume :: "decimal option"

record ranked_standing = standing +
  sd_rank :: nat

datatype period = Week | AllTime

record standings =
  st_strategy :: string
  st_period :: period
  st_standings :: "standing list"
  st_players :: nat
  st_next_offset :: "nat option"
  st_you :: "ranked_standing option"

record limit_tier =
  lt_daily_loss_pct :: jsnum
  lt_max_open_positions :: jsnum
  lt_cooldown_seconds :: jsnum

record limits_block =
  lb_chosen :: limit_tier
  lb_safe :: limit_tier
  lb_ceiling :: limit_tier
  lb_active :: "limits option"
  lb_balance :: "decimal option"
  lb_day_resets_at :: string

text \<open>A risk position is a position that always names its strategy.\<close>

record risk_position = position +
  rp_strategy :: string
  rp_distance_to_liquidation_pct :: "decimal option"
  rp_at_risk :: decimal

record perf =
  pe_trades :: jsnum
  pe_wins :: jsnum
  pe_losses :: jsnum
  pe_win_rate :: jsnum
  pe_pnl :: decimal
  pe_fees :: decimal
  pe_best :: decimal
  pe_worst :: decimal
  pe_avg_win :: decimal
  pe_avg_loss :: decimal
  pe_max_drawdown :: decimal
  pe_avg_hold_seconds :: jsnum
  pe_streak :: jsnum
  pe_by_reason :: "(string \<times> jsnum) list"

record risk_usage =
  us_exposure :: decimal
  us_exposure_pct :: jsnum
  us_open_positions :: jsnum
  us_daily_loss :: decimal
  us_daily_loss_pct :: jsnum
  us_daily_loss_left :: decimal
  us_cooldown_left_seconds :: jsnum

record risk_strategy =
  rs_id :: string
  rs_name :: string
  rs_enabled :: bool
  rs_limits :: "limits option"
  rs_usage :: "risk_usage option"
  rs_killed :: bool
  rs_kill_note :: "string option"
  rs_today :: "perf option"
  rs_week :: "perf option"
  rs_all :: "perf option"
  rs_open :: "risk_position list"

record risk_totals =
  rt_exposure :: decimal
  rt_at_risk :: decimal
  rt_daily_loss :: decimal
  rt_today :: "perf option"
  rt_week :: "perf option"
  rt_all :: "perf option"

record risk_market =
  rm_symbol :: string
  rm_vol_1m_bps :: jsnum
  rm_range_1m_bps :: jsnum
  rm_round_trip_bps :: jsnum
  rm_edge :: jsnum
  rm_bars :: jsnum

record risk_report =
  rr_wallet :: string
  rr_limits :: limits_block
  rr_strategies :: "risk_strategy list"
  rr_open :: "risk_position list"
  rr_totals :: risk_totals
  rr_market :: "risk_market list"
  rr_updated_at :: string

record signal_window =
  sw_side :: side
  sw_opened_at :: string
  sw_expires_at :: string

record wire_breakout =
  wb_side :: side
  wb_at :: string
  wb_price :: decimal
  wb_level :: decimal

datatype trend = TUp | TDown | TFlat

record ma_cross_signal =
  mx_symbol :: string
  mx_period_seconds :: jsnum
  mx_fast :: jsnum
  mx_slow :: jsnum
  mx_ready :: bool
  mx_trend :: trend
  mx_forming :: bool
  mx_window :: "signal_window option"
  mx_last_cross :: "(side \<times> string) option"

record rsi_signal =
  rx_symbol :: string
  rx_period_seconds :: jsnum
  rx_length :: jsnum
  rx_oversold :: decimal
  rx_overbought :: decimal
  rx_ready :: bool
  rx_value :: decimal
  rx_forming :: bool
  rx_window :: "signal_window option"
  rx_last_cross :: "(side \<times> string \<times> decimal) option"

record donchian_signal =
  dx_symbol :: string
  dx_period_seconds :: jsnum
  dx_length :: jsnum
  dx_ready :: bool
  dx_upper :: "decimal option"
  dx_lower :: "decimal option"
  dx_forming :: bool
  dx_window :: "signal_window option"
  dx_last_break :: "wire_breakout option"

datatype orb_phase = Forming | Watching | Broken | ClosedPhase

record orb_session =
  os_open_at :: string
  os_range_from :: string
  os_range_until :: string
  os_watch_until :: string
  os_bars :: jsnum
  os_high :: "decimal option"
  os_low :: "decimal option"
  os_break :: "wire_breakout option"

record orb_signal =
  ox_symbol :: string
  ox_period_seconds :: jsnum
  ox_opens :: "string list"
  ox_range_seconds :: jsnum
  ox_watch_seconds :: jsnum
  ox_ready :: bool
  ox_phase :: orb_phase
  ox_session :: orb_session
  ox_next_open_at :: string
  ox_forming :: bool
  ox_window :: "signal_window option"
  ox_last_break :: "wire_breakout option"

record prize_winner =
  pw_strategy :: string
  pw_wallet :: string
  pw_amount :: decimal
  pw_pnl :: decimal
  pw_claimed :: bool

record prize_pool_line =
  pp_strategy :: string
  pp_pool :: decimal
  pp_accrued :: "decimal option"

record week_prize =
  wp_contract :: string
  wp_token :: string
  wp_week :: nat
  wp_pools :: "prize_pool_line list"
  wp_last_week :: nat
  wp_winners :: "prize_winner list"

record board_top =
  bt_wallet :: string
  bt_pnl :: decimal
  bt_trades :: nat

record board =
  bd_id :: string
  bd_name :: string
  bd_tagline :: string
  bd_rhythm :: string
  bd_pnl :: decimal
  bd_players :: nat
  bd_trades :: nat
  bd_active_now :: nat
  bd_top :: "board_top list"

datatype board_source = FromJournal | FromMemory

record leaderboard =
  lb_week_start :: string
  lb_period :: period
  lb_source :: board_source
  lb_prize :: "week_prize option"
  lb_boards :: "board list"

datatype network = Testnet | Mainnet

record exchange_network =
  xn_network :: network
  xn_chain_id :: nat
  xn_rpc_url :: string
  xn_explorer :: string
  xn_exchange_address :: string
  xn_collateral_token :: string
  xn_collateral_symbol :: string
  xn_collateral_decimals :: nat
  xn_min_account_open_amount :: decimal
  xn_min_account_open_raw :: string

section \<open>A wallet to evaluate on\<close>

text \<open>A wallet of 250 on a venue that allows 1000 a position at 10x, and its home
  market; the properties are instantiated on these.\<close>

definition sample_limits :: limits where
  "sample_limits = \<lparr>lm_allowed_symbols = [''MON'', ''ETH''], lm_min_notional = ''5'', lm_max_notional = ''1000'',
     lm_max_leverage = ''10'', lm_max_total_exposure = ''2000'', lm_max_open_positions = 3,
     lm_daily_loss = ''50'', lm_cooldown_seconds = 0\<rparr>"

definition sample_state :: "position list \<Rightarrow> platform_state" where
  "sample_state ps = \<lparr>pf_last_close = None, pf_venue = ''perpl'',
     pf_account = \<lparr>ac_id = ''7'', ac_balance = ''250.00'', ac_locked = ''0'', ac_can_trade = True,
                   ac_frozen = False, ac_fee_tier = 0, ac_status = ActiveAccount\<rparr>,
     pf_positions = ps, pf_limits = sample_limits,
     pf_risk = \<lparr>rk_open_positions = 0, rk_exposure = ''0'', rk_daily_loss = ''0'', rk_last_open = None\<rparr>,
     pf_killed = False, pf_kill_note = None\<rparr>"

definition sample_market :: market where
  "sample_market = \<lparr>mk_symbol = ''MON'', mk_max_leverage = ''3'', mk_liquidation_leverage = None,
     mk_price_tick = ''0.00001'', mk_size_step = ''1'', mk_order_ttl_seconds = 30,
     mk_fees = \<lparr>fe_maker_rate = ''0'', fe_taker_rate = ''0.0005'', fe_builder_rate = ''0.0001'',
       fe_charged_on = OpenOnly, fe_posting_fee = ''0'', fe_round_trip_taker = ''0.001'',
       fe_round_trip_taker_bps = ''10'', fe_break_even_move_taker = ''0.001''\<rparr>\<rparr>"

definition sample_position :: "string \<Rightarrow> side \<Rightarrow> string option \<Rightarrow> position" where
  "sample_position symbol side strategy = \<lparr>ps_id = ''1'', ps_symbol = symbol, ps_side = side, ps_size = ''100'',
     ps_entry_price = ''0.02'', ps_notional = ''60'', ps_collateral = ''20'', ps_leverage = ''3'',
     ps_unrealized_pnl = ''1.5'', ps_fees_paid = ''0.06'', ps_opened_at = None, ps_closes_at = None,
     ps_max_loss = None, ps_stop_pnl = None, ps_take_profit = None, ps_tp_pnl = None,
     ps_liquidation_price = None, ps_strategy = strategy\<rparr>"

lemmas sample_defs = sample_limits_def sample_state_def sample_market_def sample_position_def

end
