(* ===== verification/Settings.thy ===== *)
theory Settings
  imports Storage Wire "HOL-Library.AList"
begin

text \<open>
  The standard position (trading/useSettings.tsx, trading/settings-store.ts):
  the size and leverage every tap opens with, the bounds the platform's policy
  and the venue put on them, and the provider that keeps the two in step. The
  bounds are read from the wire by \<open>read_bounds\<close>; \<open>clamp\<close> brings a position
  inside them and is a projection; the provider is a machine whose settings
  are inside the bounds whenever both are known.
\<close>

section \<open>The position and its bounds\<close>

record position_settings =
  se_size :: jsnum
  se_leverage :: jsnum
  se_leverage_by :: "(string \<times> jsnum) list option"
  se_stop_on :: bool
  se_stop_percent :: jsnum
  se_tp_on :: bool
  se_tp_percent :: jsnum
  se_horizon :: jsnum

text \<open>\<open>Partial<PositionSettings>\<close>: a change, and what may be stored.\<close>

record settings_change =
  ch_size :: "jsnum option"
  ch_leverage :: "jsnum option"
  ch_leverage_by :: "(string \<times> jsnum) list option"
  ch_stop_on :: "bool option"
  ch_stop_percent :: "jsnum option"
  ch_tp_on :: "bool option"
  ch_tp_percent :: "jsnum option"
  ch_horizon :: "jsnum option"

definition or_else :: "'a option \<Rightarrow> 'a \<Rightarrow> 'a" where
  "or_else v d = (case v of None \<Rightarrow> d | Some x \<Rightarrow> x)"

lemma or_else_simps [simp]: "or_else None d = d" "or_else (Some x) d = x"
  by (simp_all add: or_else_def)

definition spread :: "position_settings \<Rightarrow> settings_change \<Rightarrow> position_settings" where
  "spread s c =
     \<lparr>se_size = or_else (ch_size c) (se_size s),
      se_leverage = or_else (ch_leverage c) (se_leverage s),
      se_leverage_by = (case ch_leverage_by c of None \<Rightarrow> se_leverage_by s | Some m \<Rightarrow> Some m),
      se_stop_on = or_else (ch_stop_on c) (se_stop_on s),
      se_stop_percent = or_else (ch_stop_percent c) (se_stop_percent s),
      se_tp_on = or_else (ch_tp_on c) (se_tp_on s),
      se_tp_percent = or_else (ch_tp_percent c) (se_tp_percent s),
      se_horizon = or_else (ch_horizon c) (se_horizon s)\<rparr>"

definition no_settings_change :: settings_change where
  "no_settings_change = \<lparr>ch_size = None, ch_leverage = None, ch_leverage_by = None, ch_stop_on = None,
     ch_stop_percent = None, ch_tp_on = None, ch_tp_percent = None, ch_horizon = None\<rparr>"

definition whole_settings :: "position_settings \<Rightarrow> settings_change" where
  "whole_settings s = \<lparr>ch_size = Some (se_size s), ch_leverage = Some (se_leverage s),
     ch_leverage_by = se_leverage_by s, ch_stop_on = Some (se_stop_on s),
     ch_stop_percent = Some (se_stop_percent s), ch_tp_on = Some (se_tp_on s),
     ch_tp_percent = Some (se_tp_percent s), ch_horizon = Some (se_horizon s)\<rparr>"

definition default_settings :: position_settings where
  "default_settings = \<lparr>se_size = 20, se_leverage = 2, se_leverage_by = None, se_stop_on = False,
     se_stop_percent = 50, se_tp_on = False, se_tp_percent = 50, se_horizon = 15\<rparr>"

lemma spread_whole [simp]: "spread default_settings (whole_settings s) = s"
  by (simp add: spread_def whole_settings_def default_settings_def split: option.splits)

definition load_settings :: "settings_change place \<Rightarrow> settings_change option" where
  "load_settings = load_doc"

definition save_settings :: "position_settings \<Rightarrow> settings_change place \<Rightarrow> settings_change place" where
  "save_settings s = quietly (set_item (Doc (whole_settings s)))"

interpretation stored_settings:
  slot "\<lambda>p. map_option (spread default_settings) (load_settings p)" save_settings storage_works
  by unfold_locales (simp_all add: load_settings_def save_settings_def)

record position_bounds =
  bo_min_size :: jsnum
  bo_max_notional :: jsnum
  bo_balance :: jsnum
  bo_max_leverage :: jsnum
  bo_market_max :: "(string \<times> jsnum) list"
  bo_open_fee :: jsnum
  bo_known :: bool

definition fallback_bounds :: position_bounds where
  "fallback_bounds = \<lparr>bo_min_size = 5, bo_max_notional = 50, bo_balance = 0, bo_max_leverage = 3,
     bo_market_max = [], bo_open_fee = 0, bo_known = False\<rparr>"

definition default_stake :: jsnum where "default_stake = 100"

definition default_symbol :: string where "default_symbol = ''MON''"

section \<open>What a market and a wallet can carry\<close>

definition max_leverage_for :: "position_bounds \<Rightarrow> string \<Rightarrow> jsnum" where
  "max_leverage_for b mkt =
     math_max 1 (math_min (bo_max_leverage b)
       (case map_of (bo_market_max b) (upper mkt) of
          Some own \<Rightarrow> if truthy own \<and> own > 0 then own else bo_max_leverage b
        | None \<Rightarrow> bo_max_leverage b))"

definition leverage_for :: "position_settings \<Rightarrow> position_bounds \<Rightarrow> string \<Rightarrow> jsnum" where
  "leverage_for s b mkt =
     (let set = or_else (map_of (or_else (se_leverage_by s) []) (upper mkt)) (se_leverage s)
      in math_min (max_leverage_for b mkt) (math_max 1 set))"

definition fill_room :: jsnum where "fill_room = Num (1/100)"

definition max_size_for :: "position_bounds \<Rightarrow> jsnum \<Rightarrow> jsnum" where
  "max_size_for b leverage =
     (let lev = math_max 1 leverage;
          backed = (bo_balance b * (1 - fill_room) * lev) / (1 + bo_open_fee b * lev);
          cap = if backed > 0 then math_min (bo_max_notional b) backed else bo_max_notional b
      in math_max (bo_min_size b) (math_floor cap))"

definition standard_position :: "position_bounds \<Rightarrow> settings_change" where
  "standard_position b =
     (let leverage = max_leverage_for b default_symbol
      in no_settings_change\<lparr>ch_leverage := Some leverage,
           ch_size := Some (math_min (max_size_for b leverage) (default_stake * leverage))\<rparr>)"

text \<open>Bringing a position inside the bounds. The markets are visited in the
  order they were set; a symbol met again overwrites.\<close>

definition clamp_markets :: "position_bounds \<Rightarrow> (string \<times> jsnum) list \<Rightarrow> (string \<times> jsnum) list" where
  "clamp_markets b entries = foldl (\<lambda>acc (mkt, lev).
     if is_finite lev \<and> lev > 0
     then AList.update (upper mkt) (math_min (max_leverage_for b mkt) (math_max 1 lev)) acc
     else acc) [] entries"

definition most_leverage :: "jsnum \<Rightarrow> (string \<times> jsnum) list \<Rightarrow> jsnum" where
  "most_leverage leverage by_symbol = math_max_list (leverage # List.map snd by_symbol)"

definition clamp :: "position_bounds \<Rightarrow> position_settings \<Rightarrow> position_settings" where
  "clamp b s =
     (let leverage = math_min (max_leverage_for b default_symbol) (math_max 1 (se_leverage s));
          by_symbol = clamp_markets b (or_else (se_leverage_by s) []);
          most = most_leverage leverage by_symbol
      in s\<lparr>se_leverage := leverage,
           se_leverage_by := Some by_symbol,
           se_size := math_min (max_size_for b most) (math_max (bo_min_size b) (se_size s))\<rparr>)"

section \<open>What a tap puts in, can lose and can win\<close>

definition own_stake :: "position_settings \<Rightarrow> jsnum" where
  "own_stake s = se_size s / math_max 1 (se_leverage s)"

definition at_risk :: "position_settings \<Rightarrow> jsnum" where
  "at_risk s = (let stake = own_stake s in
     if se_stop_on s then (stake * se_stop_percent s) / 100 else stake)"

definition possible_win :: "position_settings \<Rightarrow> jsnum option" where
  "possible_win s = (if se_tp_on s then Some ((own_stake s * se_tp_percent s) / 100) else None)"

definition max_loss_fraction :: "position_settings \<Rightarrow> string" where
  "max_loss_fraction s = (if se_stop_on s then to_fixed (se_stop_percent s / 100) 4 else ''0'')"

definition take_profit_fraction :: "position_settings \<Rightarrow> string" where
  "take_profit_fraction s = (if se_tp_on s then to_fixed (se_tp_percent s / 100) 4 else ''0'')"

section \<open>Reading the bounds\<close>

text \<open>The answers of the two calls of \<open>refresh\<close>: the state may fail, and then
  nothing changes; the markets may fail, and then there are none.\<close>

definition market_ceilings :: "market list \<Rightarrow> (string \<times> jsnum) list" where
  "market_ceilings markets = foldl (\<lambda>acc m.
     let own = js_number (mk_max_leverage m) in
     if is_finite own \<and> own > 0 then AList.update (upper (mk_symbol m)) own acc else acc) [] markets"

definition open_fee_of :: "fees option \<Rightarrow> jsnum" where
  "open_fee_of fees = (case fees of
     Some f \<Rightarrow> js_number (if fe_charged_on f = OpenOnly then fe_round_trip_taker f else fe_taker_rate f)
                + js_number (fe_builder_rate f)
   | None \<Rightarrow> 0)"

definition read_bounds :: "platform_state \<Rightarrow> market list \<Rightarrow> position_bounds" where
  "read_bounds s markets =
     (let home = List.find (\<lambda>m. mk_symbol m = default_symbol) markets;
          max_leverage = js_number (lm_max_leverage (pf_limits s));
          open_fee = open_fee_of (map_option mk_fees home)
      in \<lparr>bo_min_size = js_number (lm_min_notional (pf_limits s)),
          bo_max_notional = js_number (lm_max_notional (pf_limits s)),
          bo_balance = js_number (ac_balance (pf_account s)),
          bo_max_leverage = (if is_finite max_leverage \<and> max_leverage > 0 then max_leverage
                             else bo_max_leverage fallback_bounds),
          bo_market_max = market_ceilings markets,
          bo_open_fee = (if is_finite open_fee then open_fee else 0),
          bo_known = True\<rparr>)"

section \<open>The provider\<close>

record settings_provider =
  sp_ready :: bool
  sp_settings :: position_settings
  sp_bounds :: position_bounds
  sp_unset :: bool
  sp_store :: "settings_change place"

datatype settings_event =
    StoredRead "settings_change option"
  | BoundsRead "(unit + platform_state)" "(unit + market list)"
  | Updated settings_change
  | LeverageSet string jsnum

definition start_settings :: "settings_change place \<Rightarrow> settings_provider" where
  "start_settings store = \<lparr>sp_ready = False, sp_settings = default_settings,
     sp_bounds = fallback_bounds, sp_unset = False, sp_store = store\<rparr>"

text \<open>The effect that proposes the first position and brings a stored one
  inside: it runs when ready, the bounds or unset change, so once more after
  it has cleared unset itself.\<close>

definition settle_once :: "settings_provider \<Rightarrow> settings_provider" where
  "settle_once st =
     (if \<not> sp_ready st \<or> \<not> bo_known (sp_bounds st) then st else
      let current = sp_settings st;
          next = clamp (sp_bounds st)
            (if sp_unset st then spread current (standard_position (sp_bounds st)) else current);
          same = num_eq (se_size next) (se_size current) \<and> num_eq (se_leverage next) (se_leverage current)
      in st\<lparr>sp_settings := (if same then current else next),
            sp_store := (if same then sp_store st else save_settings next (sp_store st)),
            sp_unset := False\<rparr>)"

definition settle_settings :: "settings_provider \<Rightarrow> settings_provider" where
  "settle_settings st = (let st1 = settle_once st in
     if sp_unset st \<and> \<not> sp_unset st1 then settle_once st1 else st1)"

definition set_settings :: "position_settings \<Rightarrow> settings_provider \<Rightarrow> settings_provider" where
  "set_settings next st = st\<lparr>sp_settings := next, sp_store := save_settings next (sp_store st)\<rparr>"

fun settings_step :: "settings_provider \<Rightarrow> settings_event \<Rightarrow> settings_provider" where
  "settings_step st (StoredRead stored) = settle_settings
     (st\<lparr>sp_settings := (case stored of Some d \<Rightarrow> spread default_settings d | None \<Rightarrow> default_settings),
         sp_unset := (stored = None), sp_ready := True\<rparr>)"
| "settings_step st (BoundsRead (Inl _) _) = st"
| "settings_step st (BoundsRead (Inr s) markets) = settle_settings
     (st\<lparr>sp_bounds := read_bounds s (case markets of Inl _ \<Rightarrow> [] | Inr ms \<Rightarrow> ms)\<rparr>)"
| "settings_step st (Updated change) =
     set_settings (clamp (sp_bounds st) (spread (sp_settings st) change)) st"
| "settings_step st (LeverageSet mkt leverage) =
     (let key = upper mkt;
          lev = math_min (max_leverage_for (sp_bounds st) key) (math_max 1 (math_round leverage));
          current = sp_settings st
      in set_settings (clamp (sp_bounds st)
           (current\<lparr>se_leverage_by := Some (AList.update key lev (or_else (se_leverage_by current) []))\<rparr>)) st)"

definition for_market :: "settings_provider \<Rightarrow> string \<Rightarrow> position_settings" where
  "for_market st mkt = (sp_settings st)\<lparr>se_leverage := leverage_for (sp_settings st) (sp_bounds st) mkt\<rparr>"

section \<open>Inside the bounds\<close>

definition bounds_ok :: "position_bounds \<Rightarrow> bool" where
  "bounds_ok b \<longleftrightarrow> is_finite (bo_min_size b) \<and> is_finite (bo_max_notional b) \<and> is_finite (bo_balance b) \<and>
     is_finite (bo_max_leverage b) \<and> is_finite (bo_open_fee b) \<and> 0 \<le> bo_open_fee b \<and>
     list_all (\<lambda>(k, v). is_finite v \<and> v > 0) (bo_market_max b)"

definition sane :: "position_settings \<Rightarrow> bool" where
  "sane s \<longleftrightarrow> is_finite (se_size s) \<and> is_finite (se_leverage s)"

definition markets_inside :: "position_bounds \<Rightarrow> (string \<times> jsnum) list \<Rightarrow> bool" where
  "markets_inside b al \<longleftrightarrow> distinct (List.map fst al) \<and>
     list_all (\<lambda>(k, v). k = upper k \<and> is_finite v \<and> 1 \<le> v \<and> v \<le> max_leverage_for b k) al"

definition inside :: "position_bounds \<Rightarrow> position_settings \<Rightarrow> bool" where
  "inside b s \<longleftrightarrow> bounds_ok b \<and> is_finite (se_leverage s) \<and>
     1 \<le> se_leverage s \<and> se_leverage s \<le> max_leverage_for b default_symbol \<and>
     (case se_leverage_by s of None \<Rightarrow> False | Some al \<Rightarrow>
        markets_inside b al \<and> is_finite (se_size s) \<and> bo_min_size b \<le> se_size s \<and>
        se_size s \<le> max_size_for b (most_leverage (se_leverage s) al))"

lemma is_finite_Num: "is_finite x \<longleftrightarrow> (\<exists>q. x = Num q)"
  by (cases x) auto

lemma cap_Num:
  assumes "bounds_ok b"
  shows "\<exists>c. max_leverage_for b m = Num c \<and> 1 \<le> c"
proof -
  obtain q where q: "bo_max_leverage b = Num q" using assms by (auto simp: bounds_ok_def is_finite_Num)
  show ?thesis
  proof (cases "map_of (bo_market_max b) (upper m)")
    case None
    then show ?thesis by (simp add: max_leverage_for_def q one_Num)
  next
    case (Some v)
    then have "is_finite v" using assms by (auto simp: bounds_ok_def list_all_iff dest!: map_of_SomeD)
    then show ?thesis using Some by (auto simp: max_leverage_for_def q one_Num is_finite_Num)
  qed
qed

lemma cap_upper [simp]: "max_leverage_for b (upper m) = max_leverage_for b m"
  by (simp add: max_leverage_for_def)

lemma set_update_sub: "(k', v') \<in> set (AList.update k v al) \<Longrightarrow> (k', v') = (k, v) \<or> (k', v') \<in> set al"
  by (induction al) (auto split: if_splits)

lemma update_new: "k \<notin> fst ` set al \<Longrightarrow> AList.update k v al = al @ [(k, v)]"
  by (induction al) auto

lemma bounded_leverage:
  assumes "bounds_ok b" and "is_finite lev"
  shows "is_finite (math_min (max_leverage_for b m) (math_max 1 lev)) \<and>
    1 \<le> math_min (max_leverage_for b m) (math_max 1 lev) \<and>
    math_min (max_leverage_for b m) (math_max 1 lev) \<le> max_leverage_for b m"
  using cap_Num[OF assms(1), of m] assms(2) by (auto simp: is_finite_Num one_Num)

lemma markets_inside_update:
  assumes "bounds_ok b" "markets_inside b al" "is_finite lev"
  shows "markets_inside b (AList.update (upper m) (math_min (max_leverage_for b m) (math_max 1 lev)) al)"
  using assms(2) bounded_leverage[OF assms(1,3), of m]
  by (auto simp: markets_inside_def list_all_iff distinct_update dest!: set_update_sub)

lemma clamp_markets_inside:
  assumes "bounds_ok b"
  shows "markets_inside b (clamp_markets b entries)"
proof -
  have "markets_inside b acc \<Longrightarrow> markets_inside b (foldl (\<lambda>acc (m, lev).
     if is_finite lev \<and> lev > 0
     then AList.update (upper m) (math_min (max_leverage_for b m) (math_max 1 lev)) acc
     else acc) acc entries)" for acc
    by (induction entries arbitrary: acc) (simp_all add: markets_inside_update[OF assms] split: prod.split)
  moreover have "markets_inside b []" by (simp add: markets_inside_def)
  ultimately show ?thesis by (simp add: clamp_markets_def)
qed

lemma within_fixed: "Num 1 \<le> x \<Longrightarrow> x \<le> c \<Longrightarrow> is_finite x \<Longrightarrow> is_finite c \<Longrightarrow> math_min c (math_max 1 x) = x"
  by (auto simp: is_finite_Num one_Num)

lemma clamp_markets_fixed:
  assumes ok: "bounds_ok b" and al: "markets_inside b al"
  shows "clamp_markets b al = al"
proof -
  let ?f = "\<lambda>acc (m, lev).
     if is_finite lev \<and> lev > 0
     then AList.update (upper m) (math_min (max_leverage_for b m) (math_max 1 lev)) acc
     else acc"
  have "foldl ?f acc xs = acc @ xs"
    if "markets_inside b xs" "fst ` set xs \<inter> fst ` set acc = {}" for acc xs
    using that
  proof (induction xs arbitrary: acc)
    case (Cons x xs)
    obtain k v where x: "x = (k, v)" by (cases x)
    have k: "upper k = k" and v: "is_finite v" "1 \<le> v" "v \<le> max_leverage_for b k"
      and d: "k \<notin> fst ` set xs" and rest: "markets_inside b xs"
      using Cons.prems(1) by (auto simp: x markets_inside_def)
    have fixed: "math_min (max_leverage_for b k) (math_max 1 v) = v"
      using v cap_Num[OF ok, of k] by (intro within_fixed) (auto simp: one_Num is_finite_Num)
    have pos: "v > 0" using v by (auto simp: is_finite_Num one_Num zero_Num)
    have "?f acc x = acc @ [x]"
      using Cons.prems(2) by (simp add: x k fixed pos v update_new)
    moreover have "fst ` set xs \<inter> fst ` set (acc @ [x]) = {}" using Cons.prems(2) d by (auto simp: x)
    ultimately show ?case using Cons.IH[OF rest, of "acc @ [x]"] by simp
  qed simp
  from this[OF al, of "[]"] show ?thesis by (simp add: clamp_markets_def)
qed

lemma most_Num:
  assumes "is_finite lev" "1 \<le> lev" "markets_inside b al"
  shows "\<exists>q. most_leverage lev al = Num q \<and> 1 \<le> q \<and> lev \<le> Num q \<and> (\<forall>v \<in> snd ` set al. v \<le> Num q)"
proof -
  obtain l where l: "lev = Num l" using assms(1) by (auto simp: is_finite_Num)
  have fin: "\<forall>v \<in> snd ` set al. is_finite v" using assms(3) by (auto simp: markets_inside_def list_all_iff)
  define qs where "qs = List.map the_num (List.map snd al)"
  have qs: "List.map snd al = List.map Num qs"
    using fin by (auto simp: qs_def is_finite_Num)
  have "most_leverage lev al = Num (foldl max l qs)"
    by (simp only: most_leverage_def l qs math_max_list_Num)
  moreover have "v \<le> Num (foldl max l qs)" if "v \<in> snd ` set al" for v
  proof -
    have "v \<in> set (List.map Num qs)" using that by (simp flip: qs)
    then show ?thesis using foldl_max_ge(2)[of _ qs l] by auto
  qed
  moreover have "l \<le> foldl max l qs" by (rule foldl_max_ge)
  moreover have "1 \<le> l" using assms(2) by (simp add: l one_Num)
  ultimately show ?thesis by (auto simp: l intro: order_trans)
qed

lemma max_size_Num:
  assumes "bounds_ok b"
  shows "\<exists>q. max_size_for b (Num lev) = Num q \<and> bo_min_size b \<le> Num q"
proof -
  obtain m n bal f where eqs: "bo_min_size b = Num m" "bo_max_notional b = Num n" "bo_balance b = Num bal"
    "bo_open_fee b = Num f" and f: "0 \<le> f"
    using assms by (auto simp: bounds_ok_def is_finite_Num zero_Num)
  have "0 \<le> f * max 1 lev" using f by (intro mult_nonneg_nonneg) auto
  then have pos: "1 + f * max 1 lev > 0" by linarith
  then show ?thesis
    by (simp add: max_size_for_def eqs fill_room_def one_Num zero_Num Let_def)
qed

lemma clamp_inside:
  assumes ok: "bounds_ok b" and s: "sane s"
  shows "inside b (clamp b s)"
proof -
  let ?lev = "math_min (max_leverage_for b default_symbol) (math_max 1 (se_leverage s))"
  let ?al = "clamp_markets b (or_else (se_leverage_by s) [])"
  have lev: "is_finite ?lev" "1 \<le> ?lev" "?lev \<le> max_leverage_for b default_symbol"
    using bounded_leverage[OF ok] s by (auto simp: sane_def)
  have al: "markets_inside b ?al" by (rule clamp_markets_inside[OF ok])
  obtain q where q: "most_leverage ?lev ?al = Num q" using most_Num[OF lev(1,2) al] by blast
  obtain z m where z: "max_size_for b (Num q) = Num z" and m: "bo_min_size b = Num m" and mz: "m \<le> z"
    using max_size_Num[OF ok, of q] ok by (auto simp: bounds_ok_def is_finite_Num)
  obtain k where k: "se_size s = Num k" using s by (auto simp: sane_def is_finite_Num)
  show ?thesis using ok lev al mz
    by (simp add: inside_def clamp_def Let_def q z k m)
qed

lemma inside_clamp:
  assumes "inside b s"
  shows "clamp b s = s"
proof -
  obtain al where al: "se_leverage_by s = Some al" and ok: "bounds_ok b" and mi: "markets_inside b al"
    and lev: "is_finite (se_leverage s)" "1 \<le> se_leverage s" "se_leverage s \<le> max_leverage_for b default_symbol"
    and size: "is_finite (se_size s)" "bo_min_size b \<le> se_size s" "se_size s \<le> max_size_for b (most_leverage (se_leverage s) al)"
    using assms by (auto simp: inside_def split: option.splits)
  have 1: "math_min (max_leverage_for b default_symbol) (math_max 1 (se_leverage s)) = se_leverage s"
    using lev cap_Num[OF ok, of default_symbol] by (intro within_fixed) (auto simp: one_Num is_finite_Num)
  obtain q where q: "most_leverage (se_leverage s) al = Num q" using most_Num[OF lev(1,2) mi] by blast
  obtain z m where z: "max_size_for b (Num q) = Num z" and m: "bo_min_size b = Num m"
    using max_size_Num[OF ok, of q] ok by (auto simp: bounds_ok_def is_finite_Num)
  have 2: "math_min (max_size_for b (Num q)) (math_max (bo_min_size b) (se_size s)) = se_size s"
    using size by (auto simp: z m q is_finite_Num)
  show ?thesis
    by (rule position_settings.equality) (simp_all add: clamp_def Let_def al 1 clamp_markets_fixed[OF ok mi] q 2)
qed

interpretation clamping: projection "clamp b" "inside b" "\<lambda>s. bounds_ok b \<and> sane s" for b :: position_bounds
  by unfold_locales (auto intro: clamp_inside inside_clamp)

lemma clamp_backed:
  assumes ok: "bounds_ok b" and s: "sane s"
    and above: "bo_min_size b < se_size (clamp b s)" and bal: "0 < bo_balance b"
  shows "se_size (clamp b s) \<le> bo_max_notional b"
    and "se_size (clamp b s) / most_leverage (se_leverage (clamp b s)) (or_else (se_leverage_by (clamp b s)) [])
           + bo_open_fee b * se_size (clamp b s) \<le> bo_balance b * (1 - fill_room)"
proof -
  let ?t = "clamp b s"
  obtain al where al: "se_leverage_by ?t = Some al" and mi: "markets_inside b al"
    and lev: "is_finite (se_leverage ?t)" "1 \<le> se_leverage ?t" and fin: "is_finite (se_size ?t)"
    and size: "se_size ?t \<le> max_size_for b (most_leverage (se_leverage ?t) al)"
    using clamp_inside[OF ok s] by (auto simp: inside_def split: option.splits)
  obtain q where q: "most_leverage (se_leverage ?t) al = Num q" and q1: "1 \<le> q" using most_Num[OF lev mi] by blast
  obtain k where k: "se_size ?t = Num k" using fin by (auto simp: is_finite_Num)
  obtain m n B f where eqs: "bo_min_size b = Num m" "bo_max_notional b = Num n" "bo_balance b = Num B"
    "bo_open_fee b = Num f" and f: "0 \<le> f" and B: "0 < B"
    using ok bal by (auto simp: bounds_ok_def is_finite_Num zero_Num)
  define backed where "backed = B * (99/100) * q / (1 + f * q)"
  have fq: "0 \<le> f * q" using f q1 by (intro mult_nonneg_nonneg) auto
  then have den: "0 < 1 + f * q" by linarith
  have backed_pos: "0 < backed" using B q1 den by (simp add: backed_def)
  have q0: "0 < q" using q1 by simp
  have lq: "max 1 q = q" using q1 by simp
  have nz: "1 + f * q \<noteq> 0" using den by simp
  have ms: "max_size_for b (Num q) = Num (max m (of_int \<lfloor>min n backed\<rfloor>))"
    using backed_pos nz
    by (simp add: max_size_for_def eqs fill_room_def one_Num zero_Num Let_def lq backed_def)
  have "m < k" using above by (simp add: eqs k)
  moreover have "k \<le> max m (of_int \<lfloor>min n backed\<rfloor>)" using size by (simp add: q ms k)
  ultimately have "k \<le> of_int \<lfloor>min n backed\<rfloor>" by simp
  also have "\<dots> \<le> min n backed" by (rule of_int_floor_le)
  finally have kn: "k \<le> n" and kb: "k \<le> backed" by simp_all
  show "se_size ?t \<le> bo_max_notional b" using kn by (simp add: k eqs)
  have "k * (1 + f * q) \<le> B * (99/100) * q"
    using kb unfolding backed_def by (simp only: pos_le_divide_eq [OF den])
  then have "k * (1 + f * q) / q \<le> B * (99/100)" by (simp only: pos_divide_le_eq [OF q0])
  moreover have "k * (1 + f * q) / q = k / q + f * k" using q1 by (simp add: field_simps)
  ultimately have "k / q + f * k \<le> B * (99/100)" by simp
  then show "se_size ?t / most_leverage (se_leverage ?t) (or_else (se_leverage_by ?t) [])
           + bo_open_fee b * se_size ?t \<le> bo_balance b * (1 - fill_room)"
    using q1 by (simp add: al q k eqs fill_room_def one_Num)
qed

section \<open>The provider keeps the settings inside\<close>

definition markets_finite :: "position_settings \<Rightarrow> bool" where
  "markets_finite s \<longleftrightarrow> list_all (\<lambda>(k, v). is_finite v) (or_else (se_leverage_by s) [])"

text \<open>Settings the effect would leave as they are.\<close>

definition held :: "position_bounds \<Rightarrow> position_settings \<Rightarrow> bool" where
  "held b s \<longleftrightarrow> se_size (clamp b s) = se_size s \<and> se_leverage (clamp b s) = se_leverage s"

definition settings_ok :: "settings_provider \<Rightarrow> bool" where
  "settings_ok st \<longleftrightarrow> sane (sp_settings st) \<and> markets_finite (sp_settings st) \<and> bounds_ok (sp_bounds st) \<and>
     (sp_ready st \<and> bo_known (sp_bounds st) \<longrightarrow> \<not> sp_unset st \<and> held (sp_bounds st) (sp_settings st))"

text \<open>What the outside world may send: numbers that are numbers, and a venue
  that does not pay for opening.\<close>

definition change_ok :: "settings_change \<Rightarrow> bool" where
  "change_ok c \<longleftrightarrow> pred_option is_finite (ch_size c) \<and> pred_option is_finite (ch_leverage c) \<and>
     pred_option (list_all (\<lambda>(k, v). is_finite v)) (ch_leverage_by c)"

definition wire_ok :: "platform_state \<Rightarrow> market list \<Rightarrow> bool" where
  "wire_ok s ms \<longleftrightarrow> is_finite (js_number (lm_min_notional (pf_limits s))) \<and>
     is_finite (js_number (lm_max_notional (pf_limits s))) \<and>
     is_finite (js_number (ac_balance (pf_account s))) \<and> 0 \<le> bo_open_fee (read_bounds s ms)"

definition markets_read :: "unit + market list \<Rightarrow> market list" where
  "markets_read r = (case r of Inl _ \<Rightarrow> [] | Inr ms \<Rightarrow> ms)"

fun event_ok :: "settings_event \<Rightarrow> bool" where
  "event_ok (StoredRead stored) = pred_option change_ok stored"
| "event_ok (BoundsRead (Inl _) _) = True"
| "event_ok (BoundsRead (Inr s) ms) = wire_ok s (markets_read ms)"
| "event_ok (Updated c) = change_ok c"
| "event_ok (LeverageSet m lev) = is_finite lev"

lemma list_all_update: "list_all P al \<Longrightarrow> P (k, v) \<Longrightarrow> list_all P (AList.update k v al)"
  by (induction al) auto

lemma or_else_finite: "is_finite d \<Longrightarrow> pred_option is_finite v \<Longrightarrow> is_finite (or_else v d)"
  by (cases v) auto

lemma market_ceilings_ok: "list_all (\<lambda>(k, v). is_finite v \<and> v > 0) (market_ceilings ms)"
proof -
  have "list_all (\<lambda>(k, v). is_finite v \<and> v > 0) acc \<Longrightarrow>
    list_all (\<lambda>(k, v). is_finite v \<and> v > 0) (foldl (\<lambda>acc m.
     let own = js_number (mk_max_leverage m) in
     if is_finite own \<and> own > 0 then AList.update (upper (mk_symbol m)) own acc else acc) acc ms)" for acc
    by (induction ms arbitrary: acc) (simp_all add: Let_def list_all_update)
  then show ?thesis by (simp add: market_ceilings_def)
qed

lemma read_bounds_ok: "wire_ok s ms \<Longrightarrow> bounds_ok (read_bounds s ms)"
  using market_ceilings_ok[of ms]
  by (simp add: wire_ok_def bounds_ok_def read_bounds_def Let_def fallback_bounds_def js_eval)

lemma clamp_sane:
  assumes "bounds_ok b" "sane s"
  shows "sane (clamp b s)" "markets_finite (clamp b s)" "held b (clamp b s)"
proof -
  have i: "inside b (clamp b s)" by (rule clamp_inside[OF assms])
  then show "sane (clamp b s)" "markets_finite (clamp b s)"
    by (auto simp: inside_def sane_def markets_finite_def markets_inside_def list_all_iff split: option.splits)
  show "held b (clamp b s)" by (simp add: held_def inside_clamp[OF i])
qed

lemma spread_sane:
  assumes "sane s" "markets_finite s" "change_ok c"
  shows "sane (spread s c)" "markets_finite (spread s c)"
  using assms
  by (auto simp: sane_def markets_finite_def change_ok_def spread_def or_else_finite split: option.splits)

lemma standard_change_ok:
  assumes "bounds_ok b"
  shows "change_ok (standard_position b)"
proof -
  obtain c where c: "max_leverage_for b default_symbol = Num c" using cap_Num[OF assms] by blast
  obtain z where "max_size_for b (Num c) = Num z" using max_size_Num[OF assms] by blast
  then show ?thesis
    by (simp add: change_ok_def standard_position_def no_settings_change_def c default_stake_def numeral_Num)
qed

lemma num_eq_finite: "is_finite x \<Longrightarrow> num_eq x y \<longleftrightarrow> x = y"
  by (auto simp: num_eq_def)

lemma settle_once_ok:
  assumes "sane (sp_settings st)" "markets_finite (sp_settings st)" "bounds_ok (sp_bounds st)"
  shows "sane (sp_settings (settle_once st)) \<and> markets_finite (sp_settings (settle_once st)) \<and>
    bounds_ok (sp_bounds (settle_once st)) \<and> sp_ready (settle_once st) = sp_ready st \<and>
    sp_bounds (settle_once st) = sp_bounds st \<and>
    (sp_ready st \<and> bo_known (sp_bounds st) \<longrightarrow> \<not> sp_unset (settle_once st) \<and>
       (\<not> sp_unset st \<longrightarrow> held (sp_bounds st) (sp_settings (settle_once st))))"
proof -
  let ?b = "sp_bounds st" and ?s = "sp_settings st"
  let ?c = "if sp_unset st then spread ?s (standard_position ?b) else ?s"
  have c: "sane ?c" "markets_finite ?c"
    using spread_sane[OF assms(1,2) standard_change_ok[OF assms(3)]] assms by auto
  note k = clamp_sane[OF assms(3) c(1)]
  have eq: "num_eq (se_size (clamp ?b ?s)) (se_size ?s) \<and> num_eq (se_leverage (clamp ?b ?s)) (se_leverage ?s)
      \<longleftrightarrow> held ?b ?s"
    using clamp_sane(1)[OF assms(3,1)] by (simp add: held_def sane_def num_eq_finite)
  show ?thesis
    using assms k eq unfolding settle_once_def Let_def by (auto simp: save_settings_def)
qed

lemma settle_settings_ok:
  assumes "sane (sp_settings st)" "markets_finite (sp_settings st)" "bounds_ok (sp_bounds st)"
  shows "settings_ok (settle_settings st)"
proof -
  note one = settle_once_ok[OF assms]
  then have "sane (sp_settings (settle_once st))" "markets_finite (sp_settings (settle_once st))"
    "bounds_ok (sp_bounds (settle_once st))" by blast+
  note two = settle_once_ok[OF this]
  show ?thesis
    using one two by (auto simp: settings_ok_def settle_settings_def Let_def)
qed

lemma set_clamped_ok:
  assumes "settings_ok st" "sane s"
  shows "settings_ok (set_settings (clamp (sp_bounds st) s) st)"
  using assms clamp_sane[of "sp_bounds st" s] by (auto simp: settings_ok_def set_settings_def)

lemma settings_step_ok:
  assumes "settings_ok st" "event_ok e"
  shows "settings_ok (settings_step st e)"
proof (cases e)
  case (StoredRead stored)
  have d: "sane default_settings" "markets_finite default_settings"
    by (simp_all add: sane_def markets_finite_def default_settings_def numeral_Num)
  let ?s = "case stored of Some d \<Rightarrow> spread default_settings d | None \<Rightarrow> default_settings"
  have "sane ?s \<and> markets_finite ?s"
    using assms(2) d spread_sane[OF d] by (auto simp: StoredRead split: option.splits)
  then show ?thesis using assms(1) unfolding StoredRead settings_step.simps
    by (intro settle_settings_ok) (auto simp: settings_ok_def)
next
  case (BoundsRead r ms)
  show ?thesis
  proof (cases r)
    case (Inr s)
    then have "bounds_ok (read_bounds s (markets_read ms))" using assms(2) by (simp add: BoundsRead read_bounds_ok)
    then show ?thesis using assms(1) unfolding BoundsRead Inr settings_step.simps
      by (intro settle_settings_ok) (auto simp: settings_ok_def markets_read_def)
  qed (use assms in \<open>simp add: BoundsRead\<close>)
next
  case (Updated c)
  have "sane (spread (sp_settings st) c)"
    using assms spread_sane(1) by (auto simp: Updated settings_ok_def)
  with assms(1) show ?thesis by (simp add: Updated set_clamped_ok)
next
  case (LeverageSet m lev)
  have "sane ((sp_settings st)\<lparr>se_leverage_by := v\<rparr>)" for v
    using assms(1) by (simp add: settings_ok_def sane_def)
  with assms(1) show ?thesis by (simp add: LeverageSet Let_def set_clamped_ok)
qed

interpretation provider: guarded_machine settings_step event_ok settings_ok
  by unfold_locales (rule settings_step_ok)

lemma start_settings_ok: "settings_ok (start_settings store)"
  by (simp add: settings_ok_def start_settings_def sane_def markets_finite_def default_settings_def
      fallback_bounds_def bounds_ok_def js_eval)


lemma clamp_by [simp]:
  "se_leverage_by (clamp b s) = Some (clamp_markets b (or_else (se_leverage_by s) []))"
  by (simp add: clamp_def Let_def)

lemma held_inside:
  assumes "bounds_ok b" "sane s" "held b s"
  shows "1 \<le> se_leverage s \<and> se_leverage s \<le> max_leverage_for b default_symbol \<and>
    bo_min_size b \<le> se_size s \<and>
    se_size s \<le> max_size_for b (most_leverage (se_leverage s) (clamp_markets b (or_else (se_leverage_by s) [])))"
  using clamp_inside[OF assms(1,2)] assms(3) by (simp add: inside_def held_def)

lemma leverage_for_bounded:
  assumes "bounds_ok b" "sane s" "markets_finite s"
  shows "1 \<le> leverage_for s b m \<and> leverage_for s b m \<le> max_leverage_for b m"
proof -
  let ?v = "or_else (map_of (or_else (se_leverage_by s) []) (upper m)) (se_leverage s)"
  have "is_finite ?v"
  proof (cases "map_of (or_else (se_leverage_by s) []) (upper m)")
    case (Some v)
    with assms(3) show ?thesis by (auto simp: markets_finite_def list_all_iff dest: map_of_SomeD)
  qed (use assms(2) in \<open>simp add: sane_def\<close>)
  from bounded_leverage[OF assms(1) this, of m] show ?thesis by (simp add: leverage_for_def Let_def)
qed

section \<open>Properties\<close>


lemma settle_once_frame [simp]:
  "sp_ready (settle_once st) = sp_ready st" "sp_bounds (settle_once st) = sp_bounds st"
  by (simp_all add: settle_once_def Let_def)

lemma settle_frame [simp]:
  "sp_ready (settle_settings st) = sp_ready st" "sp_bounds (settle_settings st) = sp_bounds st"
  by (simp_all add: settle_settings_def Let_def)

lemma sample_wire_ok: "wire_ok (sample_state []) [sample_market]"
  by (simp add: wire_ok_def read_bounds_def open_fee_of_def sample_defs default_symbol_def js_eval)



definition sample_bounds :: position_bounds where
  "sample_bounds = \<lparr>bo_min_size = 5, bo_max_notional = 1000, bo_balance = 250, bo_max_leverage = 10,
     bo_market_max = [(''MON'', 3)], bo_open_fee = Num (1/1000), bo_known = True\<rparr>"


text \<open>
  A standard position set by hand survives a restart: on a storage that
  works, whatever the last change was, the next start of the app shows the very
  settings the screen held, and changes nothing in the storage.
\<close>

theorem settings_survive_restart:
  assumes "storage_works (sp_store st)"
    and "st' = settings_step st (Updated c) \<or> st' = settings_step st (LeverageSet m lev)"
  shows "let again = settings_step (start_settings (sp_store st')) (StoredRead (load_settings (sp_store st')))
    in sp_ready again \<and> sp_settings again = sp_settings st' \<and> \<not> sp_unset again \<and> sp_store again = sp_store st'"
proof -
  obtain s where s: "st' = set_settings s st" using assms(2) by (auto simp: Let_def)
  have "map_option (spread default_settings) (load_settings (save_settings s (sp_store st))) = Some s"
    by (rule stored_settings.load_save[OF assms(1)])
  then obtain d where d: "load_settings (sp_store st') = Some d" "spread default_settings d = sp_settings st'"
    by (auto simp: s set_settings_def)
  then show ?thesis
    by (simp add: settle_settings_def settle_once_def start_settings_def fallback_bounds_def Let_def)
qed

theorem settings_survive_restart_witness:
  "let st' = settings_step (start_settings \<lparr>pl_mode = Works, pl_item = None\<rparr>)
        (Updated (no_settings_change\<lparr>ch_stop_on := Some True\<rparr>));
       again = settings_step (start_settings (sp_store st')) (StoredRead (load_settings (sp_store st')))
   in sp_settings again = sp_settings st' \<and> se_stop_on (sp_settings again)"
proof -
  let ?st = "start_settings \<lparr>pl_mode = Works, pl_item = None\<rparr>"
  let ?c = "no_settings_change\<lparr>ch_stop_on := Some True\<rparr>"
  have "storage_works (sp_store ?st)" by (simp add: start_settings_def storage_works_def)
  from settings_survive_restart[OF this, of "settings_step ?st (Updated ?c)" ?c] show ?thesis
    by (simp add: Let_def set_settings_def clamp_def spread_def)
qed

text \<open>
  The line a tap shows and the order it sends say the same loss: with a
  stop on, the amount called at risk is the stake times the fraction sent, to
  within half of the last digit sent, and it is at most the stake itself when
  the stop gives up at most all of it.
\<close>

theorem risk_shown_is_risk_sent:
  assumes "se_size s = Num z" "0 \<le> z" "se_leverage s = Num lev" "se_stop_on s"
    and "se_stop_percent s = Num p" "0 \<le> p" "p \<le> 100"
  shows "\<exists>f risk. js_number (max_loss_fraction s) = Num f \<and> at_risk s = Num risk \<and>
    \<bar>risk - the_num (own_stake s) * f\<bar> \<le> the_num (own_stake s) / 20000 \<and> risk \<le> the_num (own_stake s)"
proof -
  define k where "k = z / max 1 lev"
  have m: "max 1 lev \<noteq> 0" by (simp add: max_def)
  have stake: "own_stake s = Num k" and k: "0 \<le> k"
    using assms m by (simp_all add: own_stake_def one_Num k_def)
  obtain f where f: "js_number (fixed_abs (p / 100) 4) = Num f" "\<bar>f - p / 100\<bar> \<le> 1 / 20000"
    using fixed_close[of "p / 100" 4] assms(6) by auto
  have sent: "js_number (max_loss_fraction s) = Num f"
    using assms(4-7) f(1) by (simp add: max_loss_fraction_def numeral_Num)
  have risk: "at_risk s = Num (k * p / 100)"
    using assms by (simp add: at_risk_def stake Let_def numeral_Num)
  have "k * p / 100 - k * f = k * (p / 100 - f)" by (simp add: right_diff_distrib)
  then have "\<bar>k * p / 100 - k * f\<bar> = k * \<bar>f - p / 100\<bar>"
    by (simp only: abs_mult abs_of_nonneg[OF k] abs_minus_commute)
  also have "\<dots> \<le> k * (1 / 20000)" by (rule mult_left_mono[OF f(2) k])
  finally have close: "\<bar>k * p / 100 - k * f\<bar> \<le> k / 20000" by simp
  have "k * p \<le> k * 100" by (rule mult_left_mono[OF assms(7) k])
  then have "k * p / 100 \<le> k" by simp
  with sent risk close show ?thesis by (intro exI[of _ f] exI[of _ "k * p / 100"]) (simp add: stake)
qed

theorem risk_shown_is_risk_sent_witness:
  "let s = default_settings\<lparr>se_stop_on := True, se_stop_percent := 25\<rparr>
   in at_risk s = Num (5/2) \<and> (\<exists>f. js_number (max_loss_fraction s) = Num f \<and> \<bar>5/2 - 10 * f\<bar> \<le> 1 / 2000)"
proof -
  let ?s = "default_settings\<lparr>se_stop_on := True, se_stop_percent := 25\<rparr>"
  have r: "at_risk ?s = Num (5/2)" and k: "own_stake ?s = Num 10"
    by (simp_all add: at_risk_def own_stake_def default_settings_def js_eval)
  have "se_size ?s = Num 20" "se_leverage ?s = Num 2" "se_stop_on ?s" "se_stop_percent ?s = Num 25"
    by (simp_all add: default_settings_def numeral_Num)
  from risk_shown_is_risk_sent[OF this(1) _ this(2,3,4)] r k
  obtain f risk where f: "js_number (max_loss_fraction ?s) = Num f" and "5/2 = risk"
    and "\<bar>risk - 10 * f\<bar> \<le> 10 / 20000" by auto
  then have "\<bar>5/2 - 10 * f\<bar> \<le> 10 / 20000" by (simp only:)
  with f r show ?thesis by (auto simp: Let_def)
qed

end
