(* ===== verification/Bytes.thy ===== *)
theory Bytes
  imports JsText
begin

text \<open>
  Byte strings and their texts: toHex and fromHex (account/hex.ts), the
  UTF-8 encoder (the identity on the bytes of a text) and
  encodeURIComponent with its inverse. The round trips are what the keys, the
  signatures and the query strings of the other components rest on.
\<close>

type_synonym byte = "8 word"

definition utf8 :: "string \<Rightarrow> byte list" where
  "utf8 s = List.map (\<lambda>c. word_of_nat (code_of c)) s"

lemma code_of_bound: "code_of c < 256"
  by (simp add: code_of_def)

lemma utf8_inj [simp]: "utf8 s = utf8 t \<longleftrightarrow> s = t"
proof -
  have "inj (\<lambda>c. word_of_nat (code_of c) :: byte)"
  proof (rule injI)
    fix c d :: char
    assume "(word_of_nat (code_of c) :: byte) = word_of_nat (code_of d)"
    then have "unat (word_of_nat (code_of c) :: byte) = unat (word_of_nat (code_of d) :: byte)" by simp
    then have "code_of c = code_of d" using code_of_bound[of c] code_of_bound[of d] by (simp add: unat_of_nat)
    then show "c = d" by (simp add: code_of_def)
  qed
  then show ?thesis by (simp add: utf8_def inj_map_eq_map)
qed

section \<open>Hexadecimal\<close>

definition hex_digit :: "nat \<Rightarrow> char" where
  "hex_digit d = (if d < 10 then char_of (48 + d) else char_of (87 + d))"

text \<open>\<open>toString(16)\<close> of a byte.\<close>

definition byte_text :: "nat \<Rightarrow> string" where
  "byte_text n = (if n < 16 then [hex_digit n] else [hex_digit (n div 16), hex_digit (n mod 16)])"

definition to_hex :: "byte list \<Rightarrow> string" where
  "to_hex bs = concat (List.map (\<lambda>x. pad_start 2 (CHR ''0'') (byte_text (unat x))) bs)"

text \<open>\<open>parseInt(s, 16)\<close> of a string without sign: leading space and a 0x are
  skipped, then the longest run of hexadecimal digits counts; none gives NaN,
  which a byte array stores as 0.\<close>

definition hex_value :: "char \<Rightarrow> nat option" where
  "hex_value c = (case digit_of_char c of Some d \<Rightarrow> if d < 16 then Some d else None | None \<Rightarrow> None)"

fun hex_run :: "nat \<Rightarrow> string \<Rightarrow> nat" where
  "hex_run acc [] = acc"
| "hex_run acc (c # cs) = (case hex_value c of Some d \<Rightarrow> hex_run (16 * acc + d) cs | None \<Rightarrow> acc)"

definition skip_0x :: "string \<Rightarrow> string" where
  "skip_0x s = (case s of c # d # r \<Rightarrow> if c = CHR ''0'' \<and> lower_char d = CHR ''x'' then r else s | _ \<Rightarrow> s)"

definition parse_byte :: "string \<Rightarrow> byte" where
  "parse_byte s = (let t = dropWhile is_space s in
     case t of
       [] \<Rightarrow> 0
     | c # r \<Rightarrow> if c = CHR ''-'' then - word_of_nat (hex_run 0 (skip_0x r))
                else if c = CHR ''+'' then word_of_nat (hex_run 0 (skip_0x r))
                else word_of_nat (hex_run 0 (skip_0x t)))"

definition from_hex :: "string \<Rightarrow> byte list" where
  "from_hex s = List.map (\<lambda>i. parse_byte (js_slice (i * 2) (i * 2 + 2) s)) [0..<length s div 2]"

lemma hex_digit_code: "d < 16 \<Longrightarrow> code_of (hex_digit d) = (if d < 10 then 48 + d else 87 + d)"
  by (simp add: hex_digit_def)

lemma hex_value_digit [simp]: "d < 16 \<Longrightarrow> hex_value (hex_digit d) = Some d"
  by (cases "d < 10") (simp_all add: hex_value_def digit_of_char_def lower_char_def hex_digit_code Let_def)

lemma hex_digit_plain:
  assumes "d < 16"
  shows "\<not> is_space (hex_digit d)" "hex_digit d \<noteq> CHR ''-''" "hex_digit d \<noteq> CHR ''+''"
    "lower_char (hex_digit d) \<noteq> CHR ''x''"
proof -
  have other: "c \<noteq> d'" if "code_of c \<noteq> code_of d'" for c d' using that by auto
  show "\<not> is_space (hex_digit d)" using assms by (auto simp: is_space_def hex_digit_code)
  show "hex_digit d \<noteq> CHR ''-''" "hex_digit d \<noteq> CHR ''+''"
    using assms by (intro other, simp add: hex_digit_code, simp add: code_of_def)+
  show "lower_char (hex_digit d) \<noteq> CHR ''x''"
    using assms by (intro other, simp add: lower_char_def hex_digit_code, simp add: code_of_def)
qed

lemma byte_less [simp]: "unat (b :: byte) < 256"
  using unsigned_less[of b] by simp

lemma zero_char: "char_of (48::nat) = CHR ''0''"
  by (simp add: char_of_eq_iff)

lemma padded_byte: "n < 256 \<Longrightarrow> pad_start 2 (CHR ''0'') (byte_text n) = [hex_digit (n div 16), hex_digit (n mod 16)]"
  by (auto simp: pad_start_def byte_text_def hex_digit_def zero_char)

lemma to_hex_simps [simp]:
  "to_hex [] = []"
  "to_hex (b # bs) = hex_digit (unat b div 16) # hex_digit (unat b mod 16) # to_hex bs"
  by (simp_all add: to_hex_def padded_byte)

lemma length_to_hex [simp]: "length (to_hex bs) = 2 * length bs"
  by (induction bs) simp_all

lemma parse_byte_digits [simp]:
  assumes "h < 16" "l < 16"
  shows "parse_byte [hex_digit h, hex_digit l] = word_of_nat (16 * h + l)"
  using hex_digit_plain[OF assms(1)] hex_digit_plain[OF assms(2)] assms
  by (simp add: parse_byte_def skip_0x_def)

lemma from_hex_Cons:
  "from_hex (c # d # s) = parse_byte [c, d] # from_hex s"
proof -
  have "[0..<length (c # d # s) div 2] = 0 # List.map Suc [0..<length s div 2]"
    by (simp add: map_Suc_upt upt_conv_Cons)
  then show ?thesis by (simp add: from_hex_def js_slice_def o_def)
qed

lemma from_to_hex [simp]: "from_hex (to_hex bs) = bs"
proof (induction bs)
  case (Cons b bs)
  have "unat b div 16 < 16" using byte_less[of b] by (simp add: less_mult_imp_div_less)
  then show ?case using Cons by (simp add: from_hex_Cons)
qed (simp add: from_hex_def)

lemma to_hex_inj [simp]: "to_hex a = to_hex b \<longleftrightarrow> a = b"
  by (metis from_to_hex)

section \<open>Query strings\<close>

definition unreserved :: "char \<Rightarrow> bool" where
  "unreserved c \<longleftrightarrow> is_digit c \<or> (65 \<le> code_of c \<and> code_of c \<le> 90) \<or> (97 \<le> code_of c \<and> code_of c \<le> 122) \<or>
     c \<in> set ''-_.!~*'' \<or> code_of c \<in> {39, 40, 41}"

definition upper_hex_digit :: "nat \<Rightarrow> char" where
  "upper_hex_digit d = (if d < 10 then char_of (48 + d) else char_of (55 + d))"

definition percent :: "char \<Rightarrow> string" where
  "percent c = [CHR ''%'', upper_hex_digit (code_of c div 16), upper_hex_digit (code_of c mod 16)]"

definition encode_uri_component :: "string \<Rightarrow> string" where
  "encode_uri_component s = concat (List.map (\<lambda>c. if unreserved c then [c] else percent c) s)"

text \<open>What the other end does with it: the standard decoding.\<close>

fun decode_uri :: "string \<Rightarrow> string option" where
  "decode_uri [] = Some []"
| "decode_uri (c # s) =
     (if c = CHR ''%'' then
        (case s of
           h # l # r \<Rightarrow>
             (case (hex_value h, hex_value l, decode_uri r) of
                (Some a, Some b, Some t) \<Rightarrow> Some (char_of (16 * a + b) # t)
              | _ \<Rightarrow> None)
         | _ \<Rightarrow> None)
      else map_option ((#) c) (decode_uri s))"

lemma hex_value_upper [simp]: "d < 16 \<Longrightarrow> hex_value (upper_hex_digit d) = Some d"
  by (cases "d < 10") (simp_all add: hex_value_def digit_of_char_def lower_char_def upper_hex_digit_def Let_def)

lemma code_percent: "\<not> unreserved (CHR ''%'')" "\<not> unreserved (CHR ''&'')" "\<not> unreserved (CHR ''='')"
  by (simp_all add: unreserved_def is_digit_def code_of_def)

lemma decode_encode_append:
  "decode_uri (encode_uri_component s @ t) = map_option ((@) s) (decode_uri t)"
proof (induction s)
  case Nil
  then show ?case by (simp add: encode_uri_component_def option.map_ident)
next
  case (Cons c s)
  have c16: "code_of c div 16 < 16" using code_of_bound[of c] by simp
  have same: "char_of (16 * (code_of c div 16) + code_of c mod 16) = c"
    by (simp add: code_of_def)
  show ?case
  proof (cases "unreserved c")
    case True
    then have "c \<noteq> CHR ''%''" using code_percent(1) by auto
    with True Cons show ?thesis
      by (simp add: encode_uri_component_def option.map_comp o_def)
  next
    case False
    with Cons same c16 show ?thesis
      by (cases "decode_uri t") (simp_all add: encode_uri_component_def percent_def)
  qed
qed

lemma decode_encode [simp]: "decode_uri (encode_uri_component s) = Some s"
  using decode_encode_append[of s "[]"] by simp

lemma upper_hex_plain:
  assumes "d < 16"
  shows "upper_hex_digit d \<noteq> CHR ''&'' \<and> upper_hex_digit d \<noteq> CHR ''=''"
proof -
  have code: "code_of (upper_hex_digit d) = (if d < 10 then 48 + d else 55 + d)"
    using assms by (simp add: upper_hex_digit_def)
  have "code_of (upper_hex_digit d) \<noteq> code_of (CHR ''&'') \<and> code_of (upper_hex_digit d) \<noteq> code_of (CHR ''='')"
    unfolding code using assms by (simp add: code_of_def)
  then show ?thesis by metis
qed

lemma encode_no_separator: "c \<in> set (encode_uri_component s) \<Longrightarrow> c \<noteq> CHR ''&'' \<and> c \<noteq> CHR ''=''"
proof -
  assume "c \<in> set (encode_uri_component s)"
  then have "\<exists>d. c \<in> set (if unreserved d then [d] else percent d)"
    unfolding encode_uri_component_def set_concat set_map by blast
  then obtain d where d: "c \<in> set (if unreserved d then [d] else percent d)" ..
  have "code_of d div 16 < 16" using code_of_bound[of d] by simp
  then have "upper_hex_digit (code_of d div 16) \<noteq> CHR ''&'' \<and> upper_hex_digit (code_of d div 16) \<noteq> CHR ''=''"
    by (rule upper_hex_plain)
  moreover have "upper_hex_digit (code_of d mod 16) \<noteq> CHR ''&'' \<and> upper_hex_digit (code_of d mod 16) \<noteq> CHR ''=''"
    by (rule upper_hex_plain) simp
  ultimately show ?thesis using d
    by (auto simp: percent_def code_percent split: if_splits)
qed

end
