(* ===== verification/Client.thy ===== *)
theory Client
  imports Bytes Wire
begin

text \<open>
  The client of the platform (api/client.ts): what a call sends, what an
  answer means, and what an error says. The wallet and the signer requests act
  for are the client's two variables; a request carries the wallet's address
  and, with a signer, a signature over its own method, path, time and body.
  SHA-256, the signer and the network are arguments. An answer is either a
  document of the expected type or one of the ways it can fail.
\<close>

section \<open>Errors\<close>

record api_error =
  ae_status :: nat
  ae_code :: string
  ae_message :: string
  ae_limit :: "string option"
  ae_actual :: "string option"
  ae_retry :: "jsnum option"

text \<open>What a promise rejects with: the client's own error, or an Error with a message.\<close>

datatype exn = Api api_error | Fail string

fun exn_message :: "exn \<Rightarrow> string" where
  "exn_message (Api e) = ae_message e"
| "exn_message (Fail m) = m"

fun exn_string :: "exn \<Rightarrow> string" where
  "exn_string (Api e) = ''ApiError: '' @ ae_message e"
| "exn_string (Fail m) = ''Error: '' @ m"

definition new_api_error :: "nat \<Rightarrow> error_body \<Rightarrow> string \<Rightarrow> api_error" where
  "new_api_error status body fallback =
     \<lparr>ae_status = status,
      ae_code = (case eb_error body of Some c \<Rightarrow> c | None \<Rightarrow> ''internal''),
      ae_message = (case eb_message body of Some m \<Rightarrow> m | None \<Rightarrow> fallback),
      ae_limit = eb_limit body, ae_actual = eb_actual body, ae_retry = eb_retry_after_seconds body\<rparr>"

definition no_error_body :: error_body where
  "no_error_body = \<lparr>eb_error = None, eb_message = None, eb_limit = None, eb_actual = None,
     eb_retry_after_seconds = None\<rparr>"

definition is_policy_denial :: "api_error \<Rightarrow> bool" where
  "is_policy_denial e \<longleftrightarrow> ae_status e = 403"

text \<open>A caught value is an ApiError with this code.\<close>

definition has_code :: "string \<Rightarrow> exn \<Rightarrow> bool" where
  "has_code code e = (case e of Api a \<Rightarrow> ae_code a = code | Fail _ \<Rightarrow> False)"

section \<open>Signing\<close>

record signer =
  sg_public :: string
  sg_sign :: "byte list \<Rightarrow> exn + byte list"

record client =
  cl_address :: "string option"
  cl_signer :: "signer option"

definition set_account_address :: "string option \<Rightarrow> client \<Rightarrow> client" where
  "set_account_address a c = c\<lparr>cl_address := a\<rparr>"

definition current_account_address :: "client \<Rightarrow> string option" where
  "current_account_address c = cl_address c"

definition set_request_signer :: "signer option \<Rightarrow> client \<Rightarrow> client" where
  "set_request_signer s c = c\<lparr>cl_signer := s\<rparr>"

definition newline :: string where "newline = [CHR 0x0A]"

definition signing_string :: "(byte list \<Rightarrow> byte list) \<Rightarrow> string \<Rightarrow> string \<Rightarrow> string \<Rightarrow> string \<Rightarrow> byte list" where
  "signing_string sha256 method path time body =
     utf8 (method @ newline @ path @ newline @ time @ newline @ to_hex (sha256 (utf8 body)))"

type_synonym headers = "(string \<times> string) list"

text \<open>A string that is neither absent nor empty.\<close>

definition given :: "string option \<Rightarrow> bool" where
  "given s = (case s of None \<Rightarrow> False | Some t \<Rightarrow> t \<noteq> [])"

definition auth_headers ::
    "(byte list \<Rightarrow> byte list) \<Rightarrow> client \<Rightarrow> nat \<Rightarrow> string \<Rightarrow> string \<Rightarrow> string \<Rightarrow> exn + headers" where
  "auth_headers sha256 c now_ms method path body =
     (if \<not> given (cl_address c) then Inr [] else
      case cl_signer c of
        None \<Rightarrow> Inr []
      | Some s \<Rightarrow>
          let time = show_nat (now_ms div 1000) in
          (case sg_sign s (signing_string sha256 method path time body) of
             Inl e \<Rightarrow> Inl e
           | Inr sig \<Rightarrow> Inr [(''X-Auth-Key'', sg_public s), (''X-Auth-Time'', time),
                             (''X-Auth-Signature'', to_hex sig)]))"

section \<open>A call\<close>

record call_spec =
  cs_method :: "string option"
  cs_path :: string
  cs_body :: "string option"
  cs_strategy :: "string option"

record sent =
  sn_url :: string
  sn_method :: string
  sn_headers :: headers
  sn_body :: "string option"

definition build_request ::
    "(byte list \<Rightarrow> byte list) \<Rightarrow> string \<Rightarrow> client \<Rightarrow> nat \<Rightarrow> call_spec \<Rightarrow> exn + sent" where
  "build_request sha256 api_url c now_ms spec =
     (let method = upper (case cs_method spec of None \<Rightarrow> ''GET'' | Some m \<Rightarrow> m);
          payload = (case cs_body spec of None \<Rightarrow> [] | Some b \<Rightarrow> b)
      in case auth_headers sha256 c now_ms method (cs_path spec) payload of
           Inl e \<Rightarrow> Inl e
         | Inr auth \<Rightarrow> Inr
             \<lparr>sn_url = api_url @ cs_path spec, sn_method = method,
              sn_headers =
                [(''Content-Type'', ''application/json'')] @
                (if given (cl_address c) then [(''X-Account-Address'', the (cl_address c))] else []) @
                (if given (cl_address c) \<and> given (cs_strategy spec)
                 then [(''X-Strategy'', the (cs_strategy spec))] else []) @
                auth @ [(''Bypass-Tunnel-Reminder'', ''1'')],
              sn_body = cs_body spec\<rparr>)"

text \<open>What comes back: nothing at all, or a status with a body that is empty,
  is not JSON, or is a document, seen as an error and as the result.\<close>

datatype 'a payload = NoText | NotJson | Json error_body 'a

datatype 'a http = Unreachable string | Answered nat "'a payload"

definition status_ok :: "nat \<Rightarrow> bool" where
  "status_ok s \<longleftrightarrow> 200 \<le> s \<and> s \<le> 299"

text \<open>A call returns the document, or null when the body of a good answer has none.\<close>

definition http_outcome :: "string \<Rightarrow> 'a http \<Rightarrow> exn + 'a option" where
  "http_outcome api_url h = (case h of
     Unreachable why \<Rightarrow> Inl (Api (new_api_error 0
       (no_error_body\<lparr>eb_error := Some ''network'', eb_message := Some (''cannot reach '' @ api_url)\<rparr>) why))
   | Answered s p \<Rightarrow>
       if \<not> status_ok s then
         Inl (Api (new_api_error s (case p of Json e _ \<Rightarrow> e | _ \<Rightarrow> no_error_body) (''HTTP '' @ show_nat s)))
       else Inr (case p of Json _ a \<Rightarrow> Some a | _ \<Rightarrow> None))"

definition request ::
    "(byte list \<Rightarrow> byte list) \<Rightarrow> string \<Rightarrow> client \<Rightarrow> nat \<Rightarrow> (sent \<Rightarrow> 'a http) \<Rightarrow> call_spec \<Rightarrow> exn + 'a option" where
  "request sha256 api_url c now_ms fetch spec =
     (case build_request sha256 api_url c now_ms spec of
        Inl e \<Rightarrow> Inl e
      | Inr s \<Rightarrow> http_outcome api_url (fetch s))"

section \<open>The calls of the API\<close>

definition get_call :: "string \<Rightarrow> call_spec" where
  "get_call path = \<lparr>cs_method = None, cs_path = path, cs_body = None, cs_strategy = None\<rparr>"

definition post_call :: "string \<Rightarrow> string \<Rightarrow> call_spec" where
  "post_call path body = \<lparr>cs_method = Some ''POST'', cs_path = path, cs_body = Some body, cs_strategy = None\<rparr>"

definition api_markets :: call_spec where
  "api_markets = get_call ''/v1/markets''"

definition api_state :: "string \<Rightarrow> call_spec" where
  "api_state strategy = (get_call ''/v1/state'')\<lparr>cs_strategy := Some strategy\<rparr>"

definition api_open :: "(open_request \<Rightarrow> string) \<Rightarrow> open_request \<Rightarrow> call_spec" where
  "api_open json body = (post_call ''/v1/orders/open'' (json body))\<lparr>cs_strategy := rq_strategy body\<rparr>"

definition api_close :: "(close_request \<Rightarrow> string) \<Rightarrow> close_request \<Rightarrow> call_spec" where
  "api_close json body = (post_call ''/v1/orders/close'' (json body))\<lparr>cs_strategy := cq_strategy body\<rparr>"

definition api_amend :: "(amend_request \<Rightarrow> string) \<Rightarrow> amend_request \<Rightarrow> call_spec" where
  "api_amend json body = (post_call ''/v1/orders/amend'' (json body))\<lparr>cs_strategy := aq_strategy body\<rparr>"

definition signal_path :: "string \<Rightarrow> string \<Rightarrow> nat \<Rightarrow> string" where
  "signal_path kind symbol period = ''/v1/signals/'' @ kind @ ''?symbol='' @ encode_uri_component symbol
     @ ''&period_seconds='' @ show_nat period"

definition api_ma_cross :: "string \<Rightarrow> nat \<Rightarrow> call_spec" where
  "api_ma_cross symbol period = get_call (signal_path ''ma-cross'' symbol period)"

definition api_trades :: "string \<Rightarrow> string \<Rightarrow> call_spec" where
  "api_trades symbol strategy =
     (get_call (''/v1/trades?symbol='' @ encode_uri_component symbol @ ''&strategy='' @ encode_uri_component strategy
        @ ''&limit=50''))\<lparr>cs_strategy := Some strategy\<rparr>"

definition trades_page_path :: "string \<Rightarrow> string option \<Rightarrow> nat \<Rightarrow> string" where
  "trades_page_path strategy cursor limit =
     ''/v1/trades?limit='' @ show_nat limit
     @ (if strategy \<noteq> [] then ''&strategy='' @ encode_uri_component strategy else [])
     @ (if given cursor then ''&cursor='' @ encode_uri_component (the cursor) else [])"

definition api_trades_page :: "string \<Rightarrow> string option \<Rightarrow> nat \<Rightarrow> call_spec" where
  "api_trades_page strategy cursor limit =
     (get_call (trades_page_path strategy cursor limit))
       \<lparr>cs_strategy := Some (if strategy \<noteq> [] then strategy else ''direction'')\<rparr>"

definition api_register_device :: "(string \<times> string \<Rightarrow> string) \<Rightarrow> string \<Rightarrow> string \<Rightarrow> call_spec" where
  "api_register_device json token platform = post_call ''/v1/devices'' (json (token, platform))"

definition api_trade :: "string \<Rightarrow> string \<Rightarrow> call_spec" where
  "api_trade trade_id strategy =
     (get_call (''/v1/trades/'' @ encode_uri_component trade_id))\<lparr>cs_strategy := Some strategy\<rparr>"

definition api_standings :: "string \<Rightarrow> string \<Rightarrow> nat \<Rightarrow> nat \<Rightarrow> call_spec" where
  "api_standings strategy period offset limit =
     get_call (''/v1/leaderboard/standings?strategy='' @ encode_uri_component strategy @ ''&period='' @ period
       @ ''&limit='' @ show_nat limit @ ''&offset='' @ show_nat offset)"

definition api_rsi :: "string \<Rightarrow> nat \<Rightarrow> call_spec" where
  "api_rsi symbol period = get_call (signal_path ''rsi'' symbol period)"

definition api_donchian :: "string \<Rightarrow> nat \<Rightarrow> call_spec" where
  "api_donchian symbol period = get_call (signal_path ''donchian'' symbol period)"

definition api_orb :: "string \<Rightarrow> nat \<Rightarrow> call_spec" where
  "api_orb symbol period = get_call (signal_path ''orb'' symbol period)"

definition api_risk :: call_spec where
  "api_risk = get_call ''/v1/risk''"

definition api_claim_referral :: "(string \<Rightarrow> string) \<Rightarrow> string \<Rightarrow> call_spec" where
  "api_claim_referral json code = post_call ''/v1/referral/claim'' (json code)"

definition api_limits :: call_spec where
  "api_limits = get_call ''/v1/limits''"

definition api_set_limits :: "(limit_tier \<Rightarrow> string) \<Rightarrow> limit_tier \<Rightarrow> call_spec" where
  "api_set_limits json tier = (get_call ''/v1/limits'')\<lparr>cs_method := Some ''PUT'', cs_body := Some (json tier)\<rparr>"

definition api_close_all :: call_spec where
  "api_close_all = post_call ''/v1/risk/close-all'' ''{}''"

definition api_leaderboard :: "string \<Rightarrow> call_spec" where
  "api_leaderboard period = get_call (''/v1/leaderboard?period='' @ period)"

definition api_deposit_status :: "string \<Rightarrow> call_spec" where
  "api_deposit_status address = get_call (''/v1/deposit/status?deposit_address='' @ encode_uri_component address)"

section \<open>What an error says\<close>

text \<open>A value that may be undefined, in a template.\<close>

definition shown :: "string option \<Rightarrow> string" where
  "shown v = (case v of None \<Rightarrow> ''undefined'' | Some s \<Rightarrow> s)"

definition describe_error :: "exn \<Rightarrow> string" where
  "describe_error x = (case x of
     Fail _ \<Rightarrow> exn_string x
   | Api e \<Rightarrow>
      if ae_code e = ''cooldown'' then
        ''Wait '' @ js_string (math_ceil (case ae_retry e of None \<Rightarrow> 0 | Some r \<Rightarrow> r)) @ ''s before opening again''
      else if ae_code e = ''notional_too_large'' then ''Maximum position is '' @ shown (ae_limit e)
      else if ae_code e = ''notional_too_small'' then ''Minimum position is '' @ shown (ae_limit e)
      else if ae_code e = ''leverage_too_high'' then ''Maximum leverage is '' @ shown (ae_limit e) @ ''x''
      else if ae_code e = ''daily_loss_limit_reached'' then
        ''Daily loss limit of '' @ shown (ae_limit e) @ '' reached '' @ em_dash @ '' opening resumes tomorrow''
      else if ae_code e = ''too_many_open_positions'' then ''At most '' @ shown (ae_limit e) @ '' positions at once''
      else if ae_code e = ''total_exposure_too_large'' then
        ''Total exposure would be '' @ shown (ae_actual e) @ '', limit is '' @ shown (ae_limit e)
      else if ae_code e = ''partner_error'' then ae_message e
      else if ae_code e = ''own_account_disabled'' then ''Sign in with your passkey first''
      else if ae_code e = ''no_key'' then ''Connect the exchange first '' @ em_dash @ '' open your account''
      else if ae_code e = ''unauthenticated'' then
        ''Sign in again '' @ em_dash @ '' the platform could not verify this request''
      else if ae_code e = ''kill_switch'' then ''Trading is paused: '' @ ae_message e
      else if ae_code e = ''symbol_not_allowed'' then ''This market is not enabled''
      else if ae_code e = ''no_position'' then ''Nothing to close''
      else if ae_code e = ''enrollment_unavailable'' then ''The platform has no builder code configured''
      else if ae_code e = ''venue_rejected'' then ''The exchange refused the order: '' @ ae_message e
      else ae_message e)"

section \<open>Lemmas\<close>

lemma newline_not_digit: "CHR 0x0A \<notin> set (show_nat n)"
  using show_nat_digits[of "CHR 0x0A" n] by (auto simp: is_digit_def code_of_def)

lemma encode_no_newline: "CHR 0x0A \<notin> set (encode_uri_component s)"
proof
  assume "CHR 0x0A \<in> set (encode_uri_component s)"
  then have "\<exists>d. CHR 0x0A \<in> set (if unreserved d then [d] else percent d)"
    unfolding encode_uri_component_def set_concat set_map by blast
  then obtain d where d: "CHR 0x0A \<in> set (if unreserved d then [d] else percent d)" ..
  have plain: "upper_hex_digit k \<noteq> CHR 0x0A" if "k < 16" for k
  proof -
    have "code_of (upper_hex_digit k) = (if k < 10 then 48 + k else 55 + k)"
      using that by (simp add: upper_hex_digit_def)
    then have "code_of (upper_hex_digit k) \<noteq> code_of (CHR 0x0A)" by (simp add: code_of_def)
    then show ?thesis by metis
  qed
  have "code_of d div 16 < 16" using code_of_bound[of d] by (simp add: less_mult_imp_div_less)
  then have "upper_hex_digit (code_of d div 16) \<noteq> CHR 0x0A" by (rule plain)
  moreover have "upper_hex_digit (code_of d mod 16) \<noteq> CHR 0x0A" by (rule plain) simp
  moreover have "\<not> unreserved (CHR 0x0A)" by (simp add: unreserved_def is_digit_def code_of_def)
  ultimately show False using d by (auto simp: percent_def split: if_splits)
qed

lemma signing_string_inj:
  assumes eq: "signing_string h m p t b = signing_string h m' p' t' b'"
    and "CHR 0x0A \<notin> set m" "CHR 0x0A \<notin> set m'" "CHR 0x0A \<notin> set p" "CHR 0x0A \<notin> set p'"
      "CHR 0x0A \<notin> set t" "CHR 0x0A \<notin> set t'"
  shows "m = m' \<and> p = p' \<and> t = t' \<and> h (utf8 b) = h (utf8 b')"
proof -
  have 1: "m @ CHR 0x0A # (p @ CHR 0x0A # (t @ CHR 0x0A # to_hex (h (utf8 b)))) =
        m' @ CHR 0x0A # (p' @ CHR 0x0A # (t' @ CHR 0x0A # to_hex (h (utf8 b'))))"
    using eq by (simp add: signing_string_def newline_def)
  note 2 = split_unique[OF assms(2,3) 1]
  note 3 = split_unique[OF assms(4,5) conjunct2[OF 2]]
  note 4 = split_unique[OF assms(6,7) conjunct2[OF 3]]
  from 2 3 4 show ?thesis by simp
qed

lemma takeWhile_tail:
  "x \<notin> set u \<Longrightarrow> takeWhile (\<lambda>c. c \<noteq> x) u = u"
  "x \<notin> set u \<Longrightarrow> takeWhile (\<lambda>c. c \<noteq> x) (u @ x # r) = u"
  by (induction u) auto

text \<open>A query reads back: the part after a value starts with the next separator, if any.\<close>

lemma value_then_rest:
  assumes "CHR ''&'' \<notin> set u" "CHR ''&'' \<notin> set v"
    and "r = [] \<or> (\<exists>r'. r = CHR ''&'' # r')" "s = [] \<or> (\<exists>s'. s = CHR ''&'' # s')"
    and "u @ r = v @ s"
  shows "u = v \<and> r = s"
proof -
  have u: "takeWhile (\<lambda>c. c \<noteq> CHR ''&'') (u @ r) = u"
    using assms(1,3) by (auto simp: takeWhile_tail)
  have v: "takeWhile (\<lambda>c. c \<noteq> CHR ''&'') (v @ s) = v"
    using assms(2,4) by (auto simp: takeWhile_tail)
  from u v assms(5) have "u = v" by metis
  with assms(5) show ?thesis by simp
qed

lemma digits_no_amp: "CHR ''&'' \<notin> set (show_nat n)"
  using show_nat_digits[of "CHR ''&''" n] by (auto simp: is_digit_def code_of_def)

lemma encode_no_amp: "CHR ''&'' \<notin> set (encode_uri_component s)"
  using encode_no_separator by blast

lemma encode_inj [simp]: "encode_uri_component s = encode_uri_component t \<longleftrightarrow> s = t"
  by (metis decode_encode option.inject)

definition cursor_part :: "string option \<Rightarrow> string" where
  "cursor_part cursor = (if given cursor then ''&cursor='' @ encode_uri_component (the cursor) else [])"

definition strategy_part :: "string \<Rightarrow> string" where
  "strategy_part strategy = (if strategy \<noteq> [] then ''&strategy='' @ encode_uri_component strategy else [])"

lemma cursor_part_inj:
  assumes "cursor_part c = cursor_part c'"
  shows "given c = given c' \<and> (given c \<longrightarrow> c = c')"
  using assms by (cases c; cases c') (simp_all add: cursor_part_def given_def split: if_splits)

lemma parts_inj:
  assumes "strategy_part s @ cursor_part c = strategy_part s' @ cursor_part c'"
  shows "s = s' \<and> cursor_part c = cursor_part c'"
proof (cases "s = [] \<or> s' = []")
  case True
  have ne: "strategy_part t @ u \<noteq> cursor_part v" if "t \<noteq> []" for t u v
    using that by (simp add: strategy_part_def cursor_part_def)
  have nil: "strategy_part [] = []" by (simp add: strategy_part_def)
  show ?thesis using True
  proof
    assume "s = []"
    then show ?thesis using assms nil ne[of s' "cursor_part c'" c] by (cases "s' = []") simp_all
  next
    assume "s' = []"
    then show ?thesis using assms nil ne[of s "cursor_part c" c'] by (cases "s = []") simp_all
  qed
next
  case False
  then have "encode_uri_component s @ cursor_part c = encode_uri_component s' @ cursor_part c'"
    using assms by (simp add: strategy_part_def)
  from value_then_rest[OF encode_no_amp encode_no_amp _ _ this] show ?thesis
    by (auto simp: cursor_part_def)
qed

lemma trades_page_path_inj:
  assumes "trades_page_path s c n = trades_page_path s' c' n'"
  shows "s = s' \<and> n = n' \<and> given c = given c' \<and> (given c \<longrightarrow> c = c')"
proof -
  have "show_nat n @ (strategy_part s @ cursor_part c) = show_nat n' @ (strategy_part s' @ cursor_part c')"
    using assms by (simp add: trades_page_path_def strategy_part_def cursor_part_def)
  from value_then_rest[OF digits_no_amp digits_no_amp _ _ this]
  have "n = n'" and "strategy_part s @ cursor_part c = strategy_part s' @ cursor_part c'"
    by (auto simp: strategy_part_def cursor_part_def)
  with parts_inj cursor_part_inj show ?thesis by blast
qed

section \<open>Properties\<close>


definition sample_client :: client where
  "sample_client = \<lparr>cl_address = Some ''0xab'',
     cl_signer = Some \<lparr>sg_public = ''k1'', sg_sign = (\<lambda>m. Inr [7, 255])\<rparr>\<rparr>"



text \<open>
  A page of history is asked for unambiguously: from the path alone the
  strategy, the page size and the cursor can be told, whatever characters the
  cursor has; and the strategy header names the filter, or Direction when the
  page is not filtered.
\<close>

theorem trades_page_unambiguous:
  assumes "cs_path (api_trades_page s c n) = cs_path (api_trades_page s' c' n')"
  shows "s = s' \<and> n = n' \<and> given c = given c' \<and> (given c \<longrightarrow> c = c') \<and>
    cs_strategy (api_trades_page s c n) = Some (if s = [] then ''direction'' else s)"
proof -
  have path: "cs_path (api_trades_page s c n) = trades_page_path s c n" for s c n
    by (simp add: api_trades_page_def get_call_def)
  have strategy: "cs_strategy (api_trades_page s c n) = Some (if s = [] then ''direction'' else s)"
    by (simp add: api_trades_page_def)
  from trades_page_path_inj[OF assms[unfolded path]] strategy show ?thesis by blast
qed

theorem trades_page_unambiguous_witness:
  "let p = cs_path (api_trades_page [] (Some ''a&b=c'') 7)
   in p = ''/v1/trades?limit=7&cursor=a%26b%3Dc'' \<and>
      cs_strategy (api_trades_page [] (Some ''a&b=c'') 7) = Some ''direction''"
proof -
  have u: "unreserved (CHR ''a'')" "unreserved (CHR ''b'')" "unreserved (CHR ''c'')"
    by (simp_all add: unreserved_def is_digit_def code_of_def)
  have e: "encode_uri_component ''a&b=c'' = ''a%26b%3Dc''"
    by (simp add: encode_uri_component_def u code_percent percent_def code_of_def)
      (simp add: upper_hex_digit_def char_of_eq_iff eq_char_of)
  have "cs_path (api_trades_page [] (Some ''a&b=c'') 7) = ''/v1/trades?limit=7&cursor=a%26b%3Dc''"
    by (simp add: api_trades_page_def trades_page_path_def get_call_def given_def e show_nat_literal
        digit_char_def char_of_eq_iff eq_char_of)
  with trades_page_unambiguous[of "[]" "Some ''a&b=c''" 7, OF refl] show ?thesis by simp
qed

end
