(* ===== verification/Dates.thy ===== *)
theory Dates
  imports JsText
begin

text \<open>
  Dates as the code reads and shows them. A Date is the number of milliseconds
  since 1970; \<open>parse_date\<close> reads the ISO 8601 texts the platform sends and
  gives NaN for anything else; the device's time zone is a fixed offset in
  milliseconds, an argument of what depends on it. With it: the clock of a
  countdown (components/format.ts, ui/countdown.ts), the day key of the
  analysis (strategy/today.ts), the horizon presets (config.ts) and the
  display helpers of components/format.ts.
\<close>

section \<open>The calendar\<close>

definition leap_year :: "int \<Rightarrow> bool" where
  "leap_year y \<longleftrightarrow> y mod 4 = 0 \<and> (y mod 100 \<noteq> 0 \<or> y mod 400 = 0)"

definition month_length :: "int \<Rightarrow> int \<Rightarrow> int" where
  "month_length y m = (if m = 2 then (if leap_year y then 29 else 28)
     else if m \<in> {4, 6, 9, 11} then 30 else 31)"

text \<open>Days since 1970-01-01 of a date, the year counted from March.\<close>

definition days_of :: "int \<Rightarrow> int \<Rightarrow> int \<Rightarrow> int" where
  "days_of y m d =
     (let y' = (if m \<le> 2 then y - 1 else y);
          era = y' div 400;
          yoe = y' mod 400;
          mp = (m + 9) mod 12;
          doy = (153 * mp + 2) div 5 + d - 1;
          doe = yoe * 365 + yoe div 4 - yoe div 100 + doy
      in era * 146097 + doe - 719468)"

text \<open>And back: the year, month and day of a number of days.\<close>

definition civil_of :: "int \<Rightarrow> int \<times> int \<times> int" where
  "civil_of days =
     (let z = days + 719468;
          era = z div 146097;
          doe = z mod 146097;
          yoe = (doe - doe div 1460 + doe div 36524 - doe div 146096) div 365;
          doy = doe - (365 * yoe + yoe div 4 - yoe div 100);
          mp = (5 * doy + 2) div 153;
          d = doy - (153 * mp + 2) div 5 + 1;
          m = (if mp < 10 then mp + 3 else mp - 9)
      in ((if m \<le> 2 then yoe + era * 400 + 1 else yoe + era * 400), m, d))"

definition ms_per_day :: int where "ms_per_day = 86400000"

definition ms_per_hour :: int where "ms_per_hour = 3600000"

section \<open>Reading a date\<close>

definition num_at :: "string \<Rightarrow> nat \<Rightarrow> nat \<Rightarrow> int option" where
  "num_at s i n = (let t = take n (drop i s) in
     if length t = n \<and> list_all is_digit t then Some (int (digits_value 0 t)) else None)"

definition char_at :: "string \<Rightarrow> nat \<Rightarrow> char option" where
  "char_at s i = (if i < length s then Some (s ! i) else None)"

text \<open>Year, month and day at the start of the text, as milliseconds at midnight.\<close>

definition read_day :: "string \<Rightarrow> int option" where
  "read_day s =
     (case (num_at s 0 4, num_at s 5 2, num_at s 8 2) of
        (Some y, Some m, Some d) \<Rightarrow>
          if char_at s 4 = Some (CHR ''-'') \<and> char_at s 7 = Some (CHR ''-'') \<and>
             1 \<le> m \<and> m \<le> 12 \<and> 1 \<le> d \<and> d \<le> month_length y m
          then Some (days_of y m d * ms_per_day) else None
      | _ \<Rightarrow> None)"

text \<open>Hours and minutes from position 11, and 24:00 as the end of the day.\<close>

definition read_minutes :: "string \<Rightarrow> int option" where
  "read_minutes s =
     (case (num_at s 11 2, num_at s 14 2) of
        (Some h, Some m) \<Rightarrow>
          if char_at s 10 = Some (CHR ''T'') \<and> char_at s 13 = Some (CHR '':'') \<and>
             (h \<le> 23 \<and> m \<le> 59 \<or> h = 24 \<and> m = 0)
          then Some ((h * 60 + m) * 60000) else None
      | _ \<Rightarrow> None)"

text \<open>What follows hh:mm: seconds and a fraction if there are any, as
  milliseconds, and the rest of the text.\<close>

definition read_seconds :: "string \<Rightarrow> (int \<times> string) option" where
  "read_seconds r =
     (if r = [] \<or> hd r \<noteq> CHR '':'' then Some (0, r) else
      case num_at r 1 2 of
        None \<Rightarrow> None
      | Some s \<Rightarrow>
          if s > 59 then None else
          let r' = drop 3 r in
          if r' = [] \<or> hd r' \<noteq> CHR ''.'' then Some (s * 1000, r') else
          let f = takeWhile is_digit (tl r') in
          if f = [] then None
          else Some (s * 1000 + int (digits_value 0 (take 3 (f @ ''00''))), drop (length f) (tl r')))"

text \<open>The zone: absent means the device's, Z means none, else an offset.\<close>

definition read_zone :: "int \<Rightarrow> string \<Rightarrow> int option" where
  "read_zone tz r =
     (if r = [] then Some tz else if r = ''Z'' then Some 0 else
      case (num_at r 1 2, num_at r 4 2) of
        (Some h, Some m) \<Rightarrow>
          if length r = 6 \<and> r ! 3 = CHR '':'' \<and> h \<le> 23 \<and> m \<le> 59 then
            (if hd r = CHR ''+'' then Some ((h * 60 + m) * 60000)
             else if hd r = CHR ''-'' then Some (- ((h * 60 + m) * 60000)) else None)
          else None
      | _ \<Rightarrow> None)"

definition parse_date :: "int \<Rightarrow> string \<Rightarrow> jsnum" where
  "parse_date tz s =
     (case read_day s of
        None \<Rightarrow> NaN
      | Some day \<Rightarrow>
          if length s = 10 then Num (of_int day) else
          (case (read_minutes s, read_seconds (drop 16 s)) of
             (Some mins, Some (secs, r)) \<Rightarrow>
               (case read_zone tz r of
                  Some z \<Rightarrow> Num (of_int (day + mins + secs - z))
                | None \<Rightarrow> NaN)
           | _ \<Rightarrow> NaN))"

section \<open>The parts of a local date\<close>

text \<open>Midnight of the local day, and the hour, minute and calendar day in it.\<close>

definition day_start :: "int \<Rightarrow> int \<Rightarrow> int" where
  "day_start tz now = (now + tz) div ms_per_day * ms_per_day - tz"

definition local_hour :: "int \<Rightarrow> int \<Rightarrow> int" where
  "local_hour tz now = (now + tz) mod ms_per_day div ms_per_hour"

definition local_minute :: "int \<Rightarrow> int \<Rightarrow> int" where
  "local_minute tz now = (now + tz) mod ms_per_hour div 60000"

definition local_civil :: "int \<Rightarrow> int \<Rightarrow> int \<times> int \<times> int" where
  "local_civil tz now = civil_of ((now + tz) div ms_per_day)"

definition two_digits :: "int \<Rightarrow> string" where
  "two_digits n = pad_start 2 (CHR ''0'') (show_int n)"

definition today_key :: "int \<Rightarrow> int \<Rightarrow> string" where
  "today_key tz now = (case local_civil tz now of (y, m, d) \<Rightarrow>
     show_int y @ ''-'' @ two_digits m @ ''-'' @ two_digits d)"

text \<open>toISOString without milliseconds, of a whole number of seconds.\<close>

definition iso_seconds :: "int \<Rightarrow> string" where
  "iso_seconds t = (case civil_of (t div ms_per_day) of (y, m, d) \<Rightarrow>
     pad_start 4 (CHR ''0'') (show_int y) @ ''-'' @ two_digits m @ ''-'' @ two_digits d @ ''T'' @
     two_digits (t mod ms_per_day div ms_per_hour) @ '':'' @ two_digits (t mod ms_per_hour div 60000) @ '':'' @
     two_digits (t mod 60000 div 1000) @ ''Z'')"

section \<open>components/format.ts\<close>

definition trim :: "string \<Rightarrow> string" where
  "trim s = (if CHR ''.'' \<notin> set s then s else drop_point_zeros s)"

definition multiply :: "string \<Rightarrow> string \<Rightarrow> string" where
  "multiply a b = drop_point_zeros (to_fixed (js_number a * js_number b) 4)"

definition clock :: "jsnum \<Rightarrow> string" where
  "clock seconds = (case math_max 0 (math_floor seconds) of
     Num q \<Rightarrow>
       (let left = \<lfloor>q\<rfloor>;
            h = left div 3600;
            m = left mod 3600 div 60;
            sec = left mod 60
        in if h > 0 then show_int h @ '':'' @ two_digits m @ '':'' @ two_digits sec
           else two_digits m @ '':'' @ two_digits sec)
   | PosInf \<Rightarrow> ''Infinity:NaN:NaN''
   | _ \<Rightarrow> ''NaN:NaN'')"

text \<open>The countdown to a deadline: nothing to count to shows nothing.\<close>

definition countdown :: "int \<Rightarrow> int \<Rightarrow> string option \<Rightarrow> string option" where
  "countdown tz now until = (case until of
     None \<Rightarrow> None
   | Some u \<Rightarrow> if u = [] then None else Some (clock ((parse_date tz u - Num (of_int now)) / 1000)))"

section \<open>The horizons of config.ts\<close>

datatype horizon = Quarter | Hour | Evening

text \<open>Evening is 20:00 local time; less than a minute away, or past, it is tomorrow's.\<close>

fun horizon_seconds :: "int \<Rightarrow> int \<Rightarrow> horizon \<Rightarrow> int" where
  "horizon_seconds tz now Quarter = 15 * 60"
| "horizon_seconds tz now Hour = 60 * 60"
| "horizon_seconds tz now Evening =
     (let today = day_start tz now + 20 * ms_per_hour;
          evening = (if today - now < 60000 then today + ms_per_day else today)
      in \<lfloor>(of_int (evening - now) :: rat) / 1000 + 1/2\<rfloor>)"

section \<open>Lemmas\<close>

lemma day_start_range: "day_start tz now \<le> now \<and> now < day_start tz now + ms_per_day"
proof -
  have "(now + tz) div ms_per_day * ms_per_day + (now + tz) mod ms_per_day = now + tz"
    by (rule div_mult_mod_eq)
  moreover have "0 \<le> (now + tz) mod ms_per_day" "(now + tz) mod ms_per_day < ms_per_day"
    by (simp_all add: ms_per_day_def)
  ultimately show ?thesis unfolding day_start_def by linarith
qed

lemma show_int_nonneg: "0 \<le> n \<Longrightarrow> show_int n = show_nat (nat n)"
  by (simp add: show_int_def)

lemma two_digits_value:
  assumes "0 \<le> n" "n < 60"
  shows "list_all is_digit (two_digits n) \<and> int (digits_value 0 (two_digits n)) = n"
proof -
  have "list_all is_digit (show_nat (nat n))" by (auto simp: list_all_iff dest: show_nat_digits)
  moreover have "is_digit (CHR ''0'')" by (simp add: is_digit_def code_of_def)
  moreover have "two_digits n = replicate (2 - length (show_nat (nat n))) (CHR ''0'') @ show_nat (nat n)"
    using assms by (simp add: two_digits_def pad_start_def show_int_nonneg)
  ultimately show ?thesis using assms
    by (simp only: digits_value_zeros digits_value_show_nat) (auto simp: list_all_iff)
qed

end
