(* ===== verification/Risk.thy ===== *)
theory Risk
  imports Dates Wire
begin

text \<open>
  The numbers a glance at the app gives: the dial of the day's risk
  (strategy/risk.ts), the bars of what was in play hour by hour
  (risk/hours.ts) and what the account is worth (trading/equity.ts). All are
  computed from what the platform last answered; none is kept.
\<close>

section \<open>The dial\<close>

text \<open>What a position can still lose: what its stop gives up, or its collateral.\<close>

definition stake_at_risk :: "position \<Rightarrow> jsnum" where
  "stake_at_risk p = (case ps_stop_pnl p of
     Some v \<Rightarrow> math_abs (js_number v) | None \<Rightarrow> js_number (ps_collateral p))"

definition at_stake :: "position list \<Rightarrow> jsnum" where
  "at_stake ps = foldl (\<lambda>acc p. acc + (if is_finite (stake_at_risk p) then stake_at_risk p else 0)) 0 ps"

definition day_share :: "jsnum \<Rightarrow> jsnum \<Rightarrow> jsnum \<Rightarrow> jsnum" where
  "day_share stake spent budget = math_min 100 (math_round (((stake + spent) / budget) * 100))"

definition risk_percent :: "platform_state option \<Rightarrow> jsnum" where
  "risk_percent state = (case state of
     None \<Rightarrow> 0
   | Some s \<Rightarrow>
       let budget = js_number (lm_daily_loss (pf_limits s)) in
       if \<not> is_finite budget \<or> budget \<le> 0 then 0 else
       let spent = num_or (math_abs (js_number (rk_daily_loss (pf_risk s)))) 0
       in day_share (at_stake (pf_positions s)) spent budget)"

definition daily_budget :: "risk_report \<Rightarrow> jsnum option" where
  "daily_budget r = List.find (\<lambda>b. is_finite b \<and> b > 0)
     (List.map (\<lambda>s. case rs_limits s of None \<Rightarrow> 0 | Some l \<Rightarrow> js_number (lm_daily_loss l)) (rr_strategies r))"

definition risk_percent_of :: "risk_report option \<Rightarrow> jsnum option" where
  "risk_percent_of report = (case report of
     None \<Rightarrow> None
   | Some r \<Rightarrow> Some (case daily_budget r of
       None \<Rightarrow> 0
     | Some budget \<Rightarrow>
         let stake = num_or (js_number (rt_at_risk (rr_totals r))) 0;
             spent = num_or (math_abs (js_number (rt_daily_loss (rr_totals r)))) 0
         in day_share stake spent budget))"

datatype risk_level = Calm | Warm | Hot

definition risk_level :: "jsnum \<Rightarrow> risk_level" where
  "risk_level percent = (if percent \<le> 0 then Calm else if percent < 60 then Warm else Hot)"

section \<open>Hour by hour\<close>

text \<open>One stretch of time with something in play: clipped to today up to now,
  its notional is added to every hour it touches.\<close>

definition add_play :: "int \<Rightarrow> int \<Rightarrow> jsnum list \<Rightarrow> jsnum \<times> jsnum \<times> jsnum \<Rightarrow> jsnum list" where
  "add_play start now in_play stretch = (case stretch of (from_ms, to_ms, notional) \<Rightarrow>
     (if \<not> is_finite notional \<or> notional \<le> 0 then in_play else
      let f = math_max from_ms (Num (of_int start));
          t = math_min to_ms (Num (of_int now))
      in if t \<le> f then in_play else
         (case (math_floor ((f - Num (of_int start)) / Num (of_int ms_per_hour)),
                math_min 23 (math_floor ((t - 1 - Num (of_int start)) / Num (of_int ms_per_hour)))) of
            (Num a, Num b) \<Rightarrow>
              foldl (\<lambda>xs h. xs[nat h := xs ! nat h + notional]) in_play [max 0 \<lfloor>a\<rfloor>..\<lfloor>b\<rfloor>]
          | _ \<Rightarrow> in_play)))"

definition closed_stretches :: "int \<Rightarrow> trade list \<Rightarrow> (jsnum \<times> jsnum \<times> jsnum) list" where
  "closed_stretches tz trades = concat (List.map (\<lambda>t. case td_closed_at t of
     None \<Rightarrow> []
   | Some c \<Rightarrow> if c = [] then [] else
       [(parse_date tz (td_opened_at t), parse_date tz c, js_number (td_size t) * js_number (td_entry_price t))])
   trades)"

definition open_stretches :: "int \<Rightarrow> int \<Rightarrow> risk_position list \<Rightarrow> (jsnum \<times> jsnum \<times> jsnum) list" where
  "open_stretches tz now ps = concat (List.map (\<lambda>p. case ps_opened_at p of
     None \<Rightarrow> []
   | Some o' \<Rightarrow> if o' = [] then [] else [(parse_date tz o', Num (of_int now), js_number (ps_notional p))]) ps)"

definition hours_in_play :: "int \<Rightarrow> trade list \<Rightarrow> risk_position list \<Rightarrow> int \<Rightarrow> jsnum list" where
  "hours_in_play tz trades open_now now =
     (let start = day_start tz now;
          in_play = foldl (add_play start now) (replicate 24 0)
            (closed_stretches tz trades @ open_stretches tz now open_now);
          peak = math_max_list in_play
      in if peak \<le> 0 then in_play else List.map (\<lambda>v. math_round ((v / peak) * 100)) in_play)"

section \<open>What the account is worth\<close>

definition equity :: "platform_state \<Rightarrow> jsnum" where
  "equity s =
     (let held = js_number (ac_balance (pf_account s)) + js_number (ac_locked (pf_account s));
          in_positions = foldl (\<lambda>acc p. acc + js_number (ps_collateral p) + js_number (ps_unrealized_pnl p)) 0
            (pf_positions s)
      in held + in_positions)"

section \<open>Lemmas\<close>

definition amount :: "jsnum \<Rightarrow> bool" where
  "amount x \<longleftrightarrow> is_finite x \<and> 0 \<le> x"

lemma amount_Num: "amount x \<longleftrightarrow> (\<exists>q\<ge>0. x = Num q)"
  by (cases x) (auto simp: amount_def zero_Num)

lemma amount_add: "amount x \<Longrightarrow> amount y \<Longrightarrow> amount (x + y)"
  by (auto simp: amount_Num)

lemma amount_zero [simp]: "amount 0"
  by (simp add: amount_Num zero_Num)

lemma at_stake_amount:
  assumes "\<forall>p \<in> set ps. ps_stop_pnl p = None \<longrightarrow> \<not> js_number (ps_collateral p) < 0"
  shows "amount (at_stake ps)"
proof -
  have "amount acc \<Longrightarrow> \<forall>p \<in> set ps. ps_stop_pnl p = None \<longrightarrow> \<not> js_number (ps_collateral p) < 0 \<Longrightarrow>
    amount (foldl (\<lambda>acc p. acc + (if is_finite (stake_at_risk p) then stake_at_risk p else 0)) acc ps)" for acc ps
  proof (induction ps arbitrary: acc)
    case (Cons p ps)
    have "amount (if is_finite (stake_at_risk p) then stake_at_risk p else 0)"
    proof (cases "ps_stop_pnl p")
      case None
      with Cons.prems(2) show ?thesis
        by (cases "js_number (ps_collateral p)") (auto simp: stake_at_risk_def amount_Num zero_Num)
    next
      case (Some v)
      then show ?thesis
        by (cases "js_number v") (auto simp: stake_at_risk_def amount_Num zero_Num)
    qed
    with Cons show ?case by (simp add: amount_add)
  qed simp
  with assms show ?thesis by (simp add: at_stake_def)
qed

lemma spent_cases: "num_or (math_abs x) 0 = PosInf \<or> amount (num_or (math_abs x) 0)"
  by (cases x) (auto simp: num_or_def truthy_def amount_Num zero_Num)

lemma round_percent_range: "0 \<le> q \<Longrightarrow> 0 \<le> \<lfloor>q + 1/2\<rfloor>" for q :: rat
  by simp

lemma day_share_range:
  assumes "amount a" and "s = PosInf \<or> amount s" and "is_finite b" and "0 < b"
  shows "\<exists>q. day_share a s b = Num q \<and> 0 \<le> q \<and> q \<le> 100"
proof -
  obtain x where x: "a = Num x" "0 \<le> x" using assms(1) by (auto simp: amount_Num)
  obtain y where y: "b = Num y" "0 < y" using assms(3,4) by (cases b) (auto simp: zero_Num)
  show ?thesis
  proof (cases "s = PosInf")
    case True
    have "PosInf / Num y = PosInf" using y by (simp add: divide_jsnum_def)
    then show ?thesis using True x y
      by (simp add: day_share_def numeral_Num math_min_def)
  next
    case False
    then obtain z where z: "s = Num z" "0 \<le> z" using assms(2) by (auto simp: amount_Num)
    have "0 \<le> (x + z) / y * 100" using x y z by simp
    then have "0 \<le> \<lfloor>(x + z) / y * 100 + 1/2\<rfloor>" by (rule round_percent_range)
    then show ?thesis using x y z
      by (auto simp: day_share_def numeral_Num)
  qed
qed

text \<open>Twenty-four amounts, and nothing in the hours after the current one.\<close>

definition play_ok :: "int \<Rightarrow> jsnum list \<Rightarrow> bool" where
  "play_ok k xs \<longleftrightarrow> length xs = 24 \<and> list_all amount xs \<and> (\<forall>h < 24. k < int h \<longrightarrow> xs ! h = 0)"

lemma play_ok_update:
  assumes "play_ok k xs" "0 \<le> h" "h \<le> k" "h \<le> 23" "amount n"
  shows "play_ok k (xs[nat h := xs ! nat h + n])"
proof -
  have h: "nat h < length xs" using assms by (simp add: play_ok_def)
  with assms have "amount (xs ! nat h + n)"
    by (intro amount_add) (auto simp: play_ok_def list_all_length)
  with assms h show ?thesis
    by (auto simp: play_ok_def list_all_length nth_list_update)
qed

lemma play_ok_updates:
  assumes "play_ok k xs" "\<forall>h \<in> set hs. 0 \<le> h \<and> h \<le> k \<and> h \<le> 23" "amount n"
  shows "play_ok k (foldl (\<lambda>xs h. xs[nat h := xs ! nat h + n]) xs hs)"
  using assms by (induction hs arbitrary: xs) (simp_all add: play_ok_update)

lemma add_play_ok:
  assumes "play_ok ((now - start) div ms_per_hour) xs"
  shows "play_ok ((now - start) div ms_per_hour) (add_play start now xs s)"
proof -
  let ?k = "(now - start) div ms_per_hour"
  obtain a b n where s: "s = (a, b, n)" by (cases s)
  let ?f = "math_max a (Num (of_int start))" and ?t = "math_min b (Num (of_int now))"
  show ?thesis
  proof (cases "\<not> is_finite n \<or> n \<le> 0 \<or> ?t \<le> ?f")
    case True
    with assms show ?thesis by (auto simp: add_play_def s Let_def)
  next
    case False
    then have n: "amount n" by (cases n) (auto simp: amount_Num zero_Num)
    show ?thesis
    proof (cases "math_floor ((?f - Num (of_int start)) / Num (of_int ms_per_hour))")
      case (Num p)
      show ?thesis
      proof (cases "math_min 23 (math_floor ((?t - 1 - Num (of_int start)) / Num (of_int ms_per_hour)))")
        case (Num q)
        then have q: "Num q \<le> 23" "Num q \<le> math_floor ((?t - 1 - Num (of_int start)) / Num (of_int ms_per_hour))"
          by (auto dest: math_min_le)
        have hour: "(of_int ms_per_hour :: rat) = 3600000" by (simp add: ms_per_hour_def)
        obtain t where t: "?t = Num t" "t \<le> of_int now"
        proof (cases b)
          case (Num r)
          with that show ?thesis by simp
        next
          case PosInf
          with that show ?thesis by (simp add: math_min_def)
        next
          case NaN
          with q(2) show ?thesis by simp
        next
          case NegInf
          with q(2) show ?thesis by (simp add: math_min_def minus_jsnum_def one_Num divide_jsnum_def hour)
        qed
        have "q \<le> of_int \<lfloor>(t - 1 - of_int start) / 3600000\<rfloor>"
          using q(2) by (simp add: t hour one_Num)
        moreover have "\<lfloor>(t - 1 - of_int start) / (3600000::rat)\<rfloor> \<le> \<lfloor>of_int (now - start) / (3600000::rat)\<rfloor>"
          using t(2) by (intro floor_mono divide_right_mono) simp_all
        moreover have "\<lfloor>of_int (now - start) / (3600000::rat)\<rfloor> = ?k"
          using floor_divide_of_int_eq[of "now - start" 3600000, where 'a = rat] by (simp add: ms_per_hour_def)
        ultimately have "\<lfloor>q\<rfloor> \<le> ?k" by linarith
        moreover have "\<lfloor>q\<rfloor> \<le> 23" using q(1) by (simp add: numeral_Num floor_le_iff)
        note q23 = this
        ultimately have "play_ok ?k (foldl (\<lambda>xs h. xs[nat h := xs ! nat h + n]) xs [max 0 \<lfloor>p\<rfloor>..\<lfloor>q\<rfloor>])"
          using q23 by (intro play_ok_updates[OF assms _ n]) (auto simp del: floor_le_numeral)
        with False Num \<open>math_floor _ = Num p\<close> show ?thesis by (simp add: add_play_def s Let_def)
      qed (use assms False \<open>math_floor _ = Num p\<close> in \<open>simp_all add: add_play_def s Let_def\<close>)
    qed (use assms False in \<open>simp_all add: add_play_def s Let_def\<close>)
  qed
qed

lemma all_play_ok:
  "play_ok ((now - start) div ms_per_hour) xs \<Longrightarrow>
    play_ok ((now - start) div ms_per_hour) (foldl (add_play start now) xs ss)"
  by (induction ss arbitrary: xs) (simp_all add: add_play_ok)

text \<open>Scaling amounts to their peak gives percentages, a hundred at the peak.\<close>

lemma scaled_range:
  assumes "list_all amount xs" "xs \<noteq> []" "\<not> math_max_list xs \<le> 0"
  shows "\<forall>v \<in> set xs. \<exists>q. math_round ((v / math_max_list xs) * 100) = Num q \<and> 0 \<le> q \<and> q \<le> 100 \<and> (v = 0 \<longrightarrow> q = 0)"
    and "\<exists>v \<in> set xs. math_round ((v / math_max_list xs) * 100) = 100"
proof -
  define qs where "qs = List.map the_num xs"
  have xs: "xs = List.map Num qs" and pos: "\<forall>q \<in> set qs. 0 \<le> q"
    using assms(1) by (auto simp: qs_def list_all_iff amount_Num intro!: map_idI[symmetric])
  obtain c cs where qs: "qs = c # cs" using assms(2) xs by (cases qs) auto
  define p where "p = foldl max c cs"
  have peak: "math_max_list xs = Num p"
    using math_max_list_Num[of c cs] by (simp add: xs qs p_def)
  have p: "0 < p" using assms(3) by (simp add: peak zero_Num)
  have le: "q \<le> p" if "q \<in> set qs" for q
    using that foldl_max_ge(1)[of c cs] foldl_max_ge(2)[of q cs c] by (auto simp: qs p_def)
  have val: "math_round ((Num q / math_max_list xs) * 100) = Num (of_int \<lfloor>q / p * 100 + 1/2\<rfloor>)" for q
    using p by (simp add: peak numeral_Num)
  have range: "0 \<le> \<lfloor>q / p * 100 + 1/2\<rfloor> \<and> \<lfloor>q / p * 100 + 1/2\<rfloor> \<le> 100" if "q \<in> set qs" for q
  proof -
    have "0 \<le> q / p" "q / p \<le> 1" using that pos le p by auto
    then show ?thesis by (auto simp: floor_le_iff intro!: round_percent_range)
  qed
  show "\<forall>v \<in> set xs. \<exists>q. math_round ((v / math_max_list xs) * 100) = Num q \<and> 0 \<le> q \<and> q \<le> 100 \<and> (v = 0 \<longrightarrow> q = 0)"
  proof
    fix v assume "v \<in> set xs"
    then obtain q where v: "v = Num q" and q: "q \<in> set qs" by (subst (asm) xs) auto
    have "math_round ((v / math_max_list xs) * 100) = Num (of_int \<lfloor>q / p * 100 + 1/2\<rfloor>)"
      unfolding v by (rule val)
    moreover have "0 \<le> (of_int \<lfloor>q / p * 100 + 1/2\<rfloor> :: rat)" "(of_int \<lfloor>q / p * 100 + 1/2\<rfloor> :: rat) \<le> 100"
      using range[OF q] by linarith+
    moreover have "v = 0 \<longrightarrow> (of_int \<lfloor>q / p * 100 + 1/2\<rfloor> :: rat) = 0"
      by (simp add: v zero_Num floor_rat)
    ultimately show "\<exists>q. math_round ((v / math_max_list xs) * 100) = Num q \<and> 0 \<le> q \<and> q \<le> 100 \<and> (v = 0 \<longrightarrow> q = 0)"
      by blast
  qed
  have "p \<in> set qs" using foldl_max_mem[of c cs] by (simp add: qs p_def)
  moreover have "\<lfloor>p / p * 100 + 1/2\<rfloor> = 100" using p by (simp add: floor_eq_iff)
  then have "math_round ((Num p / math_max_list xs) * 100) = 100"
    using val[of p] by (simp only: numeral_Num) simp
  ultimately show "\<exists>v \<in> set xs. math_round ((v / math_max_list xs) * 100) = 100"
    by (auto simp: xs)
qed

section \<open>Properties\<close>




lemma equity_sum:
  "equity s = js_number (ac_balance (pf_account s)) + js_number (ac_locked (pf_account s))
     + sum_list (List.map (\<lambda>p. js_number (ps_collateral p) + js_number (ps_unrealized_pnl p)) (pf_positions s))"
proof -
  have sum: "foldl (\<lambda>acc p. acc + js_number (ps_collateral p) + js_number (ps_unrealized_pnl p)) a ps =
    a + sum_list (List.map (\<lambda>p. js_number (ps_collateral p) + js_number (ps_unrealized_pnl p)) ps)" for a ps
    by (induction ps arbitrary: a) (simp_all add: ac_simps)
  show ?thesis unfolding equity_def Let_def sum by (simp add: jsnum_zero_plus)
qed

text \<open>
  Opening a position moves money, it does not lose any: when the venue
  takes the margin out of the free balance and reports it as the new
  position's collateral, what the account is worth changes by that position's
  own result and by nothing else, whatever the other positions are.
\<close>

theorem opening_keeps_equity:
  assumes "pf_positions s' = before @ p # after" "pf_positions s = before @ after"
    and "ac_locked (pf_account s') = ac_locked (pf_account s)"
    and "js_number (ac_balance (pf_account s')) = js_number (ac_balance (pf_account s)) - js_number (ps_collateral p)"
    and "is_finite (js_number (ps_collateral p))"
  shows "equity s' = equity s + js_number (ps_unrealized_pnl p)"
proof -
  obtain c where c: "js_number (ps_collateral p) = Num c" using assms(5) by (cases "js_number (ps_collateral p)") auto
  have cancel: "x - Num c + (Num c + y) = x + y" for x y
    by (cases x; cases y) (simp_all add: minus_jsnum_def)
  let ?f = "\<lambda>p. js_number (ps_collateral p) + js_number (ps_unrealized_pnl p)"
  let ?rest = "js_number (ac_locked (pf_account s)) + (sum_list (List.map ?f before) + sum_list (List.map ?f after))"
  have "equity s' = js_number (ac_balance (pf_account s)) - Num c + (Num c + (js_number (ps_unrealized_pnl p) + ?rest))"
    by (simp add: equity_sum assms(1,3,4) c ac_simps)
  also have "\<dots> = js_number (ac_balance (pf_account s)) + (js_number (ps_unrealized_pnl p) + ?rest)"
    by (rule cancel)
  also have "\<dots> = equity s + js_number (ps_unrealized_pnl p)"
    by (simp add: equity_sum assms(2) ac_simps)
  finally show ?thesis .
qed

theorem opening_keeps_equity_witness:
  "let p = sample_position ''MON'' Long None; before = sample_state [];
       after = (sample_state [p])\<lparr>pf_account := (pf_account before)\<lparr>ac_balance := ''230''\<rparr>\<rparr>
   in equity after = equity before + Num (3/2)"
proof -
  let ?p = "sample_position ''MON'' Long None"
  let ?s = "sample_state []"
  let ?s' = "(sample_state [?p])\<lparr>pf_account := (pf_account ?s)\<lparr>ac_balance := ''230''\<rparr>\<rparr>"
  have c: "js_number (ps_collateral ?p) = Num 20" "js_number (ps_unrealized_pnl ?p) = Num (3/2)"
    by (simp_all add: sample_defs js_eval)
  have "js_number (ac_balance (pf_account ?s')) = js_number (ac_balance (pf_account ?s)) - js_number (ps_collateral ?p)"
    by (simp add: c) (simp add: sample_defs js_eval)
  then have "equity ?s' = equity ?s + js_number (ps_unrealized_pnl ?p)"
    by (intro opening_keeps_equity[of _ "[]" ?p "[]"]) (simp_all add: c, simp_all add: sample_defs)
  then show ?thesis by (simp add: c)
qed

definition sample_risk_position :: "string \<Rightarrow> risk_position" where
  "sample_risk_position opened = position.extend
     ((sample_position ''MON'' Long (Some ''rsi''))\<lparr>ps_opened_at := Some opened\<rparr>)
     (risk_position.fields ''rsi'' None ''20'')"

lemma opened_eval: "parse_date 0 ''1970-01-01T09:30:00Z'' = Num 34200000"
  by (simp add: parse_date_def read_day_def num_at_def char_at_def month_length_def leap_year_def days_of_def
      read_minutes_def read_seconds_def read_zone_def Let_def ms_per_day_def js_eval)


end
