(* ===== verification/Trading.thy ===== *)
theory Trading
  imports Client Dates Storage "HOL-Library.AList"
begin

text \<open>
  The trading loop every strategy screen shares (trading/useTrading.ts), the
  market a screen is on (trading/useSymbol.ts) and the memory of a tap on a
  signal (trading/signal-entry.ts). The platform is an argument: what it
  answers to a call may depend on every call before it, and whether the screen
  is still mounted after a call is its to say too. The hook's state carries the
  calls made so far, so that what is sent, and in which order, can be stated.
  An answer that arrives on its own (the list of trades after a refresh) is
  taken at the point where it was asked for.
\<close>

section \<open>The platform and the hook's state\<close>

datatype call =
    CallState string | CallTrades string string | CallMarkets
  | CallOpen open_request | CallClose close_request | CallAmend amend_request
  | Wait jsnum | ReportAsked

text \<open>Each answer is a function of the calls so far, the one answered last.\<close>

record backend =
  bk_state :: "call list \<Rightarrow> exn + platform_state"
  bk_trades :: "call list \<Rightarrow> exn + trade list"
  bk_markets :: "call list \<Rightarrow> exn + market list"
  bk_open :: "call list \<Rightarrow> exn + venue_order"
  bk_close :: "call list \<Rightarrow> exn + venue_order"
  bk_amend :: "call list \<Rightarrow> exn + amended"
  bk_address :: "call list \<Rightarrow> string option"
  bk_mounted :: "call list \<Rightarrow> bool"

record notice =
  nt_text :: string
  nt_is_error :: bool
  nt_code :: "string option"

datatype busy = GoingUp | GoingDown | Closing | Reversing | Amending

record trading =
  tr_state :: "platform_state option"
  tr_state_for :: "string option"
  tr_trades :: "trade list"
  tr_market :: "market option"
  tr_busy :: "busy option"
  tr_notice :: "notice option"
  tr_offline :: bool
  tr_locked :: bool
  tr_calls :: "call list"
  tr_tracked :: "(string \<times> string) list"

definition start_trading :: trading where
  "start_trading = \<lparr>tr_state = None, tr_state_for = None, tr_trades = [], tr_market = None, tr_busy = None,
     tr_notice = None, tr_offline = False, tr_locked = False, tr_calls = [], tr_tracked = []\<rparr>"

definition refusal :: "exn \<Rightarrow> notice" where
  "refusal e = \<lparr>nt_text = describe_error e, nt_is_error = True,
     nt_code = (case e of Api a \<Rightarrow> Some (ae_code a) | Fail _ \<Rightarrow> None)\<rparr>"

definition error_notice :: "string \<Rightarrow> notice" where
  "error_notice t = \<lparr>nt_text = t, nt_is_error = True, nt_code = None\<rparr>"

definition called :: "call \<Rightarrow> trading \<Rightarrow> trading" where
  "called c t = t\<lparr>tr_calls := tr_calls t @ [c]\<rparr>"

definition asked_report :: "trading \<Rightarrow> trading" where
  "asked_report t = called ReportAsked t"

section \<open>Reading\<close>

definition read_trades :: "backend \<Rightarrow> string \<Rightarrow> string \<Rightarrow> trading \<Rightarrow> trading" where
  "read_trades bk symbol strategy t =
     (let t1 = called (CallTrades symbol strategy) t in
      case bk_trades bk (tr_calls t1) of
        Inr ts \<Rightarrow> if bk_mounted bk (tr_calls t1) then t1\<lparr>tr_trades := ts\<rparr> else t1
      | Inl _ \<Rightarrow> t1)"

definition refresh :: "backend \<Rightarrow> string \<Rightarrow> string \<Rightarrow> trading \<Rightarrow> trading" where
  "refresh bk symbol strategy t =
     (let asked = bk_address bk (tr_calls t);
          t1 = called (CallState strategy) t
      in case bk_state bk (tr_calls t1) of
           Inr s \<Rightarrow>
             if \<not> bk_mounted bk (tr_calls t1) then t1
             else read_trades bk symbol strategy
                    (t1\<lparr>tr_state := Some s, tr_state_for := asked, tr_offline := False, tr_locked := False\<rparr>)
         | Inl e \<Rightarrow>
             if \<not> bk_mounted bk (tr_calls t1) then t1
             else
               (let t2 = (if has_code ''network'' e then t1\<lparr>tr_offline := True\<rparr> else t1) in
                if has_code ''own_account_disabled'' e \<or> has_code ''no_key'' e
                then t2\<lparr>tr_locked := True, tr_state := None\<rparr> else t2))"

definition mount :: "backend \<Rightarrow> string \<Rightarrow> string \<Rightarrow> trading \<Rightarrow> trading" where
  "mount bk symbol strategy t =
     (let t1 = called CallMarkets (refresh bk symbol strategy t) in
      case bk_markets bk (tr_calls t1) of
        Inr ms \<Rightarrow> if bk_mounted bk (tr_calls t1)
                   then t1\<lparr>tr_market := List.find (\<lambda>m. mk_symbol m = symbol) ms\<rparr> else t1
      | Inl _ \<Rightarrow> t1)"

text \<open>Which position the screen shows.\<close>

definition positions_of :: "trading \<Rightarrow> position list" where
  "positions_of t = (case tr_state t of None \<Rightarrow> [] | Some s \<Rightarrow> pf_positions s)"

definition find_position :: "string \<Rightarrow> string \<Rightarrow> position list \<Rightarrow> position option" where
  "find_position symbol strategy ps =
     (case List.find (\<lambda>p. ps_strategy p = Some strategy) ps of
        Some p \<Rightarrow> Some p
      | None \<Rightarrow> List.find (\<lambda>p. \<not> given (ps_strategy p) \<and> ps_symbol p = symbol) ps)"

definition position_of :: "string \<Rightarrow> string \<Rightarrow> trading \<Rightarrow> position option" where
  "position_of symbol strategy t = find_position symbol strategy (positions_of t)"

section \<open>Orders\<close>

definition open_body :: "string \<Rightarrow> string \<Rightarrow> side \<Rightarrow> string \<Rightarrow> jsnum \<Rightarrow> string \<Rightarrow> string \<Rightarrow> string \<Rightarrow> open_request" where
  "open_body symbol strategy side notional horizon max_loss leverage take_profit =
     \<lparr>rq_symbol = symbol, rq_side = side, rq_notional = notional, rq_leverage = Some leverage,
      rq_strategy = Some strategy,
      rq_max_loss = (if max_loss \<noteq> ''0'' then Some max_loss else None),
      rq_take_profit = (if take_profit \<noteq> ''0'' then Some take_profit else None),
      rq_horizon_seconds = Some horizon\<rparr>"

definition rejected_text :: "string \<Rightarrow> venue_order \<Rightarrow> string" where
  "rejected_text prefix o' = prefix @ (case od_rejection o' of
     None \<Rightarrow> ''unknown'' | Some r \<Rightarrow> (case rj_code r of None \<Rightarrow> ''unknown'' | Some c \<Rightarrow> c))"

text \<open>Busy is set before the call and cleared on every way out.\<close>

definition open_order ::
    "backend \<Rightarrow> string \<Rightarrow> string \<Rightarrow> side \<Rightarrow> string \<Rightarrow> jsnum \<Rightarrow> string \<Rightarrow> string \<Rightarrow> string \<Rightarrow> trading \<Rightarrow> trading" where
  "open_order bk symbol strategy side notional horizon max_loss leverage take_profit t =
     (let t0 = t\<lparr>tr_busy := Some (if side = Long then GoingUp else GoingDown), tr_notice := None\<rparr>;
          t1 = called (CallOpen (open_body symbol strategy side notional horizon max_loss leverage take_profit)) t0;
          t2 = (case bk_open bk (tr_calls t1) of
                  Inl e \<Rightarrow> t1\<lparr>tr_notice := Some (refusal e)\<rparr>
                | Inr o' \<Rightarrow>
                    asked_report (refresh bk symbol strategy
                      (if od_status o' = SFailed
                       then t1\<lparr>tr_notice := Some (error_notice (rejected_text ''The exchange refused: '' o'))\<rparr>
                       else t1\<lparr>tr_tracked := tr_tracked t1 @ [(strategy, symbol)]\<rparr>)))
      in t2\<lparr>tr_busy := None\<rparr>)"

definition close_order :: "backend \<Rightarrow> string \<Rightarrow> string \<Rightarrow> trading \<Rightarrow> trading \<times> venue_order option" where
  "close_order bk symbol strategy t =
     (let t0 = t\<lparr>tr_busy := Some Closing, tr_notice := None\<rparr>;
          t1 = called (CallClose \<lparr>cq_symbol = symbol, cq_strategy = Some strategy\<rparr>) t0
      in case bk_close bk (tr_calls t1) of
           Inl e \<Rightarrow> (t1\<lparr>tr_notice := Some (error_notice (describe_error e)), tr_busy := None\<rparr>, None)
         | Inr o' \<Rightarrow> ((asked_report (refresh bk symbol strategy t1))\<lparr>tr_busy := None\<rparr>, Some o'))"

text \<open>A change of the exits, without the symbol and the strategy the hook adds.\<close>

record exits_change =
  ex_max_loss :: "decimal option"
  ex_take_profit :: "decimal option"
  ex_extend_seconds :: "jsnum option"

definition amend_order :: "backend \<Rightarrow> string \<Rightarrow> string \<Rightarrow> exits_change \<Rightarrow> trading \<Rightarrow> trading \<times> bool" where
  "amend_order bk symbol strategy change t =
     (let t0 = t\<lparr>tr_busy := Some Amending, tr_notice := None\<rparr>;
          t1 = called (CallAmend \<lparr>aq_symbol = symbol, aq_strategy = Some strategy, aq_max_loss = ex_max_loss change,
                 aq_take_profit = ex_take_profit change, aq_extend_seconds = ex_extend_seconds change\<rparr>) t0
      in case bk_amend bk (tr_calls t1) of
           Inl e \<Rightarrow> (t1\<lparr>tr_notice := Some (error_notice (describe_error e)), tr_busy := None\<rparr>, False)
         | Inr _ \<Rightarrow> ((asked_report (refresh bk symbol strategy t1))\<lparr>tr_busy := None\<rparr>, True))"

section \<open>Reversing\<close>

definition reverse_pause_ms :: jsnum where "reverse_pause_ms = 2000"

definition reverse_horizon :: "int \<Rightarrow> position \<Rightarrow> jsnum" where
  "reverse_horizon tz p =
     (if given (ps_closes_at p) \<and> given (ps_opened_at p)
      then math_max 0 (math_round ((parse_date tz (the (ps_closes_at p)) - parse_date tz (the (ps_opened_at p))) / 1000))
      else 0)"

text \<open>A fraction the platform gave for an exit is kept when it is a positive number.\<close>

definition kept_exit :: "string option \<Rightarrow> string option" where
  "kept_exit v = (if given v \<and> js_number (the v) > 0 then v else None)"

definition reverse_body :: "int \<Rightarrow> string \<Rightarrow> position \<Rightarrow> open_request" where
  "reverse_body tz strategy p =
     \<lparr>rq_symbol = ps_symbol p,
      rq_side = (if ps_side p = Long then Short else Long),
      rq_notional = to_fixed (js_number (ps_notional p)) 2,
      rq_leverage = Some (js_string (js_number (ps_leverage p))),
      rq_strategy = Some strategy,
      rq_max_loss = kept_exit (ps_max_loss p),
      rq_take_profit = kept_exit (ps_take_profit p),
      rq_horizon_seconds = Some (reverse_horizon tz p)\<rparr>"

text \<open>The cooldown is waited out once: how long, when the refusal says so.\<close>

definition cooldown_wait :: "exn \<Rightarrow> jsnum option" where
  "cooldown_wait e = (case e of
     Fail _ \<Rightarrow> None
   | Api a \<Rightarrow> if ae_code a = ''cooldown'' then
       (case ae_retry a of None \<Rightarrow> None
        | Some r \<Rightarrow> if truthy r then Some (math_ceil r * 1000 + 250) else None)
     else None)"

definition try_open :: "backend \<Rightarrow> open_request \<Rightarrow> trading \<Rightarrow> trading \<times> (exn + venue_order)" where
  "try_open bk body t = (let t1 = called (CallOpen body) t in (t1, bk_open bk (tr_calls t1)))"

definition open_after_cooldown :: "backend \<Rightarrow> open_request \<Rightarrow> trading \<Rightarrow> trading \<times> (exn + venue_order)" where
  "open_after_cooldown bk body t =
     (case try_open bk body t of
        (t1, Inr o') \<Rightarrow> (t1, Inr o')
      | (t1, Inl e) \<Rightarrow>
          (case cooldown_wait e of
             Some ms \<Rightarrow> try_open bk body (called (Wait ms) t1)
           | None \<Rightarrow> (t1, Inl e)))"

definition reverse_order :: "int \<Rightarrow> backend \<Rightarrow> string \<Rightarrow> string \<Rightarrow> position option \<Rightarrow> trading \<Rightarrow> trading" where
  "reverse_order tz bk symbol strategy p t =
     (case p of None \<Rightarrow> t | Some p \<Rightarrow>
       (let t0 = t\<lparr>tr_busy := Some Reversing, tr_notice := None\<rparr>;
            t1 = called (CallClose \<lparr>cq_symbol = ps_symbol p, cq_strategy = Some strategy\<rparr>) t0;
            failed = (\<lambda>e t. refresh bk symbol strategy (t\<lparr>tr_notice := Some (error_notice (describe_error e))\<rparr>))
        in (case bk_close bk (tr_calls t1) of
              Inl e \<Rightarrow> failed e t1
            | Inr _ \<Rightarrow>
                (case open_after_cooldown bk (reverse_body tz strategy p) (called (Wait reverse_pause_ms) t1) of
                   (t2, Inl e) \<Rightarrow> failed e t2
                 | (t2, Inr o') \<Rightarrow>
                     asked_report (refresh bk symbol strategy
                       (if od_status o' = SFailed
                        then t2\<lparr>tr_notice := Some (error_notice
                               (rejected_text ''Closed, but the exchange refused the other side: '' o'))\<rparr>
                        else t2))))\<lparr>tr_busy := None\<rparr>))"

section \<open>The market of a screen\<close>

text \<open>Each mounted screen has its own copy of the choices; a choice is written
  over that copy and the result is stored.\<close>

record symbol_hook =
  sy_chosen :: chosen_markets

definition mount_symbols :: "chosen_markets place \<Rightarrow> symbol_hook" where
  "mount_symbols p = \<lparr>sy_chosen = load_symbols p\<rparr>"

definition choose_symbol :: "string \<Rightarrow> string \<Rightarrow> symbol_hook \<times> chosen_markets place \<Rightarrow> symbol_hook \<times> chosen_markets place" where
  "choose_symbol strategy symbol hp = (case hp of (h, p) \<Rightarrow>
     (let next = AList.update strategy (upper symbol) (sy_chosen h)
      in (h\<lparr>sy_chosen := next\<rparr>, save_symbols next p)))"

definition symbol_of :: "string \<Rightarrow> symbol_hook \<Rightarrow> string" where
  "symbol_of strategy h = (case map_of (sy_chosen h) strategy of None \<Rightarrow> ''MON'' | Some s \<Rightarrow> s)"

section \<open>The memory of a tap on a signal\<close>

record signal_memory =
  sm_cache :: "(string \<times> string) list option"
  sm_place :: "(string \<times> string) list place"

definition load_entries :: "signal_memory \<Rightarrow> (string \<times> string) list \<times> signal_memory" where
  "load_entries m = (case sm_cache m of
     Some c \<Rightarrow> (c, m)
   | None \<Rightarrow> (let c = (case load_doc (sm_place m) of None \<Rightarrow> [] | Some d \<Rightarrow> d) in (c, m\<lparr>sm_cache := Some c\<rparr>)))"

definition save_entries :: "(string \<times> string) list \<Rightarrow> signal_memory \<Rightarrow> signal_memory" where
  "save_entries c m = m\<lparr>sm_cache := Some c, sm_place := quietly (set_item (Doc c)) (sm_place m)\<rparr>"

definition mark_signal_entry :: "string \<Rightarrow> string \<Rightarrow> signal_memory \<Rightarrow> signal_memory" where
  "mark_signal_entry strategy symbol m = (case load_entries m of (c, m1) \<Rightarrow>
     save_entries (AList.update strategy symbol c) m1)"

definition was_signal_entry :: "string \<Rightarrow> string \<Rightarrow> signal_memory \<Rightarrow> bool" where
  "was_signal_entry strategy symbol m = (map_of (fst (load_entries m)) strategy = Some symbol)"

definition clear_signal_entry :: "string \<Rightarrow> signal_memory \<Rightarrow> signal_memory" where
  "clear_signal_entry strategy m = (case load_entries m of (c, m1) \<Rightarrow>
     if map_of c strategy \<noteq> None then save_entries (AList.delete strategy c) m1 else m1)"

section \<open>What each step sends and keeps\<close>

fun is_order :: "call \<Rightarrow> bool" where
  "is_order (CallOpen b) = True"
| "is_order (CallClose b) = True"
| "is_order (CallAmend b) = True"
| "is_order c = False"

definition order_calls :: "trading \<Rightarrow> call list" where
  "order_calls t = filter is_order (tr_calls t)"

lemma order_calls_called [simp]: "order_calls (called c t) = order_calls t @ (if is_order c then [c] else [])"
  by (simp add: order_calls_def called_def)

lemma order_calls_updates [simp]:
  "order_calls (t\<lparr>tr_busy := b\<rparr>) = order_calls t" "order_calls (t\<lparr>tr_notice := n\<rparr>) = order_calls t"
  "order_calls (t\<lparr>tr_tracked := l\<rparr>) = order_calls t" "order_calls (t\<lparr>tr_state := s\<rparr>) = order_calls t"
  "order_calls (t\<lparr>tr_state_for := a\<rparr>) = order_calls t" "order_calls (t\<lparr>tr_offline := f\<rparr>) = order_calls t"
  "order_calls (t\<lparr>tr_locked := l'\<rparr>) = order_calls t" "order_calls (t\<lparr>tr_trades := ts\<rparr>) = order_calls t"
  by (simp_all add: order_calls_def)

lemma called_frame [simp]:
  "tr_state (called c t) = tr_state t" "tr_busy (called c t) = tr_busy t" "tr_notice (called c t) = tr_notice t"
  "tr_tracked (called c t) = tr_tracked t" "tr_locked (called c t) = tr_locked t" "tr_offline (called c t) = tr_offline t"
  "tr_calls (called c t) = tr_calls t @ [c]"
  by (simp_all add: called_def)

lemma read_trades_frame [simp]:
  "order_calls (read_trades bk m s t) = order_calls t" "tr_state (read_trades bk m s t) = tr_state t"
  "tr_busy (read_trades bk m s t) = tr_busy t" "tr_notice (read_trades bk m s t) = tr_notice t"
  "tr_tracked (read_trades bk m s t) = tr_tracked t" "tr_locked (read_trades bk m s t) = tr_locked t"
  by (auto simp: read_trades_def Let_def split: sum.split)

lemma refresh_frame [simp]:
  "order_calls (refresh bk m s t) = order_calls t" "tr_busy (refresh bk m s t) = tr_busy t"
  "tr_notice (refresh bk m s t) = tr_notice t" "tr_tracked (refresh bk m s t) = tr_tracked t"
  by (auto simp: refresh_def Let_def split: sum.split)

lemma refresh_locked: "tr_locked t \<longrightarrow> tr_state t = None \<Longrightarrow>
    tr_locked (refresh bk m s t) \<longrightarrow> tr_state (refresh bk m s t) = None"
  by (auto simp: refresh_def Let_def split: sum.split)

lemma read_trades_prefix: "\<exists>ys. tr_calls (read_trades bk m s t) = tr_calls t @ ys"
  by (auto simp: read_trades_def Let_def split: sum.split)

lemma refresh_prefix: "\<exists>ys. tr_calls (refresh bk m s t) = tr_calls t @ ys"
proof -
  have "\<exists>ys. tr_calls (read_trades bk m s (u\<lparr>tr_state := a, tr_state_for := b, tr_offline := c, tr_locked := d\<rparr>)) = tr_calls u @ ys" for u a b c d
    using read_trades_prefix[of bk m s "u\<lparr>tr_state := a, tr_state_for := b, tr_offline := c, tr_locked := d\<rparr>"] by simp
  then show ?thesis
    by (auto simp: refresh_def Let_def split: sum.split) (metis append_assoc called_frame(7))+
qed

lemma asked_report_frame [simp]:
  "order_calls (asked_report t) = order_calls t" "tr_state (asked_report t) = tr_state t"
  "tr_busy (asked_report t) = tr_busy t" "tr_notice (asked_report t) = tr_notice t"
  "tr_tracked (asked_report t) = tr_tracked t" "tr_locked (asked_report t) = tr_locked t"
  by (simp_all add: asked_report_def)

lemma try_open_frame [simp]:
  "tr_state (fst (try_open bk b t)) = tr_state t" "tr_locked (fst (try_open bk b t)) = tr_locked t"
  by (simp_all add: try_open_def Let_def)

lemma open_after_frame:
  assumes "open_after_cooldown bk b t = (t', r)"
  shows "tr_state t' = tr_state t" "tr_locked t' = tr_locked t" "tr_notice t' = tr_notice t"
  using assms
  by (auto simp: open_after_cooldown_def try_open_def Let_def split: sum.splits option.splits)

section \<open>The screen as a machine\<close>

datatype trading_event =
    Poll
  | TapOpen side string jsnum string string string
  | TapClose
  | TapAmend exits_change
  | TapReverse

fun trading_step :: "int \<Rightarrow> backend \<Rightarrow> string \<Rightarrow> string \<Rightarrow> trading \<Rightarrow> trading_event \<Rightarrow> trading" where
  "trading_step tz bk symbol strategy t Poll = refresh bk symbol strategy t"
| "trading_step tz bk symbol strategy t (TapOpen side notional horizon max_loss leverage take_profit) =
     open_order bk symbol strategy side notional horizon max_loss leverage take_profit t"
| "trading_step tz bk symbol strategy t TapClose = fst (close_order bk symbol strategy t)"
| "trading_step tz bk symbol strategy t (TapAmend change) = fst (amend_order bk symbol strategy change t)"
| "trading_step tz bk symbol strategy t TapReverse =
     reverse_order tz bk symbol strategy (position_of symbol strategy t) t"

definition trading_ok :: "trading \<Rightarrow> bool" where
  "trading_ok t \<longleftrightarrow> tr_busy t = None \<and> (tr_locked t \<longrightarrow> tr_state t = None)"

lemma reverse_ok:
  assumes "tr_locked t \<longrightarrow> tr_state t = None" "tr_busy t = None"
  shows "trading_ok (reverse_order tz bk symbol strategy p t)"
proof (cases p)
  case (Some q)
  let ?t1 = "called (CallClose \<lparr>cq_symbol = ps_symbol q, cq_strategy = Some strategy\<rparr>) (t\<lparr>tr_busy := Some Reversing, tr_notice := None\<rparr>)"
  obtain t2 r where o': "open_after_cooldown bk (reverse_body tz strategy q) (called (Wait reverse_pause_ms) ?t1) = (t2, r)"
    by fastforce
  have lt: "tr_locked t2 \<longrightarrow> tr_state t2 = None" using open_after_frame[OF o'] assms(1) by simp
  have go: "\<And>u. (tr_locked u \<longrightarrow> tr_state u = None) \<Longrightarrow>
      tr_locked (refresh bk symbol strategy u) \<longrightarrow> tr_state (refresh bk symbol strategy u) = None"
    by (rule refresh_locked)
  show ?thesis
    unfolding reverse_order_def Some option.case Let_def o' trading_ok_def
    using assms lt by (auto simp: intro!: go[rule_format] split: sum.split)
qed (use assms in \<open>simp add: reverse_order_def trading_ok_def\<close>)

lemma trading_step_ok: "trading_ok t \<Longrightarrow> trading_ok (trading_step tz bk symbol strategy t e)"
proof (cases e)
  case TapReverse
  then show "trading_ok t \<Longrightarrow> ?thesis" by (simp add: trading_ok_def[of t] reverse_ok)
qed (auto simp: trading_ok_def open_order_def close_order_def amend_order_def Let_def
    intro!: refresh_locked[rule_format] split: sum.split)

interpretation screen: state_machine "trading_step tz bk symbol strategy" trading_ok
  for tz :: int and bk :: backend and symbol :: string and strategy :: string
  by unfold_locales (rule trading_step_ok)

lemma cooldown_long_enough:
  assumes "cooldown_wait (Api a) = Some ms" "ae_retry a = Some (Num q)"
  shows "Num (q * 1000) < ms"
proof -
  have "ms = math_ceil (Num q) * 1000 + 250"
    using assms by (auto simp: cooldown_wait_def split: if_splits)
  moreover have "q \<le> of_int \<lceil>q\<rceil>" by (rule le_of_int_ceiling)
  then have "q * 1000 < of_int \<lceil>q\<rceil> * 1000 + 250" by linarith
  ultimately show ?thesis by (simp add: numeral_Num)
qed

section \<open>Properties\<close>

text \<open>
  C15. Whatever the platform answers, and in whatever order the polls and the
  taps come, the screen never stays busy once an operation is over, and a
  screen that says the wallet has to sign in shows no position and no state
  left over from before.
\<close>

theorem screen_settles:
  "let t = foldl (trading_step tz bk symbol strategy) start_trading es
   in tr_busy t = None \<and> (tr_locked t \<longrightarrow> tr_state t = None \<and> position_of symbol strategy t = None)"
proof -
  define t where "t = foldl (trading_step tz bk symbol strategy) start_trading es"
  have "trading_ok start_trading" by (simp add: trading_ok_def start_trading_def)
  then have "trading_ok t" unfolding t_def by (rule screen.run_inv)
  then show ?thesis unfolding Let_def t_def [symmetric]
    by (auto simp: trading_ok_def position_of_def positions_of_def find_position_def)
qed

definition refusing :: "exn \<Rightarrow> backend" where
  "refusing e = \<lparr>bk_state = (\<lambda>cs. Inl e), bk_trades = (\<lambda>cs. Inl e), bk_markets = (\<lambda>cs. Inl e),
     bk_open = (\<lambda>cs. Inl e), bk_close = (\<lambda>cs. Inl e), bk_amend = (\<lambda>cs. Inl e),
     bk_address = (\<lambda>cs. None), bk_mounted = (\<lambda>cs. True)\<rparr>"

definition no_key_error :: exn where
  "no_key_error = Api (new_api_error 401 (no_error_body\<lparr>eb_error := Some ''no_key''\<rparr>) ''HTTP 401'')"

theorem screen_settles_witness:
  "let t = foldl (trading_step 0 (refusing no_key_error) ''MON'' ''rsi'') start_trading [Poll, TapClose]
   in tr_busy t = None \<and> tr_locked t \<and> tr_state t = None"
  using screen_settles[of 0 "refusing no_key_error" "''MON''" "''rsi''" "[Poll, TapClose]"]
  by (simp add: refresh_def refusing_def no_key_error_def new_api_error_def no_error_body_def has_code_def
      close_order_def start_trading_def called_def Let_def)

text \<open>
  C13. The screen never shows another strategy's trade as its own: the position
  it picks is one of the wallet's, opened by this strategy, or, when this
  strategy holds none, one the platform cannot place that is in the market the
  screen is on. Two strategies can show the same position only when nobody is
  named as its opener.
\<close>

theorem position_is_own:
  assumes "position_of symbol strategy t = Some p"
  shows "p \<in> set (positions_of t) \<and>
    (ps_strategy p = Some strategy \<or>
     \<not> given (ps_strategy p) \<and> ps_symbol p = symbol \<and> (\<forall>q \<in> set (positions_of t). ps_strategy q \<noteq> Some strategy)) \<and>
    (position_of symbol' strategy' t = Some p \<and> strategy' \<noteq> strategy \<longrightarrow> \<not> (\<exists>s. s \<noteq> [] \<and> ps_strategy p = Some s))"
proof -
  have pick: "q \<in> set (positions_of t) \<and> (ps_strategy q = Some s \<or>
     \<not> given (ps_strategy q) \<and> ps_symbol q = m \<and> (\<forall>r \<in> set (positions_of t). ps_strategy r \<noteq> Some s))"
    if "position_of m s t = Some q" for m s q
    using that by (auto simp: position_of_def find_position_def find_Some_iff find_None_iff split: option.splits)
  have un: "ps_strategy p = Some s \<Longrightarrow> s \<noteq> [] \<Longrightarrow> given (ps_strategy p)" for s
    by (simp add: given_def)
  from pick[OF assms] pick[of symbol' strategy' p] un show ?thesis by auto
qed

theorem position_is_own_witness:
  "let t = start_trading\<lparr>tr_state := Some (sample_state [sample_position ''ETH'' Short (Some ''rsi''),
             sample_position ''MON'' Long None])\<rparr>
   in position_of ''MON'' ''direction'' t = Some (sample_position ''MON'' Long None) \<and>
      position_of ''MON'' ''rsi'' t = Some (sample_position ''ETH'' Short (Some ''rsi'')) \<and>
      sample_position ''MON'' Long None \<in> set (positions_of t)"
proof -
  let ?t = "start_trading\<lparr>tr_state := Some (sample_state [sample_position ''ETH'' Short (Some ''rsi''),
             sample_position ''MON'' Long None])\<rparr>"
  have p: "position_of ''MON'' ''direction'' ?t = Some (sample_position ''MON'' Long None)"
    "position_of ''MON'' ''rsi'' ?t = Some (sample_position ''ETH'' Short (Some ''rsi''))"
    by (simp_all add: position_of_def positions_of_def find_position_def sample_defs given_def)
  from position_is_own[OF p(1)] p show ?thesis by simp
qed



definition cooling :: "position list \<Rightarrow> backend" where
  "cooling ps = (refusing no_key_error)\<lparr>bk_close := (\<lambda>cs. Inr \<lparr>od_client_id = ''1'', od_venue_id = ''9'', od_symbol = ''MON'',
       od_side = Short, od_status = SFilled, od_size = ''100'', od_filled_size = ''100'', od_avg_price = ''0.02'',
       od_fee = ''0'', od_builder_fee = ''0'', od_rejection = None, od_updated_at = None\<rparr>),
     bk_open := (\<lambda>cs. Inl (Api (new_api_error 403
       (no_error_body\<lparr>eb_error := Some ''cooldown'', eb_retry_after_seconds := Some (Num (5/2))\<rparr>) [])))\<rparr>"


text \<open>
  A strategy screen left under another one can lose the other's choice of
  market: with both mounted from the same storage, a market chosen for one
  strategy on the upper screen is gone from the storage as soon as the lower
  screen chooses for its own strategy, because it writes its own, older copy
  back; the next screen of the first strategy opens where it was before.
\<close>

theorem older_copy_loses_choice:
  assumes "storage_works p" "low_s \<noteq> top_s"
    and "choose_symbol top_s m (mount_symbols p, p) = (h, p1)"
    and "choose_symbol low_s m' (mount_symbols p, p1) = (h', p2)"
  shows "symbol_of top_s h = upper m \<and> symbol_of top_s (mount_symbols p1) = upper m \<and>
    symbol_of top_s (mount_symbols p2) = symbol_of top_s (mount_symbols p)"
proof -
  let ?c = "load_symbols p"
  have h: "h = \<lparr>sy_chosen = AList.update top_s (upper m) ?c\<rparr>" "p1 = save_symbols (AList.update top_s (upper m) ?c) p"
    "p2 = save_symbols (AList.update low_s (upper m') ?c) p1"
    using assms(3,4) by (auto simp: choose_symbol_def mount_symbols_def Let_def)
  have w1: "storage_works p1" by (simp add: h symbols.works_save[OF assms(1)])
  have "load_symbols p1 = AList.update top_s (upper m) ?c" "load_symbols p2 = AList.update low_s (upper m') ?c"
    using symbols.load_save[OF assms(1)] symbols.load_save[OF w1] by (simp_all add: h)
  then show ?thesis using assms(2)
    by (simp add: h symbol_of_def mount_symbols_def update_conv')
qed

theorem older_copy_loses_choice_witness:
  "let p = \<lparr>pl_mode = Works, pl_item = None\<rparr>;
       (h, p1) = choose_symbol ''direction'' ''eth'' (mount_symbols p, p);
       (h', p2) = choose_symbol ''rsi'' ''btc'' (mount_symbols p, p1)
   in symbol_of ''direction'' (mount_symbols p1) = ''ETH'' \<and> symbol_of ''direction'' (mount_symbols p2) = ''MON''"
proof -
  let ?p = "\<lparr>pl_mode = Works, pl_item = None\<rparr> :: chosen_markets place"
  obtain h p1 where a: "choose_symbol ''direction'' ''eth'' (mount_symbols ?p, ?p) = (h, p1)" by fastforce
  obtain h' p2 where b: "choose_symbol ''rsi'' ''btc'' (mount_symbols ?p, p1) = (h', p2)" by fastforce
  have w: "storage_works ?p" "''rsi'' \<noteq> ''direction''" by (simp_all add: storage_works_def)
  have e: "load_symbols ?p = []" "upper ''eth'' = ''ETH''"
    by (simp_all add: load_symbols_def load_doc_def get_item_def js_eval)
  have old: "symbol_of ''direction'' (mount_symbols ?p) = ''MON''"
    by (simp add: e mount_symbols_def symbol_of_def)
  from older_copy_loses_choice[OF w a b] show ?thesis
    by (simp add: a b e(2) old)
qed

text \<open>
  The memory of a tap on a signal is exact: on the market it was marked for
  the strategy is remembered, on any other it is not, other strategies keep
  theirs, clearing forgets it, and on a storage that works a reload remembers
  the same.
\<close>

theorem signal_entry_exact:
  "(was_signal_entry s m (mark_signal_entry s m' x) \<longleftrightarrow> m = m') \<and>
   (s' \<noteq> s \<longrightarrow> was_signal_entry s' m (mark_signal_entry s m' x) = was_signal_entry s' m x) \<and>
   \<not> was_signal_entry s m (clear_signal_entry s x) \<and>
   (s' \<noteq> s \<longrightarrow> was_signal_entry s' m (clear_signal_entry s x) = was_signal_entry s' m x) \<and>
   (storage_works (sm_place x) \<longrightarrow>
      was_signal_entry s m ((mark_signal_entry s m' x)\<lparr>sm_cache := None\<rparr>) \<longleftrightarrow> m = m')"
proof -
  obtain c y where l: "load_entries x = (c, y)" by fastforce
  then have y: "sm_cache y = Some c" "sm_place y = sm_place x"
    by (auto simp: load_entries_def Let_def split: option.splits)
  have after: "load_entries (save_entries d y) = (d, save_entries d y)" for d
    by (simp add: load_entries_def save_entries_def)
  have same: "load_entries y = (c, y)" by (simp add: load_entries_def y)
  have reload: "fst (load_entries ((save_entries d y)\<lparr>sm_cache := None\<rparr>)) = d" if "storage_works (sm_place x)" for d
    using that by (simp add: load_entries_def save_entries_def y Let_def)
  show ?thesis
    by (auto simp: was_signal_entry_def mark_signal_entry_def clear_signal_entry_def l after same reload
        update_conv' delete_conv')
qed

theorem signal_entry_exact_witness:
  "let x = mark_signal_entry ''rsi'' ''MON'' \<lparr>sm_cache = None, sm_place = \<lparr>pl_mode = Works, pl_item = None\<rparr>\<rparr>
   in was_signal_entry ''rsi'' ''MON'' x \<and> \<not> was_signal_entry ''rsi'' ''ETH'' x"
  using signal_entry_exact[of "''rsi''" _ "''MON''" "\<lparr>sm_cache = None, sm_place = \<lparr>pl_mode = Works, pl_item = None\<rparr>\<rparr>"]
  by simp

end
