(* ===== verification/Keys.thy ===== *)
theory Keys
  imports Bytes Client Storage "HOL-Library.AList"
begin

text \<open>
  The keys a passkey gives (account/derive.ts) and the session that keeps them
  from one visit to the next (account/session.ts). The cryptography (BIP-39,
  BIP-32, HMAC-SHA512, the curves) is an argument, the record \<open>crypto\<close>; what is
  modelled is what is derived from what, the cache of a key family, and what
  ending it wipes. A key handed out is an object the family can still wipe, so
  the family lists every key it ever made.
\<close>

section \<open>Derivation\<close>

record crypto =
  cr_mnemonic :: "byte list \<Rightarrow> string"
  cr_seed_of_mnemonic :: "string \<Rightarrow> byte list"
  cr_bip32 :: "byte list \<Rightarrow> string \<Rightarrow> byte list option"
  cr_evm_address :: "byte list \<Rightarrow> string"
  cr_hmac_sha512 :: "byte list \<Rightarrow> byte list \<Rightarrow> byte list"
  cr_ed25519_public :: "byte list \<Rightarrow> byte list"

definition prf_output_length :: nat where "prf_output_length = 32"

definition evm_path :: "nat \<Rightarrow> string" where
  "evm_path index = ''m/44'' @ [CHR 0x27] @ ''/60'' @ [CHR 0x27] @ ''/0'' @ [CHR 0x27] @ ''/0/'' @ show_nat index"

definition strategy_key_domain :: "byte list" where
  "strategy_key_domain = utf8 ''tradeagent/strategy-key/v1''"

definition auth_key_domain :: "byte list" where
  "auth_key_domain = utf8 ''tradeagent/auth-key/v1''"

definition prf_output_to_mnemonic :: "crypto \<Rightarrow> byte list \<Rightarrow> string" where
  "prf_output_to_mnemonic cr prf = cr_mnemonic cr prf"

definition prf_output_to_seed :: "crypto \<Rightarrow> byte list \<Rightarrow> exn + byte list" where
  "prf_output_to_seed cr prf =
     (if length prf \<noteq> prf_output_length then Inl (Fail ''PRF output must be 32 bytes'')
      else Inr (cr_seed_of_mnemonic cr (cr_mnemonic cr prf)))"

text \<open>A signing session holds a private key until it is ended.\<close>

record session =
  ss_key :: "byte list"
  ss_live :: bool

record wallet =
  wa_address :: string
  wa_session :: session

definition derive_wallet :: "crypto \<Rightarrow> byte list \<Rightarrow> exn + wallet" where
  "derive_wallet cr seed =
     (case cr_bip32 cr seed (evm_path 0) of
        None \<Rightarrow> Inl (Fail ''BIP-32 derivation produced no private key'')
      | Some k \<Rightarrow> Inr \<lparr>wa_address = cr_evm_address cr k, wa_session = \<lparr>ss_key = k, ss_live = True\<rparr>\<rparr>)"

record strategy_key =
  sk_index :: int
  sk_public :: "byte list"
  sk_private :: "byte list"
  sk_session :: session

text \<open>setUint32, big endian: the index modulo 2 to the 32.\<close>

definition uint32_be :: "int \<Rightarrow> byte list" where
  "uint32_be i = (let w = (word_of_int i :: 32 word) in
     [ucast (drop_bit 24 w), ucast (drop_bit 16 w), ucast (drop_bit 8 w), ucast w])"

definition strategy_key_data :: "int \<Rightarrow> byte list" where
  "strategy_key_data index = strategy_key_domain @ uint32_be index"

definition derive_strategy_key :: "crypto \<Rightarrow> byte list \<Rightarrow> int \<Rightarrow> exn + strategy_key" where
  "derive_strategy_key cr seed index =
     (if index < 0 then Inl (Fail ''strategy index must be a non-negative integer'') else
      let private = take 32 (cr_hmac_sha512 cr seed (strategy_key_data index)) in
      Inr \<lparr>sk_index = index, sk_public = cr_ed25519_public cr private, sk_private = private,
           sk_session = \<lparr>ss_key = private, ss_live = True\<rparr>\<rparr>)"

record auth_key =
  ak_public :: "byte list"
  ak_session :: session

definition derive_auth_key :: "crypto \<Rightarrow> byte list \<Rightarrow> auth_key" where
  "derive_auth_key cr seed =
     (let private = take 32 (cr_hmac_sha512 cr seed auth_key_domain) in
      \<lparr>ak_public = cr_ed25519_public cr private, ak_session = \<lparr>ss_key = private, ss_live = True\<rparr>\<rparr>)"

section \<open>The family\<close>

text \<open>\<open>kf_wiped\<close> holds the keys handed out that ending the family has wiped.\<close>

record key_family =
  kf_wallet :: wallet
  kf_auth :: auth_key
  kf_seed :: "byte list option"
  kf_strategies :: "(int \<times> strategy_key) list"
  kf_wiped :: "strategy_key list"

definition new_family :: "crypto \<Rightarrow> byte list \<Rightarrow> exn + key_family" where
  "new_family cr seed =
     (case derive_wallet cr seed of
        Inl e \<Rightarrow> Inl e
      | Inr w \<Rightarrow> Inr \<lparr>kf_wallet = w, kf_auth = derive_auth_key cr seed, kf_seed = Some seed,
                     kf_strategies = [], kf_wiped = []\<rparr>)"

definition family_strategy :: "crypto \<Rightarrow> int \<Rightarrow> key_family \<Rightarrow> (exn + strategy_key) \<times> key_family" where
  "family_strategy cr index f =
     (case kf_seed f of
        None \<Rightarrow> (Inl (Fail ''key family has ended''), f)
      | Some seed \<Rightarrow>
          (case map_of (kf_strategies f) index of
             Some k \<Rightarrow> (Inr k, f)
           | None \<Rightarrow>
               (case derive_strategy_key cr seed index of
                  Inl e \<Rightarrow> (Inl e, f)
                | Inr k \<Rightarrow> (Inr k, f\<lparr>kf_strategies := AList.update index k (kf_strategies f)\<rparr>))))"

definition end_session :: "session \<Rightarrow> session" where
  "end_session s = s\<lparr>ss_live := False\<rparr>"

definition zeroed :: "byte list \<Rightarrow> byte list" where
  "zeroed bs = replicate (length bs) 0"

definition wipe_key :: "strategy_key \<Rightarrow> strategy_key" where
  "wipe_key k = k\<lparr>sk_private := zeroed (sk_private k), sk_session := end_session (sk_session k)\<rparr>"

definition end_family :: "key_family \<Rightarrow> key_family" where
  "end_family f =
     \<lparr>kf_wallet = (kf_wallet f)\<lparr>wa_session := end_session (wa_session (kf_wallet f))\<rparr>,
      kf_auth = (kf_auth f)\<lparr>ak_session := end_session (ak_session (kf_auth f))\<rparr>,
      kf_seed = None,
      kf_strategies = [],
      kf_wiped = kf_wiped f @ List.map (wipe_key \<circ> snd) (kf_strategies f)\<rparr>"

section \<open>The session between visits\<close>

record stored_seed =
  sd_seed :: string
  sd_until :: int

definition session_ttl_ms :: int where "session_ttl_ms = 24 * 60 * 60 * 1000"

definition save_seed :: "int \<Rightarrow> byte list \<Rightarrow> int \<Rightarrow> stored_seed place \<Rightarrow> stored_seed place" where
  "save_seed now seed ttl = quietly (set_item (Doc \<lparr>sd_seed = to_hex seed, sd_until = now + ttl\<rparr>))"

definition clear_seed :: "stored_seed place \<Rightarrow> stored_seed place" where
  "clear_seed = quietly remove_item"

definition load_seed :: "int \<Rightarrow> stored_seed place \<Rightarrow> byte list option \<times> stored_seed place" where
  "load_seed now p =
     (case load_doc p of
        None \<Rightarrow> (None, p)
      | Some d \<Rightarrow>
          if sd_seed d = [] \<or> sd_until d < now then (None, clear_seed p)
          else (Some (from_hex (sd_seed d)), p))"

section \<open>Lemmas\<close>

lemma word32_bytes:
  fixes a b :: "32 word"
  assumes "(ucast (drop_bit 24 a) :: byte) = ucast (drop_bit 24 b)" "(ucast (drop_bit 16 a) :: byte) = ucast (drop_bit 16 b)"
    and "(ucast (drop_bit 8 a) :: byte) = ucast (drop_bit 8 b)" "(ucast a :: byte) = ucast b"
  shows "a = b"
proof (rule bit_word_eqI)
  fix n assume n: "n < LENGTH(32)"
  have eq: "bit a (n' + k) = bit b (n' + k)"
    if "(ucast (drop_bit k a) :: byte) = ucast (drop_bit k b)" "n' < 8" for k n'
  proof -
    from that(1) have "bit (ucast (drop_bit k a) :: byte) n' = bit (ucast (drop_bit k b) :: byte) n'" by simp
    with that(2) show ?thesis by (simp add: bit_simps add.commute)
  qed
  have four: "(ucast (drop_bit 0 a) :: byte) = ucast (drop_bit 0 b)" using assms(4) by simp
  consider "n < 8" | "8 \<le> n" "n - 8 < 8" | "16 \<le> n" "n - 16 < 8" | "24 \<le> n" "n - 24 < 8"
    using n by fastforce
  then show "bit a n = bit b n"
  proof cases
    case 1 then show ?thesis using eq[OF four, of n] by simp
  next
    case 2 then show ?thesis using eq[OF assms(3), of "n - 8"] by simp
  next
    case 3 then show ?thesis using eq[OF assms(2), of "n - 16"] by simp
  next
    case 4 then show ?thesis using eq[OF assms(1), of "n - 24"] by simp
  qed
qed

lemma uint32_be_inj:
  assumes "0 \<le> i" "i < 2 ^ 32" "0 \<le> j" "j < 2 ^ 32" "uint32_be i = uint32_be j"
  shows "i = j"
proof -
  have "(word_of_int i :: 32 word) = word_of_int j"
    using assms(5) by (intro word32_bytes) (simp_all add: uint32_be_def Let_def)
  then have "uint (word_of_int i :: 32 word) = uint (word_of_int j :: 32 word)" by simp
  with assms show ?thesis by (simp add: uint_word_of_int)
qed

lemma length_utf8 [simp]: "length (utf8 s) = length s"
  by (simp add: utf8_def)

lemma domains_apart: "strategy_key_data i \<noteq> auth_key_domain"
proof
  assume "strategy_key_data i = auth_key_domain"
  then have "length (strategy_key_data i) = length auth_key_domain" by simp
  then show False by (simp add: strategy_key_data_def strategy_key_domain_def auth_key_domain_def uint32_be_def Let_def)
qed

section \<open>The life of a family\<close>

datatype family_op = AskKey int | EndFamily

text \<open>One use of the family, with the keys handed out so far.\<close>

fun family_step :: "crypto \<Rightarrow> key_family \<times> strategy_key list \<Rightarrow> family_op \<Rightarrow> key_family \<times> strategy_key list" where
  "family_step cr (f, out) (AskKey i) = (case family_strategy cr i f of
     (Inr k, f') \<Rightarrow> (f', out @ [k]) | (Inl e, f') \<Rightarrow> (f', out))"
| "family_step cr (f, out) EndFamily = (end_family f, out)"

definition family_ok :: "crypto \<Rightarrow> byte list \<Rightarrow> key_family \<times> strategy_key list \<Rightarrow> bool" where
  "family_ok cr seed x \<longleftrightarrow> (case x of (f, out) \<Rightarrow>
     (kf_seed f = None \<or> kf_seed f = Some seed) \<and>
     (kf_seed f = None \<longrightarrow> kf_strategies f = [] \<and> \<not> ss_live (wa_session (kf_wallet f)) \<and> \<not> ss_live (ak_session (kf_auth f))) \<and>
     (\<forall>(i, k) \<in> set (kf_strategies f). derive_strategy_key cr seed i = Inr k) \<and>
     (\<forall>k \<in> set out. derive_strategy_key cr seed (sk_index k) = Inr k \<and>
        (k \<in> snd ` set (kf_strategies f) \<or> wipe_key k \<in> set (kf_wiped f))) \<and>
     (\<forall>k \<in> set (kf_wiped f). set (sk_private k) \<subseteq> {0} \<and> \<not> ss_live (sk_session k)))"

lemma derived_index: "derive_strategy_key cr seed i = Inr k \<Longrightarrow> sk_index k = i"
  by (auto simp: derive_strategy_key_def Let_def split: if_splits)

lemma update_keeps: "map_of al k = None \<Longrightarrow> AList.update k v al = al @ [(k, v)]"
  by (induction al) (auto split: if_splits)

lemma wiped_key: "set (sk_private (wipe_key k)) \<subseteq> {0}" "\<not> ss_live (sk_session (wipe_key k))"
  by (auto simp: wipe_key_def zeroed_def end_session_def)

lemma ask_ok:
  assumes "family_ok cr seed (f, out)"
  shows "family_ok cr seed (family_step cr (f, out) (AskKey i))"
proof (cases "kf_seed f")
  case None
  with assms show ?thesis by (simp add: family_strategy_def)
next
  case (Some s)
  then have s: "s = seed" using assms by (simp add: family_ok_def)
  show ?thesis
  proof (cases "map_of (kf_strategies f) i")
    case k: (Some k)
    then have "(i, k) \<in> set (kf_strategies f)" by (rule map_of_SomeD)
    moreover from this have "derive_strategy_key cr seed i = Inr k" using assms by (auto simp: family_ok_def)
    ultimately show ?thesis using assms k Some derived_index[of cr seed i k]
      by (force simp: family_ok_def family_strategy_def)
  next
    case no: None
    show ?thesis
    proof (cases "derive_strategy_key cr seed i")
      case (Inl e)
      with assms Some no s show ?thesis by (simp add: family_strategy_def)
    next
      case (Inr k)
      have "\<forall>j \<in> set out. j \<in> snd ` set (kf_strategies f) \<or> wipe_key j \<in> set (kf_wiped f)"
        using assms by (simp add: family_ok_def)
      with assms Some no s Inr derived_index[OF Inr] show ?thesis
        by (auto simp: family_ok_def family_strategy_def update_keeps)
    qed
  qed
qed

lemma end_ok:
  assumes "family_ok cr seed (f, out)"
  shows "family_ok cr seed (family_step cr (f, out) EndFamily)"
proof -
  have "wipe_key k \<in> set (kf_wiped (end_family f))" if "k \<in> set out" for k
    using that assms by (force simp: family_ok_def end_family_def)
  moreover have "\<forall>k \<in> set (kf_wiped (end_family f)). set (sk_private k) \<subseteq> {0} \<and> \<not> ss_live (sk_session k)"
    using assms wiped_key by (fastforce simp: family_ok_def end_family_def)
  ultimately show ?thesis using assms
    by (auto simp: family_ok_def) (simp_all add: end_family_def end_session_def)
qed

interpretation family: state_machine "family_step cr" "family_ok cr seed" for cr :: crypto and seed :: "byte list"
proof unfold_locales
  fix x e assume "family_ok cr seed x"
  then show "family_ok cr seed (family_step cr x e)"
    by (cases x; cases e) (use ask_ok end_ok in auto)
qed

lemma new_family_ok:
  assumes "new_family cr seed = Inr f"
  shows "family_ok cr seed (f, [])"
  using assms by (auto simp: new_family_def family_ok_def split: sum.splits)

section \<open>Properties\<close>

text \<open>
  No two keys of a family share what they are derived from: two strategy
  slots below 2 to the 32 have different derivation data, and no slot has the
  data of the request-signing key.
\<close>

theorem key_domains_disjoint:
  assumes "0 \<le> i" "i < 2 ^ 32" "0 \<le> j" "j < 2 ^ 32" "i \<noteq> j"
  shows "strategy_key_data i \<noteq> strategy_key_data j \<and> strategy_key_data i \<noteq> auth_key_domain"
  using uint32_be_inj[of i j] assms domains_apart by (auto simp: strategy_key_data_def)

theorem key_domains_disjoint_witness:
  "strategy_key_data 0 \<noteq> strategy_key_data 4294967295 \<and> strategy_key_data 0 \<noteq> auth_key_domain"
  by (rule key_domains_disjoint) simp_all

text \<open>
  C20. Ending a family leaves nothing to sign with: whatever strategy keys were
  asked for, in whatever order and even after the end, every key handed out is
  the one its slot derives from the seed, and once the family has ended each of
  them has been overwritten with zeros and its session ended, the wallet's and
  the request key's sessions are ended, and a further key is refused.
\<close>

theorem ended_family_is_wiped:
  assumes "new_family cr seed = Inr f0"
  shows "let (f, out) = foldl (family_step cr) (f0, []) ops in
    (\<forall>k \<in> set out. derive_strategy_key cr seed (sk_index k) = Inr k) \<and>
    (kf_seed f = None \<longrightarrow>
      (\<forall>k \<in> set out. \<exists>w \<in> set (kf_wiped f). w = wipe_key k \<and> set (sk_private w) \<subseteq> {0} \<and> \<not> ss_live (sk_session w)) \<and>
      \<not> ss_live (wa_session (kf_wallet f)) \<and> \<not> ss_live (ak_session (kf_auth f)) \<and>
      (\<forall>i. fst (family_strategy cr i f) = Inl (Fail ''key family has ended'')))"
proof -
  obtain f out where r: "foldl (family_step cr) (f0, []) ops = (f, out)" by fastforce
  have "family_ok cr seed (f, out)"
    using family.run_inv[OF new_family_ok[OF assms], of ops] r by simp
  then show ?thesis unfolding r by (auto simp: family_ok_def family_strategy_def)
qed

definition sample_crypto :: crypto where
  "sample_crypto = \<lparr>cr_mnemonic = (\<lambda>b. ''words''), cr_seed_of_mnemonic = (\<lambda>w. [9]), cr_bip32 = (\<lambda>s p. Some [5]),
     cr_evm_address = (\<lambda>k. ''0xAb''), cr_hmac_sha512 = (\<lambda>k d. [7, 8]), cr_ed25519_public = (\<lambda>k. [1])\<rparr>"

theorem ended_family_is_wiped_witness:
  "\<exists>f0. new_family sample_crypto [9] = Inr f0 \<and>
     (case foldl (family_step sample_crypto) (f0, []) [AskKey 0, EndFamily, AskKey 1] of (f, out) \<Rightarrow>
        kf_seed f = None \<and> length out = 1 \<and> (\<forall>k \<in> set (kf_wiped f). sk_private k = [0, 0]) \<and>
        fst (family_strategy sample_crypto 0 f) = Inl (Fail ''key family has ended''))"
proof -
  obtain f0 where f0: "new_family sample_crypto [9] = Inr f0"
    by (simp add: new_family_def derive_wallet_def sample_crypto_def)
  then have v: "f0 = \<lparr>kf_wallet = \<lparr>wa_address = ''0xAb'', wa_session = \<lparr>ss_key = [5], ss_live = True\<rparr>\<rparr>,
      kf_auth = derive_auth_key sample_crypto [9], kf_seed = Some [9], kf_strategies = [], kf_wiped = []\<rparr>"
    by (simp add: new_family_def derive_wallet_def sample_crypto_def)
  obtain f out where r: "foldl (family_step sample_crypto) (f0, []) [AskKey 0, EndFamily, AskKey 1] = (f, out)" by fastforce
  then have "kf_seed f = None" "length out = 1" "\<forall>k \<in> set (kf_wiped f). sk_private k = [0, 0]"
    by (auto simp: v family_strategy_def derive_strategy_key_def end_family_def wipe_key_def zeroed_def
        sample_crypto_def Let_def)
  with ended_family_is_wiped[OF f0, of "[AskKey 0, EndFamily, AskKey 1]"] r f0 show ?thesis by simp
qed

text \<open>
  A session lasts exactly as long as it was saved for: on a storage that
  works, a seed saved for some time is read back unchanged until that time has
  passed, and the first read after it finds nothing and removes it for good;
  clearing removes it at once.
\<close>

theorem session_expires:
  assumes "storage_works p" "seed \<noteq> []"
  shows "let p1 = save_seed now seed ttl p in
    (later \<le> now + ttl \<longrightarrow> load_seed later p1 = (Some seed, p1)) \<and>
    (now + ttl < later \<longrightarrow> fst (load_seed later p1) = None \<and>
       (\<forall>t. fst (load_seed t (snd (load_seed later p1))) = None)) \<and>
    (\<forall>t. fst (load_seed t (clear_seed p1)) = None)"
proof -
  have ne: "to_hex seed \<noteq> []" using assms(2) by (cases seed) simp_all
  have d: "load_doc (save_seed now seed ttl p) = Some \<lparr>sd_seed = to_hex seed, sd_until = now + ttl\<rparr>"
    and w: "storage_works (save_seed now seed ttl p)"
    using assms(1) by (simp_all add: save_seed_def)
  have c: "load_doc (clear_seed q) = None" if "storage_works q" for q :: "stored_seed place"
    using that by (simp add: clear_seed_def)
  show ?thesis using ne d c[OF w] by (auto simp: load_seed_def Let_def)
qed

theorem session_expires_witness:
  "let p1 = save_seed 1000 [1, 254] session_ttl_ms \<lparr>pl_mode = Works, pl_item = None\<rparr>
   in fst (load_seed 86401000 p1) = Some [1, 254] \<and> fst (load_seed 86401001 p1) = None"
  using session_expires[of "\<lparr>pl_mode = Works, pl_item = None\<rparr>" "[1, 254]" 1000 session_ttl_ms 86401000]
    session_expires[of "\<lparr>pl_mode = Works, pl_item = None\<rparr>" "[1, 254]" 1000 session_ttl_ms 86401001]
  by (simp add: storage_works_def session_ttl_ms_def Let_def)

end
