(* ===== verification/Enroll.thy ===== *)
theory Enroll
  imports Keys Dates
begin

text \<open>
  Connecting a wallet to the exchange (exchange/enroll.ts, useExchangeKey.ts)
  and claiming a prize (exchange/prize.ts). The platform, the venue and the
  signing library answer as functions of what was asked of them so far; the
  venue's document is what signEnrollment reads of it.
\<close>

section \<open>Signing the venue's document\<close>

text \<open>A value of the document's domain: the JSON kinds BigInt is applied to, and the rest.\<close>

datatype doc_value = DocText string | DocNumber jsnum | DocBig int | DocOther string

record typed_data =
  ty_types :: "(string \<times> (string \<times> string) list) list"
  ty_primary :: string
  ty_domain :: "(string \<times> doc_value) list"
  ty_message :: string

text \<open>BigInt of a string: decimal with an optional sign, or to base 16, 8 or 2 after its prefix;
  of a number: an integer. Anything else throws.\<close>

definition big_of_text :: "string \<Rightarrow> int option" where
  "big_of_text s = (let t = strip s in
     if t = [] then Some 0
     else if length t > 2 \<and> hd t = CHR ''0'' \<and> lower_char (t ! 1) = CHR ''x''
       then map_option int (read_base 16 0 (drop 2 t))
     else if length t > 2 \<and> hd t = CHR ''0'' \<and> lower_char (t ! 1) = CHR ''o''
       then map_option int (read_base 8 0 (drop 2 t))
     else if length t > 2 \<and> hd t = CHR ''0'' \<and> lower_char (t ! 1) = CHR ''b''
       then map_option int (read_base 2 0 (drop 2 t))
     else if list_all is_digit t then Some (int (digits_value 0 t))
     else if hd t = CHR ''-'' \<and> tl t \<noteq> [] \<and> list_all is_digit (tl t) then Some (- int (digits_value 0 (tl t)))
     else if hd t = CHR ''+'' \<and> tl t \<noteq> [] \<and> list_all is_digit (tl t) then Some (int (digits_value 0 (tl t)))
     else None)"

definition to_big :: "doc_value \<Rightarrow> exn + doc_value" where
  "to_big v = (case v of
     DocText s \<Rightarrow> (case big_of_text s of Some i \<Rightarrow> Inr (DocBig i) | None \<Rightarrow> Inl (Fail (''Cannot convert '' @ s @ '' to a BigInt'')))
   | DocNumber (Num q) \<Rightarrow> (if of_int \<lfloor>q\<rfloor> = q then Inr (DocBig \<lfloor>q\<rfloor>)
       else Inl (Fail ''The number cannot be converted to a BigInt because it is not an integer''))
   | DocNumber _ \<Rightarrow> Inl (Fail ''The number cannot be converted to a BigInt because it is not an integer'')
   | _ \<Rightarrow> Inr v)"

text \<open>The document as it is handed to the signer: without the venue's own domain
  type, and with the chain id as a big integer.\<close>

definition prepare_document :: "typed_data \<Rightarrow> exn + typed_data" where
  "prepare_document d =
     (let types = filter (\<lambda>(k, _). k \<noteq> ''EIP712Domain'') (ty_types d) in
      case map_of (ty_domain d) ''chainId'' of
        None \<Rightarrow> Inr (d\<lparr>ty_types := types\<rparr>)
      | Some v \<Rightarrow>
          (case to_big v of
             Inl e \<Rightarrow> Inl e
           | Inr b \<Rightarrow> Inr (d\<lparr>ty_types := types, ty_domain := AList.update ''chainId'' b (ty_domain d)\<rparr>)))"

definition sign_enrollment :: "(typed_data \<Rightarrow> exn + string) \<Rightarrow> typed_data \<Rightarrow> exn + string" where
  "sign_enrollment sign d = (case prepare_document d of Inl e \<Rightarrow> Inl e | Inr p \<Rightarrow> sign p)"

section \<open>Enrolling\<close>

record enroll_payload =
  ep_handle :: string
  ep_strategy :: "string option"
  ep_public_key :: string
  ep_sign_in_message :: string
  ep_typed_data :: typed_data
  ep_statement :: string
  ep_builder_id :: nat
  ep_max_builder_fee :: nat
  ep_expires_at :: string

record enrolled_key =
  ek_address :: string
  ek_strategy :: string
  ek_derived :: bool
  ek_label :: string
  ek_builder_id :: nat
  ek_max_builder_fee :: nat
  ek_max_builder_fee_pct :: "string option"
  ek_enrolled_at :: string

text \<open>The calls of an enrollment, in the order they are made.\<close>

datatype enroll_call =
    AskPayload string string
  | Submit string string string string

record enroll_world =
  ew_payload :: "enroll_call list \<Rightarrow> exn + enroll_payload"
  ew_submit :: "enroll_call list \<Rightarrow> exn + enrolled_key"
  ew_sign_typed :: "enroll_call list \<Rightarrow> typed_data \<Rightarrow> exn + string"
  ew_sign_message :: "enroll_call list \<Rightarrow> string \<Rightarrow> exn + string"

definition exchange_key_index :: int where "exchange_key_index = 0"

definition exchange_key_for :: "crypto \<Rightarrow> key_family \<Rightarrow> (exn + strategy_key) \<times> key_family" where
  "exchange_key_for cr keys = family_strategy cr exchange_key_index keys"

definition max_enroll_attempts :: nat where "max_enroll_attempts = 5"

text \<open>One attempt: a fresh payload, the two signatures, the submission. The
  result says whether it was the submission that failed.\<close>

datatype attempt = Thrown exn | Refused exn | Enrolled enrolled_key

definition enroll_once :: "enroll_world \<Rightarrow> string \<Rightarrow> strategy_key \<Rightarrow> enroll_call list \<Rightarrow> attempt \<times> enroll_call list" where
  "enroll_once w address key cs =
     (let cs1 = cs @ [AskPayload address (to_hex (sk_public key))] in
      case ew_payload w cs1 of
        Inl e \<Rightarrow> (Thrown e, cs1)
      | Inr p \<Rightarrow>
          (case sign_enrollment (ew_sign_typed w cs1) (ep_typed_data p) of
             Inl e \<Rightarrow> (Thrown e, cs1)
           | Inr sig \<Rightarrow>
               (case ew_sign_message w cs1 (ep_sign_in_message p) of
                  Inl e \<Rightarrow> (Thrown e, cs1)
                | Inr sign_in \<Rightarrow>
                    (let cs2 = cs1 @ [Submit (ep_handle p) sign_in sig (to_hex (sk_private key))] in
                     case ew_submit w cs2 of
                       Inr k \<Rightarrow> (Enrolled k, cs2)
                     | Inl e \<Rightarrow> (Refused e, cs2)))))"

text \<open>The loop: only the venue's refusal of this document is worth another.\<close>

fun enroll_loop :: "enroll_world \<Rightarrow> string \<Rightarrow> strategy_key \<Rightarrow> nat \<Rightarrow> exn option \<Rightarrow> enroll_call list
    \<Rightarrow> (exn + enrolled_key) \<times> enroll_call list" where
  "enroll_loop w address key 0 last_e cs =
     (Inl (case last_e of Some e \<Rightarrow> e
           | None \<Rightarrow> Fail ''the exchange refused every enrollment attempt; try again''), cs)"
| "enroll_loop w address key (Suc n) last_e cs =
     (case enroll_once w address key cs of
        (Thrown e, cs') \<Rightarrow> (Inl e, cs')
      | (Enrolled k, cs') \<Rightarrow> (Inr k, cs')
      | (Refused e, cs') \<Rightarrow>
          if has_code ''venue_rejected'' e then enroll_loop w address key n (Some e) cs' else (Inl e, cs'))"

definition enroll_exchange_key ::
    "crypto \<Rightarrow> enroll_world \<Rightarrow> key_family \<Rightarrow> (exn + enrolled_key) \<times> key_family \<times> enroll_call list" where
  "enroll_exchange_key cr w keys =
     (case exchange_key_for cr keys of
        (Inl e, keys') \<Rightarrow> (Inl e, keys', [])
      | (Inr key, keys') \<Rightarrow>
          (case enroll_loop w (wa_address (kf_wallet keys)) key max_enroll_attempts None [] of
             (r, cs) \<Rightarrow> (r, keys', cs)))"

text \<open>Whether the platform holds a key: a 404 is an answer, not an error.\<close>

definition exchange_key :: "exn + enrolled_key \<Rightarrow> exn + enrolled_key option" where
  "exchange_key answer = (case answer of
     Inr k \<Rightarrow> Inr (Some k)
   | Inl (Api e) \<Rightarrow> if ae_status e = 404 then Inr None else Inl (Api e)
   | Inl e \<Rightarrow> Inl e)"

section \<open>The request-signing key\<close>

definition registration_message :: "string \<Rightarrow> byte list \<Rightarrow> string \<Rightarrow> string" where
  "registration_message address public_key issued_at =
     ''TradeAgent request-signing key'' @ newline @ ''Wallet: '' @ lower address @ newline @
     ''Key: '' @ to_hex public_key @ newline @ ''Issued: '' @ issued_at"

text \<open>What is registered: the address, the key, the second it was issued, and the
  wallet's signature of the message that says all three.\<close>

definition register_auth_key ::
    "(string \<Rightarrow> exn + string) \<Rightarrow> int \<Rightarrow> key_family \<Rightarrow> exn + (string \<times> string \<times> string \<times> string)" where
  "register_auth_key sign now keys =
     (let issued = iso_seconds (now div 1000 * 1000);
          address = wa_address (kf_wallet keys);
          public = ak_public (kf_auth keys)
      in case sign (registration_message address public issued) of
           Inl e \<Rightarrow> Inl e
         | Inr sig \<Rightarrow> Inr (address, to_hex public, issued, sig))"

section \<open>The screen's view of the key\<close>

datatype key_status = KeyUnknown | KeyMissing | KeyEnabled enrolled_key

record key_screen =
  ks_status :: key_status
  ks_busy :: bool
  ks_error :: "string option"

text \<open>On arrival, and when the button is pressed.\<close>

definition look_up_key :: "(exn + enrolled_key) option \<Rightarrow> key_screen \<Rightarrow> key_screen" where
  "look_up_key answer s = (case answer of
     None \<Rightarrow> s\<lparr>ks_status := KeyUnknown\<rparr>
   | Some a \<Rightarrow> (case exchange_key a of
       Inr (Some k) \<Rightarrow> s\<lparr>ks_status := KeyEnabled k\<rparr>
     | _ \<Rightarrow> s\<lparr>ks_status := KeyMissing\<rparr>))"

definition enable_key :: "crypto \<Rightarrow> enroll_world \<Rightarrow> key_family \<Rightarrow> key_screen \<Rightarrow> key_screen" where
  "enable_key cr w keys s =
     (case fst (enroll_exchange_key cr w keys) of
        Inr k \<Rightarrow> s\<lparr>ks_status := KeyEnabled k, ks_busy := False, ks_error := None\<rparr>
      | Inl e \<Rightarrow> s\<lparr>ks_busy := False, ks_error := Some (describe_error e)\<rparr>)"

section \<open>Claiming a prize\<close>

text \<open>The transaction names the week and the hash of the strategy's id; a reverted
  receipt is an error.\<close>

record claim_tx =
  cx_contract :: string
  cx_week :: nat
  cx_strategy :: "byte list"

definition strategy_hash :: "(byte list \<Rightarrow> byte list) \<Rightarrow> string \<Rightarrow> byte list" where
  "strategy_hash keccak strategy = keccak (utf8 strategy)"

definition claim_prize_tx ::
    "(byte list \<Rightarrow> byte list) \<Rightarrow> (exn + exchange_network) \<Rightarrow> (exchange_network \<Rightarrow> claim_tx \<Rightarrow> exn + string)
      \<Rightarrow> (string \<Rightarrow> exn + bool) \<Rightarrow> string \<Rightarrow> nat \<Rightarrow> string \<Rightarrow> exn + string" where
  "claim_prize_tx keccak net send receipt contract week strategy =
     (case net of
        Inl e \<Rightarrow> Inl e
      | Inr n \<Rightarrow>
          (case send n \<lparr>cx_contract = contract, cx_week = week, cx_strategy = strategy_hash keccak strategy\<rparr> of
             Inl e \<Rightarrow> Inl e
           | Inr h \<Rightarrow>
               (case receipt h of
                  Inl e \<Rightarrow> Inl e
                | Inr success \<Rightarrow> if success then Inr h else Inl (Fail (''claim reverted ('' @ h @ '')'')))))"

section \<open>What an enrollment asks\<close>

fun is_submit :: "enroll_call \<Rightarrow> bool" where
  "is_submit (Submit h m s k) = True"
| "is_submit (AskPayload a p) = False"

text \<open>Every submission follows a payload asked for it and carries that payload's
  handle, and all but the last were refused by the venue; a payload without a
  submission ends the list.\<close>

fun well_paired :: "enroll_world \<Rightarrow> enroll_call list \<Rightarrow> enroll_call list \<Rightarrow> bool" where
  "well_paired w done' [] = True"
| "well_paired w done' [AskPayload a p] = True"
| "well_paired w done' (AskPayload a p # Submit h m s k # more_calls) =
     ((case ew_payload w (done' @ [AskPayload a p]) of Inr pl \<Rightarrow> ep_handle pl = h | Inl _ \<Rightarrow> False) \<and>
      (more_calls = [] \<or> (case ew_submit w (done' @ [AskPayload a p, Submit h m s k]) of
         Inl e \<Rightarrow> has_code ''venue_rejected'' e | Inr _ \<Rightarrow> False)) \<and>
      well_paired w (done' @ [AskPayload a p, Submit h m s k]) more_calls)"
| "well_paired w done' _ = False"

lemma enroll_once_cases:
  assumes "enroll_once w address key cs = (r, cs')"
  obtains (thrown) e a p where "r = Thrown e" "cs' = cs @ [AskPayload a p]"
  | (sent) a p h m s k pl where "cs' = cs @ [AskPayload a p, Submit h m s k]"
      "ew_payload w (cs @ [AskPayload a p]) = Inr pl" "ep_handle pl = h"
      "r = (case ew_submit w cs' of Inr key \<Rightarrow> Enrolled key | Inl e \<Rightarrow> Refused e)"
  using assms by (auto simp: enroll_once_def Let_def split: sum.splits)

lemma enroll_loop_spec:
  "enroll_loop w address key n last_e cs = (r, cs') \<Longrightarrow>
    \<exists>asked. cs' = cs @ asked \<and> length (filter is_submit asked) \<le> n \<and> well_paired w cs asked \<and>
      (\<forall>k. r = Inr k \<longrightarrow> ew_submit w cs' = Inr k) \<and>
      (0 < n \<longrightarrow> asked \<noteq> [])"
proof (induction n arbitrary: last_e cs)
  case (Suc n)
  obtain t cs1 where once: "enroll_once w address key cs = (t, cs1)" by fastforce
  from once show ?case
  proof (cases rule: enroll_once_cases)
    case (thrown e a p)
    with Suc.prems once show ?thesis by auto
  next
    case (sent a p h m s k pl)
    let ?two = "[AskPayload a p, Submit h m s k]"
    show ?thesis
    proof (cases "ew_submit w cs1")
      case (Inr key')
      with Suc.prems once sent show ?thesis by auto
    next
      case (Inl e)
      show ?thesis
      proof (cases "has_code ''venue_rejected'' e")
        case False
        with Suc.prems once sent Inl show ?thesis by auto
      next
        case True
        with Suc.prems once sent Inl have "enroll_loop w address key n (Some e) cs1 = (r, cs')" by simp
        from Suc.IH[OF this] obtain asked where asked: "cs' = cs1 @ asked" "length (filter is_submit asked) \<le> n"
          "well_paired w cs1 asked" "\<forall>k. r = Inr k \<longrightarrow> ew_submit w cs' = Inr k" by blast
        with sent Inl True show ?thesis
          by (intro exI[of _ "?two @ asked"]) auto
      qed
    qed
  qed
qed auto

section \<open>Properties\<close>

text \<open>
  C21. Enrolling draws a fresh document for every submission and stops in time:
  at most five submissions are made, each right after a payload asked for it
  and with that payload's handle, a further one only when the venue itself
  refused the last; and a key is reported only when the platform returned that
  key for the last call made.
\<close>

theorem enrollment_is_bounded:
  "case enroll_exchange_key cr w keys of (r, keys', cs) \<Rightarrow>
     length (filter is_submit cs) \<le> 5 \<and> well_paired w [] cs \<and>
     (case r of Inr k \<Rightarrow> cs \<noteq> [] \<and> ew_submit w cs = Inr k | Inl _ \<Rightarrow> True)"
proof -
  obtain a keys' where a: "exchange_key_for cr keys = (a, keys')" by fastforce
  show ?thesis
  proof (cases a)
    case (Inl e)
    with a show ?thesis by (simp add: enroll_exchange_key_def)
  next
    case (Inr key)
    obtain r cs where l: "enroll_loop w (wa_address (kf_wallet keys)) key max_enroll_attempts None [] = (r, cs)"
      by fastforce
    from enroll_loop_spec[OF l] a Inr l show ?thesis
      by (auto simp: enroll_exchange_key_def max_enroll_attempts_def split: sum.split)
  qed
qed

text \<open>
  The venue refusing every document costs exactly five attempts, and then
  the error shown is the venue's own last refusal.
\<close>

theorem five_refusals_give_up:
  assumes "exchange_key_for cr keys = (Inr key, keys')"
    and "\<And>cs. \<exists>p. ew_payload w cs = Inr p" "\<And>cs d. \<exists>s. ew_sign_typed w cs d = Inr s"
    and "\<And>cs m. \<exists>s. ew_sign_message w cs m = Inr s"
    and "\<And>cs p. ew_payload w cs = Inr p \<Longrightarrow> \<exists>d. prepare_document (ep_typed_data p) = Inr d"
    and "\<And>cs. \<exists>e. ew_submit w cs = Inl e \<and> has_code ''venue_rejected'' e"
  shows "case enroll_exchange_key cr w keys of (r, keys'', cs) \<Rightarrow>
     length (filter is_submit cs) = 5 \<and> (\<exists>e. r = Inl e \<and> ew_submit w cs = Inl e)"
proof -
  have once: "\<exists>e. enroll_once w address key cs = (Refused e, cs') \<and> ew_submit w cs' = Inl e \<and> has_code ''venue_rejected'' e \<and>
      filter is_submit cs' = filter is_submit cs @ [last cs']"
    if "cs' = snd (enroll_once w address key cs)" for address cs cs'
  proof -
    let ?cs1 = "cs @ [AskPayload address (to_hex (sk_public key))]"
    obtain p where p: "ew_payload w ?cs1 = Inr p" using assms(2) by blast
    obtain d where d: "prepare_document (ep_typed_data p) = Inr d" using assms(5)[OF p] by blast
    obtain s where s: "ew_sign_typed w ?cs1 d = Inr s" using assms(3) by blast
    obtain m where m: "ew_sign_message w ?cs1 (ep_sign_in_message p) = Inr m" using assms(4) by blast
    obtain e where "ew_submit w (?cs1 @ [Submit (ep_handle p) m s (to_hex (sk_private key))]) = Inl e"
      "has_code ''venue_rejected'' e" using assms(6) by blast
    with p d s m that show ?thesis by (simp add: enroll_once_def sign_enrollment_def)
  qed
  have loop: "length (filter is_submit (snd (enroll_loop w address key n last_e cs))) = length (filter is_submit cs) + n \<and>
      (0 < n \<longrightarrow> (\<exists>e. fst (enroll_loop w address key n last_e cs) = Inl e \<and>
          ew_submit w (snd (enroll_loop w address key n last_e cs)) = Inl e))" for address n last_e cs
  proof (induction n arbitrary: last_e cs)
    case (Suc n)
    obtain e cs' where c: "enroll_once w address key cs = (Refused e, cs')" "ew_submit w cs' = Inl e"
      "has_code ''venue_rejected'' e" "filter is_submit cs' = filter is_submit cs @ [last cs']"
      using once[of "snd (enroll_once w address key cs)" address cs] by (metis prod.collapse snd_conv)
    show ?case
    proof (cases n)
      case 0
      with c show ?thesis by simp
    next
      case (Suc n')
      with Suc.IH[of "Some e" cs'] c show ?thesis by simp
    qed
  qed simp
  obtain r cs where l: "enroll_loop w (wa_address (kf_wallet keys)) key max_enroll_attempts None [] = (r, cs)"
    by fastforce
  with loop[of "wa_address (kf_wallet keys)" max_enroll_attempts None "[]"] assms(1) show ?thesis
    by (simp add: enroll_exchange_key_def max_enroll_attempts_def)
qed

definition refusing_venue :: enroll_world where
  "refusing_venue = \<lparr>ew_payload = (\<lambda>cs. Inr \<lparr>ep_handle = show_nat (length cs), ep_strategy = None, ep_public_key = ''01'',
       ep_sign_in_message = ''hello'', ep_typed_data = \<lparr>ty_types = [(''EIP712Domain'', []), (''Key'', [])], ty_primary = ''Key'',
         ty_domain = [(''chainId'', DocText ''0x279F'')], ty_message = ''m''\<rparr>,
       ep_statement = [], ep_builder_id = 1, ep_max_builder_fee = 50, ep_expires_at = []\<rparr>),
     ew_submit = (\<lambda>cs. Inl (Api (new_api_error 400 (no_error_body\<lparr>eb_error := Some ''venue_rejected''\<rparr>) []))),
     ew_sign_typed = (\<lambda>cs d. Inr ''0x1''), ew_sign_message = (\<lambda>cs m. Inr ''0x2'')\<rparr>"

lemma sample_document:
  "prepare_document \<lparr>ty_types = [(''EIP712Domain'', []), (''Key'', [])], ty_primary = ''Key'',
         ty_domain = [(''chainId'', DocText ''0x279F'')], ty_message = ''m''\<rparr>
   = Inr \<lparr>ty_types = [(''Key'', [])], ty_primary = ''Key'', ty_domain = [(''chainId'', DocBig 10143)], ty_message = ''m''\<rparr>"
  by (simp add: prepare_document_def to_big_def big_of_text_def strip_def is_space_def code_of_def lower_char_def
      digit_of_char_def Let_def)

theorem five_refusals_give_up_witness:
  "\<exists>f. new_family sample_crypto [9] = Inr f \<and>
     (case enroll_exchange_key sample_crypto refusing_venue f of (r, f', cs) \<Rightarrow>
        length (filter is_submit cs) = 5 \<and> (\<exists>e. r = Inl e))"
proof -
  obtain f where f: "new_family sample_crypto [9] = Inr f"
    by (simp add: new_family_def derive_wallet_def sample_crypto_def)
  obtain key f' where k: "exchange_key_for sample_crypto f = (Inr key, f')"
    using f by (auto simp: new_family_def derive_wallet_def sample_crypto_def exchange_key_for_def
        exchange_key_index_def family_strategy_def derive_strategy_key_def Let_def)
  have "case enroll_exchange_key sample_crypto refusing_venue f of (r, f', cs) \<Rightarrow>
        length (filter is_submit cs) = 5 \<and> (\<exists>e. r = Inl e \<and> ew_submit refusing_venue cs = Inl e)"
    by (rule five_refusals_give_up[OF k])
      (auto simp: refusing_venue_def sample_document has_code_def new_api_error_def no_error_body_def)
  with f show ?thesis by (auto split: prod.splits)
qed

text \<open>
  The registration of the request key says what is registered: from the
  text the wallet signs, the address (whatever its case), the key and the time
  can be told.
\<close>

theorem registration_says_key:
  assumes "registration_message a k t = registration_message a' k' t'"
    and "CHR 0x0A \<notin> set a" "CHR 0x0A \<notin> set a'"
  shows "lower a = lower a' \<and> k = k' \<and> t = t'"
proof -
  have low: "CHR 0x0A \<notin> set (lower s)" if "CHR 0x0A \<notin> set s" for s
  proof -
    have "lower_char c \<noteq> CHR 0x0A" if "c \<noteq> CHR 0x0A" for c
    proof (cases "65 \<le> code_of c \<and> code_of c \<le> 90")
      case True
      then have "code_of (lower_char c) = code_of c + 32" by (simp add: lower_char_def)
      then have "code_of (lower_char c) \<noteq> code_of (CHR 0x0A)" using True by (simp add: code_of_def)
      then show ?thesis by metis
    qed (use that in \<open>auto simp: lower_char_def\<close>)
    then have "CHR 0x0A \<noteq> lower_char c" if "c \<in> set s" for c using that \<open>CHR 0x0A \<notin> set s\<close> by metis
    then show ?thesis unfolding lower_def set_map by blast
  qed
  have hexd: "CHR 0x0A \<notin> set (to_hex bs)" for bs
  proof (induction bs)
    case (Cons b bs)
    have plain: "CHR 0x0A \<noteq> hex_digit d" if "d < 16" for d
    proof -
      have "is_space (CHR 0x0A)" by (simp add: is_space_def code_of_def)
      with hex_digit_plain(1)[OF that] show ?thesis by metis
    qed
    have "unat b div 16 < 16" using byte_less[of b] by (simp add: less_mult_imp_div_less)
    then have "CHR 0x0A \<noteq> hex_digit (unat b div 16)" "CHR 0x0A \<noteq> hex_digit (unat b mod 16)"
      by (simp_all add: plain)
    with Cons show ?case by simp
  qed simp
  have 1: "lower a @ CHR 0x0A # (''Key: '' @ to_hex k @ CHR 0x0A # (''Issued: '' @ t)) =
        lower a' @ CHR 0x0A # (''Key: '' @ to_hex k' @ CHR 0x0A # (''Issued: '' @ t'))"
    using assms(1) by (simp add: registration_message_def newline_def)
  note 2 = split_unique[OF low[OF assms(2)] low[OF assms(3)] 1]
  have 3: "to_hex k @ CHR 0x0A # (''Issued: '' @ t) = to_hex k' @ CHR 0x0A # (''Issued: '' @ t')"
    using 2 by simp
  from 2 split_unique[OF hexd hexd 3] show ?thesis by simp
qed

theorem registration_says_key_witness:
  "registration_message ''0xAb'' [1] ''t'' = registration_message ''0xaB'' [1] ''t'' \<and>
   lower ''0xAb'' = lower ''0xaB''"
proof -
  have m: "registration_message ''0xAb'' [1] ''t'' = registration_message ''0xaB'' [1] ''t''"
    by (simp add: registration_message_def lower_def lower_char_def code_of_def char_of_eq_iff eq_char_of)
  have "CHR 0x0A \<notin> set ''0xAb''" "CHR 0x0A \<notin> set ''0xaB''" by simp_all
  from registration_says_key[OF m this] m show ?thesis by blast
qed

end
