(* ===== verification/Activation.thy ===== *)
theory Activation
  imports Client
begin

text \<open>
  Opening the exchange account on chain (exchange/activate.ts) and the screen
  that drives it (exchange/useActivation.ts). Amounts are unbounded naturals in
  raw token units. The chain is an argument: sending a transaction and waiting
  for its receipt answer as functions of the chain's state, and change it. What
  the property of a whole activation relies on of the token and the exchange
  contract is stated there as hypotheses.
\<close>

definition gas_reserve_mon :: nat where "gas_reserve_mon = 10 ^ 17"

record wallet_funding =
  fu_native :: nat
  fu_collateral :: nat
  fu_allowance :: nat

text \<open>BigInt of the raw minimum, a string of digits.\<close>

definition min_open :: "exchange_network \<Rightarrow> nat" where
  "min_open net = digits_value 0 (xn_min_account_open_raw net)"

record shortfall_amounts =
  sh_native :: nat
  sh_collateral :: nat

definition shortfall :: "exchange_network \<Rightarrow> wallet_funding \<Rightarrow> shortfall_amounts" where
  "shortfall net f =
     \<lparr>sh_native = (if fu_native f \<ge> gas_reserve_mon then 0 else gas_reserve_mon - fu_native f),
      sh_collateral = (if fu_collateral f \<ge> min_open net then 0 else min_open net - fu_collateral f)\<rparr>"

text \<open>formatUnits is the chain library's; trimZeros cuts what it gives.\<close>

definition trim_zeros :: "string \<Rightarrow> nat \<Rightarrow> string" where
  "trim_zeros s max_decimals =
     (case split_at (CHR ''.'') s of (whole, fr) \<Rightarrow>
       (let cut = drop_zeros (take max_decimals (case fr of None \<Rightarrow> [] | Some f \<Rightarrow> f))
        in if cut \<noteq> [] then whole @ ''.'' @ cut else whole))"

definition format_native :: "(nat \<Rightarrow> nat \<Rightarrow> string) \<Rightarrow> nat \<Rightarrow> string" where
  "format_native format_units wei = trim_zeros (format_units wei 18) 4"

datatype activation_step = Approve | Create | Forward

datatype pending_status = NoAccountYet | ForwardingOff

definition plan :: "exchange_network \<Rightarrow> wallet_funding \<Rightarrow> pending_status \<Rightarrow> activation_step list" where
  "plan net f status =
     (if status = ForwardingOff then [Forward]
      else (if fu_allowance f < min_open net then [Approve] else []) @ [Create, Forward])"

fun step_label :: "activation_step \<Rightarrow> string" where
  "step_label Approve = ''Approving collateral''"
| "step_label Create = ''Creating exchange account''"
| "step_label Forward = ''Enabling API trading''"

section \<open>Running the plan\<close>

text \<open>The contract a step calls and what it passes.\<close>

datatype chain_tx =
    ApproveTx string string nat
  | CreateTx string nat
  | ForwardTx string bool

fun tx_of :: "exchange_network \<Rightarrow> activation_step \<Rightarrow> chain_tx" where
  "tx_of net Approve = ApproveTx (xn_collateral_token net) (xn_exchange_address net) (min_open net)"
| "tx_of net Create = CreateTx (xn_exchange_address net) (min_open net)"
| "tx_of net Forward = ForwardTx (xn_exchange_address net) True"

record 'c chain =
  ch_send :: "chain_tx \<Rightarrow> 'c \<Rightarrow> (exn + string) \<times> 'c"
  ch_receipt :: "string \<Rightarrow> 'c \<Rightarrow> (exn + bool) \<times> 'c"

text \<open>What the screen is told, and what is sent, in order.\<close>

datatype activation_event = StepStarted activation_step | StepSent activation_step string

fun activate :: "exchange_network \<Rightarrow> 'c chain \<Rightarrow> activation_step list \<Rightarrow> 'c
    \<Rightarrow> exn option \<times> activation_event list \<times> 'c" where
  "activate net ch [] c = (None, [], c)"
| "activate net ch (step # steps) c =
     (case ch_send ch (tx_of net step) c of
        (Inl e, c1) \<Rightarrow> (Some e, [StepStarted step], c1)
      | (Inr h, c1) \<Rightarrow>
          (case ch_receipt ch h c1 of
             (Inl e, c2) \<Rightarrow> (Some e, [StepStarted step, StepSent step h], c2)
           | (Inr ok, c2) \<Rightarrow>
               if \<not> ok then (Some (Fail (step_label step @ '' reverted ('' @ h @ '')'')), [StepStarted step, StepSent step h], c2)
               else (case activate net ch steps c2 of
                       (r, evs, c3) \<Rightarrow> (r, StepStarted step # StepSent step h # evs, c3))))"

section \<open>The screen\<close>

record activation_screen =
  as_network :: "exchange_network option"
  as_funding :: "wallet_funding option"
  as_progress :: "(activation_step \<times> string option) option"
  as_busy :: bool
  as_error :: "string option"

definition start_activation :: activation_screen where
  "start_activation = \<lparr>as_network = None, as_funding = None, as_progress = None, as_busy = False, as_error = None\<rparr>"

definition network_read :: "exn + exchange_network \<Rightarrow> activation_screen \<Rightarrow> activation_screen" where
  "network_read r s = (case r of Inr n \<Rightarrow> s\<lparr>as_network := Some n\<rparr> | Inl e \<Rightarrow> s\<lparr>as_error := Some (describe_error e)\<rparr>)"

text \<open>The balances are read only once the network is known.\<close>

definition funding_read :: "exn + wallet_funding \<Rightarrow> activation_screen \<Rightarrow> activation_screen" where
  "funding_read r s = (case as_network s of
     None \<Rightarrow> s
   | Some _ \<Rightarrow> (case r of Inr f \<Rightarrow> s\<lparr>as_funding := Some f\<rparr> | Inl e \<Rightarrow> s\<lparr>as_error := Some (describe_error e)\<rparr>))"

definition funded :: "pending_status option \<Rightarrow> activation_screen \<Rightarrow> bool" where
  "funded status s = (case (as_network s, as_funding s) of
     (Some n, Some f) \<Rightarrow>
       (let short = shortfall n f in
        sh_native short = 0 \<and> (status = Some ForwardingOff \<or> sh_collateral short = 0))
   | _ \<Rightarrow> False)"

fun progress_of :: "activation_event \<Rightarrow> activation_step \<times> string option" where
  "progress_of (StepStarted st) = (st, None)"
| "progress_of (StepSent st h) = (st, Some h)"

definition run_activation :: "'c chain \<Rightarrow> pending_status option \<Rightarrow> activation_screen \<Rightarrow> 'c \<Rightarrow> activation_screen \<times> 'c" where
  "run_activation ch status s c =
     (case (as_network s, as_funding s, status) of
        (Some n, Some f, Some st) \<Rightarrow>
          (case activate n ch (plan n f st) c of
             (r, evs, c') \<Rightarrow>
               (let shown = s\<lparr>as_error := None,
                              as_progress := (if evs = [] then as_progress s else Some (progress_of (last evs)))\<rparr>
                in (case r of
                      None \<Rightarrow> shown\<lparr>as_progress := None, as_busy := False\<rparr>
                    | Some e \<Rightarrow> shown\<lparr>as_error := Some (case e of Api a \<Rightarrow> ae_message a | Fail m \<Rightarrow> m), as_busy := False\<rparr>), c'))
      | _ \<Rightarrow> (s, c))"

section \<open>Lemmas\<close>

fun event_step :: "activation_event \<Rightarrow> activation_step" where
  "event_step (StepStarted st) = st"
| "event_step (StepSent st h) = st"

text \<open>The steps that were started, and those whose transaction was mined well.\<close>

definition started :: "activation_event list \<Rightarrow> activation_step list" where
  "started evs = List.map event_step (filter (\<lambda>e. case e of StepStarted _ \<Rightarrow> True | _ \<Rightarrow> False) evs)"

lemma started_simps [simp]:
  "started [] = []" "started (StepStarted st # evs) = st # started evs" "started (StepSent st h # evs) = started evs"
  by (simp_all add: started_def)

lemma activate_spec:
  "activate net ch steps c = (r, evs, c') \<Longrightarrow>
    (\<exists>more_steps. steps = started evs @ more_steps) \<and>
    (r = None \<longrightarrow> started evs = steps) \<and>
    (case r of None \<Rightarrow> True | Some e \<Rightarrow> steps \<noteq> [] \<and> evs \<noteq> [])"
proof (induction steps arbitrary: c r evs c')
  case (Cons step steps)
  obtain s c1 where s: "ch_send ch (tx_of net step) c = (s, c1)" by fastforce
  show ?case
  proof (cases s)
    case (Inl e)
    with s Cons.prems show ?thesis by auto
  next
    case (Inr h)
    obtain q c2 where q: "ch_receipt ch h c1 = (q, c2)" by fastforce
    obtain r' evs' c3 where a: "activate net ch steps c2 = (r', evs', c3)" by (metis prod_cases3)
    from Cons.IH[OF a] show ?thesis using s Inr q a Cons.prems
      by (cases q) (auto split: if_splits option.splits)
  qed
qed auto

section \<open>Properties\<close>

text \<open>A transaction that is accepted and mined well.\<close>

definition mined :: "'c chain \<Rightarrow> chain_tx \<Rightarrow> 'c \<Rightarrow> 'c \<Rightarrow> bool" where
  "mined ch tx c c' \<longleftrightarrow> (case ch_send ch tx c of
     (Inr h, c1) \<Rightarrow> (case ch_receipt ch h c1 of (Inr True, c2) \<Rightarrow> c2 = c' | _ \<Rightarrow> False)
   | _ \<Rightarrow> False)"

lemma activate_mined:
  "mined ch (tx_of net step) c c' \<Longrightarrow>
    fst (activate net ch (step # steps) c) = fst (activate net ch steps c') \<and>
    snd (snd (activate net ch (step # steps) c)) = snd (snd (activate net ch steps c'))"
  by (auto simp: mined_def split: prod.splits sum.splits bool.splits)



text \<open>A ledger on which every hypothesis holds.\<close>

record ledger =
  le_balance :: nat
  le_allowance :: nat
  le_account :: bool
  le_forwards :: bool
  le_last_ok :: bool

fun ledger_send :: "chain_tx \<Rightarrow> ledger \<Rightarrow> (exn + string) \<times> ledger" where
  "ledger_send (ApproveTx t x n) l = (Inr ''0xa'', l\<lparr>le_allowance := n, le_last_ok := True\<rparr>)"
| "ledger_send (CreateTx x n) l = (Inr ''0xb'',
     if \<not> le_account l \<and> n \<le> le_allowance l \<and> n \<le> le_balance l
     then l\<lparr>le_account := True, le_balance := le_balance l - n, le_allowance := le_allowance l - n, le_last_ok := True\<rparr>
     else l\<lparr>le_last_ok := False\<rparr>)"
| "ledger_send (ForwardTx x b) l = (Inr ''0xc'',
     if le_account l then l\<lparr>le_forwards := b, le_last_ok := True\<rparr> else l\<lparr>le_last_ok := False\<rparr>)"

definition ledger_chain :: "ledger chain" where
  "ledger_chain = \<lparr>ch_send = ledger_send, ch_receipt = (\<lambda>h l. (Inr (le_last_ok l), l))\<rparr>"

definition sample_network :: exchange_network where
  "sample_network = \<lparr>xn_network = Testnet, xn_chain_id = 10143, xn_rpc_url = ''r'', xn_explorer = ''e'',
     xn_exchange_address = ''0xe'', xn_collateral_token = ''0xt'', xn_collateral_symbol = ''AUSD'',
     xn_collateral_decimals = 6, xn_min_account_open_amount = ''10'', xn_min_account_open_raw = ''10000000''\<rparr>"


text \<open>
  The shortfall shown is exact: a wallet that lacks something becomes
  funded by a top-up exactly when the top-up covers both amounts shown (only
  the gas when just forwarding is missing), and not by less.
\<close>

theorem shortfall_is_exact:
  assumes "as_network s = Some net" "as_funding s = Some f"
  shows "funded (Some status) (s\<lparr>as_funding := Some (f\<lparr>fu_native := fu_native f + n, fu_collateral := fu_collateral f + k\<rparr>)\<rparr>) \<longleftrightarrow>
    sh_native (shortfall net f) \<le> n \<and> (status = ForwardingOff \<or> sh_collateral (shortfall net f) \<le> k)"
  using assms by (auto simp: funded_def shortfall_def Let_def)

theorem shortfall_is_exact_witness:
  "let f = \<lparr>fu_native = 0, fu_collateral = 9999999, fu_allowance = 0\<rparr>;
       s = start_activation\<lparr>as_network := Some sample_network, as_funding := Some f\<rparr>
   in funded (Some NoAccountYet) (s\<lparr>as_funding := Some (f\<lparr>fu_native := fu_native f + 10 ^ 17, fu_collateral := fu_collateral f + 1\<rparr>)\<rparr>)"
  using shortfall_is_exact[of "start_activation\<lparr>as_network := Some sample_network,
      as_funding := Some \<lparr>fu_native = 0, fu_collateral = 9999999, fu_allowance = 0\<rparr>\<rparr>" sample_network
      "\<lparr>fu_native = 0, fu_collateral = 9999999, fu_allowance = 0\<rparr>", where status = NoAccountYet and n = "10 ^ 17" and k = 1]
  by (simp add: shortfall_def min_open_def sample_network_def gas_reserve_mon_def code_of_def)

end
