(* ===== verification/Account.thy ===== *)
theory Account
  imports Enroll
begin

text \<open>
  The account layer (account/useAccount.tsx): which wallet is unlocked, and
  that every request acts for exactly that wallet. The passkey ceremony is an
  argument (it fails with a chain of causes, or gives the PRF output and the
  credential); a save can fail too, as the native stores do, where the web ones
  never reject. Only the clearing of byte arrays after use is left out; the
  wiping of a key family is in Keys.
\<close>

section \<open>Why a passkey did not work\<close>

text \<open>An error and the errors under it: what each depth says, if there is one. The
  chain of causes may be endless.\<close>

record error_layer =
  er_code :: "string option"
  er_text :: string

type_synonym causes = "nat \<Rightarrow> error_layer option"

fun cause_chain_from :: "causes \<Rightarrow> nat \<Rightarrow> nat \<Rightarrow> string list" where
  "cause_chain_from e depth 0 = []"
| "cause_chain_from e depth (Suc n) = (case e depth of
     None \<Rightarrow> []
   | Some l \<Rightarrow> (case er_code l of Some c \<Rightarrow> [c] | None \<Rightarrow> []) @ (if er_text l \<noteq> [] then [er_text l] else [])
              @ cause_chain_from e (Suc depth) n)"

definition cause_chain :: "causes \<Rightarrow> string list" where
  "cause_chain e = cause_chain_from e 0 8"

fun contains :: "string \<Rightarrow> string \<Rightarrow> bool" where
  "contains p [] = (p = [])"
| "contains p (c # s) = (take (length p) (c # s) = p \<or> contains p s)"

definition contains_nocase :: "string \<Rightarrow> string \<Rightarrow> bool" where
  "contains_nocase p s = contains (lower p) (lower s)"

definition middle_dot :: string where "middle_dot = [CHR '' '', CHR 0xC2, CHR 0xB7, CHR '' '']"

definition all_capitals :: "string \<Rightarrow> bool" where
  "all_capitals s \<longleftrightarrow> s \<noteq> [] \<and> list_all (\<lambda>c. 65 \<le> code_of c \<and> code_of c \<le> 90 \<or> c = CHR ''_'') s"

datatype device = Ios | Android | Browser

definition chevron :: string where "chevron = [CHR '' '', CHR 0xE2, CHR 0x80, CHR 0xBA, CHR '' '']"

definition cancelled_text :: string where "cancelled_text = ''Passkey prompt was cancelled''"

definition cannot_hold :: string where "cannot_hold = ''This password manager cannot hold your account. ''"

definition describe_passkey_error :: "device \<Rightarrow> causes \<Rightarrow> string" where
  "describe_passkey_error os e =
     (let all_text = join middle_dot (cause_chain e) in
      if contains_nocase ''NotAllowedError'' all_text \<or> contains_nocase ''cancel'' all_text \<or> contains_nocase ''abort'' all_text
      then cancelled_text
      else if contains ''PRF'' all_text \<or> contains ''prf'' all_text then
        (case os of
           Ios \<Rightarrow> cannot_hold @ ''Turn on iCloud Keychain in Settings'' @ chevron @ ''General'' @ chevron @ ''AutoFill & Passwords, then try again.''
         | Android \<Rightarrow> cannot_hold @ ''Make Google Password Manager the passkey provider in Settings, then try again.''
         | Browser \<Rightarrow> cannot_hold @ ''Save the passkey to iCloud Keychain, Google Password Manager or 1Password instead.'')
      else (let chain = filter (\<lambda>m. \<not> all_capitals m) (cause_chain e) in
            if chain = [] then ''The passkey did not work'' else last chain))"

definition failure_reason :: "string \<Rightarrow> string" where
  "failure_reason said = (if contains ''cannot hold your account'' said then ''prf''
     else if contains ''cancelled'' said then ''cancelled'' else ''other'')"

text \<open>An error of the app's own, as a chain of one.\<close>

definition causes_of :: "exn \<Rightarrow> causes" where
  "causes_of e d = (if d = 0 then Some \<lparr>er_code = (case e of Api a \<Rightarrow> Some (ae_code a) | Fail _ \<Rightarrow> None),
     er_text = exn_message e\<rparr> else None)"

section \<open>The layer\<close>

datatype account_state = Loading | NoAccount | Remembered stored_account | Unlocked stored_account

record account_layer =
  al_state :: account_state
  al_busy :: bool
  al_error :: "string option"
  al_family :: "key_family option"
  al_client :: client
  al_seed :: "stored_seed place"
  al_stored :: "stored_account place"
  al_tracked :: "(string \<times> string) list"
  al_ended :: "key_family list"

definition start_account :: "stored_seed place \<Rightarrow> stored_account place \<Rightarrow> account_layer" where
  "start_account seed stored = \<lparr>al_state = Loading, al_busy = False, al_error = None, al_family = None,
     al_client = \<lparr>cl_address = None, cl_signer = None\<rparr>, al_seed = seed, al_stored = stored,
     al_tracked = [], al_ended = []\<rparr>"

text \<open>The family that was current is ended, and kept in \<open>al_ended\<close> to be spoken of.\<close>

definition end_current :: "account_layer \<Rightarrow> account_layer" where
  "end_current s = (case al_family s of None \<Rightarrow> s
     | Some f \<Rightarrow> s\<lparr>al_ended := al_ended s @ [end_family f]\<rparr>)"

definition signer_of :: "(byte list \<Rightarrow> byte list \<Rightarrow> exn + byte list) \<Rightarrow> key_family \<Rightarrow> signer" where
  "signer_of ed f = \<lparr>sg_public = to_hex (ak_public (kf_auth f)), sg_sign = ed (ss_key (ak_session (kf_auth f)))\<rparr>"

definition adopt :: "(byte list \<Rightarrow> byte list \<Rightarrow> exn + byte list) \<Rightarrow> key_family \<Rightarrow> account_layer \<Rightarrow> account_layer" where
  "adopt ed f s = (end_current s)\<lparr>al_family := Some f,
     al_client := set_account_address (Some (wa_address (kf_wallet f)))
       (set_request_signer (Some (signer_of ed f)) (al_client s))\<rparr>"

definition drop_account :: "account_layer \<Rightarrow> account_layer" where
  "drop_account s = (end_current s)\<lparr>al_family := None,
     al_client := set_account_address None (set_request_signer None (al_client s))\<rparr>"

definition restore :: "crypto \<Rightarrow> (byte list \<Rightarrow> byte list \<Rightarrow> exn + byte list) \<Rightarrow> int \<Rightarrow> account_layer \<Rightarrow> account_layer" where
  "restore cr ed now s =
     (case load_stored_account (al_stored s) of
        None \<Rightarrow> s\<lparr>al_state := NoAccount\<rparr>
      | Some stored \<Rightarrow>
          (case load_seed now (al_seed s) of
             (None, p) \<Rightarrow> s\<lparr>al_seed := p, al_state := Remembered stored\<rparr>
           | (Some seed, p) \<Rightarrow>
               (case new_family cr seed of
                  Inl e \<Rightarrow> s\<lparr>al_seed := p\<rparr>
                | Inr f \<Rightarrow>
                    if wa_address (kf_wallet f) = sa_address stored
                    then (adopt ed f (s\<lparr>al_seed := p\<rparr>))\<lparr>al_state := Unlocked stored\<rparr>
                    else s\<lparr>al_seed := clear_seed p, al_state := Remembered stored, al_ended := al_ended s @ [end_family f]\<rparr>)))"

text \<open>What a ceremony gives, and how the two saves after it went.\<close>

record ceremony =
  ce_result :: "causes + byte list \<times> stored_credential"
  ce_seed_saved :: "exn option"
  ce_account_saved :: "exn option"

definition unlock_failed :: "device \<Rightarrow> causes \<Rightarrow> account_layer \<Rightarrow> account_layer" where
  "unlock_failed os e s = (let said = describe_passkey_error os e in
     s\<lparr>al_tracked := al_tracked s @ [(''passkey_failed'', failure_reason said)], al_error := Some said, al_busy := False\<rparr>)"

definition unlock ::
    "crypto \<Rightarrow> (byte list \<Rightarrow> byte list \<Rightarrow> exn + byte list) \<Rightarrow> device \<Rightarrow> int \<Rightarrow> ceremony \<Rightarrow> string \<Rightarrow> bool \<Rightarrow> account_layer \<Rightarrow> account_layer" where
  "unlock cr ed os now ce label fresh s0 =
     (let s = s0\<lparr>al_busy := True, al_error := None\<rparr> in
      case ce_result ce of
        Inl e \<Rightarrow> unlock_failed os e s
      | Inr (prf, credential) \<Rightarrow>
          (case prf_output_to_seed cr prf of
             Inl e \<Rightarrow> unlock_failed os (causes_of e) s
           | Inr seed \<Rightarrow>
               (case new_family cr seed of
                  Inl e \<Rightarrow> unlock_failed os (causes_of e) s
                | Inr f \<Rightarrow>
                    (case ce_seed_saved ce of
                       Some e \<Rightarrow> unlock_failed os (causes_of e) s
                     | None \<Rightarrow>
                         (let s1 = adopt ed f (s\<lparr>al_seed := save_seed now seed session_ttl_ms (al_seed s)\<rparr>);
                              stored = \<lparr>sa_credential = credential, sa_address = wa_address (kf_wallet f), sa_label = label\<rparr>
                          in case ce_account_saved ce of
                               Some e \<Rightarrow> unlock_failed os (causes_of e) s1
                             | None \<Rightarrow>
                                 s1\<lparr>al_stored := save_stored_account stored (al_stored s1),
                                    al_tracked := al_tracked s1 @ (if fresh then [(''passkey_created'', [])] else []),
                                    al_state := Unlocked stored, al_busy := False\<rparr>)))))"

definition default_label :: string where "default_label = ''Tap Trader account''"

definition known_account :: "account_layer \<Rightarrow> stored_account option" where
  "known_account s = (case al_state s of Remembered a \<Rightarrow> Some a | Unlocked a \<Rightarrow> Some a | _ \<Rightarrow> None)"

definition create_account where
  "create_account cr ed os now ce label s = unlock cr ed os now ce label True s"

definition sign_in where
  "sign_in cr ed os now ce s = unlock cr ed os now ce
     (case known_account s of Some a \<Rightarrow> sa_label a | None \<Rightarrow> default_label) False s"

definition sign_out :: "account_layer \<Rightarrow> account_layer" where
  "sign_out s = (let s1 = drop_account s in
     s1\<lparr>al_seed := clear_seed (al_seed s1), al_stored := clear_stored_account (al_stored s1), al_state := NoAccount\<rparr>)"

section \<open>The errands of an unlock\<close>

text \<open>The invite is claimed once the request key is registered; a code nobody owns
  is dropped, any other failure keeps it for the next unlock.\<close>

definition claim_pending_invite :: "(string \<Rightarrow> exn + unit) \<Rightarrow> string place \<Rightarrow> string place" where
  "claim_pending_invite claim p =
     (case pending_invite p of
        None \<Rightarrow> p
      | Some code \<Rightarrow>
          if code = [] then p else
          (case claim code of
             Inr _ \<Rightarrow> clear_pending_invite p
           | Inl e \<Rightarrow> if has_code ''no_such_code'' e then clear_pending_invite p else p))"

definition run_errands :: "exn + unit \<Rightarrow> (string \<Rightarrow> exn + unit) \<Rightarrow> string place \<Rightarrow> string place" where
  "run_errands registered claim p = (case registered of Inl _ \<Rightarrow> p | Inr _ \<Rightarrow> claim_pending_invite claim p)"

section \<open>The layer as a machine\<close>

text \<open>What the person does once the layer has been restored.\<close>

datatype account_event =
    Created int ceremony string
  | SignedIn int ceremony
  | SignedOut

fun account_step :: "crypto \<Rightarrow> (byte list \<Rightarrow> byte list \<Rightarrow> exn + byte list) \<Rightarrow> device \<Rightarrow> account_layer \<Rightarrow> account_event \<Rightarrow> account_layer" where
  "account_step cr ed os s (Created now ce label) = create_account cr ed os now ce label s"
| "account_step cr ed os s (SignedIn now ce) = sign_in cr ed os now ce s"
| "account_step cr ed os s SignedOut = sign_out s"

section \<open>Requests act for the wallet that is unlocked\<close>

definition acts_for :: "(byte list \<Rightarrow> byte list \<Rightarrow> exn + byte list) \<Rightarrow> key_family option \<Rightarrow> client \<Rightarrow> bool" where
  "acts_for ed fam c = (case fam of
     None \<Rightarrow> cl_address c = None \<and> cl_signer c = None
   | Some f \<Rightarrow> kf_seed f \<noteq> None \<and> cl_address c = Some (wa_address (kf_wallet f)) \<and> cl_signer c = Some (signer_of ed f))"

definition account_ok :: "(byte list \<Rightarrow> byte list \<Rightarrow> exn + byte list) \<Rightarrow> account_layer \<Rightarrow> bool" where
  "account_ok ed s \<longleftrightarrow> acts_for ed (al_family s) (al_client s) \<and> (\<forall>f \<in> set (al_ended s). kf_seed f = None) \<and>
     (case al_state s of
        Unlocked st \<Rightarrow> (case al_family s of Some f \<Rightarrow> wa_address (kf_wallet f) = sa_address st | None \<Rightarrow> False)
      | Loading \<Rightarrow> al_family s = None | NoAccount \<Rightarrow> al_family s = None | Remembered st \<Rightarrow> al_family s = None)"

text \<open>Saves that resolve, as the web stores' always do.\<close>

definition saves_resolve :: "ceremony \<Rightarrow> bool" where
  "saves_resolve ce \<longleftrightarrow> ce_seed_saved ce = None \<and> ce_account_saved ce = None"

fun account_event_ok :: "account_event \<Rightarrow> bool" where
  "account_event_ok (Created now ce label) = saves_resolve ce"
| "account_event_ok (SignedIn now ce) = saves_resolve ce"
| "account_event_ok SignedOut = True"

lemma end_current_frame [simp]:
  "al_state (end_current s) = al_state s" "al_client (end_current s) = al_client s"
  "al_seed (end_current s) = al_seed s" "al_stored (end_current s) = al_stored s" "al_family (end_current s) = al_family s"
  "al_tracked (end_current s) = al_tracked s"
  by (simp_all add: end_current_def split: option.split)

lemma end_current_ended: "\<forall>f \<in> set (al_ended s). kf_seed f = None \<Longrightarrow> \<forall>f \<in> set (al_ended (end_current s)). kf_seed f = None"
  by (auto simp: end_current_def end_family_def split: option.split)

lemma new_family_live: "new_family cr seed = Inr f \<Longrightarrow> kf_seed f = Some seed"
  by (auto simp: new_family_def split: sum.splits)

lemma account_ok_frame:
  assumes "account_ok ed s" "al_state t = al_state s" "al_family t = al_family s" "al_client t = al_client s"
    "al_ended t = al_ended s"
  shows "account_ok ed t"
proof -
  have "account_ok ed t = account_ok ed s" by (simp only: account_ok_def assms(2-5))
  with assms(1) show ?thesis by simp
qed

lemma unlock_failed_ok: "account_ok ed s \<Longrightarrow> account_ok ed (unlock_failed os e s)"
  by (erule account_ok_frame) (simp_all add: unlock_failed_def Let_def)

lemma adopted_ok:
  assumes "\<forall>f \<in> set (al_ended s). kf_seed f = None" "new_family cr seed = Inr f" "wa_address (kf_wallet f) = sa_address st"
  shows "account_ok ed ((adopt ed f s)\<lparr>al_stored := x, al_tracked := l, al_state := Unlocked st, al_busy := False\<rparr>)"
    and "account_ok ed ((adopt ed f s)\<lparr>al_state := Unlocked st\<rparr>)"
  using assms(2,3) end_current_ended[OF assms(1)] new_family_live[OF assms(2)]
  by (simp_all add: account_ok_def acts_for_def adopt_def set_account_address_def set_request_signer_def)

lemma unlock_ok:
  assumes "account_ok ed s" "saves_resolve ce"
  shows "account_ok ed (unlock cr ed os now ce label fresh s)"
proof -
  have s1: "account_ok ed (s\<lparr>al_busy := True, al_error := None\<rparr>)" 
    by (rule account_ok_frame[OF assms(1)]) simp_all
  have ended: "\<forall>f \<in> set (al_ended s). kf_seed f = None" using assms(1) by (simp add: account_ok_def)
  show ?thesis
  proof (cases "ce_result ce")
    case (Inl e)
    with s1 show ?thesis by (simp add: unlock_def unlock_failed_ok)
  next
    case (Inr x)
    then obtain secret credential where x: "ce_result ce = Inr (secret, credential)" by (cases x) auto
    show ?thesis
    proof (cases "prf_output_to_seed cr secret")
      case (Inl e)
      with x s1 show ?thesis by (simp add: unlock_def unlock_failed_ok)
    next
      case seed: (Inr seed)
      show ?thesis
      proof (cases "new_family cr seed")
        case (Inl e)
        with x seed s1 show ?thesis by (simp add: unlock_def unlock_failed_ok)
      next
        case (Inr f)
        let ?s = "s\<lparr>al_busy := True, al_error := None, al_seed := save_seed now seed session_ttl_ms (al_seed s)\<rparr>"
        have "\<forall>f \<in> set (al_ended ?s). kf_seed f = None" using ended by simp
        from adopted_ok(1)[OF this Inr] show ?thesis
          using x seed Inr assms(2) by (simp add: unlock_def saves_resolve_def Let_def)
      qed
    qed
  qed
qed

lemma sign_out_ok: "account_ok ed s \<Longrightarrow> account_ok ed (sign_out s)"
  using end_current_ended[of s]
  by (simp add: account_ok_def sign_out_def drop_account_def acts_for_def set_account_address_def
      set_request_signer_def Let_def)

lemma restore_ok:
  assumes "account_ok ed s" "al_family s = None"
  shows "account_ok ed (restore cr ed now s)"
proof (cases "load_stored_account (al_stored s)")
  case None
  with assms show ?thesis by (simp add: restore_def account_ok_def)
next
  case (Some st)
  obtain r p where l: "load_seed now (al_seed s) = (r, p)" by fastforce
  show ?thesis
  proof (cases r)
    case None
    with assms Some l show ?thesis by (simp add: restore_def account_ok_def)
  next
    case seed: (Some seed)
    show ?thesis
    proof (cases "new_family cr seed")
      case (Inl e)
      with Some l seed show ?thesis
        by (intro account_ok_frame[OF assms(1)]) (simp_all add: restore_def)
    next
      case (Inr f)
      have "\<forall>f \<in> set (al_ended (s\<lparr>al_seed := p\<rparr>)). kf_seed f = None" using assms by (simp add: account_ok_def)
      note ad = adopted_ok(2)[OF this Inr, of st ed]
      show ?thesis
      proof (cases "wa_address (kf_wallet f) = sa_address st")
        case True
        with ad Some l seed Inr show ?thesis by (simp add: restore_def)
      next
        case False
        with assms Some l seed Inr show ?thesis
          by (auto simp: restore_def account_ok_def end_family_def)
      qed
    qed
  qed
qed

interpretation layer: guarded_machine "account_step cr ed os" account_event_ok "account_ok ed"
  for cr :: crypto and ed :: "byte list \<Rightarrow> byte list \<Rightarrow> exn + byte list" and os :: device
proof unfold_locales
  fix s e assume "account_ok ed s" "account_event_ok e"
  then show "account_ok ed (account_step cr ed os s e)"
    by (cases e) (simp_all add: create_account_def sign_in_def unlock_ok sign_out_ok)
qed

lemma start_account_ok: "account_ok ed (start_account seed stored)"
  by (simp add: account_ok_def acts_for_def start_account_def)

section \<open>Properties\<close>


definition sample_ceremony :: ceremony where
  "sample_ceremony = \<lparr>ce_result = Inr (replicate 32 7, \<lparr>sc_id = ''c1'', sc_transports = None\<rparr>),
     ce_seed_saved = None, ce_account_saved = None\<rparr>"


lemma cause_chain_from_bound: "length (cause_chain_from e depth n) \<le> 2 * n"
  by (induction e depth n rule: cause_chain_from.induct) (auto split: option.split)

lemma cause_chain_from_cut:
  "(\<And>k. k < n \<Longrightarrow> e (depth + k) = e' (depth + k)) \<Longrightarrow> cause_chain_from e depth n = cause_chain_from e' depth n"
proof (induction e depth n rule: cause_chain_from.induct)
  case (2 e depth n)
  have here: "e depth = e' depth" using 2(2)[of 0] by simp
  have "e (Suc depth + k) = e' (Suc depth + k)" if "k < n" for k
    using 2(2)[of "Suc k"] that by simp
  with 2(1) here show ?case by (simp split: option.split)
qed simp

text \<open>
  Reading why a passkey failed ends on every error, one whose causes form a
  cycle included: at most eight errors are read, so at most sixteen texts are
  found, and what lies deeper changes nothing of what is said.
\<close>

theorem passkey_reason_is_bounded:
  assumes "\<And>k. k < 8 \<Longrightarrow> e k = e' k"
  shows "length (cause_chain e) \<le> 16 \<and> describe_passkey_error os e = describe_passkey_error os e'"
proof -
  have same: "cause_chain e = cause_chain e'"
    unfolding cause_chain_def by (rule cause_chain_from_cut) (simp add: assms)
  have "length (cause_chain e) \<le> 16"
    using cause_chain_from_bound[of e 0 8] by (simp add: cause_chain_def)
  then show ?thesis unfolding describe_passkey_error_def same by blast
qed

text \<open>An error that names itself as its cause, and the same error cut at the bound.\<close>

theorem passkey_reason_is_bounded_witness:
  "let l = \<lparr>er_code = None, er_text = ''NotAllowedError''\<rparr> in
   length (cause_chain (\<lambda>_. Some l)) \<le> 16 \<and>
   describe_passkey_error Ios (\<lambda>_. Some l) = describe_passkey_error Ios (\<lambda>k. if k < 8 then Some l else None)"
proof -
  let ?l = "\<lparr>er_code = None, er_text = ''NotAllowedError''\<rparr>"
  show ?thesis
    unfolding Let_def
    by (rule passkey_reason_is_bounded[of "\<lambda>_. Some ?l" "\<lambda>k. if k < 8 then Some ?l else None" Ios]) simp
qed



text \<open>
  An invite is not lost to a bad moment: the code a visitor arrived on stays
  exactly until the platform has taken it or has said that nobody owns it; a failed
  registration of the request key, a network that is down and a platform that
  refuses all keep it for the next unlock.
\<close>

theorem invite_outlives_failures:
  assumes "storage_works p" "pending_invite p = Some code" "code \<noteq> []"
  shows "pending_invite (run_errands registered claim p) =
    (if registered = Inr () \<and> (case claim code of Inr _ \<Rightarrow> True | Inl e \<Rightarrow> has_code ''no_such_code'' e) then None else Some code)"
  using assms
  by (cases registered; cases "claim code") (auto simp: run_errands_def claim_pending_invite_def invite.load_clear)

theorem invite_outlives_failures_witness:
  "pending_invite (run_errands (Inr ()) (\<lambda>c. Inl (Fail ''offline'')) \<lparr>pl_mode = Works, pl_item = Some (Doc ''ab'')\<rparr>) = Some ''ab''"
proof -
  let ?p = "\<lparr>pl_mode = Works, pl_item = Some (Doc ''ab'')\<rparr>"
  have p: "storage_works ?p" "pending_invite ?p = Some ''ab''" "''ab'' \<noteq> []"
    by (simp_all add: storage_works_def pending_invite_def raw_item_def get_item_def)
  show ?thesis using invite_outlives_failures[OF p, of "Inr ()" "\<lambda>c. Inl (Fail ''offline'')"] by (simp add: has_code_def)
qed

text \<open>
  A device that refuses to store the account leaves it half open: when the
  second save fails after the first one worked, requests already act for the
  new wallet and are signed by it, while the screen still shows the state it
  had before and an error.
\<close>

theorem half_open_account:
  assumes "ce_result ce = Inr (secret, credential)" "prf_output_to_seed cr secret = Inr seed" "new_family cr seed = Inr f"
    and "ce_seed_saved ce = None" "ce_account_saved ce = Some e"
  shows "let s1 = create_account cr ed os now ce label s in
    al_state s1 = al_state s \<and> al_error s1 \<noteq> None \<and> al_busy s1 = False \<and>
    cl_address (al_client s1) = Some (wa_address (kf_wallet f)) \<and> cl_signer (al_client s1) = Some (signer_of ed f)"
  using assms
  by (simp add: create_account_def unlock_def unlock_failed_def adopt_def set_account_address_def set_request_signer_def Let_def)

theorem half_open_account_witness:
  "let p = \<lparr>pl_mode = Works, pl_item = None\<rparr>;
       s1 = create_account sample_crypto (\<lambda>k m. Inr [1]) Ios 0 (sample_ceremony\<lparr>ce_account_saved := Some (Fail ''full'')\<rparr>) ''mine''
              (start_account p \<lparr>pl_mode = Works, pl_item = None\<rparr>)
   in al_state s1 = Loading \<and> cl_address (al_client s1) \<noteq> None"
proof -
  have seed: "prf_output_to_seed sample_crypto (replicate 32 7) = Inr [9]"
    by (simp add: prf_output_to_seed_def prf_output_length_def sample_crypto_def prf_output_to_mnemonic_def)
  obtain f where f: "new_family sample_crypto [9] = Inr f"
    by (auto simp: new_family_def derive_wallet_def sample_crypto_def Let_def)
  let ?p = "\<lparr>pl_mode = Works, pl_item = None\<rparr>"
  show ?thesis
    using half_open_account[OF _ seed f, of "sample_ceremony\<lparr>ce_account_saved := Some (Fail ''full'')\<rparr>" _ "Fail ''full''"
        "\<lambda>k m. Inr [1]" Ios 0 "''mine''" "start_account ?p ?p"]
    by (auto simp: sample_ceremony_def start_account_def Let_def)
qed

end
