(* ===== verification/Keychain.thy ===== *)
theory Keychain
  imports Settings Keys
begin

text \<open>
  The same stores on a phone: the *.native.ts twins of the modules in Storage,
  Settings and Keys, kept in the system's secure store. Reading and writing
  can each be refused there; most twins swallow a refusal as the web modules
  do, the account and the session let it through, and the session lasts a week.
\<close>

section \<open>One key of the secure store\<close>

text \<open>What reading and writing reject with, when they do.\<close>

record 'd keychain =
  kc_read_error :: "exn option"
  kc_write_error :: "exn option"
  kc_item :: "'d item option"

definition get_item_async :: "'d keychain \<Rightarrow> exn + 'd item option" where
  "get_item_async k = (case kc_read_error k of Some e \<Rightarrow> Inl e | None \<Rightarrow> Inr (kc_item k))"

definition set_item_async :: "'d item \<Rightarrow> 'd keychain \<Rightarrow> exn + 'd keychain" where
  "set_item_async i k = (case kc_write_error k of Some e \<Rightarrow> Inl e | None \<Rightarrow> Inr (k\<lparr>kc_item := Some i\<rparr>))"

definition delete_item_async :: "'d keychain \<Rightarrow> exn + 'd keychain" where
  "delete_item_async k = (case kc_write_error k of Some e \<Rightarrow> Inl e | None \<Rightarrow> Inr (k\<lparr>kc_item := None\<rparr>))"

definition kc_works :: "'d keychain \<Rightarrow> bool" where
  "kc_works k \<longleftrightarrow> kc_read_error k = None \<and> kc_write_error k = None"

text \<open>The bodies the twins share: a load that gives nothing on any failure, a
  write whose failure is swallowed.\<close>

definition load_guarded :: "'d keychain \<Rightarrow> 'd option" where
  "load_guarded k = (case get_item_async k of
     Inl _ \<Rightarrow> None
   | Inr None \<Rightarrow> None
   | Inr (Some i) \<Rightarrow> (case json_parse i of Inl _ \<Rightarrow> None | Inr d \<Rightarrow> Some d))"

definition write_guarded :: "('d keychain \<Rightarrow> exn + 'd keychain) \<Rightarrow> 'd keychain \<Rightarrow> 'd keychain" where
  "write_guarded f k = (case f k of Inl _ \<Rightarrow> k | Inr k' \<Rightarrow> k')"

text \<open>A bare string is not parsed: the document is the string.\<close>

definition raw_guarded :: "string keychain \<Rightarrow> string option" where
  "raw_guarded k = (case get_item_async k of Inr (Some (Doc s)) \<Rightarrow> Some s | _ \<Rightarrow> None)"

section \<open>The twins that swallow a refusal\<close>

definition load_symbols_native :: "chosen_markets keychain \<Rightarrow> chosen_markets" where
  "load_symbols_native k = (case load_guarded k of None \<Rightarrow> [] | Some d \<Rightarrow> d)"

definition save_symbols_native :: "chosen_markets \<Rightarrow> chosen_markets keychain \<Rightarrow> chosen_markets keychain" where
  "save_symbols_native chosen = write_guarded (set_item_async (Doc chosen))"

definition load_own_draft_native :: "partial_draft keychain \<Rightarrow> own_draft" where
  "load_own_draft_native k = (case load_guarded k of
     None \<Rightarrow> \<lparr>ow_text = [], ow_listed = False\<rparr>
   | Some d \<Rightarrow> \<lparr>ow_text = (case pd_text d of None \<Rightarrow> [] | Some t \<Rightarrow> t),
                ow_listed = (case pd_listed d of None \<Rightarrow> False | Some b \<Rightarrow> b)\<rparr>)"

definition save_own_draft_native :: "own_draft \<Rightarrow> partial_draft keychain \<Rightarrow> partial_draft keychain" where
  "save_own_draft_native d = write_guarded (set_item_async (Doc \<lparr>pd_text = Some (ow_text d), pd_listed = Some (ow_listed d)\<rparr>))"

definition load_analysis_day_native :: "string option keychain \<Rightarrow> string option" where
  "load_analysis_day_native k = (case load_guarded k of None \<Rightarrow> None | Some day \<Rightarrow> day)"

definition save_analysis_day_native :: "string \<Rightarrow> string option keychain \<Rightarrow> string option keychain" where
  "save_analysis_day_native day = write_guarded (set_item_async (Doc (Some day)))"

definition load_prefs_native :: "prefs_change keychain \<Rightarrow> prefs" where
  "load_prefs_native k = (case load_guarded k of None \<Rightarrow> empty_prefs | Some d \<Rightarrow> spread_prefs empty_prefs d)"

definition save_prefs_native :: "prefs \<Rightarrow> prefs_change keychain \<Rightarrow> prefs_change keychain" where
  "save_prefs_native p = write_guarded (set_item_async (Doc (whole_prefs p)))"

definition clear_prefs_native :: "prefs_change keychain \<Rightarrow> prefs_change keychain" where
  "clear_prefs_native = write_guarded delete_item_async"

definition load_settings_native :: "settings_change keychain \<Rightarrow> settings_change option" where
  "load_settings_native = load_guarded"

definition save_settings_native :: "position_settings \<Rightarrow> settings_change keychain \<Rightarrow> settings_change keychain" where
  "save_settings_native s = write_guarded (set_item_async (Doc (whole_settings s)))"

definition load_theme_choice_native :: "string keychain \<Rightarrow> theme_name option" where
  "load_theme_choice_native k = parse_theme (raw_guarded k)"

definition save_theme_choice_native :: "theme_name \<Rightarrow> string keychain \<Rightarrow> string keychain" where
  "save_theme_choice_native name = write_guarded (set_item_async (Doc (theme_text name)))"

definition pending_invite_native :: "string keychain \<Rightarrow> string option" where
  "pending_invite_native k = raw_guarded k"

definition save_pending_invite_native :: "string \<Rightarrow> string keychain \<Rightarrow> string keychain" where
  "save_pending_invite_native code = write_guarded (set_item_async (Doc code))"

definition clear_pending_invite_native :: "string keychain \<Rightarrow> string keychain" where
  "clear_pending_invite_native = write_guarded delete_item_async"

definition load_install_id_native :: "string keychain \<Rightarrow> string option" where
  "load_install_id_native k = raw_guarded k"

definition save_install_id_native :: "string \<Rightarrow> string keychain \<Rightarrow> string keychain" where
  "save_install_id_native id' = write_guarded (set_item_async (Doc id'))"

section \<open>The twins that let a refusal through\<close>

definition parse_or_throw :: "'d item option \<Rightarrow> exn + 'd option" where
  "parse_or_throw raw = (case raw of
     None \<Rightarrow> Inr None
   | Some i \<Rightarrow> (case json_parse i of Inl _ \<Rightarrow> Inl (Fail ''SyntaxError'') | Inr d \<Rightarrow> Inr (Some d)))"

definition load_stored_account_native :: "stored_account keychain \<Rightarrow> exn + stored_account option" where
  "load_stored_account_native k = (case get_item_async k of Inl e \<Rightarrow> Inl e | Inr raw \<Rightarrow> parse_or_throw raw)"

definition save_stored_account_native :: "stored_account \<Rightarrow> stored_account keychain \<Rightarrow> exn + stored_account keychain" where
  "save_stored_account_native a = set_item_async (Doc a)"

definition clear_stored_account_native :: "stored_account keychain \<Rightarrow> exn + stored_account keychain" where
  "clear_stored_account_native = delete_item_async"

definition session_ttl_native :: int where "session_ttl_native = 7 * 24 * 60 * 60 * 1000"

definition save_seed_native :: "int \<Rightarrow> byte list \<Rightarrow> int \<Rightarrow> stored_seed keychain \<Rightarrow> exn + stored_seed keychain" where
  "save_seed_native now seed ttl = set_item_async (Doc \<lparr>sd_seed = to_hex seed, sd_until = now + ttl\<rparr>)"

definition clear_seed_native :: "stored_seed keychain \<Rightarrow> exn + stored_seed keychain" where
  "clear_seed_native = delete_item_async"

definition load_seed_native :: "int \<Rightarrow> stored_seed keychain \<Rightarrow> exn + byte list option \<times> stored_seed keychain" where
  "load_seed_native now k =
     (case get_item_async k of
        Inl e \<Rightarrow> Inl e
      | Inr raw \<Rightarrow>
          (case parse_or_throw raw of
             Inl e \<Rightarrow> Inl e
           | Inr None \<Rightarrow> Inr (None, k)
           | Inr (Some d) \<Rightarrow>
               if sd_seed d = [] \<or> sd_until d < now
               then (case clear_seed_native k of Inl e \<Rightarrow> Inl e | Inr k' \<Rightarrow> Inr (None, k'))
               else Inr (Some (from_hex (sd_seed d)), k)))"

section \<open>The twins agree\<close>

text \<open>A keychain and a web place that hold the same item and both work.\<close>

definition twins :: "'d keychain \<Rightarrow> 'd place \<Rightarrow> bool" where
  "twins k p \<longleftrightarrow> kc_works k \<and> storage_works p \<and> kc_item k = pl_item p"

named_theorems twin_rules

lemma twins_load [twin_rules]: "twins k p \<Longrightarrow> load_guarded k = load_doc p"
  by (simp add: twins_def kc_works_def storage_works_def load_guarded_def load_doc_def get_item_async_def get_item_def)

lemma twins_raw [twin_rules]: "twins k p \<Longrightarrow> raw_guarded k = raw_item p"
  by (simp add: twins_def kc_works_def storage_works_def raw_guarded_def raw_item_def get_item_async_def get_item_def
      split: option.split item.split)

lemma twins_set [twin_rules]: "twins k p \<Longrightarrow> twins (write_guarded (set_item_async i) k) (quietly (set_item i) p)"
  by (simp add: twins_def kc_works_def storage_works_def write_guarded_def quietly_def set_item_async_def set_item_def)

lemma twins_remove [twin_rules]: "twins k p \<Longrightarrow> twins (write_guarded delete_item_async k) (quietly remove_item p)"
  by (simp add: twins_def kc_works_def storage_works_def write_guarded_def quietly_def delete_item_async_def remove_item_def)

lemma twins_parse: "twins k p \<Longrightarrow> get_item_async k = Inr (pl_item p)"
  by (simp add: twins_def kc_works_def get_item_async_def)

lemma twins_strict:
  assumes "twins k p"
  shows "\<exists>k'. set_item_async i k = Inr k' \<and> twins k' (quietly (set_item i) p)"
    and "\<exists>k'. delete_item_async k = Inr k' \<and> twins k' (quietly remove_item p)"
  using assms
  by (simp_all add: twins_def kc_works_def storage_works_def set_item_async_def delete_item_async_def quietly_def
      set_item_def remove_item_def)

text \<open>The twins of the device's slots are slots.\<close>

lemma keychain_read_back:
  "kc_works k \<Longrightarrow> load_guarded (write_guarded (set_item_async (Doc d)) k) = Some d"
  "kc_works ks \<Longrightarrow> raw_guarded (write_guarded (set_item_async (Doc s)) ks) = Some s"
  "kc_works ks \<Longrightarrow> raw_guarded (write_guarded delete_item_async ks) = None"
  "kc_works k \<Longrightarrow> kc_works (write_guarded (set_item_async i) k)"
  "kc_works k \<Longrightarrow> kc_works (write_guarded delete_item_async k)"
  by (simp_all add: kc_works_def load_guarded_def raw_guarded_def write_guarded_def set_item_async_def
      delete_item_async_def get_item_async_def)

interpretation native_prefs: slot "\<lambda>k. Some (load_prefs_native k)" save_prefs_native kc_works
  by unfold_locales (simp_all add: load_prefs_native_def save_prefs_native_def keychain_read_back)

interpretation native_settings:
  slot "\<lambda>k. map_option (spread default_settings) (load_settings_native k)" save_settings_native kc_works
  by unfold_locales (simp_all add: load_settings_native_def save_settings_native_def keychain_read_back)

interpretation native_invite: clearable_slot pending_invite_native save_pending_invite_native kc_works clear_pending_invite_native
  by unfold_locales
    (simp_all add: pending_invite_native_def save_pending_invite_native_def clear_pending_invite_native_def keychain_read_back)

section \<open>Properties\<close>



text \<open>
  A session on a phone lasts its week and no longer, and a refusal of the
  secure store is never taken for an unlocked wallet: a load that fails gives
  no seed, a load inside the time gives the seed that was saved, and one after
  it removes the seed or says why it could not.
\<close>

theorem native_session_expires:
  assumes "save_seed_native now seed session_ttl_native k = Inr k1" "seed \<noteq> []"
  shows "(case load_seed_native later k1 of
      Inl e \<Rightarrow> kc_read_error k1 = Some e \<or> kc_write_error k1 = Some e
    | Inr (Some got, k2) \<Rightarrow> got = seed \<and> later \<le> now + session_ttl_native \<and> k2 = k1
    | Inr (None, k2) \<Rightarrow> now + session_ttl_native < later \<and> kc_item k2 = None)"
proof -
  have k1: "kc_item k1 = Some (Doc \<lparr>sd_seed = to_hex seed, sd_until = now + session_ttl_native\<rparr>)" "kc_write_error k1 = None"
    using assms(1) by (auto simp: save_seed_native_def set_item_async_def split: option.splits)
  have ne: "to_hex seed \<noteq> []" using assms(2) by (cases seed) simp_all
  show ?thesis
    using k1 ne
    by (simp add: load_seed_native_def parse_or_throw_def get_item_async_def clear_seed_native_def delete_item_async_def
        split: option.split)
qed

theorem native_session_expires_witness:
  "(case load_seed_native 604800001 \<lparr>kc_read_error = None, kc_write_error = None,
       kc_item = Some (Doc \<lparr>sd_seed = to_hex [1], sd_until = 0 + session_ttl_native\<rparr>)\<rparr> of
     Inr (None, k2) \<Rightarrow> kc_item k2 = None | _ \<Rightarrow> False)"
proof -
  let ?k1 = "\<lparr>kc_read_error = None, kc_write_error = None, kc_item = Some (Doc \<lparr>sd_seed = to_hex [1], sd_until = 0 + session_ttl_native\<rparr>)\<rparr>"
  have s: "save_seed_native 0 [1] session_ttl_native \<lparr>kc_read_error = None, kc_write_error = None, kc_item = None\<rparr> = Inr ?k1"
    by (simp add: save_seed_native_def set_item_async_def)
  show ?thesis using native_session_expires[OF s, of 604800001]
    by (auto simp: session_ttl_native_def split: sum.splits prod.splits option.splits)
qed

end
