(* ===== verification/Show.thy ===== *)
theory Show
  imports Dates Wire
begin

text \<open>
  How numbers and names are said on the screens: the money and group formats of
  ui/text.tsx, the short address and the unclaimed total of
  components/prizes.tsx, the names and the presets of config.ts. Texts are
  byte strings, so a character outside ASCII is its UTF-8 bytes.
\<close>

section \<open>Characters outside ASCII\<close>

definition minus_sign :: string where "minus_sign = [CHR 0xE2, CHR 0x88, CHR 0x92]"

definition ellipsis :: string where "ellipsis = [CHR 0xE2, CHR 0x80, CHR 0xA6]"

definition dot_mark :: string where "dot_mark = [CHR '' '', CHR 0xC2, CHR 0xB7, CHR '' '']"

definition plural :: "nat \<Rightarrow> string \<Rightarrow> string" where
  "plural n one = (if n = 1 then one else one @ ''s'')"

section \<open>Money\<close>

definition cent_half :: jsnum where "cent_half = Num (5 / 1000)"

definition money_in :: "nat \<Rightarrow> jsnum \<Rightarrow> string" where
  "money_in decimals n = (if cent_half < n then ''+'' else if n < - cent_half then minus_sign else []) @ to_fixed (math_abs n) decimals"

definition money :: "jsnum \<Rightarrow> string" where
  "money n = money_in 2 n"

datatype sign_colour = Up | Down | Ink

definition sign_of :: "jsnum \<Rightarrow> sign_colour" where
  "sign_of n = (if cent_half < n then Up else if n < - cent_half then Down else Ink)"

text \<open>Thousands kept apart: the digits grouped in threes from the right.\<close>

function group_digits :: "string \<Rightarrow> string" where
  "group_digits s = (if length s \<le> 3 then s
     else group_digits (take (length s - 3) s) @ '' '' @ drop (length s - 3) s)"
  by pat_completeness auto
termination by (relation "measure length") auto

declare group_digits.simps [simp del]

definition grouped :: "jsnum \<Rightarrow> string" where
  "grouped n = (case math_round n of
     Num q \<Rightarrow> (if q < 0 then ''-'' else []) @ group_digits (show_nat (nat \<lfloor>\<bar>q\<bar>\<rfloor>))
   | x \<Rightarrow> (case x of PosInf \<Rightarrow> [CHR 0xE2, CHR 0x88, CHR 0x9E] | NegInf \<Rightarrow> ''-'' @ [CHR 0xE2, CHR 0x88, CHR 0x9E] | _ \<Rightarrow> ''NaN''))"

section \<open>Addresses and prizes\<close>

definition short_address :: "string \<Rightarrow> string" where
  "short_address address = (if length address > 12
     then take 6 address @ ellipsis @ drop (length address - 4) address else address)"

record my_prizes =
  mp_contract :: string
  mp_prizes :: "prize_winner list"
  mp_weeks :: "nat list"

definition unclaimed_total :: "my_prizes option \<Rightarrow> jsnum option" where
  "unclaimed_total mine = (case mine of None \<Rightarrow> None
   | Some m \<Rightarrow>
       (let sum = foldl (\<lambda>sum p. sum + js_number (pw_amount p)) 0 (filter (\<lambda>p. \<not> pw_claimed p) (mp_prizes m))
        in if sum > 0 then Some sum else None))"

text \<open>The wallet's prizes are read when there is a wallet and after every claim.\<close>

definition read_prizes :: "(string \<Rightarrow> unit + my_prizes) \<Rightarrow> string option \<Rightarrow> my_prizes option" where
  "read_prizes fetch address = (case address of None \<Rightarrow> None
   | Some a \<Rightarrow> if a = [] then None else (case fetch a of Inr m \<Rightarrow> Some m | Inl _ \<Rightarrow> None))"

section \<open>Names and presets\<close>

definition strategy_names :: "(string \<times> string) list" where
  "strategy_names = [(''direction'', ''Direction''), (''ma-cross'', ''MA Cross''), (''rsi'', ''RSI Bounce''),
     (''donchian'', ''Turtles''), (''orb'', ''Open Range'')]"

definition strategy_short :: "(string \<times> string) list" where
  "strategy_short = [(''direction'', ''Direction''), (''ma-cross'', ''MA Cross''), (''rsi'', ''RSI''),
     (''donchian'', ''Turtles''), (''orb'', ''ORB'')]"

definition strategy_name :: "string \<Rightarrow> string" where
  "strategy_name id' = (case map_of strategy_names id' of Some n \<Rightarrow> n | None \<Rightarrow> id')"

definition symbols_offered :: "string list" where "symbols_offered = [''MON'', ''ETH'', ''BTC'', ''SOL'']"

definition notional_presets :: "string list" where "notional_presets = [''5'', ''10'', ''20'', ''50'']"

definition stop_presets :: "string list" where
  "stop_presets = [''Off'', minus_sign @ ''25%'', minus_sign @ ''50%'']"

definition stop_fraction :: "string \<Rightarrow> string" where
  "stop_fraction s = (if s = minus_sign @ ''25%'' then ''0.25''
     else if s = minus_sign @ ''50%'' then ''0.5'' else ''0'')"

text \<open>How the device writes a moment in the reader's language: the hour and minute,
  the date, and the name of the day.\<close>

record device_words =
  dw_time :: "int \<Rightarrow> string"
  dw_date :: "int \<Rightarrow> string"
  dw_weekday :: "int \<Rightarrow> string"

definition time_or :: "string \<Rightarrow> device_words \<Rightarrow> int \<Rightarrow> string \<Rightarrow> string" where
  "time_or otherwise w tz moment = (case parse_date tz moment of Num q \<Rightarrow> dw_time w \<lfloor>q\<rfloor> | _ \<Rightarrow> otherwise)"

definition page_size :: nat where "page_size = 7"

section \<open>Lemmas\<close>

text \<open>The colour of an amount and the sign in front of it always agree.\<close>

lemma money_sign:
  "money_in d n = (case sign_of n of Up \<Rightarrow> ''+'' | Down \<Rightarrow> minus_sign | Ink \<Rightarrow> []) @ to_fixed (math_abs n) d"
  by (auto simp: money_in_def sign_of_def)

text \<open>Grouping only adds spaces.\<close>

lemma group_digits_filter:
  "CHR '' '' \<notin> set s \<Longrightarrow> filter (\<lambda>c. c \<noteq> CHR '' '') (group_digits s) = s"
proof (induction s rule: group_digits.induct)
  case (1 s)
  have all: "filter (\<lambda>c. c \<noteq> CHR '' '') t = t" if "set t \<subseteq> set s" for t
    using 1(2) that by (auto intro: filter_True)
  show ?case
  proof (cases "length s \<le> 3")
    case True
    then show ?thesis using all[of s] by (simp add: group_digits.simps)
  next
    case False
    have "CHR '' '' \<notin> set (take (length s - 3) s)" using 1(2) set_take_subset by fastforce
    with 1(1) False have "filter (\<lambda>c. c \<noteq> CHR '' '') (group_digits (take (length s - 3) s)) = take (length s - 3) s"
      by simp
    then show ?thesis using False all[of "drop (length s - 3) s"]
      by (subst group_digits.simps) (simp add: set_drop_subset)
  qed
qed

lemma unclaimed_total_pos: "unclaimed_total m = Some x \<Longrightarrow> x > 0"
  by (auto simp: unclaimed_total_def Let_def split: option.splits if_splits)

end
