(* ===== verification/Onboarding.thy ===== *)
theory Onboarding
  imports Account Activation Trading Show
begin

text \<open>
  The first visit: what is remembered of it (onboarding/useOnboarding.tsx), the
  gate that decides which screen is next (the Entry of app/index.tsx), the
  promo, the passkey and the activation screens (app/intro.tsx,
  app/passkey.tsx, app/enable.tsx), the lesson's steps (app/lesson.tsx) and
  the invite link (app/i/[code].tsx). A screen is a record of its state; its
  effects and presses are functions on it that name the route they go to.
\<close>

section \<open>What is remembered of the visit\<close>

record visit =
  vi_ready :: bool
  vi_prefs :: prefs
  vi_place :: "prefs_change place"

definition start_visit :: "prefs_change place \<Rightarrow> visit" where
  "start_visit p = \<lparr>vi_ready = False, vi_prefs = empty_prefs, vi_place = p\<rparr>"

definition prefs_loaded :: "visit \<Rightarrow> visit" where
  "prefs_loaded v = v\<lparr>vi_prefs := load_prefs (vi_place v), vi_ready := True\<rparr>"

text \<open>A change is merged onto what is stored, not onto what the provider holds.\<close>

definition patch :: "prefs_change \<Rightarrow> visit \<Rightarrow> visit" where
  "patch change v = (let next = spread_prefs (load_prefs (vi_place v)) change
     in v\<lparr>vi_prefs := next, vi_place := save_prefs next (vi_place v)\<rparr>)"

definition mark_intro_seen :: "visit \<Rightarrow> visit" where
  "mark_intro_seen = patch (no_prefs_change\<lparr>pc_intro_seen := Some True\<rparr>)"

definition mark_lesson_seen :: "visit \<Rightarrow> visit" where
  "mark_lesson_seen = patch (no_prefs_change\<lparr>pc_lesson_seen := Some True\<rparr>)"

definition mark_swipes_seen :: "visit \<Rightarrow> visit" where
  "mark_swipes_seen = patch (no_prefs_change\<lparr>pc_swipes_seen := Some True\<rparr>)"

definition taught :: "visit \<Rightarrow> string \<Rightarrow> bool" where
  "taught v strategy \<longleftrightarrow> strategy \<in> set (pr_taught (vi_prefs v))"

definition mark_taught :: "string \<Rightarrow> visit \<Rightarrow> visit" where
  "mark_taught strategy v =
     (let stored = load_prefs (vi_place v) in
      if strategy \<in> set (pr_taught stored) then v
      else patch (no_prefs_change\<lparr>pc_taught := Some (pr_taught stored @ [strategy])\<rparr>) v)"

definition all_strategies :: "string list" where
  "all_strategies = [''direction'', ''ma-cross'', ''rsi'', ''donchian'', ''orb'']"

definition mark_returning :: "visit \<Rightarrow> visit" where
  "mark_returning = patch (no_prefs_change\<lparr>pc_intro_seen := Some True, pc_lesson_seen := Some True,
     pc_taught := Some all_strategies\<rparr>)"

datatype first_route = ToIntro | ToPasskey | ToEnable

definition next_step :: "prefs \<Rightarrow> bool \<Rightarrow> bool \<Rightarrow> first_route option" where
  "next_step prefs has_account exchange_ready =
     (if \<not> pr_intro_seen prefs \<and> \<not> has_account then Some ToIntro
      else if \<not> has_account then Some ToPasskey
      else if \<not> exchange_ready then Some ToEnable
      else None)"

section \<open>The gate\<close>

record gate =
  ga_visit :: visit
  ga_account :: account_layer
  ga_trading :: trading
  ga_waited :: bool

definition account_known :: "account_layer \<Rightarrow> bool" where
  "account_known s \<longleftrightarrow> (case al_state s of Loading \<Rightarrow> False | _ \<Rightarrow> True)"

definition has_account :: "account_layer \<Rightarrow> bool" where
  "has_account s \<longleftrightarrow> (case al_state s of Unlocked _ \<Rightarrow> True | Remembered _ \<Rightarrow> True | _ \<Rightarrow> False)"

text \<open>The wallet of an unlocked account is the one its family derived.\<close>

definition unlocked_address :: "account_layer \<Rightarrow> string option" where
  "unlocked_address s = (case al_state s of
     Unlocked _ \<Rightarrow> map_option (\<lambda>f. wa_address (kf_wallet f)) (al_family s) | _ \<Rightarrow> None)"

text \<open>Only an answer asked in this wallet's name says anything about it.\<close>

definition heard_for :: "string option \<Rightarrow> trading \<Rightarrow> bool" where
  "heard_for wallet t \<longleftrightarrow> tr_state t \<noteq> None \<and>
     (case (tr_state_for t, wallet) of (Some a, Some w) \<Rightarrow> lower a = lower w | _ \<Rightarrow> False)"

definition status_pending :: "platform_state \<Rightarrow> pending_status option" where
  "status_pending s = (case ac_status (pf_account s) of
     NoExchangeAccount \<Rightarrow> Some NoAccountYet | ForwardingDisabled \<Rightarrow> Some ForwardingOff | _ \<Rightarrow> None)"

definition gate_heard :: "gate \<Rightarrow> bool" where
  "gate_heard g = heard_for (unlocked_address (ga_account g)) (ga_trading g)"

definition exchange_ready :: "gate \<Rightarrow> bool" where
  "exchange_ready g \<longleftrightarrow> \<not> gate_heard g \<or>
     (case tr_state (ga_trading g) of Some s \<Rightarrow> status_pending s = None | None \<Rightarrow> False)"

definition keyless :: "gate \<Rightarrow> bool" where
  "keyless g \<longleftrightarrow> given (unlocked_address (ga_account g)) \<and> tr_locked (ga_trading g)"

definition gate_settled :: "gate \<Rightarrow> bool" where
  "gate_settled g \<longleftrightarrow> vi_ready (ga_visit g) \<and> account_known (ga_account g) \<and>
     (\<not> has_account (ga_account g) \<or> gate_heard g \<or> tr_offline (ga_trading g) \<or> ga_waited g)"

definition gate_step :: "gate \<Rightarrow> first_route option" where
  "gate_step g = (if gate_settled g
     then next_step (vi_prefs (ga_visit g)) (has_account (ga_account g)) (exchange_ready g \<and> \<not> keyless g)
     else None)"

datatype entry_view = Splash | GoesTo first_route | Lobby

definition entry_view :: "gate \<Rightarrow> entry_view" where
  "entry_view g = (case gate_step g of Some r \<Rightarrow> GoesTo r | None \<Rightarrow> if gate_settled g then Lobby else Splash)"

text \<open>What the gate hears, in any order.\<close>

datatype gate_event = PrefsRead | AccountHeard account_layer | Polled trading | Waited

fun gate_hears :: "gate \<Rightarrow> gate_event \<Rightarrow> gate" where
  "gate_hears g PrefsRead = g\<lparr>ga_visit := prefs_loaded (ga_visit g)\<rparr>"
| "gate_hears g (AccountHeard s) = g\<lparr>ga_account := s\<rparr>"
| "gate_hears g (Polled t) = g\<lparr>ga_trading := t\<rparr>"
| "gate_hears g Waited = g\<lparr>ga_waited := True\<rparr>"

section \<open>The promo and the invite link\<close>

definition leave_intro :: "visit \<Rightarrow> visit \<times> string" where
  "leave_intro v = (mark_intro_seen v, ''/passkey'')"

definition open_invite :: "string option \<Rightarrow> string place \<Rightarrow> string place \<times> string" where
  "open_invite code p = ((case code of None \<Rightarrow> p | Some c \<Rightarrow> if c = [] then p else save_pending_invite c p), ''/'')"

section \<open>The passkey screen\<close>

datatype pressed = PressedCreate | PressedSignIn

record passkey_screen =
  pk_pressed :: "pressed option"
  pk_returning :: bool
  pk_handed_off :: bool

definition fresh_passkey_screen :: passkey_screen where
  "fresh_passkey_screen = \<lparr>pk_pressed = None, pk_returning = False, pk_handed_off = False\<rparr>"

definition press_passkey :: "pressed \<Rightarrow> passkey_screen \<Rightarrow> passkey_screen" where
  "press_passkey which k = k\<lparr>pk_pressed := Some which, pk_returning := (which = PressedSignIn)\<rparr>"

text \<open>The effect after a render: once, when the account is unlocked.\<close>

definition hand_off :: "bool \<Rightarrow> passkey_screen \<times> visit \<Rightarrow> (passkey_screen \<times> visit) \<times> string option" where
  "hand_off signed_in kv = (case kv of (k, v) \<Rightarrow>
     if \<not> signed_in \<or> pk_handed_off k then ((k, v), None)
     else ((k\<lparr>pk_handed_off := True\<rparr>, if pk_returning k then mark_returning v else v), Some ''/''))"

record passkey_form =
  pf_title :: string
  pf_body :: string
  pf_who :: "string option"
  pf_error :: "string option"
  pf_primary :: "string \<times> pressed"
  pf_secondary :: "string \<times> pressed"

datatype passkey_view = PasskeySplash string | PasskeyForm passkey_form

definition signed_in :: "account_layer \<Rightarrow> bool" where
  "signed_in s \<longleftrightarrow> (case al_state s of Unlocked _ \<Rightarrow> True | _ \<Rightarrow> False)"

definition passkey_waiting :: "account_layer \<Rightarrow> passkey_screen \<Rightarrow> bool" where
  "passkey_waiting s k \<longleftrightarrow> signed_in s \<or> pk_pressed k \<noteq> None \<and> al_error s = None"

text \<open>A device that already holds an account is here to unlock it.\<close>

definition passkey_form :: "account_layer \<Rightarrow> passkey_form" where
  "passkey_form s = (case al_state s of
     Remembered a \<Rightarrow> \<lparr>pf_title = ''Welcome back'',
       pf_body = ''Your account is on this device. The key itself is never stored '' @ em_dash @ '' unlock it with the passkey to trade again.'',
       pf_who = Some (take 6 (sa_address a) @ ellipsis @ drop (length (sa_address a) - 4) (sa_address a)), pf_error = al_error s,
       pf_primary = (''Sign in'', PressedSignIn), pf_secondary = (''Use a different account'', PressedCreate)\<rparr>
   | _ \<Rightarrow> \<lparr>pf_title = ''Your account is a passkey'',
       pf_body = ''No password, no seed phrase. The key is created on this device and Face ID unlocks it. Nobody else, including us, can withdraw.'',
       pf_who = None, pf_error = al_error s,
       pf_primary = (''Create account'', PressedCreate), pf_secondary = (''I already have one'' @ dot_mark @ ''Sign in'', PressedSignIn)\<rparr>)"

definition passkey_view :: "account_layer \<Rightarrow> passkey_screen \<Rightarrow> passkey_view" where
  "passkey_view s k = (if passkey_waiting s k
     then PasskeySplash (if pk_pressed k = Some PressedSignIn then ''Signing you in'' @ ellipsis else ''Creating your account'' @ ellipsis)
     else PasskeyForm (passkey_form s))"

section \<open>The activation screen\<close>

record enable_screen =
  en_started :: bool
  en_activating :: bool

definition fresh_enable_screen :: enable_screen where
  "fresh_enable_screen = \<lparr>en_started = False, en_activating = False\<rparr>"

text \<open>What the screen reads from its hooks in one render.\<close>

record enable_inputs =
  ei_wallet :: "string option"
  ei_trading :: trading
  ei_key :: key_screen
  ei_activation :: activation_screen

definition enable_status :: "enable_inputs \<Rightarrow> pending_status option" where
  "enable_status i = (if heard_for (ei_wallet i) (ei_trading i)
     then (case tr_state (ei_trading i) of Some s \<Rightarrow> status_pending s | None \<Rightarrow> None) else None)"

definition has_key :: "enable_inputs \<Rightarrow> bool" where
  "has_key i \<longleftrightarrow> (case ks_status (ei_key i) of KeyEnabled _ \<Rightarrow> True | _ \<Rightarrow> False)"

definition enable_funded :: "enable_inputs \<Rightarrow> bool" where
  "enable_funded i = funded (enable_status i) (ei_activation i)"

definition enable_at :: "enable_inputs \<Rightarrow> nat" where
  "enable_at i = (if \<not> has_key i then 0 else if enable_funded i then 2 else 1)"

definition enable_running :: "enable_inputs \<Rightarrow> bool" where
  "enable_running i \<longleftrightarrow> ks_busy (ei_key i) \<or> as_busy (ei_activation i) \<or> as_progress (ei_activation i) \<noteq> None"

definition enable_done :: "enable_inputs \<Rightarrow> bool" where
  "enable_done i \<longleftrightarrow> has_key i \<and> heard_for (ei_wallet i) (ei_trading i) \<and> enable_status i = None"

definition enable_failed :: "enable_inputs \<Rightarrow> string option" where
  "enable_failed i = (case ks_error (ei_key i) of Some e \<Rightarrow> Some e | None \<Rightarrow> as_error (ei_activation i))"

datatype enable_action = Nothing | EnableKey | Activate

text \<open>The effect that carries on after the press, and the press itself.\<close>

definition enable_effect :: "enable_inputs \<Rightarrow> enable_screen \<Rightarrow> enable_screen \<times> enable_action" where
  "enable_effect i s =
     (if \<not> en_started s \<or> \<not> has_key i \<or> \<not> enable_funded i \<or> enable_running i \<or> enable_done i \<or> en_activating s
      then (s, Nothing)
      else (s\<lparr>en_activating := True\<rparr>, Activate))"

definition press_enable :: "enable_inputs \<Rightarrow> enable_screen \<Rightarrow> enable_screen \<times> enable_action" where
  "press_enable i s =
     (let s1 = s\<lparr>en_started := True, en_activating := False\<rparr> in
      if \<not> has_key i then (s1, EnableKey)
      else if enable_funded i \<and> \<not> enable_running i \<and> \<not> enable_done i then (s1\<lparr>en_activating := True\<rparr>, Activate)
      else (s1, Nothing))"

definition enable_working :: "enable_inputs \<Rightarrow> enable_screen \<Rightarrow> bool" where
  "enable_working i s \<longleftrightarrow> en_started s \<and> enable_failed i = None"

definition enable_button :: "enable_inputs \<Rightarrow> enable_screen \<Rightarrow> string \<times> bool" where
  "enable_button i s =
     ((if enable_working i s then ''Working'' @ ellipsis else if given (enable_failed i) then ''Try again'' else ''Open account''),
      \<not> enable_working i s)"

datatype lamp = LampDone | LampNow | LampTodo

definition enable_steps :: "(nat \<Rightarrow> nat \<Rightarrow> string) \<Rightarrow> enable_inputs \<Rightarrow> (string \<times> lamp \<times> nat) list" where
  "enable_steps units i =
     List.map (\<lambda>(n, step). (step,
         if n < enable_at i then LampDone else if n = enable_at i then LampNow else LampTodo,
         if n < enable_at i then 100 else if n = enable_at i then 55 else 0))
       [(0, ''Signing in to the exchange''),
        (1, case (as_network (ei_activation i), as_funding (ei_activation i)) of
              (Some net, Some f) \<Rightarrow> ''Test money arriving: '' @ units (fu_collateral f) (xn_collateral_decimals net) @ '' '' @ xn_collateral_symbol net
            | _ \<Rightarrow> ''Test money arriving''),
        (2, ''Opening your account'')]"

text \<open>A run of characters on its own, as \<open>\b429\b\<close> finds it.\<close>

definition word_char :: "char \<Rightarrow> bool" where
  "word_char c \<longleftrightarrow> is_digit c \<or> c = CHR ''_'' \<or> (let n = code_of (lower_char c) in 97 \<le> n \<and> n \<le> 122)"

fun has_word :: "bool \<Rightarrow> string \<Rightarrow> string \<Rightarrow> bool" where
  "has_word inside w [] = False"
| "has_word inside w (c # s) =
     ((\<not> inside \<and> take (length w) (c # s) = w \<and>
        (case drop (length w) (c # s) of [] \<Rightarrow> True | d # _ \<Rightarrow> \<not> word_char d))
      \<or> has_word (word_char c) w s)"

definition refused_the_order :: string where
  "refused_the_order = ''The exchange refused the order: ''"

definition in_plain_words :: "string \<Rightarrow> string" where
  "in_plain_words message =
     (let said = (if take (length refused_the_order) message = refused_the_order
                  then drop (length refused_the_order) message else message)
      in if has_word False ''429'' said \<or> contains ''error code: 1015'' said
         then ''The exchange is limiting how many accounts open at once. Wait a minute, then press again.''
         else ''The exchange refused: '' @ said)"

section \<open>The lesson\<close>

datatype lesson_art = IdeaArt | RunArt | SetupArt

definition lesson_id :: "string option \<Rightarrow> string" where
  "lesson_id param = (case param of
     Some s \<Rightarrow> if s \<in> set [''ma-cross'', ''rsi'', ''donchian'', ''orb''] then s else ''direction''
   | None \<Rightarrow> ''direction'')"

record lesson_step =
  ls_art :: lesson_art
  ls_title :: string
  ls_body :: string

text \<open>What each strategy's lesson says, in three steps.\<close>

definition lessons :: "(string \<times> lesson_step list) list" where
  "lessons = [(''direction'', [
      \<lparr>ls_art = IdeaArt, ls_title = ''Fifteen minutes. One call.'',
       ls_body = ''Bitcoin is at one price now. In fifteen minutes it will be higher or lower. You say which. That is the whole game.''\<rparr>,
      \<lparr>ls_art = RunArt, ls_title = ''We take it from here'',
       ls_body = ''You tap Up or Down. Within a second the trade is open at the exchange with your money, a stop guards it, and the system watches it every second while you do anything else.''\<rparr>,
      \<lparr>ls_art = SetupArt, ls_title = ''Your standard position'',
       ls_body = ''Every tap opens this position. Set it once, change it any time.''\<rparr>]),
    (''ma-cross'', [
      \<lparr>ls_art = IdeaArt, ls_title = ''Two lines. One moment.'',
       ls_body = ''A fast line follows the price closely, a slow line lags. When the fast one actually crosses above the slow one, the trend has just turned up. Lines running close together only look busy.''\<rparr>,
      \<lparr>ls_art = RunArt, ls_title = ''The signal names a side'',
       ls_body = ''For a few minutes after a cross the screen shows the signal: Up or Down. Both buttons stay yours; the next cross comes in a few hours.''\<rparr>,
      \<lparr>ls_art = SetupArt, ls_title = ''Your standard position'',
       ls_body = ''Same position for every strategy. Set it once, change it any time.''\<rparr>]),
    (''rsi'', [
      \<lparr>ls_art = IdeaArt, ls_title = ''The crowd overdoes it'',
       ls_body = ''A thermometer from 0 to 100 shows how hard everyone has been buying or selling. Under 30, sellers overdid it and the price tends to bounce up, so the signal names Up. Over 70 it is the other way round.''\<rparr>,
      \<lparr>ls_art = RunArt, ls_title = ''Rare and sharp'',
       ls_body = ''Zones come once or twice a day. The screen shows the signal for a few minutes; both buttons stay yours.''\<rparr>,
      \<lparr>ls_art = SetupArt, ls_title = ''Your standard position'',
       ls_body = ''Same position for every strategy. Set it once, change it any time.''\<rparr>]),
    (''donchian'', [
      \<lparr>ls_art = IdeaArt, ls_title = ''The highest high in twenty bars'',
       ls_body = ''A line over the highest point of the last twenty bars and one under the lowest: that is the channel. Inside it the market is undecided. A bar that closes outside it is a decision; a wick that pokes through and comes back is not.''\<rparr>,
      \<lparr>ls_art = RunArt, ls_title = ''Trends break out again'',
       ls_body = ''After a breakout the channel moves up to include it, and a real trend breaks out of the new one too. The screen names Up or Down for a few bars; both buttons stay yours.''\<rparr>,
      \<lparr>ls_art = SetupArt, ls_title = ''Your standard position'',
       ls_body = ''Same position for every strategy. Set it once, change it any time.''\<rparr>]),
    (''orb'', [
      \<lparr>ls_art = IdeaArt, ls_title = ''Three opens a day'',
       ls_body = ''Crypto never closes, but the world does. The day opens at 00:00 UTC, London at 08:00, New York at 13:30 '' @ em_dash @ '' shown in your time. The first quarter hour after each sets the range: its high and its low. The first bar to close outside it names Up or Down.''\<rparr>,
      \<lparr>ls_art = RunArt, ls_title = ''Know when to look'',
       ls_body = ''One signal a session; four hours later the open is old news and the watch ends. The screen says where the session is: the range forming, the watch on, or the time of the next open. The tap is still yours.''\<rparr>,
      \<lparr>ls_art = SetupArt, ls_title = ''Your standard position'',
       ls_body = ''Same position for every strategy. Set it once, change it any time.''\<rparr>])]"


definition lesson_steps :: "string option \<Rightarrow> lesson_step list" where
  "lesson_steps param = (case map_of lessons (lesson_id param) of Some steps \<Rightarrow> steps | None \<Rightarrow> [])"

datatype lesson_move = StayAt nat | LeaveTo string

definition open_lesson :: "string option \<Rightarrow> visit \<Rightarrow> nat \<times> visit" where
  "open_lesson param v = (0, mark_taught (lesson_id param) v)"

definition lesson_next :: "string option \<Rightarrow> nat \<Rightarrow> lesson_move" where
  "lesson_next param n =
     (if n = length (lesson_steps param) - 1 then LeaveTo (''/'' @ lesson_id param) else StayAt (n + 1))"

definition lesson_picture :: "string \<Rightarrow> lesson_art \<Rightarrow> string" where
  "lesson_picture id' kind = (case kind of
     SetupArt \<Rightarrow> ''form''
   | RunArt \<Rightarrow> if id' = ''direction'' then ''direction'' else if id' = ''donchian'' then ''channel''
       else if id' = ''orb'' then ''range'' else ''signal''
   | IdeaArt \<Rightarrow> if id' = ''ma-cross'' then ''cross'' else if id' = ''rsi'' then ''rsi''
       else if id' = ''donchian'' then ''channel'' else if id' = ''orb'' then ''range'' else ''direction'')"

section \<open>What is remembered only grows\<close>

datatype visit_event = Reloaded | IntroLeft | LessonLeft | SwipesShown | LessonOpened string | CameBack

fun visit_step :: "visit \<Rightarrow> visit_event \<Rightarrow> visit" where
  "visit_step v Reloaded = prefs_loaded v"
| "visit_step v IntroLeft = mark_intro_seen v"
| "visit_step v LessonLeft = mark_lesson_seen v"
| "visit_step v SwipesShown = mark_swipes_seen v"
| "visit_step v (LessonOpened s) = mark_taught s v"
| "visit_step v CameBack = mark_returning v"

definition remembered :: "visit \<Rightarrow> prefs" where
  "remembered v = load_prefs (vi_place v)"

text \<open>What one step adds to what is remembered.\<close>

fun adds :: "visit_event \<Rightarrow> prefs \<Rightarrow> prefs" where
  "adds Reloaded p = p"
| "adds IntroLeft p = p\<lparr>pr_intro_seen := True\<rparr>"
| "adds LessonLeft p = p\<lparr>pr_lesson_seen := True\<rparr>"
| "adds SwipesShown p = p\<lparr>pr_swipes_seen := True\<rparr>"
| "adds (LessonOpened s) p = (if s \<in> set (pr_taught p) then p else p\<lparr>pr_taught := pr_taught p @ [s]\<rparr>)"
| "adds CameBack p = p\<lparr>pr_intro_seen := True, pr_lesson_seen := True, pr_taught := all_strategies\<rparr>"

lemma patch_remembers: "storage_works (vi_place v) \<Longrightarrow>
  remembered (patch c v) = spread_prefs (remembered v) c \<and> storage_works (vi_place (patch c v))"
  using first_visit.load_save[of "vi_place v"] first_visit.works_save[of "vi_place v"]
  by (simp add: patch_def remembered_def Let_def)

lemma visit_step_adds:
  assumes "storage_works (vi_place v)"
  shows "remembered (visit_step v e) = adds e (remembered v)" "storage_works (vi_place (visit_step v e))"
  using assms patch_remembers[OF assms]
  by (cases e; simp add: mark_intro_seen_def mark_lesson_seen_def mark_swipes_seen_def mark_returning_def
      prefs_loaded_def spread_prefs_def no_prefs_change_def;
      simp add: mark_taught_def remembered_def Let_def spread_prefs_def no_prefs_change_def)+

lemma visit_run_adds:
  assumes "storage_works (vi_place v)"
  shows "remembered (foldl visit_step v es) = foldl (\<lambda>p e. adds e p) (remembered v) es"
  using assms by (induction es arbitrary: v) (simp_all add: visit_step_adds)

lemma adds_run:
  assumes "set (pr_taught p) \<subseteq> set all_strategies" "\<forall>s. LessonOpened s \<in> set es \<longrightarrow> s \<in> set all_strategies"
  shows "let q = foldl (\<lambda>p e. adds e p) p es in
    (pr_intro_seen q \<longleftrightarrow> pr_intro_seen p \<or> IntroLeft \<in> set es \<or> CameBack \<in> set es) \<and>
    (pr_lesson_seen q \<longleftrightarrow> pr_lesson_seen p \<or> LessonLeft \<in> set es \<or> CameBack \<in> set es) \<and>
    (pr_swipes_seen q \<longleftrightarrow> pr_swipes_seen p \<or> SwipesShown \<in> set es) \<and>
    set (pr_taught q) = set (pr_taught p) \<union> {s. LessonOpened s \<in> set es} \<union> (if CameBack \<in> set es then set all_strategies else {}) \<and>
    pr_network q = pr_network p"
  using assms
proof (induction es arbitrary: p)
  case (Cons e es)
  have known: "set (pr_taught (adds e p)) \<subseteq> set all_strategies" using Cons.prems by (cases e) auto
  have "\<forall>s. LessonOpened s \<in> set es \<longrightarrow> s \<in> set all_strategies" using Cons.prems(2) by simp
  from Cons.IH[OF known this] Cons.prems show ?case
    by (cases e) (auto simp: Let_def split: if_splits)
qed simp



section \<open>The gate\<close>

lemma gate_run_waited: "ga_waited (foldl gate_hears g es) \<longleftrightarrow> ga_waited g \<or> Waited \<in> set es"
proof (induction es arbitrary: g)
  case (Cons e es)
  then show ?case by (cases e) auto
qed simp

lemma gate_run_ready: "vi_ready (ga_visit (foldl gate_hears g es)) \<longleftrightarrow> vi_ready (ga_visit g) \<or> PrefsRead \<in> set es"
proof (induction es arbitrary: g)
  case (Cons e es)
  then show ?case by (cases e) (auto simp: prefs_loaded_def)
qed simp

definition last_account :: "account_layer \<Rightarrow> gate_event list \<Rightarrow> account_layer" where
  "last_account s es = foldl (\<lambda>s e. case e of AccountHeard s' \<Rightarrow> s' | _ \<Rightarrow> s) s es"

lemma gate_run_account: "ga_account (foldl gate_hears g es) = last_account (ga_account g) es"
proof (induction es arbitrary: g)
  case (Cons e es)
  then show ?case by (cases e) (auto simp: last_account_def)
qed (simp add: last_account_def)



text \<open>
  C11. The gate and the activation screen never send a person back and forth: on
  the same wallet and on whatever the polls and taps have made of the trading
  state, if the gate sends to the activation screen, then that screen does not
  consider the account open, so it stays, whatever its other hooks say.
\<close>

theorem gate_and_enable_agree:
  assumes "ga_trading g = foldl (trading_step tz bk symbol strategy) start_trading es" "gate_step g = Some ToEnable"
    and "ei_wallet i = unlocked_address (ga_account g)" "ei_trading i = ga_trading g"
  shows "\<not> enable_done i \<and> (has_key i \<longrightarrow> heard_for (ei_wallet i) (ei_trading i) \<longrightarrow> enable_status i \<noteq> None)"
proof -
  have "trading_ok (ga_trading g)"
    unfolding assms(1) by (rule screen.run_inv) (simp add: trading_ok_def start_trading_def)
  then have "tr_locked (ga_trading g) \<Longrightarrow> tr_state (ga_trading g) = None" by (simp add: trading_ok_def)
  then show ?thesis using assms(2-4)
    by (auto simp: gate_step_def next_step_def enable_done_def exchange_ready_def gate_heard_def keyless_def heard_for_def
        enable_status_def split: if_splits option.splits)
qed

text \<open>A keyless wallet: the gate sends it on, and the activation screen keeps it.\<close>

theorem gate_and_enable_agree_witness:
  "\<exists>g. gate_step g = Some ToEnable \<and>
    (\<forall>key act. \<not> enable_done \<lparr>ei_wallet = unlocked_address (ga_account g), ei_trading = ga_trading g, ei_key = key, ei_activation = act\<rparr>)"
proof -
  let ?p = "\<lparr>pl_mode = Works, pl_item = None\<rparr>"
  let ?t = "foldl (trading_step 0 (refusing no_key_error) ''MON'' ''direction'') start_trading [Poll]"
  let ?s = "create_account sample_crypto (\<lambda>k m. Inr [1]) Browser 0 sample_ceremony ''mine'' (start_account ?p ?p)"
  let ?g = "\<lparr>ga_visit = prefs_loaded (start_visit ?p), ga_account = ?s, ga_trading = ?t, ga_waited = True\<rparr>"
  have u: "unlocked_address ?s = Some ''0xAb''" "al_state ?s = Unlocked \<lparr>sa_credential = \<lparr>sc_id = ''c1'', sc_transports = None\<rparr>, sa_address = ''0xAb'', sa_label = ''mine''\<rparr>"
    by (simp_all add: create_account_def unlock_def sample_ceremony_def prf_output_to_seed_def prf_output_length_def
        new_family_def derive_wallet_def sample_crypto_def unlocked_address_def adopt_def Let_def)
  have t: "tr_locked ?t" "tr_state ?t = None"
    by (simp_all add: refresh_def refusing_def no_key_error_def start_trading_def called_def new_api_error_def has_code_def Let_def)
  have g: "gate_step ?g = Some ToEnable"
    using u t by (simp add: gate_step_def gate_settled_def prefs_loaded_def account_known_def has_account_def next_step_def
        keyless_def given_def)
  show ?thesis
  proof (intro exI[of _ ?g] conjI allI)
    show "gate_step ?g = Some ToEnable" by (rule g)
    fix key act
    show "\<not> enable_done \<lparr>ei_wallet = unlocked_address (ga_account ?g), ei_trading = ga_trading ?g, ei_key = key, ei_activation = act\<rparr>"
      using gate_and_enable_agree[of ?g 0 "refusing no_key_error" "''MON''" "''direction''" "[Poll]"
        "\<lparr>ei_wallet = unlocked_address (ga_account ?g), ei_trading = ga_trading ?g, ei_key = key, ei_activation = act\<rparr>"] g
      by simp
  qed
qed

section \<open>One hand-off, and a lesson that ends\<close>

text \<open>Whatever is pressed and however often the screen is rendered, the passkey
  screen leaves once at most.\<close>

fun passkey_run :: "passkey_screen \<times> visit \<Rightarrow> (pressed option \<times> bool) list \<Rightarrow> string list" where
  "passkey_run kv [] = []"
| "passkey_run (k, v) ((press, unlocked) # rs) =
     (let k1 = (case press of None \<Rightarrow> k | Some w \<Rightarrow> press_passkey w k) in
      case hand_off unlocked (k1, v) of (kv', r) \<Rightarrow> (case r of None \<Rightarrow> [] | Some to \<Rightarrow> [to]) @ passkey_run kv' rs)"

lemma handed_off_stays: "pk_handed_off k \<Longrightarrow> passkey_run (k, v) rs = []"
  by (induction rs arbitrary: k v) (auto simp: hand_off_def press_passkey_def Let_def split: option.split)

lemma handed_off_once: "passkey_run (fresh_passkey_screen, v) rs = (if list_ex snd rs then [''/''] else [])"
proof -
  have "\<not> pk_handed_off k \<Longrightarrow> passkey_run (k, v) rs = (if list_ex snd rs then [''/''] else [])" for k v
    by (induction rs arbitrary: k v)
       (auto simp: hand_off_def press_passkey_def handed_off_stays Let_def split: option.split)
  then show ?thesis by (simp add: fresh_passkey_screen_def)
qed

lemma lesson_steps_three: "List.map ls_art (lesson_steps param) = [IdeaArt, RunArt, SetupArt]"
  by (auto simp: lesson_steps_def lesson_id_def lessons_def split: option.split)

lemma lesson_ends: "lesson_next param 0 = StayAt 1 \<and> lesson_next param 1 = StayAt 2 \<and>
  lesson_next param 2 = LeaveTo (''/'' @ lesson_id param) \<and> lesson_id param \<in> set all_strategies"
proof -
  have "length (lesson_steps param) = 3" using arg_cong[OF lesson_steps_three, of length] by simp
  then show ?thesis by (auto simp: lesson_next_def lesson_id_def all_strategies_def split: option.split)
qed

text \<open>A failed activation leaves a live button: the press starts something again.\<close>

lemma retry_is_live:
  assumes "given (enable_failed i)" "\<not> enable_running i" "\<not> enable_done i" "has_key i \<longrightarrow> enable_funded i"
  shows "snd (enable_button i s) \<and> snd (press_enable i s) \<noteq> Nothing"
  using assms by (auto simp: enable_button_def enable_working_def press_enable_def given_def Let_def split: option.splits)

end
