(* ===== verification/Lobby.thy ===== *)
theory Lobby
  imports Onboarding Risk
begin

text \<open>
  The lobby (app/index.tsx): the header, the prize banner, the line that says
  which strategy leads, a card per strategy, and what is polled for it
  (trading/useLeaderboard.ts, trading/useRiskReport.ts). The view is data:
  what is said and where a press leads; how it is drawn is not modelled.
\<close>

section \<open>What is polled\<close>

text \<open>The boards: a failed read keeps what was there.\<close>

definition leaderboard_read :: "unit + leaderboard \<Rightarrow> leaderboard option \<Rightarrow> leaderboard option" where
  "leaderboard_read answer lb = (case answer of Inr next \<Rightarrow> Some next | Inl _ \<Rightarrow> lb)"

text \<open>One report for every screen that shows the dial, polled while someone listens.
  A read is in flight until it is answered.\<close>

record report_feed =
  rf_report :: "risk_report option"
  rf_listeners :: int
  rf_timer :: bool
  rf_subscribers :: "nat set"
  rf_reads :: nat

definition idle_feed :: report_feed where
  "idle_feed = \<lparr>rf_report = None, rf_listeners = 0, rf_timer = False, rf_subscribers = {}, rf_reads = 0\<rparr>"

definition feed_read :: "report_feed \<Rightarrow> report_feed" where
  "feed_read f = f\<lparr>rf_reads := rf_reads f + 1\<rparr>"

definition subscribe :: "nat \<Rightarrow> report_feed \<Rightarrow> report_feed" where
  "subscribe fn f =
     (let f1 = f\<lparr>rf_subscribers := insert fn (rf_subscribers f)\<rparr>;
          f2 = f1\<lparr>rf_listeners := rf_listeners f1 + 1\<rparr>
      in if rf_listeners f1 = 0 then (feed_read f2)\<lparr>rf_timer := True\<rparr> else f2)"

definition unsubscribe :: "nat \<Rightarrow> report_feed \<Rightarrow> report_feed" where
  "unsubscribe fn f =
     (let f1 = f\<lparr>rf_subscribers := rf_subscribers f - {fn}, rf_listeners := rf_listeners f - 1\<rparr>
      in if rf_listeners f1 = 0 \<and> rf_timer f1 then f1\<lparr>rf_timer := False\<rparr> else f1)"

definition report_answered :: "unit + risk_report \<Rightarrow> report_feed \<Rightarrow> report_feed" where
  "report_answered answer f = (case answer of Inr r \<Rightarrow> f\<lparr>rf_report := Some r\<rparr> | Inl _ \<Rightarrow> f)"

definition refresh_risk_report :: "report_feed \<Rightarrow> report_feed" where
  "refresh_risk_report f = (if rf_listeners f > 0 then feed_read f else f)"

definition use_risk_report :: "bool \<Rightarrow> report_feed \<Rightarrow> risk_report option" where
  "use_risk_report ready f = (if ready then rf_report f else None)"

section \<open>The week's argument\<close>

text \<open>Sorted from the most made to the least, equal totals in the order given. A
  comparison with something that is not a number counts as zero.\<close>

definition by_pnl :: "board list \<Rightarrow> board list" where
  "by_pnl bs = sort_key (\<lambda>b. - the_num (js_number (bd_pnl b))) bs"

definition faction_line :: "board list \<Rightarrow> string option" where
  "faction_line boards =
     (case by_pnl (filter (\<lambda>b. bd_trades b > 0) boards) of
        [] \<Rightarrow> None
      | leader # others \<Rightarrow>
          (let names = List.map (\<lambda>b. bd_name b @ '' '' @ money (js_number (bd_pnl b))) others
           in Some (bd_name leader @ '' leads this week with '' @ money (js_number (bd_pnl leader)) @
                (if names \<noteq> [] then dot_mark @ join dot_mark names else []))))"

section \<open>One card\<close>

definition strategy_routes :: "(string \<times> string) list" where
  "strategy_routes = [(''direction'', ''/direction''), (''ma-cross'', ''/ma-cross''), (''rsi'', ''/rsi''),
     (''donchian'', ''/donchian''), (''orb'', ''/orb'')]"

fun first_index :: "('a \<Rightarrow> bool) \<Rightarrow> 'a list \<Rightarrow> nat option" where
  "first_index P [] = None"
| "first_index P (x # xs) = (if P x then Some 0 else map_option Suc (first_index P xs))"

definition rank_of :: "board \<Rightarrow> string option \<Rightarrow> nat option" where
  "rank_of b address = (case address of None \<Rightarrow> None
     | Some a \<Rightarrow> if a = [] then None else map_option Suc (first_index (\<lambda>w. lower (bt_wallet w) = a) (bd_top b)))"

definition pool_of :: "prize_pool_line option \<Rightarrow> (decimal \<times> bool) option" where
  "pool_of p = (case p of None \<Rightarrow> None
     | Some p \<Rightarrow>
         if js_number (pp_pool p) > 0 then Some (pp_pool p, False)
         else (case pp_accrued p of None \<Rightarrow> None
           | Some a \<Rightarrow> if js_number a > 0 then Some (a, True) else None))"

definition card_line :: "board \<Rightarrow> (decimal \<times> bool) option \<Rightarrow> nat option \<Rightarrow> string" where
  "card_line b pool rank = join dot_mark (List.concat
     [[case pool of Some (held, so_far) \<Rightarrow> ''Pool '' @ to_fixed (js_number held) 2 @ '' AUSD'' @ (if so_far then '' so far'' else [])
       | None \<Rightarrow> ''No pool yet''],
      [show_nat (bd_players b) @ '' '' @ plural (bd_players b) ''trader''],
      (case rank of Some r \<Rightarrow> [''you #'' @ show_nat r] | None \<Rightarrow> []),
      (if bd_active_now b > 0 then [show_nat (bd_active_now b) @ '' in now''] else [])])"

datatype card_badge = OpenBadge string | StartHere | NoBadge

record strategy_card =
  cd_id :: string
  cd_name :: string
  cd_glyph :: string
  cd_href :: string
  cd_lead :: bool
  cd_badge :: card_badge
  cd_line :: string
  cd_week :: string

definition glyph_of :: "string \<Rightarrow> string" where
  "glyph_of id' = (if id' \<in> set [''ma-cross'', ''rsi'', ''donchian'', ''orb''] then id' else ''direction'')"

definition lobby_href :: "visit \<Rightarrow> string \<Rightarrow> string" where
  "lobby_href v id' = (if taught v id' then (case map_of strategy_routes id' of Some r \<Rightarrow> r | None \<Rightarrow> ''/'')
     else ''/lesson?strategy='' @ id')"

definition strategy_card :: "visit \<Rightarrow> position list \<Rightarrow> week_prize option \<Rightarrow> string option \<Rightarrow> nat \<Rightarrow> board \<Rightarrow> strategy_card" where
  "strategy_card v ps prize address n b =
     (let open_pnl = map_option ps_unrealized_pnl (List.find (\<lambda>p. ps_strategy p = Some (bd_id b)) ps);
          lead = (n = 0 \<and> \<not> taught v (bd_id b));
          pool = pool_of (case prize of None \<Rightarrow> None | Some w \<Rightarrow> List.find (\<lambda>p. pp_strategy p = bd_id b) (wp_pools w))
      in \<lparr>cd_id = bd_id b, cd_name = bd_name b, cd_glyph = glyph_of (bd_id b), cd_href = lobby_href v (bd_id b), cd_lead = lead,
          cd_badge = (case open_pnl of Some p \<Rightarrow> OpenBadge (''OPEN'' @ dot_mark @ money (js_number p))
             | None \<Rightarrow> if lead then StartHere else NoBadge),
          cd_line = card_line b pool (rank_of b address),
          cd_week = money (js_number (bd_pnl b)) @ '' this week'' @ dot_mark @ show_nat (bd_trades b) @ '' '' @ plural (bd_trades b) ''trade''\<rparr>)"

section \<open>The screen\<close>

datatype header_slot = SignInBadge | Balance string

record lobby_view =
  lv_slot :: header_slot
  lv_dial :: jsnum
  lv_banner :: "string option"
  lv_title :: string
  lv_subtitle :: string
  lv_cards :: "strategy_card list option"

definition lobby_address :: "account_layer \<Rightarrow> string option" where
  "lobby_address s = map_option (\<lambda>a. lower (sa_address a)) (known_account s)"

definition lobby_slot :: "account_layer \<Rightarrow> trading \<Rightarrow> header_slot" where
  "lobby_slot s t = (case al_state s of Remembered _ \<Rightarrow> SignInBadge
     | _ \<Rightarrow> Balance (case tr_state t of Some st \<Rightarrow> to_fixed (equity st) 2 @ '' AUSD''
         | None \<Rightarrow> if tr_offline t then ''offline'' else ellipsis))"

definition dial_percent :: "risk_report option \<Rightarrow> platform_state option \<Rightarrow> jsnum" where
  "dial_percent report state = (case risk_percent_of report of Some p \<Rightarrow> p | None \<Rightarrow> risk_percent state)"

definition lobby_view ::
    "account_layer \<Rightarrow> visit \<Rightarrow> trading \<Rightarrow> leaderboard option \<Rightarrow> (string \<Rightarrow> unit + my_prizes) \<Rightarrow> report_feed \<Rightarrow> lobby_view" where
  "lobby_view s v t lb fetch_prizes feed =
     (let boards = map_option lb_boards lb;
          prize_block = (case lb of None \<Rightarrow> None | Some l \<Rightarrow> lb_prize l);
          address = lobby_address s;
          prize = unclaimed_total (read_prizes fetch_prizes
            (if prize_block \<noteq> None \<and> given address then address else None));
          plain = ''One tap opens a position. The platform closes it for you.''
      in \<lparr>lv_slot = lobby_slot s t,
          lv_dial = dial_percent (use_risk_report (given address) feed) (tr_state t),
          lv_banner = map_option (\<lambda>p. ''Prize of the week: '' @ to_fixed p 2 @ '' AUSD'') prize,
          lv_title = ''Choose a strategy'',
          lv_subtitle = (case boards of None \<Rightarrow> plain
             | Some bs \<Rightarrow> (case faction_line bs of Some line \<Rightarrow> line | None \<Rightarrow> plain)),
          lv_cards = map_option (\<lambda>bs. List.map (\<lambda>(n, b). strategy_card v (positions_of t) prize_block address n b)
             (enumerate 0 bs)) boards\<rparr>)"

text \<open>Where the rest of the screen leads, by the name of what is pressed.\<close>

definition lobby_presses :: "(string \<times> string) list" where
  "lobby_presses = [(''sign-in-badge'', ''/passkey''), (''risk-dial'', ''/risk''), (''prize-banner'', ''/leaderboard''), (''own-link'', ''/own'')]"

definition footer_links :: "(string \<times> string) list list" where
  "footer_links = [[(''Leaderboard'', ''/leaderboard''), (''Invite'', ''/invite'')],
     [(''History'', ''/history''), (''Risk'', ''/risk''), (''Account'', ''/account'')]]"

text \<open>The network menu: a name, what it means, whether it is the one the app is on,
  and whether it can be pressed.\<close>

definition network_menu :: "(string \<times> string \<times> bool \<times> bool) list" where
  "network_menu =
     [(''TESTNET'', ''Practice money'' @ dot_mark @ ''nothing to lose'', True, True),
      (''MAINNET'', ''Your own money'' @ dot_mark @ ''every win and loss is real'', False, False)]"

section \<open>The dial\<close>

datatype dial_colour = DialCalm | DialWarm | DialHot

definition dial_colour :: "jsnum \<Rightarrow> dial_colour" where
  "dial_colour share = (let p = math_max 0 (math_min 100 share)
     in if p < 34 then DialCalm else if p < 67 then DialWarm else DialHot)"

definition dial_shown :: "jsnum \<Rightarrow> jsnum" where
  "dial_shown share = math_max 8 (math_max 0 (math_min 100 share))"

section \<open>The poll runs exactly while someone listens\<close>

datatype feed_event = Mounted nat | Unmounted nat | Answered "unit + risk_report" | OrderDone

text \<open>A component subscribes once while it is mounted and unsubscribes what it subscribed.\<close>

fun feed_step :: "report_feed \<Rightarrow> feed_event \<Rightarrow> report_feed" where
  "feed_step f (Mounted n) = (if n \<in> rf_subscribers f then f else subscribe n f)"
| "feed_step f (Unmounted n) = (if n \<in> rf_subscribers f then unsubscribe n f else f)"
| "feed_step f (Answered a) = report_answered a f"
| "feed_step f OrderDone = refresh_risk_report f"

definition feed_ok :: "report_feed \<Rightarrow> bool" where
  "feed_ok f \<longleftrightarrow> finite (rf_subscribers f) \<and> rf_listeners f = int (card (rf_subscribers f)) \<and>
     (rf_timer f \<longleftrightarrow> rf_subscribers f \<noteq> {})"

lemma feed_step_ok:
  assumes ok: "feed_ok f"
  shows "feed_ok (feed_step f e)"
proof (cases e)
  case (Mounted n)
  show ?thesis
  proof (cases "n \<in> rf_subscribers f")
    case False
    have "rf_listeners f = 0 \<longleftrightarrow> rf_subscribers f = {}" using ok by (simp add: feed_ok_def)
    then show ?thesis using ok Mounted False by (simp add: feed_ok_def subscribe_def feed_read_def Let_def)
  qed (use ok Mounted in simp)
next
  case (Unmounted n)
  show ?thesis
  proof (cases "n \<in> rf_subscribers f")
    case True
    define others where "others = rf_subscribers f - {n}"
    have f: "rf_subscribers f = insert n others" "n \<notin> others" "finite others"
      using True ok by (auto simp: others_def feed_ok_def)
    then show ?thesis using ok Unmounted by (auto simp: feed_ok_def unsubscribe_def Let_def)
  qed (use ok Unmounted in simp)
next
  case (Answered a)
  then show ?thesis using ok by (simp add: feed_ok_def report_answered_def split: sum.split)
next
  case OrderDone
  then show ?thesis using ok by (simp add: feed_ok_def refresh_risk_report_def feed_read_def)
qed

interpretation feed: state_machine feed_step feed_ok
  by unfold_locales (rule feed_step_ok)

text \<open>
  The risk report is polled exactly while a screen that shows it is mounted:
  however screens mount, unmount, ask again after orders and get answers, the
  timer runs if and only if someone is subscribed, the count of listeners is
  the number of them, and an order asks again only then.
\<close>

theorem poll_follows_listeners:
  shows "let f = foldl feed_step idle_feed es in
    (rf_timer f \<longleftrightarrow> rf_subscribers f \<noteq> {}) \<and> rf_listeners f = int (card (rf_subscribers f)) \<and>
    (rf_reads (feed_step f OrderDone) = rf_reads f + (if rf_timer f then 1 else 0))"
proof -
  have "feed_ok (foldl feed_step idle_feed es)"
    by (rule feed.run_inv) (simp add: feed_ok_def idle_feed_def)
  then show ?thesis
    by (auto simp: feed_ok_def refresh_risk_report_def feed_read_def Let_def card_gt_0_iff)
qed

text \<open>
  A report is kept for whoever comes next: a report read for one wallet is
  still what the dial shows after every screen was left and another wallet's
  screen has opened, until that wallet's own report arrives.
\<close>

theorem report_outlives_wallet:
  "use_risk_report True (foldl feed_step idle_feed [Mounted 0, Answered (Inr r), Unmounted 0, Mounted 1]) = Some r \<and>
   use_risk_report True (foldl feed_step idle_feed [Mounted 0, Answered (Inr r), Unmounted 0, Mounted 1, Answered (Inr r')]) = Some r'"
  by (simp add: use_risk_report_def idle_feed_def subscribe_def unsubscribe_def feed_read_def report_answered_def Let_def)

section \<open>The line and the cards\<close>

lemma by_pnl_head:
  assumes "by_pnl bs = b # rest"
  shows "b \<in> set bs" "\<And>c. c \<in> set bs \<Longrightarrow> the_num (js_number (bd_pnl c)) \<le> the_num (js_number (bd_pnl b))"
proof -
  have s: "set (by_pnl bs) = set bs" and o: "sorted (List.map (\<lambda>b. - the_num (js_number (bd_pnl b))) (by_pnl bs))"
    by (simp_all add: by_pnl_def)
  show "b \<in> set bs" using s assms by (metis list.set_intros(1))
  fix c assume "c \<in> set bs"
  then have "c = b \<or> c \<in> set rest" using s assms by (metis set_ConsD)
  then show "the_num (js_number (bd_pnl c)) \<le> the_num (js_number (bd_pnl b))"
    using o assms by auto
qed

text \<open>
  What the lobby claims of the week is true of the boards: it is silent when
  nothing was traded, and otherwise the strategy it says leads was traded and no
  strategy that was traded made more; every card opens the lesson until its
  strategy has been taught and the strategy itself afterwards, and only a card
  whose strategy is still untaught says to start there.
\<close>

theorem lobby_tells_truth:
  "(case faction_line bs of
      None \<Rightarrow> \<forall>b \<in> set bs. bd_trades b = 0
    | Some line \<Rightarrow> \<exists>b tail. b \<in> set bs \<and> bd_trades b > 0 \<and>
        line = bd_name b @ '' leads this week with '' @ money (js_number (bd_pnl b)) @ tail \<and>
        (\<forall>c \<in> set bs. bd_trades c > 0 \<longrightarrow> the_num (js_number (bd_pnl c)) \<le> the_num (js_number (bd_pnl b)))) \<and>
   (let c = strategy_card v ps prize address n b in
      (cd_badge c = StartHere \<longrightarrow> n = 0 \<and> \<not> taught v (bd_id b) \<and> (\<forall>p \<in> set ps. ps_strategy p \<noteq> Some (bd_id b))) \<and>
      (cd_href c = ''/lesson?strategy='' @ bd_id b \<longleftrightarrow> \<not> taught v (bd_id b)))"
proof -
  have first: "case faction_line bs of
      None \<Rightarrow> \<forall>b \<in> set bs. bd_trades b = 0
    | Some line \<Rightarrow> \<exists>b tail. b \<in> set bs \<and> bd_trades b > 0 \<and>
        line = bd_name b @ '' leads this week with '' @ money (js_number (bd_pnl b)) @ tail \<and>
        (\<forall>c \<in> set bs. bd_trades c > 0 \<longrightarrow> the_num (js_number (bd_pnl c)) \<le> the_num (js_number (bd_pnl b)))"
  proof (cases "by_pnl (filter (\<lambda>b. bd_trades b > 0) bs)")
    case Nil
    then have "filter (\<lambda>b. bd_trades b > 0) bs = []" by (simp add: by_pnl_def flip: set_empty)
    then show ?thesis using Nil by (simp add: faction_line_def filter_empty_conv)
  next
    case (Cons b rest)
    then show ?thesis using by_pnl_head[OF Cons] by (auto simp: faction_line_def Let_def)
  qed
  have route: "map_of strategy_routes i = Some r \<Longrightarrow> r \<noteq> ''/lesson?strategy='' @ i" for i r
    by (auto simp: strategy_routes_def split: if_splits)
  have href: "lobby_href v (bd_id b) = ''/lesson?strategy='' @ bd_id b \<longleftrightarrow> \<not> taught v (bd_id b)"
    using route[of "bd_id b"] by (auto simp: lobby_href_def split: option.split)
  show ?thesis using first href by (auto simp: strategy_card_def Let_def find_None_iff split: option.splits if_splits)
qed

text \<open>
  The dial and the word beside it use different cut-offs: a day at sixty-two
  of its budget is called hot while the dial is still warm, and one at twenty is
  called warm while the dial is calm.
\<close>

theorem dial_and_word_disagree:
  "risk_level 62 = Hot \<and> dial_colour 62 = DialWarm \<and> risk_level 20 = Warm \<and> dial_colour 20 = DialCalm"
  by (simp add: risk_level_def dial_colour_def Let_def js_eval)

definition sample_board :: "string \<Rightarrow> decimal \<Rightarrow> nat \<Rightarrow> board" where
  "sample_board name pnl trades = \<lparr>bd_id = name, bd_name = name, bd_tagline = [], bd_rhythm = [], bd_pnl = pnl,
     bd_players = 1, bd_trades = trades, bd_active_now = 0, bd_top = []\<rparr>"

theorem lobby_tells_truth_witness:
  "let bs = [sample_board ''turtles'' ''-2.5'' 1, sample_board ''rsi'' ''4'' 2] in
   case faction_line bs of None \<Rightarrow> False
   | Some line \<Rightarrow> \<exists>tail. line = ''rsi leads this week with '' @ money (js_number ''4'') @ tail"
proof -
  let ?bs = "[sample_board ''turtles'' ''-2.5'' 1, sample_board ''rsi'' ''4'' 2]"
  have n: "the_num (js_number ''-2.5'') = -5/2" "the_num (js_number ''4'') = 4" by (simp_all add: js_eval)
  from lobby_tells_truth[of ?bs, THEN conjunct1] show ?thesis
  proof (cases "faction_line ?bs")
    case None
    with lobby_tells_truth[of ?bs, THEN conjunct1] show ?thesis by (simp add: sample_board_def)
  next
    case (Some line)
    with lobby_tells_truth[of ?bs, THEN conjunct1] n show ?thesis by (auto simp: sample_board_def)
  qed
qed

end
