(* ===== verification/Signals.thy ===== *)
theory Signals
  imports Show "HOL-Library.Word"
begin

text \<open>
  What a strategy screen says of the tape: the signal read off the platform's
  answer (strategy/useSignal.ts) and the strategy of the day
  (strategy/today.ts). A signal belongs to the chart it was asked for; the
  day's quiet pick is a 32-bit hash of the day and the market.
\<close>

unbundle bit_operations_syntax

section \<open>Numbers and moments\<close>

text \<open>Number.prototype.toPrecision of a positive number: \<open>p\<close> significant digits,
  in exponent form outside \<open>1e-6 .. 1e+p\<close>.\<close>

definition precision_pos :: "nat \<Rightarrow> rat \<Rightarrow> string" where
  "precision_pos p q =
     (let e0 = magnitude q - 1;
          n0 = nat \<lfloor>q * ten_to (int p - 1 - e0) + 1/2\<rfloor>;
          n = (if n0 = 10 ^ p then 10 ^ (p - 1) else n0);
          e = (if n0 = 10 ^ p then e0 + 1 else e0);
          ds = show_nat n;
          pointed = (\<lambda>k. if k \<ge> length ds then ds else take k ds @ ''.'' @ drop k ds)
      in if e < -6 \<or> e \<ge> int p then pointed 1 @ ''e'' @ (if e < 0 then ''-'' else ''+'') @ show_nat (nat \<bar>e\<bar>)
         else if e < 0 then ''0.'' @ replicate (nat (- e) - 1) (CHR ''0'') @ ds
         else pointed (nat e + 1))"

fun to_precision :: "jsnum \<Rightarrow> nat \<Rightarrow> string" where
  "to_precision (Num q) p = (if q = 0 then (if p \<le> 1 then ''0'' else ''0.'' @ replicate (p - 1) (CHR ''0''))
     else if q < 0 then ''-'' @ precision_pos p (- q) else precision_pos p q)"
| "to_precision x p = js_string x"

text \<open>A price with its own decimals; a dash when there is none.\<close>

definition price_text :: "jsnum option \<Rightarrow> string" where
  "price_text n = (case n of None \<Rightarrow> em_dash | Some x \<Rightarrow>
     if \<not> is_finite x then em_dash
     else if x \<ge> 100 then to_fixed x 2 else if x \<ge> 1 then to_fixed x 4 else to_precision x 4)"

definition hm :: "int \<Rightarrow> string \<Rightarrow> string" where
  "hm tz moment = (case parse_date tz moment of
     Num q \<Rightarrow> two_digits (local_hour tz \<lfloor>q\<rfloor>) @ '':'' @ two_digits (local_minute tz \<lfloor>q\<rfloor>)
   | _ \<Rightarrow> ''NaN:NaN'')"

text \<open>How far away a moment is; a moment that is none gives what the arithmetic gives.\<close>

definition in_words :: "int \<Rightarrow> int \<Rightarrow> string \<Rightarrow> string" where
  "in_words tz now moment =
     (case math_max 0 (math_round ((parse_date tz moment - Num (of_int now)) / 60000)) of
        Num q \<Rightarrow>
          (let min = \<lfloor>q\<rfloor> in
           if min < 60 then ''in '' @ show_int (max 1 min) @ '' min''
           else if min mod 60 \<noteq> 0 then ''in '' @ show_int (min div 60) @ '' h '' @ show_int (min mod 60) @ '' min''
           else ''in '' @ show_int (min div 60) @ '' h'')
      | _ \<Rightarrow> ''in NaN h'')"

section \<open>A signal\<close>

record breakout =
  bk_at :: string
  bk_side :: side
  bk_price :: jsnum
  bk_level :: jsnum

record averages =
  av_fast :: jsnum
  av_slow :: jsnum
  av_trend :: trend
  av_last_cross :: "(side \<times> string) option"

record channel =
  cn_length :: jsnum
  cn_upper :: "jsnum option"
  cn_lower :: "jsnum option"
  cn_last_break :: "breakout option"

record session_range =
  sr_phase :: orb_phase
  sr_open :: string
  sr_open_at :: string
  sr_from :: string
  sr_until :: string
  sr_watch_until :: string
  sr_next_open_at :: string
  sr_high :: "jsnum option"
  sr_low :: "jsnum option"
  sr_last_break :: "breakout option"

record signal =
  sg_side :: "side option"
  sg_opened_at :: "string option"
  sg_expires_at :: "string option"
  sg_detail :: string
  sg_quiet :: string
  sg_last :: "string option"
  sg_ready :: bool
  sg_value :: "jsnum option"
  sg_averages :: "averages option"
  sg_last_at :: "string option"
  sg_channel :: "channel option"
  sg_range :: "session_range option"

definition bare_signal :: "signal_window option \<Rightarrow> bool \<Rightarrow> signal" where
  "bare_signal w ready = \<lparr>sg_side = map_option sw_side w, sg_opened_at = map_option sw_opened_at w,
     sg_expires_at = map_option sw_expires_at w, sg_detail = [], sg_quiet = [], sg_last = None, sg_ready = ready,
     sg_value = None, sg_averages = None, sg_last_at = None, sg_channel = None, sg_range = None\<rparr>"

definition trend_text :: "trend \<Rightarrow> string" where
  "trend_text t = (case t of TUp \<Rightarrow> ''up'' | TDown \<Rightarrow> ''down'' | TFlat \<Rightarrow> ''flat'')"

definition arrow :: "side \<Rightarrow> string" where
  "arrow s = (if s = Long then [CHR 0xE2, CHR 0x86, CHR 0x91] else [CHR 0xE2, CHR 0x86, CHR 0x93])"

definition last_text :: "int \<Rightarrow> (side \<times> string) option \<Rightarrow> string option" where
  "last_text tz l = map_option (\<lambda>(s, t). ''last '' @ arrow s @ '' '' @ hm tz t) l"

definition from_cross :: "int \<Rightarrow> ma_cross_signal \<Rightarrow> signal" where
  "from_cross tz s = (bare_signal (mx_window s) (mx_ready s))
     \<lparr>sg_detail := (case map_option sw_side (mx_window s) of
        Some Long \<Rightarrow> ''cross up'' | Some Short \<Rightarrow> ''cross down'' | None \<Rightarrow> ''trend '' @ trend_text (mx_trend s)),
      sg_quiet := (if mx_ready s then ''waiting for a cross'' else ''warming up''),
      sg_last := last_text tz (mx_last_cross s),
      sg_averages := Some \<lparr>av_fast = mx_fast s, av_slow = mx_slow s, av_trend = mx_trend s, av_last_cross = mx_last_cross s\<rparr>\<rparr>"

definition from_rsi :: "rsi_signal \<Rightarrow> signal" where
  "from_rsi s =
     (let value = math_round (js_number (rx_value s)) in
      (bare_signal (rx_window s) (rx_ready s))
       \<lparr>sg_detail := ''RSI '' @ js_string value @ (case map_option sw_side (rx_window s) of
          Some Long \<Rightarrow> dot_mark @ ''oversold'' | Some Short \<Rightarrow> dot_mark @ ''overbought'' | None \<Rightarrow> []),
        sg_quiet := (if rx_ready s then ''waiting for a zone'' else ''warming up''),
        sg_last := (if rx_ready s then Some (''RSI '' @ js_string value) else None),
        sg_value := (if rx_ready s \<and> is_finite value then Some value else None),
        sg_last_at := map_option (\<lambda>x. fst (snd x)) (rx_last_cross s)\<rparr>)"

definition breakout_of :: "wire_breakout option \<Rightarrow> breakout option" where
  "breakout_of b = map_option (\<lambda>b. \<lparr>bk_at = wb_at b, bk_side = wb_side b, bk_price = js_number (wb_price b),
     bk_level = js_number (wb_level b)\<rparr>) b"

definition break_last :: "int \<Rightarrow> breakout option \<Rightarrow> string option" where
  "break_last tz b = last_text tz (map_option (\<lambda>b. (bk_side b, bk_at b)) b)"

definition closed_text :: "side \<Rightarrow> string \<Rightarrow> breakout \<Rightarrow> string" where
  "closed_text side what b = ''closed '' @ (if side = Long then ''above'' else ''below'') @ '' the '' @ what @ '' '' @
     (if side = Long then ''high'' else ''low'') @ '' '' @ price_text (Some (bk_level b))"

definition from_donchian :: "int \<Rightarrow> donchian_signal \<Rightarrow> signal" where
  "from_donchian tz s =
     (let side = map_option sw_side (dx_window s);
          b = breakout_of (dx_last_break s);
          top = map_option js_number (dx_upper s);
          bottom = map_option js_number (dx_lower s)
      in (bare_signal (dx_window s) (dx_ready s))
       \<lparr>sg_detail := (case (b, side) of
          (Some b, Some side) \<Rightarrow> closed_text side (js_string (dx_length s) @ ''-bar'') b
        | _ \<Rightarrow> ''channel '' @ price_text bottom @ '' '' @ [CHR 0xE2, CHR 0x80, CHR 0x93] @ '' '' @ price_text top),
        sg_quiet := (if dx_ready s then ''inside the channel'' else ''warming up''),
        sg_last := break_last tz b,
        sg_channel := Some \<lparr>cn_length = dx_length s, cn_upper = top, cn_lower = bottom, cn_last_break = b\<rparr>\<rparr>)"

definition orb_quiet :: "int \<Rightarrow> int \<Rightarrow> orb_signal \<Rightarrow> string" where
  "orb_quiet tz now s =
     (if \<not> ox_ready s then ''warming up''
      else case ox_phase s of
        Forming \<Rightarrow> ''range forming'' @ dot_mark @ hm tz (os_range_until (ox_session s))
      | Watching \<Rightarrow> ''range set'' @ dot_mark @ ''watching''
      | Broken \<Rightarrow> ''broke '' @ (if map_option wb_side (os_break (ox_session s)) = Some Long then ''up'' else ''down'') @
          dot_mark @ ''next '' @ hm tz (ox_next_open_at s)
      | ClosedPhase \<Rightarrow> ''next open '' @ hm tz (ox_next_open_at s) @ dot_mark @ in_words tz now (ox_next_open_at s))"

definition from_orb :: "int \<Rightarrow> int \<Rightarrow> orb_signal \<Rightarrow> signal" where
  "from_orb tz now s =
     (let side = map_option sw_side (ox_window s);
          ses = ox_session s;
          b = breakout_of (ox_last_break s);
          open_text = hm tz (os_open_at ses);
          quiet = orb_quiet tz now s
      in (bare_signal (ox_window s) (ox_ready s))
       \<lparr>sg_detail := (case (b, side) of
          (Some b, Some side) \<Rightarrow> closed_text side (open_text @ '' range'') b | _ \<Rightarrow> quiet),
        sg_quiet := quiet,
        sg_last := break_last tz b,
        sg_range := Some \<lparr>sr_phase = ox_phase s, sr_open = open_text, sr_open_at = os_open_at ses, sr_from = os_range_from ses,
          sr_until = os_range_until ses, sr_watch_until = os_watch_until ses, sr_next_open_at = ox_next_open_at s,
          sr_high = map_option js_number (os_high ses), sr_low = map_option js_number (os_low ses), sr_last_break = b\<rparr>\<rparr>)"

section \<open>The signal of a chart\<close>

definition period_seconds :: "string \<Rightarrow> jsnum" where
  "period_seconds interval = math_max 60 (num_or (js_number interval * 60) 60)"

definition signal_key :: "string \<Rightarrow> string \<Rightarrow> string \<Rightarrow> string" where
  "signal_key id' symbol interval = id' @ '':'' @ symbol @ '':'' @ js_string (period_seconds interval)"

text \<open>The hook: the key it was rendered with, and the last answer that reached it with
  the key it was asked under. An answer reaches it only while its effect lives.\<close>

record signal_hook =
  sh_id :: string
  sh_key :: string
  sh_got :: "(string \<times> signal) option"

datatype signal_event = ChartTurned string string string | SignalAnswered string bool "unit + signal"

fun signal_step :: "signal_hook \<Rightarrow> signal_event \<Rightarrow> signal_hook" where
  "signal_step h (ChartTurned id' symbol interval) = h\<lparr>sh_id := id', sh_key := signal_key id' symbol interval\<rparr>"
| "signal_step h (SignalAnswered key alive answer) =
     (case answer of Inr s \<Rightarrow> if alive then h\<lparr>sh_got := Some (key, s)\<rparr> else h | Inl _ \<Rightarrow> h)"

definition use_signal :: "signal_hook \<Rightarrow> signal option" where
  "use_signal h = (if sh_id h = ''direction'' then None
     else case sh_got h of None \<Rightarrow> None | Some (k, s) \<Rightarrow> if k = sh_key h then Some s else None)"

section \<open>The strategy of the day\<close>

record today_input =
  ti_day :: string
  ti_symbol :: string
  ti_rsi :: "jsnum option"
  ti_trend :: "trend option"
  ti_last_cross :: "jsnum option"
  ti_last_break :: "jsnum option"
  ti_phase :: "orb_phase option"
  ti_next_open :: "jsnum option"

definition fnv_step :: "32 word \<Rightarrow> char \<Rightarrow> 32 word" where
  "fnv_step h c = (h XOR of_nat (code_of c)) * 16777619"

definition hash_from :: "32 word \<Rightarrow> string \<Rightarrow> 32 word" where
  "hash_from h s = foldl fnv_step h s"

definition hash :: "string \<Rightarrow> 32 word" where
  "hash s = hash_from 2166136261 s"

definition ago_text :: "jsnum \<Rightarrow> string" where
  "ago_text minutes = (if minutes < 60 then js_string (math_max 1 (math_round minutes)) @ '' min ago''
     else to_fixed (minutes / 60) 1 @ '' h ago'')"

definition quiet_picks :: "(string \<times> string) list" where
  "quiet_picks = [(''direction'', ''Nothing is stretched and nothing has crossed: a quiet tape is a Direction day. Pick a side on a turn, keep the stop, let the timer close it.''),
     (''ma-cross'', ''Quiet so far, no cross yet. The first cross of a quiet day tends to run: sit on MA Cross and let it name the side.''),
     (''rsi'', ''Quiet so far, the index mid-range. Days like this end in a stretch: RSI Bounce waits well, and the entry is sharp when it comes.''),
     (''donchian'', ''Quiet so far, the price inside its channel. A quiet range is what a breakout comes out of: sit on Turtles and let the close outside name the side.'')]"

definition strategy_of_the_day :: "today_input \<Rightarrow> string \<times> string" where
  "strategy_of_the_day t =
     (if (case ti_rsi t of Some r \<Rightarrow> is_finite r \<and> (r \<ge> 65 \<or> r \<le> 35) | None \<Rightarrow> False)
      then (let r = the (ti_rsi t) in (''rsi'', ''RSI on the 15-minute chart is '' @ js_string (math_round r) @ '': the crowd has overdone the '' @
        (if r \<ge> 65 then ''buying'' else ''selling'') @ '', and a stretched crowd snaps back. RSI Bounce is built for exactly this.''))
      else if ti_phase t = Some Forming then (''orb'', ''A session has just opened and its range is being set right now. The first close outside it is the day's first decided move: Open Range is live.'')
      else if ti_phase t = Some Watching then (''orb'', ''A session opened and its range is set; the market has not left it yet. The first close outside it is the entry, and it is being watched now. Open Range fits this hour.'')
      else if (case ti_last_break t of Some m \<Rightarrow> m \<le> 120 | None \<Rightarrow> False)
      then (''donchian'', ''The price closed out of its 20-bar channel '' @ ago_text (the (ti_last_break t)) @
        '' on the 15-minute chart: the market has left its range, and a trend that has started breaks out again. Turtles fits today.'')
      else if ti_trend t \<noteq> None \<and> ti_trend t \<noteq> Some TFlat \<and> (case ti_last_cross t of Some m \<Rightarrow> m \<le> 180 | None \<Rightarrow> False)
      then (''ma-cross'', ''The averages crossed '' @ trend_text (the (ti_trend t)) @ '' '' @ ago_text (the (ti_last_cross t)) @
        '' on the 15-minute chart and the trend is holding: a trend day, and trend days pay crosses. MA Cross fits today.'')
      else if (case ti_next_open t of Some m \<Rightarrow> 0 < m \<and> m \<le> 45 | None \<Rightarrow> False)
      then (''orb'', ''A session opens in '' @ js_string (math_max 1 (math_round (the (ti_next_open t)))) @
        '' minutes. Its first quarter hour sets a range and the first close outside it is the entry: be on Open Range when it does.'')
      else quiet_picks ! (unat (hash (ti_day t @ '':'' @ upper (ti_symbol t))) mod length quiet_picks))"

section \<open>The hash\<close>

lemma fnv_prime_cancel: "x * 16777619 = y * 16777619 \<longleftrightarrow> x = y" for x y :: "32 word"
proof
  assume "x * 16777619 = y * 16777619"
  then have "x * 16777619 * 899433627 = y * 16777619 * 899433627" by simp
  moreover have "z * 16777619 * 899433627 = z" for z :: "32 word"
  proof -
    have "(16777619 * 899433627 :: 32 word) = 1" by code_simp
    then show ?thesis by (metis mult.assoc mult.right_neutral)
  qed
  ultimately show "x = y" by simp
qed simp

lemma xor_cancel_right: "x XOR a = y XOR a \<longleftrightarrow> x = y" for x y a :: "32 word"
  by (metis xor.assoc xor.right_neutral xor_self_eq)

lemma xor_cancel_left: "a XOR x = a XOR y \<longleftrightarrow> x = y" for x y a :: "32 word"
  by (metis xor_cancel_right xor.commute)

lemma code_of_inj: "code_of c = code_of d \<longleftrightarrow> c = d"
  by (simp add: code_of_def)

lemma code_of_word: "(of_nat (code_of c) :: 32 word) = of_nat (code_of d) \<longleftrightarrow> c = d"
proof -
  have "code_of x < 256" for x by (simp add: code_of_def)
  then have "code_of x < 4294967296" for x by (rule less_trans) simp
  then have "unat (of_nat (code_of x) :: 32 word) = code_of x" for x
    by (simp add: unat_of_nat)
  then show ?thesis by (metis code_of_inj)
qed

lemma fnv_step_inj: "fnv_step h c = fnv_step h' c \<longleftrightarrow> h = h'"
  by (simp add: fnv_step_def fnv_prime_cancel xor_cancel_right)

lemma fnv_step_char: "fnv_step h c = fnv_step h d \<longleftrightarrow> c = d"
  by (simp add: fnv_step_def fnv_prime_cancel xor_cancel_left code_of_word)

lemma hash_from_inj: "hash_from h s = hash_from h' s \<longleftrightarrow> h = h'"
  by (induction s arbitrary: h h') (simp_all add: hash_from_def fnv_step_inj)

text \<open>
  The day's pick is seeded by every character: two texts of the day and the
  market that differ in exactly one character never have the same 32-bit hash,
  wrap-around included, and the pick made from it is always one of the quiet
  day's strategies.
\<close>

theorem hash_separates:
  assumes "c \<noteq> d"
  shows "hash (s @ c # t) \<noteq> hash (s @ d # t) \<and>
    quiet_picks ! (unat (hash s) mod length quiet_picks) \<in> set quiet_picks"
proof -
  have split: "hash (s @ x # t) = hash_from (fnv_step (hash s) x) t" for x
    by (simp add: hash_def hash_from_def)
  have "length quiet_picks \<noteq> 0" by (simp add: quiet_picks_def)
  then show ?thesis using assms by (simp add: split hash_from_inj fnv_step_char)
qed

theorem hash_separates_witness: "hash ''2026-09-01:MON'' \<noteq> hash ''2026-09-02:MON''"
  using hash_separates[of "CHR ''1''" "CHR ''2''" "''2026-09-0''" "'':MON''"] by simp

section \<open>The signal of this chart\<close>

definition answered_for :: "string \<Rightarrow> signal \<Rightarrow> signal_event list \<Rightarrow> bool" where
  "answered_for key s es \<longleftrightarrow> SignalAnswered key True (Inr s) \<in> set es"

lemma signal_got:
  "sh_got (foldl signal_step h es) = Some (k, s) \<Longrightarrow> sh_got h = Some (k, s) \<or> answered_for k s es"
proof (induction es arbitrary: h)
  case (Cons e es)
  from Cons.IH[of "signal_step h e"] Cons.prems show ?case
    by (cases e) (auto simp: answered_for_def split: sum.splits if_splits)
qed simp

text \<open>
  A screen never lights up for another chart: whatever charts it turns to and
  in whatever order answers arrive, the signal shown is one that was answered
  for the strategy, the market and the bar size now on the screen, and
  Direction shows none.
\<close>

theorem signal_is_of_this_chart:
  assumes "sh_got h = None" "use_signal (foldl signal_step h (es @ [ChartTurned id' symbol interval] @ answers)) = Some s"
    and "\<forall>e \<in> set answers. \<exists>k a r. e = SignalAnswered k a r"
  shows "id' \<noteq> ''direction'' \<and> answered_for (signal_key id' symbol interval) s (es @ answers)"
proof -
  have keep: "sh_id (foldl signal_step g answers) = sh_id g \<and> sh_key (foldl signal_step g answers) = sh_key g" for g
    using assms(3)
  proof (induction answers arbitrary: g)
    case (Cons e answers)
    then obtain k a r where "e = SignalAnswered k a r" by auto
    then show ?case using Cons.IH Cons.prems by (simp split: sum.split)
  qed simp
  let ?h = "foldl signal_step h (es @ [ChartTurned id' symbol interval] @ answers)"
  have "sh_id ?h = id'" "sh_key ?h = signal_key id' symbol interval" by (simp_all add: keep)
  moreover from this assms(2) have "id' \<noteq> ''direction''" "sh_got ?h = Some (signal_key id' symbol interval, s)"
    by (auto simp: use_signal_def split: if_splits option.splits)
  ultimately show ?thesis
    using signal_got[of h "es @ [ChartTurned id' symbol interval] @ answers"] assms(1)
    by (auto simp: answered_for_def)
qed

theorem signal_is_of_this_chart_witness:
  "let key = signal_key ''rsi'' ''ETH'' ''5''; s = bare_signal None True in answered_for key s [SignalAnswered key True (Inr s)]"
proof -
  let ?k = "signal_key ''rsi'' ''ETH'' ''5''" and ?s = "bare_signal None True"
  have "use_signal (foldl signal_step \<lparr>sh_id = [], sh_key = [], sh_got = None\<rparr>
      ([] @ [ChartTurned ''rsi'' ''ETH'' ''5''] @ [SignalAnswered ?k True (Inr ?s)])) = Some ?s"
    by (simp add: use_signal_def)
  from signal_is_of_this_chart[OF _ this] show ?thesis by (auto simp: Let_def)
qed

end
