(* ===== verification/Paging.thy ===== *)
theory Paging
  imports Show
begin

text \<open>
  A page at a time (ui/pager.tsx): which rows of a list a page shows, what the
  pager says and which of its arrows can be pressed; and the contract between a
  screen that reads a long list page by page and the service that answers it
  (the history of a wallet, the standings of a board).
\<close>

section \<open>The pager\<close>

text \<open>Pages are counted from one.\<close>

definition page_slice :: "'a list \<Rightarrow> nat \<Rightarrow> nat \<Rightarrow> 'a list" where
  "page_slice rows page per = take (page * per - (page - 1) * per) (drop ((page - 1) * per) rows)"

record pager =
  pg_label :: string
  pg_prev :: bool
  pg_next :: bool

definition pager_view :: "nat \<Rightarrow> nat option \<Rightarrow> bool \<Rightarrow> bool \<Rightarrow> pager" where
  "pager_view page pages has_next busy =
     \<lparr>pg_label = (if busy then ''Loading'' @ ellipsis
        else case pages of
          Some n \<Rightarrow> if n = 0 then ''Page '' @ show_nat page else ''Page '' @ show_nat page @ '' of '' @ show_nat n
        | None \<Rightarrow> ''Page '' @ show_nat page),
      pg_prev = (page > 1), pg_next = has_next\<rparr>"

text \<open>How many pages a list of known length has, and the page a number that may be
  past the end stands for.\<close>

definition pages_of :: "nat \<Rightarrow> nat \<Rightarrow> nat" where
  "pages_of n per = max 1 ((n + per - 1) div per)"

definition page_within :: "nat \<Rightarrow> nat \<Rightarrow> nat" where
  "page_within page pages = min page pages"

section \<open>The pages are the list\<close>

lemma slice_Suc: "page_slice rows (Suc k) per = take per (drop (k * per) rows)"
  by (simp add: page_slice_def)

lemma slices_take: "List.concat (List.map (\<lambda>k. page_slice rows (Suc k) per) [0..<n]) = take (n * per) rows"
proof (induction n)
  case (Suc n)
  then show ?case by (simp add: slice_Suc take_add[symmetric] add.commute)
qed simp

lemma pages_cover:
  assumes "per > 0"
  shows "n \<le> pages_of n per * per"
proof -
  have "n \<le> (n + per - 1) div per * per"
  proof -
    have "n + per - 1 = (n + per - 1) div per * per + (n + per - 1) mod per" by simp
    moreover have "(n + per - 1) mod per < per" using assms by simp
    ultimately show ?thesis by linarith
  qed
  also have "\<dots> \<le> pages_of n per * per" by (simp add: pages_of_def)
  finally show ?thesis .
qed

text \<open>
  Paging shows every row exactly once and in order: put one after another, the
  pages of a list are the list, no page is longer than the size asked for, and
  no page but the only one is empty.
\<close>

theorem pages_are_the_list:
  assumes "per > 0"
  shows "List.concat (List.map (\<lambda>k. page_slice rows (Suc k) per) [0..<pages_of (length rows) per]) = rows \<and>
    length (page_slice rows (Suc k) per) \<le> per \<and>
    (k < pages_of (length rows) per \<longrightarrow> rows \<noteq> [] \<longrightarrow> page_slice rows (Suc k) per \<noteq> [])"
proof -
  have "k * per < length rows" if "k < pages_of (length rows) per" "rows \<noteq> []"
  proof (cases "k = 0")
    case False
    with that have "k < (length rows + per - 1) div per" by (simp add: pages_of_def max_def split: if_splits)
    then have "Suc k * per \<le> length rows + per - 1" using assms
      by (metis Suc_leI less_eq_div_iff_mult_less_eq)
    then show ?thesis using assms by simp
  qed (use that in simp)
  moreover have "List.concat (List.map (\<lambda>k. page_slice rows (Suc k) per) [0..<pages_of (length rows) per]) = rows"
    using pages_cover[OF assms, of "length rows"] by (simp add: slices_take)
  ultimately show ?thesis using assms by (simp add: slice_Suc not_le)
qed

theorem pages_are_the_list_witness:
  "List.concat (List.map (\<lambda>k. page_slice [1..<9] (Suc k) 5) [0..<2]) = [1..<9::nat]"
proof -
  have "pages_of (length [1..<9::nat]) 5 = 2" by (simp add: pages_of_def)
  then show ?thesis using pages_are_the_list[of 5 "[1..<9::nat]" 0] by (metis zero_less_numeral)
qed

section \<open>A list read page by page\<close>

text \<open>What a screen relies on when it asks for a list a page at a time: what lies
  ahead of a place is the page answered there and then what lies ahead of the
  place the answer names; an answer that names none is the last.\<close>

locale paged_source =
  fixes answer :: "'c option \<Rightarrow> 'a list \<times> 'c option"
    and ahead :: "'c option \<Rightarrow> 'a list"
  assumes page_then_ahead:
    "ahead c = fst (answer c) @ (case snd (answer c) of None \<Rightarrow> [] | Some c' \<Rightarrow> ahead (Some c'))"
begin

text \<open>A reader that has read \<open>rows\<close> and holds the place \<open>c\<close> has lost nothing.\<close>

definition kept :: "'a list \<Rightarrow> 'c option \<Rightarrow> bool" where
  "kept rows c \<longleftrightarrow> ahead None = rows @ (case c of None \<Rightarrow> [] | Some c' \<Rightarrow> ahead (Some c'))"

lemma kept_first: "answer None = (rows, c) \<Longrightarrow> kept rows c"
  using page_then_ahead[of None] by (simp add: kept_def)

lemma kept_more: "kept rows (Some c) \<Longrightarrow> answer (Some c) = (more_rows, c') \<Longrightarrow> kept (rows @ more_rows) c'"
  using page_then_ahead[of "Some c"] by (simp add: kept_def)

lemma kept_prefix: "kept rows c \<Longrightarrow> ahead None = rows @ drop (length rows) (ahead None)"
  by (auto simp: kept_def split: option.splits)

lemma kept_nth: "kept rows c \<Longrightarrow> k < length rows \<Longrightarrow> ahead None ! k = rows ! k"
  by (auto simp: kept_def nth_append split: option.splits)

lemma kept_whole: "kept rows None \<longleftrightarrow> rows = ahead None"
  by (auto simp: kept_def)

end

end
