(* ===== verification/StrategyScreen.thy ===== *)
theory StrategyScreen
  imports Signals Settings Lobby Paging "HOL-Library.List_Lexorder" "HOL-Library.Char_ord"
begin

text \<open>
  The screen of one strategy (strategy/screen.tsx): which markets and charts it
  offers and how they are walked, whether its two keys can be pressed and what
  a press opens, the way to the result of a position that closed, and what the
  header, the chart, the signal, the open position and the card of past trades
  say. The chart itself and the layout are not modelled.
\<close>

section \<open>Markets and charts\<close>

definition intervals :: "string list" where "intervals = [''1'', ''5'', ''15'', ''30'', ''60'']"

definition interval_label :: "string \<Rightarrow> string" where
  "interval_label i = (case map_of [(''1'', ''1m''), (''5'', ''5m''), (''15'', ''15m''), (''30'', ''30m''), (''60'', ''1h'')] i of
     Some l \<Rightarrow> l | None \<Rightarrow> ''undefined'')"

text \<open>A position keeps its own market, wherever the screen was before.\<close>

definition screen_symbol :: "string \<Rightarrow> position option \<Rightarrow> string" where
  "screen_symbol chosen pos = (case pos of Some p \<Rightarrow> ps_symbol p | None \<Rightarrow> chosen)"

definition follow_position :: "position option \<Rightarrow> string \<Rightarrow> string option" where
  "follow_position pos chosen = (case pos of
     Some p \<Rightarrow> if ps_symbol p \<noteq> chosen then Some (ps_symbol p) else None | None \<Rightarrow> None)"

text \<open>The app's markets the policy allows in the app's order, then the others it allows by name.\<close>

definition offered_markets :: "string list option \<Rightarrow> string list" where
  "offered_markets allowed = (case allowed of
     None \<Rightarrow> symbols_offered
   | Some l \<Rightarrow> filter (\<lambda>s. s \<in> set l) symbols_offered @ sort (filter (\<lambda>s. s \<notin> set symbols_offered) l))"

definition held_by :: "position list \<Rightarrow> position option \<Rightarrow> string \<Rightarrow> string option" where
  "held_by ps own s = (case List.find (\<lambda>p. ps_symbol p = s \<and> Some p \<noteq> own) ps of
     None \<Rightarrow> None
   | Some p \<Rightarrow> Some (case ps_strategy p of
       None \<Rightarrow> ''another strategy'' | Some i \<Rightarrow> if i = [] then ''another strategy'' else strategy_name i))"

definition is_taken :: "position list \<Rightarrow> position option \<Rightarrow> string \<Rightarrow> bool" where
  "is_taken ps own symbol \<longleftrightarrow> own = None \<and> held_by ps own symbol \<noteq> None"

definition leave_taken :: "string list \<Rightarrow> position list \<Rightarrow> position option \<Rightarrow> string \<Rightarrow> string option" where
  "leave_taken offered ps own symbol =
     (if \<not> is_taken ps own symbol then None
      else case List.find (\<lambda>s. held_by ps own s = None) offered of
        Some free \<Rightarrow> if free \<noteq> [] \<and> free \<noteq> symbol then Some free else None
      | None \<Rightarrow> None)"

definition tradable :: "string list \<Rightarrow> position list \<Rightarrow> position option \<Rightarrow> string \<Rightarrow> string list" where
  "tradable offered ps own symbol = filter (\<lambda>s. held_by ps own s = None \<or> s = symbol) offered"

text \<open>The walk: every bar size, and in it every market that can be traded.\<close>

definition charts :: "string list \<Rightarrow> position list \<Rightarrow> position option \<Rightarrow> string \<Rightarrow> (string \<times> string) list" where
  "charts offered ps own symbol = List.concat (List.map (\<lambda>tf.
     List.map (\<lambda>s. (s, tf)) (if own \<noteq> None then [symbol] else tradable offered ps own symbol)) intervals)"

definition at_chart :: "(string \<times> string) list \<Rightarrow> string \<times> string \<Rightarrow> nat" where
  "at_chart cs c = (case first_index (\<lambda>x. x = c) cs of Some i \<Rightarrow> i | None \<Rightarrow> 0)"

definition step_chart :: "(string \<times> string) list \<Rightarrow> bool \<Rightarrow> string \<times> string \<Rightarrow> string \<times> string" where
  "step_chart cs forward c = (if length cs < 2 then c
     else cs ! ((at_chart cs c + (if forward then 1 else length cs - 1)) mod length cs))"

section \<open>The announcement of a signal\<close>

definition fresh_ms :: int where "fresh_ms = 20000"

text \<open>A window is announced once per chart and only while it is news.\<close>

definition announce :: "int \<Rightarrow> int \<Rightarrow> string \<Rightarrow> string \<Rightarrow> signal option \<Rightarrow> string option \<Rightarrow> string option \<times> bool" where
  "announce tz now symbol interval sig announced =
     (case sig of None \<Rightarrow> (announced, False)
      | Some s \<Rightarrow> (case (sg_opened_at s, sg_side s) of
          (Some opened, Some _) \<Rightarrow>
            (let key = symbol @ '':'' @ interval @ '':'' @ opened in
             if opened = [] \<or> announced = Some key then (announced, False)
             else (Some key, Num (of_int now) - parse_date tz opened < Num (of_int fresh_ms)))
        | _ \<Rightarrow> (announced, False)))"

section \<open>What a tap would open\<close>

record tap_inputs =
  in_id :: string
  in_symbol :: string
  in_settings :: position_settings
  in_bounds :: position_bounds
  in_trading :: trading
  in_position :: "position option"
  in_lit :: "side option"

definition tap_leverage :: "tap_inputs \<Rightarrow> jsnum" where
  "tap_leverage i = (let market_max = (case tr_market (in_trading i) of Some m \<Rightarrow> js_number (mk_max_leverage m) | None \<Rightarrow> 0)
     in if market_max > 0 then math_min (se_leverage (in_settings i)) market_max else se_leverage (in_settings i))"

definition free_balance :: "tap_inputs \<Rightarrow> jsnum" where
  "free_balance i = (case tr_state (in_trading i) of
     Some s \<Rightarrow> js_number (ac_balance (pf_account s)) | None \<Rightarrow> bo_balance (in_bounds i))"

definition tap_need :: "tap_inputs \<Rightarrow> jsnum" where
  "tap_need i = se_size (in_settings i) / math_max 1 (tap_leverage i) + se_size (in_settings i) * bo_open_fee (in_bounds i)"

definition is_short :: "tap_inputs \<Rightarrow> bool" where
  "is_short i \<longleftrightarrow> tr_state (in_trading i) \<noteq> None \<and> in_position i = None \<and> tap_need i > free_balance i + cent_half"

definition fits_size :: "tap_inputs \<Rightarrow> jsnum" where
  "fits_size i = math_floor (max_size_for ((in_bounds i)\<lparr>bo_balance := free_balance i\<rparr>) (tap_leverage i))"

definition max_open :: "tap_inputs \<Rightarrow> jsnum" where
  "max_open i = (case tr_state (in_trading i) of Some s \<Rightarrow> lm_max_open_positions (pf_limits s) | None \<Rightarrow> 0)"

definition open_now :: "tap_inputs \<Rightarrow> jsnum" where
  "open_now i = (case tr_state (in_trading i) of Some s \<Rightarrow> rk_open_positions (pf_risk s) | None \<Rightarrow> 0)"

definition at_limit :: "tap_inputs \<Rightarrow> bool" where
  "at_limit i \<longleftrightarrow> tr_state (in_trading i) \<noteq> None \<and> in_position i = None \<and> max_open i > 0 \<and> open_now i \<ge> max_open i"

definition keys_disabled :: "tap_inputs \<Rightarrow> bool" where
  "keys_disabled i \<longleftrightarrow> tr_busy (in_trading i) \<noteq> None \<or> tr_state (in_trading i) = None \<or>
     is_taken (positions_of (in_trading i)) (in_position i) (in_symbol i) \<or> is_short i \<or> at_limit i"

text \<open>Where a refusal can be changed: the limits that are the wallet's own.\<close>

definition limit_fix :: "string option \<Rightarrow> (string \<times> string) option" where
  "limit_fix code = (case code of None \<Rightarrow> None | Some c \<Rightarrow> map_of
     [(''too_many_open_positions'', ''Open at once'' @ dot_mark @ ''change it in Risk'', ''open-positions''),
      (''daily_loss_limit_reached'', ''Daily loss budget'' @ dot_mark @ ''change it in Risk'', ''daily-loss''),
      (''cooldown'', ''Cooldown between taps'' @ dot_mark @ ''change it in Risk'', ''cooldown'')] c)"

section \<open>The screen as it is pressed\<close>

record strategy_screen =
  ss_trading :: trading
  ss_memory :: signal_memory
  ss_asking :: "side option"
  ss_reversing :: "position option"
  ss_leaving :: bool
  ss_settling :: bool
  ss_route :: "string option"
  ss_was :: "position option"

definition open_side :: "backend \<Rightarrow> tap_inputs \<Rightarrow> side \<Rightarrow> strategy_screen \<Rightarrow> strategy_screen" where
  "open_side bk i side s =
     s\<lparr>ss_memory := (if in_lit i \<noteq> None then mark_signal_entry (in_id i) (in_symbol i) (ss_memory s)
         else clear_signal_entry (in_id i) (ss_memory s)),
       ss_trading := open_order bk (in_symbol i) (in_id i) side (js_string (se_size (in_settings i)))
         (se_horizon (in_settings i) * 60) (max_loss_fraction (in_settings i)) (js_string (tap_leverage i))
         (take_profit_fraction (in_settings i)) (ss_trading s)\<rparr>"

text \<open>Without a signal a strategy other than Direction asks first.\<close>

definition tap_key :: "backend \<Rightarrow> tap_inputs \<Rightarrow> side \<Rightarrow> strategy_screen \<Rightarrow> strategy_screen" where
  "tap_key bk i side s = (if in_id i \<noteq> ''direction'' \<and> in_lit i = None then s\<lparr>ss_asking := Some side\<rparr> else open_side bk i side s)"

definition press_key :: "backend \<Rightarrow> tap_inputs \<Rightarrow> side \<Rightarrow> strategy_screen \<Rightarrow> strategy_screen" where
  "press_key bk i side s = (if keys_disabled i then s else tap_key bk i side s)"

definition confirm_asked :: "backend \<Rightarrow> tap_inputs \<Rightarrow> strategy_screen \<Rightarrow> strategy_screen" where
  "confirm_asked bk i s = (case ss_asking s of
     None \<Rightarrow> s | Some side \<Rightarrow> open_side bk i side (s\<lparr>ss_asking := None\<rparr>))"

definition cancel_asked :: "strategy_screen \<Rightarrow> strategy_screen" where
  "cancel_asked s = s\<lparr>ss_asking := None\<rparr>"

text \<open>The way to the result: the trade that closed is looked for up to six times, a
  second apart. A read that fails counts as one that found nothing.\<close>

definition result_found :: "string option \<Rightarrow> string option \<Rightarrow> trade \<Rightarrow> bool" where
  "result_found order opened x \<longleftrightarrow> given (td_id x) \<and> given (td_closed_at x) \<and>
     (if given order then td_close_order_id x = order else \<not> given opened \<or> the opened \<le> td_opened_at x)"

fun look_for_result :: "(nat \<Rightarrow> exn + trade list) \<Rightarrow> string option \<Rightarrow> string option \<Rightarrow> nat \<Rightarrow> nat \<Rightarrow> string option" where
  "look_for_result answers order opened k 0 = None"
| "look_for_result answers order opened k (Suc n) =
     (case answers k of
        Inl _ \<Rightarrow> look_for_result answers order opened (Suc k) n
      | Inr ts \<Rightarrow> (case List.find (result_found order opened) ts of
          Some x \<Rightarrow> td_id x
        | None \<Rightarrow> look_for_result answers order opened (Suc k) n))"

definition result_attempts :: nat where "result_attempts = 6"

definition go_to_result :: "(nat \<Rightarrow> exn + trade list) \<Rightarrow> string \<Rightarrow> string option \<Rightarrow> string option \<Rightarrow> strategy_screen \<Rightarrow> strategy_screen" where
  "go_to_result answers id' order opened s =
     (if ss_leaving s then s
      else case look_for_result answers order opened 0 result_attempts of
        Some found \<Rightarrow> s\<lparr>ss_leaving := True, ss_settling := True, ss_route := Some (''/result?id='' @ found @ ''&strategy='' @ id')\<rparr>
      | None \<Rightarrow> s\<lparr>ss_leaving := False, ss_settling := False\<rparr>)"

definition close_now :: "backend \<Rightarrow> (nat \<Rightarrow> exn + trade list) \<Rightarrow> tap_inputs \<Rightarrow> strategy_screen \<Rightarrow> strategy_screen" where
  "close_now bk answers i s =
     (case close_order bk (in_symbol i) (in_id i) (ss_trading s) of
        (t, None) \<Rightarrow> s\<lparr>ss_trading := t\<rparr>
      | (t, Some o') \<Rightarrow> go_to_result answers (in_id i) (Some (od_venue_id o')) None (s\<lparr>ss_trading := t\<rparr>))"

definition ask_reverse :: "tap_inputs \<Rightarrow> strategy_screen \<Rightarrow> strategy_screen" where
  "ask_reverse i s = s\<lparr>ss_reversing := in_position i\<rparr>"

definition confirm_reverse :: "int \<Rightarrow> backend \<Rightarrow> tap_inputs \<Rightarrow> strategy_screen \<Rightarrow> strategy_screen" where
  "confirm_reverse tz bk i s = s\<lparr>ss_reversing := None, ss_memory := clear_signal_entry (in_id i) (ss_memory s),
     ss_trading := reverse_order tz bk (in_symbol i) (in_id i) (in_position i) (ss_trading s)\<rparr>"

text \<open>A position that was there and is not: the platform closed it, and its result is
  looked for by when it was opened.\<close>

definition position_changed :: "(nat \<Rightarrow> exn + trade list) \<Rightarrow> tap_inputs \<Rightarrow> strategy_screen \<Rightarrow> strategy_screen" where
  "position_changed answers i s =
     (let s1 = s\<lparr>ss_was := in_position i\<rparr> in
      case ss_was s of
        Some before \<Rightarrow>
          if in_position i = None \<and> tr_state (ss_trading s) \<noteq> None \<and> tr_busy (ss_trading s) \<noteq> Some Reversing
          then go_to_result answers (in_id i) None (ps_opened_at before)
                 (s1\<lparr>ss_memory := clear_signal_entry (in_id i) (ss_memory s)\<rparr>)
          else s1
      | None \<Rightarrow> s1)"

definition analysis_opens :: "string option \<Rightarrow> int \<Rightarrow> int \<Rightarrow> bool" where
  "analysis_opens day tz now \<longleftrightarrow> day \<noteq> Some (today_key tz now)"

definition close_analysis :: "int \<Rightarrow> int \<Rightarrow> string option place \<Rightarrow> string option place" where
  "close_analysis tz now = save_analysis_day (today_key tz now)"

section \<open>What the screen shows\<close>

datatype keys_note =
    PositionLimit string
  | ShortBalance string "jsnum option"
  | NoNote

datatype screen_body =
    ShowsPosition position bool
  | ShowsSettling string string
  | ShowsKeys "side option" bool bool keys_note

definition keys_note :: "tap_inputs \<Rightarrow> keys_note" where
  "keys_note i =
     (if at_limit i then PositionLimit (js_string (open_now i) @ '' '' @ (if num_eq (open_now i) 1 then ''position is'' else ''positions are'') @
         '' open and your limit is '' @ js_string (max_open i) @ '' at once. Close one to open another '' @ em_dash @ '' or raise the limit, it is yours to set.'')
      else if is_short i then ShortBalance
        (''Not enough free balance: '' @ js_string (se_size (in_settings i)) @ '' AUSD at '' @ js_string (tap_leverage i) @
         ''x needs '' @ to_fixed (tap_need i) 2 @ '', and '' @ to_fixed (free_balance i) 2 @ '' is free.'')
        (if fits_size i \<ge> bo_min_size (in_bounds i) then Some (fits_size i) else None)
      else NoNote)"

definition screen_body :: "tap_inputs \<Rightarrow> strategy_screen \<Rightarrow> screen_body" where
  "screen_body i s =
     (case in_position i of
        Some p \<Rightarrow> ShowsPosition p (in_id i \<noteq> ''direction'' \<and> was_signal_entry (in_id i) (ps_symbol p) (ss_memory s))
      | None \<Rightarrow>
          if ss_settling s \<or> tr_busy (in_trading i) = Some Reversing
          then (if tr_busy (in_trading i) = Some Reversing
                then ShowsSettling ''Reversing'' (''Closed at market; opening the other side in a moment'' @ ellipsis)
                else ShowsSettling ''Closed'' (''Looking up the result'' @ ellipsis))
          else ShowsKeys (in_lit i) (in_id i = ''direction'') (keys_disabled i) (keys_note i))"

definition side_word :: "side \<Rightarrow> string" where
  "side_word s = (if s = Long then ''Up'' else ''Down'')"

definition other_side :: "side \<Rightarrow> side" where
  "other_side s = (if s = Long then Short else Long)"

text \<open>The two sheets: title, body, what confirms and what cancels.\<close>

definition asking_sheet :: "string \<Rightarrow> string \<Rightarrow> side \<Rightarrow> string list" where
  "asking_sheet id' symbol side =
     [''No signal right now'',
      (case map_of strategy_names id' of Some n \<Rightarrow> n | None \<Rightarrow> ''The strategy'') @ '' has not named a side. You can still open '' @
        side_word side @ '' on '' @ symbol @ '' '' @ em_dash @ '' it is your call, not the signal's.'',
      ''Open '' @ side_word side @ '' anyway'', ''Wait for the signal'']"

definition reverse_sheet :: "string \<Rightarrow> position \<Rightarrow> string list" where
  "reverse_sheet symbol p =
     (let now = side_word (ps_side p); then' = side_word (other_side (ps_side p)) in
      [''Reverse to '' @ then' @ ''?'',
       ''Closes this '' @ now @ '' at market and, a moment later, opens '' @ then' @ '' on '' @ symbol @ '': '' @
         to_fixed (js_number (ps_notional p)) 0 @ '' AUSD at '' @ js_string (js_number (ps_leverage p)) @
         ''x, with the same stop, target and time limit.'',
       ''Reverse to '' @ then', ''Keep it''])"

datatype header_badge = OpenAccount | SignInFirst | Plain string

record screen_header =
  hd_title :: string
  hd_badge :: header_badge
  hd_dial :: jsnum
  hd_lesson :: string

definition header_badge :: "bool \<Rightarrow> trading \<Rightarrow> header_badge" where
  "header_badge unlocked t =
     (if \<not> tr_offline t \<and> tr_locked t then (if unlocked then OpenAccount else SignInFirst)
      else Plain (if tr_offline t then ''OFFLINE'' else ''TESTNET''))"

definition screen_header :: "string \<Rightarrow> string option \<Rightarrow> bool \<Rightarrow> report_feed \<Rightarrow> trading \<Rightarrow> screen_header" where
  "screen_header id' symbol unlocked feed t =
     (let name = (case map_of strategy_names id' of Some n \<Rightarrow> n | None \<Rightarrow> ''Direction'') in
      \<lparr>hd_title = (case symbol of Some s \<Rightarrow> if s = [] then name else name @ dot_mark @ s | None \<Rightarrow> name),
       hd_badge = header_badge unlocked t,
       hd_dial = dial_percent (use_risk_report True feed) (tr_state t),
       hd_lesson = ''/lesson?strategy='' @ id'\<rparr>)"

section \<open>The chart\<close>

text \<open>An ISO moment as unix seconds, for the chart page.\<close>

definition unix :: "int \<Rightarrow> string \<Rightarrow> jsnum" where
  "unix tz moment = math_floor (parse_date tz moment / 1000)"

record chart_levels =
  cl_side :: side
  cl_size :: decimal
  cl_entry :: decimal
  cl_pnl :: decimal
  cl_stop :: "string option"
  cl_take :: "string option"
  cl_liquidation :: "string option"

text \<open>The price at which a position has made or lost an amount, with the entry's own decimals.\<close>

definition decimals_of :: "decimal \<Rightarrow> nat" where
  "decimals_of d = (case snd (split_at (CHR ''.'') d) of Some f \<Rightarrow> length f | None \<Rightarrow> 0)"

definition level_at :: "position \<Rightarrow> string option \<Rightarrow> string option" where
  "level_at p pnl =
     (let held = js_number (ps_size p) in
      case pnl of None \<Rightarrow> None
      | Some v \<Rightarrow> if \<not> (held > 0) then None
          else Some (to_fixed (js_number (ps_entry_price p) + (if ps_side p = Long then 1 else -1) * js_number v / held)
            (decimals_of (ps_entry_price p))))"

definition levels_of :: "position \<Rightarrow> chart_levels" where
  "levels_of p = \<lparr>cl_side = ps_side p, cl_size = ps_size p, cl_entry = ps_entry_price p, cl_pnl = ps_unrealized_pnl p,
     cl_stop = level_at p (ps_stop_pnl p), cl_take = level_at p (ps_tp_pnl p),
     cl_liquidation = (if given (ps_liquidation_price p)
       then Some (to_fixed (js_number (the (ps_liquidation_price p))) (decimals_of (ps_entry_price p))) else None)\<rparr>"

text \<open>What is drawn besides the bars: averages, a channel, the opening range, and the
  one mark of the last cross or break.\<close>

record chart_study =
  st_averages :: "(jsnum \<times> jsnum) option"
  st_channel :: "jsnum option"
  st_mark :: "(side \<times> string) option"
  st_box :: "(string \<times> string \<times> jsnum \<times> jsnum) option"
  st_study :: "string option"

definition chart_averages :: "string \<Rightarrow> signal option \<Rightarrow> averages option" where
  "chart_averages id' sig = (if id' \<noteq> ''ma-cross'' then None
     else Some (case sig of None \<Rightarrow> \<lparr>av_fast = 5, av_slow = 20, av_trend = TFlat, av_last_cross = None\<rparr>
       | Some s \<Rightarrow> (case sg_averages s of Some a \<Rightarrow> a | None \<Rightarrow> \<lparr>av_fast = 5, av_slow = 20, av_trend = TFlat, av_last_cross = None\<rparr>)))"

definition chart_channel :: "string \<Rightarrow> signal option \<Rightarrow> channel option" where
  "chart_channel id' sig = (if id' \<noteq> ''donchian'' then None
     else Some (case sig of None \<Rightarrow> \<lparr>cn_length = 20, cn_upper = None, cn_lower = None, cn_last_break = None\<rparr>
       | Some s \<Rightarrow> (case sg_channel s of Some c \<Rightarrow> c | None \<Rightarrow> \<lparr>cn_length = 20, cn_upper = None, cn_lower = None, cn_last_break = None\<rparr>)))"

definition chart_range :: "string \<Rightarrow> signal option \<Rightarrow> session_range option" where
  "chart_range id' sig = (if id' \<noteq> ''orb'' then None else case sig of None \<Rightarrow> None | Some s \<Rightarrow> sg_range s)"

text \<open>A break of an earlier session is not this one's.\<close>

definition range_break :: "session_range option \<Rightarrow> breakout option" where
  "range_break r = (case r of None \<Rightarrow> None
     | Some r \<Rightarrow> (case sr_last_break r of Some b \<Rightarrow> if sr_open_at r \<le> bk_at b then Some b else None | None \<Rightarrow> None))"

definition chart_study :: "int \<Rightarrow> string \<Rightarrow> signal option \<Rightarrow> chart_study" where
  "chart_study tz id' sig =
     (let av = chart_averages id' sig; ch = chart_channel id' sig; rg = chart_range id' sig;
          of_break = map_option (\<lambda>b. (bk_side b, bk_at b))
      in \<lparr>st_averages = map_option (\<lambda>a. (av_fast a, av_slow a)) av,
          st_channel = map_option cn_length ch,
          st_mark = (case (case av of Some a \<Rightarrow> av_last_cross a | None \<Rightarrow> None) of
             Some m \<Rightarrow> Some m
           | None \<Rightarrow> (case (case ch of Some c \<Rightarrow> of_break (cn_last_break c) | None \<Rightarrow> None) of
               Some m \<Rightarrow> Some m | None \<Rightarrow> of_break (range_break rg))),
          st_box = (case rg of Some r \<Rightarrow> (case (sr_high r, sr_low r) of
               (Some h, Some l) \<Rightarrow> Some (js_string h, js_string l, unix tz (sr_from r), unix tz (sr_until r)) | _ \<Rightarrow> None)
             | None \<Rightarrow> None),
          st_study = (if id' = ''rsi'' then Some ''rsi'' else if id' = ''donchian'' then Some ''donchian'' else None)\<rparr>)"

definition left_text :: "string option \<Rightarrow> string" where
  "left_text left = (case left of None \<Rightarrow> [] | Some l \<Rightarrow> if l = [] then [] else dot_mark @ l @ '' left'')"

definition beyond :: "side \<Rightarrow> string" where
  "beyond s = (if s = Long then ''above'' else ''below'')"

text \<open>The legend of the pane, per strategy; Direction has none.\<close>

definition rsi_legend :: "int \<Rightarrow> string \<Rightarrow> bool \<Rightarrow> string option \<Rightarrow> signal option \<Rightarrow> string" where
  "rsi_legend tz interval lit left sig = ''RSI 14'' @ dot_mark @ interval_label interval @
     (case (case sig of Some s \<Rightarrow> sg_last_at s | None \<Rightarrow> None) of
        Some t \<Rightarrow> if lit \<and> t \<noteq> [] then dot_mark @ ''zone '' @ hm tz t @ left_text left else []
      | None \<Rightarrow> [])"

definition averages_legend :: "int \<Rightarrow> string \<Rightarrow> bool \<Rightarrow> string option \<Rightarrow> averages \<Rightarrow> string" where
  "averages_legend tz interval lit left a =
     ''MA '' @ js_string (av_fast a) @ dot_mark @ ''MA '' @ js_string (av_slow a) @ dot_mark @ interval_label interval @ dot_mark @
     (case av_last_cross a of
        Some (_, t) \<Rightarrow> if lit then ''cross '' @ hm tz t @ left_text left else ''trend '' @ trend_text (av_trend a)
      | None \<Rightarrow> ''trend '' @ trend_text (av_trend a))"

definition channel_legend :: "int \<Rightarrow> string \<Rightarrow> bool \<Rightarrow> string option \<Rightarrow> channel \<Rightarrow> string" where
  "channel_legend tz interval lit left c =
     ''Channel '' @ js_string (cn_length c) @ dot_mark @ interval_label interval @ dot_mark @
     (let quiet = (if cn_upper c \<noteq> None \<and> cn_lower c \<noteq> None
         then price_text (cn_lower c) @ '' '' @ [CHR 0xE2, CHR 0x80, CHR 0x93] @ '' '' @ price_text (cn_upper c) else ''warming up'')
      in case cn_last_break c of
        Some b \<Rightarrow> if lit then ''closed '' @ beyond (bk_side b) @ '' '' @ hm tz (bk_at b) @ left_text left else quiet
      | None \<Rightarrow> quiet)"

definition range_legend :: "int \<Rightarrow> string \<Rightarrow> bool \<Rightarrow> string option \<Rightarrow> session_range \<Rightarrow> string" where
  "range_legend tz interval lit left r =
     (let b = range_break (Some r); next = ''next open '' @ hm tz (sr_next_open_at r) in
      ''Open '' @ sr_open r @ dot_mark @ interval_label interval @ dot_mark @
      (case b of
         Some b \<Rightarrow>
           if lit then ''closed '' @ beyond (bk_side b) @ '' '' @ hm tz (bk_at b) @ left_text left
           else (case sr_phase r of
               Forming \<Rightarrow> ''range forming'' @ dot_mark @ ''until '' @ hm tz (sr_until r)
             | Watching \<Rightarrow> ''range '' @ price_text (sr_low r) @ '' '' @ [CHR 0xE2, CHR 0x80, CHR 0x93] @ '' '' @ price_text (sr_high r) @ dot_mark @ ''until '' @ hm tz (sr_watch_until r)
             | Broken \<Rightarrow> ''broke '' @ (if bk_side b = Long then ''up'' else ''down'') @ '' '' @ hm tz (bk_at b) @ dot_mark @ ''next '' @ hm tz (sr_next_open_at r)
             | ClosedPhase \<Rightarrow> next)
       | None \<Rightarrow> (case sr_phase r of
               Forming \<Rightarrow> ''range forming'' @ dot_mark @ ''until '' @ hm tz (sr_until r)
             | Watching \<Rightarrow> ''range '' @ price_text (sr_low r) @ '' '' @ [CHR 0xE2, CHR 0x80, CHR 0x93] @ '' '' @ price_text (sr_high r) @ dot_mark @ ''until '' @ hm tz (sr_watch_until r)
             | _ \<Rightarrow> next)))"

text \<open>The row of keys over the pane, the place in the walk and the market menu.\<close>

record chart_keys =
  ck_symbol :: string
  ck_can_pick :: bool
  ck_intervals :: "(string \<times> bool) list"
  ck_price :: string
  ck_change :: string
  ck_walk :: "string option"

definition chart_keys :: "string \<Rightarrow> bool \<Rightarrow> string \<Rightarrow> (string \<times> jsnum option) option \<Rightarrow> nat \<Rightarrow> nat \<Rightarrow> chart_keys" where
  "chart_keys symbol markets interval tick at' of' =
     \<lparr>ck_symbol = symbol, ck_can_pick = markets,
      ck_intervals = List.map (\<lambda>tf. (interval_label tf, tf = interval)) intervals,
      ck_price = (case tick of Some (p, _) \<Rightarrow> trim p | None \<Rightarrow> '' ''),
      ck_change = (case tick of Some (_, Some c) \<Rightarrow> money_in 1 c @ ''% today'' | _ \<Rightarrow> []),
      ck_walk = (if of' > 1 then Some (symbol @ dot_mark @ interval_label interval @ dot_mark @ show_nat (at' + 1) @ ''/'' @ show_nat of') else None)\<rparr>"

text \<open>A market of the menu: its name, who holds it, and whether it can be chosen.\<close>

definition market_menu :: "string list \<Rightarrow> position list \<Rightarrow> position option \<Rightarrow> string \<Rightarrow> (string \<times> string option \<times> bool) list" where
  "market_menu offered ps own symbol = List.map (\<lambda>s.
     (if s = symbol then s @ '' '' @ [CHR 0xE2, CHR 0x9C, CHR 0x93] else s, map_option (\<lambda>h. ''in '' @ h) (held_by ps own s), held_by ps own s = None)) offered"

text \<open>The thermometer of RSI: where its mark stands, and the number under it.\<close>

definition thermometer :: "signal option \<Rightarrow> jsnum option \<times> string" where
  "thermometer sig = (case (case sig of Some s \<Rightarrow> sg_value s | None \<Rightarrow> None) of
     Some v \<Rightarrow> (Some (math_max 0 (math_min 100 v)), js_string v) | None \<Rightarrow> (None, em_dash))"

section \<open>What the strategy says\<close>

datatype says =
    Question string
  | Lit string string string
  | Waiting string "string option"

definition says :: "string \<Rightarrow> string \<Rightarrow> jsnum \<Rightarrow> string option \<Rightarrow> signal option \<Rightarrow> says" where
  "says id' symbol minutes left sig =
     (if id' = ''direction'' then Question (''Where does '' @ symbol @ '' go in the next '' @ js_string minutes @ '' minutes?'')
      else case sig of
        None \<Rightarrow> Waiting (''No signal now'' @ dot_mark @ ''reading the market'' @ ellipsis) None
      | Some s \<Rightarrow> (case sg_side s of
          Some side \<Rightarrow> Lit (''SIGNAL'' @ dot_mark @ (if side = Long then ''UP'' else ''DOWN'')) (sg_detail s)
            (case left of Some l \<Rightarrow> l | None \<Rightarrow> em_dash)
        | None \<Rightarrow> Waiting (''No signal now'' @ dot_mark @ sg_quiet s) (sg_last s)))"

section \<open>The open position\<close>

text \<open>How much of the horizon has run, and how far the price may go before the stop.\<close>

definition elapsed_share :: "int \<Rightarrow> int \<Rightarrow> position \<Rightarrow> jsnum option" where
  "elapsed_share tz now p =
     (if \<not> given (ps_closes_at p) \<or> \<not> given (ps_opened_at p) then None
      else let opened = parse_date tz (the (ps_opened_at p));
               whole = parse_date tz (the (ps_closes_at p)) - opened;
               gone = Num (of_int now) - opened
           in if whole \<le> 0 then None else Some (math_min 1 (math_max 0 (gone / whole))))"

definition stop_against :: "position \<Rightarrow> jsnum" where
  "stop_against p = (let notional = js_number (ps_notional p) in
     if notional > 0 then math_abs (case ps_stop_pnl p of Some v \<Rightarrow> js_number v | None \<Rightarrow> 0) / notional * 100 else 0)"

record open_card =
  oc_side :: string
  oc_notional :: string
  oc_leverage :: string
  oc_mood :: string
  oc_pnl :: string
  oc_colour :: sign_colour
  oc_footer :: string
  oc_rules :: string
  oc_closes_in :: "string option"
  oc_bar :: "jsnum option"
  oc_close :: "bool \<times> bool"
  oc_reverse :: "bool \<times> bool"

definition position_rules :: "position \<Rightarrow> string" where
  "position_rules p =
     (case ps_stop_pnl p of
        Some v \<Rightarrow> ''Stops by itself at '' @ money (js_number v) @ '' AUSD ('' @ to_fixed (stop_against p) 1 @ ''% against you).''
      | None \<Rightarrow> ''No stop: the time limit is the exit.'') @
     (case ps_tp_pnl p of Some v \<Rightarrow> '' Takes profit at '' @ money (js_number v) @ ''.'' | None \<Rightarrow> []) @
     '' Liquidation is '' @ to_fixed (100 / math_max 1 (js_number (ps_leverage p))) 1 @ ''% away.''"

text \<open>Each button: whether it spins and whether it can be pressed.\<close>

definition open_card :: "int \<Rightarrow> int \<Rightarrow> busy option \<Rightarrow> string option \<Rightarrow> position \<Rightarrow> open_card" where
  "open_card tz now busy left p =
     (let pnl = js_number (ps_unrealized_pnl p) in
      \<lparr>oc_side = side_word (ps_side p), oc_notional = to_fixed (js_number (ps_notional p)) 2 @ '' AUSD'',
       oc_leverage = ps_leverage p @ ''x'',
       oc_mood = (case sign_of pnl of Up \<Rightarrow> ''You are up'' | Down \<Rightarrow> ''You are down'' | Ink \<Rightarrow> ''Flat so far''),
       oc_pnl = money pnl, oc_colour = sign_of pnl,
       oc_footer = ''AUSD'' @ dot_mark @ ''in at '' @ trim (ps_entry_price p) @ dot_mark @ ''fees '' @ trim (ps_fees_paid p),
       oc_rules = position_rules p,
       oc_closes_in = (if given left then left else None),
       oc_bar = (if given left then map_option (\<lambda>r. math_round (r * 100)) (elapsed_share tz now p) else None),
       oc_close = (busy = Some Closing, busy = None), oc_reverse = (busy = Some Reversing, busy = None)\<rparr>)"

section \<open>The card of past trades\<close>

definition card_rows :: nat where "card_rows = 5"

definition close_word :: "trade \<Rightarrow> string" where
  "close_word t = (case td_close_reason t of
     Some Horizon \<Rightarrow> ''by timer'' | Some Stop \<Rightarrow> ''stop'' | Some TakeProfit \<Rightarrow> ''take profit''
   | Some Manual \<Rightarrow> ''closed'' | None \<Rightarrow> ''open'')"

record trade_row =
  tw_title :: string
  tw_sub :: string
  tw_pnl :: string
  tw_to :: "string option"

definition or_zero :: "decimal option \<Rightarrow> decimal" where
  "or_zero d = (case d of Some v \<Rightarrow> v | None \<Rightarrow> ''0'')"

definition trade_row :: "int \<Rightarrow> string \<Rightarrow> trade \<Rightarrow> trade_row" where
  "trade_row tz strategy t =
     \<lparr>tw_title = side_word (td_side t) @ dot_mark @ trim (td_entry_price t) @
        (if given (td_exit_price t) then '' '' @ [CHR 0xE2, CHR 0x86, CHR 0x92] @ '' '' @ trim (the (td_exit_price t)) else dot_mark @ ''open''),
      tw_sub = hm tz (td_opened_at t) @ '' '' @ [CHR 0xE2, CHR 0x80, CHR 0x93] @ '' '' @ hm tz (case td_closed_at t of Some c \<Rightarrow> c | None \<Rightarrow> td_opened_at t) @ dot_mark @ close_word t,
      tw_pnl = (case td_pnl t of None \<Rightarrow> em_dash | Some v \<Rightarrow> money (js_number v)),
      tw_to = (if given (td_id t) \<and> given (td_closed_at t) then Some (''/trade/'' @ the (td_id t) @ ''?strategy='' @ strategy) else None)\<rparr>"

record order_row =
  ow_key :: string
  ow_title :: string
  ow_sub :: string
  ow_to :: "(string \<times> string \<times> string) option"

text \<open>A round trip is two fills: the exit is the news, so it comes first.\<close>

definition order_rows :: "int \<Rightarrow> trade \<Rightarrow> order_row list" where
  "order_rows tz t =
     (let link = (\<lambda>order. if given (td_id t) then Some (the (td_id t), td_strategy t, order) else None);
          opened = \<lparr>ow_key = td_opened_at t @ ''-open'', ow_title = ''Open '' @ side_word (td_side t) @ dot_mark @ ''@ '' @ trim (td_entry_price t),
            ow_sub = hm tz (td_opened_at t) @ dot_mark @ ''fee '' @ trim (td_entry_fee t), ow_to = link ''open''\<rparr>
      in if \<not> given (td_closed_at t) then [opened]
         else [\<lparr>ow_key = td_opened_at t @ ''-close'', ow_title = ''Close '' @ side_word (td_side t) @ dot_mark @ ''@ '' @ trim (or_zero (td_exit_price t)),
                ow_sub = hm tz (the (td_closed_at t)) @ dot_mark @ ''fee '' @ trim (or_zero (td_exit_fee t)), ow_to = link ''close''\<rparr>, opened])"

datatype card_tab = PositionsTab | OrdersTab

record history_card =
  hc_empty :: "string option"
  hc_trades :: "trade_row list"
  hc_orders :: "order_row list"
  hc_pager :: "pager option"

text \<open>The page asked for may be past the end of a list that shrank.\<close>

definition history_card :: "int \<Rightarrow> string \<Rightarrow> card_tab \<Rightarrow> nat \<Rightarrow> trade list \<Rightarrow> history_card" where
  "history_card tz id' tab page ts =
     (let orders = List.concat (List.map (order_rows tz) ts);
          pages = pages_of (if tab = PositionsTab then length ts else length orders) card_rows;
          shown = page_within page pages
      in \<lparr>hc_empty = (if ts = [] then Some (''No trades yet in '' @ (case map_of strategy_names id' of Some n \<Rightarrow> n | None \<Rightarrow> ''Direction'') @ ''.'') else None),
          hc_trades = (if tab = PositionsTab then List.map (trade_row tz id') (page_slice ts shown card_rows) else []),
          hc_orders = (if tab = OrdersTab then page_slice orders shown card_rows else []),
          hc_pager = (if pages > 1 then Some (pager_view shown (Some pages) (shown < pages) False) else None)\<rparr>)"

section \<open>The walk\<close>

lemma first_index_some: "x \<in> set xs \<Longrightarrow> \<exists>i. first_index (\<lambda>y. y = x) xs = Some i \<and> i < length xs \<and> xs ! i = x"
  by (induction xs) auto

lemma at_chart_mem: "c \<in> set cs \<Longrightarrow> at_chart cs c < length cs \<and> cs ! at_chart cs c = c"
  using first_index_some[of c cs] by (auto simp: at_chart_def)

lemma at_chart_nth: "distinct cs \<Longrightarrow> j < length cs \<Longrightarrow> at_chart cs (cs ! j) = j"
  by (metis at_chart_mem nth_eq_iff_index_eq nth_mem)

lemma step_chart_eq:
  assumes "c \<in> set cs"
  shows "step_chart cs fwd c = cs ! ((at_chart cs c + (if fwd then 1 else length cs - 1)) mod length cs)"
proof (cases "length cs < 2")
  case True
  with assms obtain x where "cs = [x]" by (cases cs) auto
  with assms show ?thesis by (simp add: step_chart_def)
qed (simp add: step_chart_def)

lemma step_chart_nth:
  "distinct cs \<Longrightarrow> j < length cs \<Longrightarrow>
   step_chart cs fwd (cs ! j) = cs ! ((j + (if fwd then 1 else length cs - 1)) mod length cs)"
  by (simp add: step_chart_eq at_chart_nth)

lemma walk_forward:
  assumes "distinct cs" "c \<in> set cs"
  shows "(step_chart cs True ^^ k) c = cs ! ((at_chart cs c + k) mod length cs)"
proof (induction k)
  case 0
  then show ?case using at_chart_mem[OF assms(2)] by simp
next
  case (Suc k)
  have n: "0 < length cs" using assms(2) by (cases cs) auto
  let ?j = "(at_chart cs c + k) mod length cs"
  have "?j < length cs" using n by simp
  then have "step_chart cs True (cs ! ?j) = cs ! ((?j + 1) mod length cs)"
    by (simp add: step_chart_eq at_chart_nth[OF assms(1)])
  then show ?case using Suc by (simp add: mod_Suc_eq)
qed

lemma offered_distinct:
  assumes "case allowed of Some l \<Rightarrow> distinct l | None \<Rightarrow> True"
  shows "distinct (offered_markets allowed)"
proof (cases allowed)
  case (Some l)
  then show ?thesis using assms by (auto simp: offered_markets_def symbols_offered_def)
qed (simp add: offered_markets_def symbols_offered_def)

lemma charts_distinct:
  assumes "distinct offered"
  shows "distinct (charts offered ps own symbol)"
proof -
  let ?ms = "if own \<noteq> None then [symbol] else tradable offered ps own symbol"
  have ms: "distinct ?ms" using assms by (simp add: tradable_def)
  have inj: "inj_on (\<lambda>s. (s, tf)) A" for tf :: string and A :: "string set" by (simp add: inj_on_def)
  have "distinct (List.concat (List.map (\<lambda>tf. List.map (\<lambda>s. (s, tf)) ms) tfs))" if "distinct tfs" "distinct ms" for ms tfs :: "string list"
    using that by (induction tfs) (auto simp: distinct_map inj)
  from this[OF _ ms, of intervals] show ?thesis by (simp add: charts_def intervals_def)
qed

text \<open>
  The walk along the charts shows every one and never gets lost: on a policy
  that names no market twice, from any chart of the walk a step there and a
  step back leads to where it was, as many steps as there are charts lead round
  to the start and pass every chart, and every market on the way is free to
  trade or the screen's own.
\<close>

theorem walk_shows_every_chart:
  assumes "case allowed of Some l \<Rightarrow> distinct l | None \<Rightarrow> True"
    and "c \<in> set (charts (offered_markets allowed) ps own symbol)"
  shows "let cs = charts (offered_markets allowed) ps own symbol; n = length cs in
    step_chart cs False (step_chart cs True c) = c \<and> step_chart cs True (step_chart cs False c) = c \<and>
    (step_chart cs True ^^ n) c = c \<and> (\<lambda>k. (step_chart cs True ^^ k) c) ` {..<n} = set cs \<and>
    (\<forall>(s, tf) \<in> set cs. tf \<in> set intervals \<and> (s = symbol \<or> own = None \<and> held_by ps own s = None))"
proof -
  let ?cs = "charts (offered_markets allowed) ps own symbol"
  let ?n = "length ?cs" and ?i = "at_chart ?cs c"
  have d: "distinct ?cs" by (rule charts_distinct[OF offered_distinct[OF assms(1)]])
  have n: "0 < ?n" using assms(2) by (cases ?cs) auto
  have i: "?i < ?n" "?cs ! ?i = c" using at_chart_mem[OF assms(2)] by auto
  have one: "step_chart ?cs (\<not> fwd) (step_chart ?cs fwd c) = c" for fwd
  proof -
    let ?a = "if fwd then 1 else ?n - 1" and ?b = "if \<not> fwd then 1 else ?n - 1"
    have "step_chart ?cs fwd c = ?cs ! ((?i + ?a) mod ?n)" using assms(2) by (rule step_chart_eq)
    moreover have "(?i + ?a) mod ?n < ?n" using n by simp
    ultimately have "step_chart ?cs (\<not> fwd) (step_chart ?cs fwd c) = ?cs ! (((?i + ?a) mod ?n + ?b) mod ?n)"
      using step_chart_nth[OF d] by metis
    also have "((?i + ?a) mod ?n + ?b) mod ?n = (?i + ?a + ?b) mod ?n" by (rule mod_add_left_eq)
    also have "?i + ?a + ?b = ?i + ?n" using n by simp
    finally show ?thesis using i by simp
  qed
  have round: "(step_chart ?cs True ^^ ?n) c = c" using i by (simp add: walk_forward[OF d assms(2)])
  have all: "(\<lambda>k. (step_chart ?cs True ^^ k) c) ` {..<?n} = set ?cs"
  proof
    show "(\<lambda>k. (step_chart ?cs True ^^ k) c) ` {..<?n} \<subseteq> set ?cs" using n by (auto simp: walk_forward[OF d assms(2)])
    show "set ?cs \<subseteq> (\<lambda>k. (step_chart ?cs True ^^ k) c) ` {..<?n}"
    proof
      fix x assume "x \<in> set ?cs"
      then obtain j where j: "j < ?n" "?cs ! j = x" by (metis in_set_conv_nth)
      let ?k = "(j + ?n - ?i) mod ?n"
      have "(?i + ?k) mod ?n = (?i + (j + ?n - ?i)) mod ?n" by (simp add: mod_add_right_eq)
      also have "\<dots> = j" using i(1) j(1) by simp
      finally have "(step_chart ?cs True ^^ ?k) c = x" by (simp add: walk_forward[OF d assms(2)] j(2))
      then show "x \<in> (\<lambda>k. (step_chart ?cs True ^^ k) c) ` {..<?n}" using n by (intro image_eqI[of _ _ ?k]) auto
    qed
  qed
  have "\<forall>(s, tf) \<in> set ?cs. tf \<in> set intervals \<and> (s = symbol \<or> own = None \<and> held_by ps own s = None)"
    by (auto simp: charts_def tradable_def split: if_splits)
  then show ?thesis using one[of True] one[of False] round all by (simp add: Let_def)
qed

theorem walk_shows_every_chart_witness:
  "let cs = charts (offered_markets None) [] None ''ETH'' in step_chart cs False (step_chart cs True (''ETH'', ''5'')) = (''ETH'', ''5'')"
proof -
  have "(''ETH'', ''5'') \<in> set (charts (offered_markets None) [] None ''ETH'')"
    by (simp add: charts_def tradable_def offered_markets_def symbols_offered_def intervals_def held_by_def)
  from walk_shows_every_chart[OF _ this] show ?thesis by (simp add: Let_def)
qed

section \<open>The way to the result\<close>

lemma look_for_result_some:
  "look_for_result answers order opened k n = Some r \<Longrightarrow>
   \<exists>j ts x. k \<le> j \<and> j < k + n \<and> answers j = Inr ts \<and> x \<in> set ts \<and> result_found order opened x \<and> td_id x = Some r"
proof (induction answers order opened k n rule: look_for_result.induct)
  case (2 answers order opened k n)
  show ?case
  proof (cases "answers k")
    case (Inl e)
    with 2(1) 2(3) obtain j ts x where "Suc k \<le> j" "j < Suc k + n" "answers j = Inr ts" "x \<in> set ts" "result_found order opened x" "td_id x = Some r"
      by auto
    then show ?thesis by (intro exI[of _ j] exI[of _ ts] exI[of _ x]) simp
  next
    case (Inr ts)
    show ?thesis
    proof (cases "List.find (result_found order opened) ts")
      case None
      with 2(2) 2(3) Inr obtain j ts' x where "Suc k \<le> j" "j < Suc k + n" "answers j = Inr ts'" "x \<in> set ts'" "result_found order opened x" "td_id x = Some r"
        by auto
      then show ?thesis by (intro exI[of _ j] exI[of _ ts'] exI[of _ x]) simp
    next
      case (Some x)
      then have "x \<in> set ts \<and> result_found order opened x" by (metis find_Some_iff nth_mem)
      with Some Inr 2(3) show ?thesis by (intro exI[of _ k] exI[of _ ts] exI[of _ x]) simp
    qed
  qed
qed simp

lemma result_found_id: "result_found order opened x \<Longrightarrow> td_id x \<noteq> None"
  by (auto simp: result_found_def given_def split: option.splits)

lemma look_for_result_none:
  "look_for_result answers order opened k n = None \<Longrightarrow>
   k \<le> j \<Longrightarrow> j < k + n \<Longrightarrow> answers j = Inr ts \<Longrightarrow> x \<in> set ts \<Longrightarrow> \<not> result_found order opened x"
proof (induction answers order opened k n rule: look_for_result.induct)
  case (2 answers order opened k n)
  show ?case
  proof (cases "j = k")
    case True
    have "List.find (result_found order opened) ts = None"
    proof (cases "List.find (result_found order opened) ts")
      case (Some y)
      then have "result_found order opened y" by (auto simp: find_Some_iff)
      then show ?thesis using result_found_id[of order opened y] 2(3,6) True Some by auto
    qed
    with 2(7) show ?thesis by (simp add: find_None_iff)
  next
    case False
    with 2(4,5) have j: "Suc k \<le> j" "j < Suc k + n" by simp_all
    have "look_for_result answers order opened (Suc k) n = None"
      using 2(3) by (auto split: sum.splits option.splits dest!: result_found_id simp: find_Some_iff)
    with 2(1,2) j 2(6,7) 2(3) show ?thesis
      by (cases "answers k") (auto split: option.splits dest!: result_found_id simp: find_Some_iff)
  qed
qed simp

definition result_named :: "(nat \<Rightarrow> exn + trade list) \<Rightarrow> string option \<Rightarrow> string option \<Rightarrow> bool" where
  "result_named answers order opened \<longleftrightarrow> list_ex (\<lambda>k. case answers k of
     Inr ts \<Rightarrow> list_ex (result_found order opened) ts | Inl _ \<Rightarrow> False) [0..<6]"

lemma look_for_result_named:
  "look_for_result answers order opened 0 result_attempts = None \<longleftrightarrow> \<not> result_named answers order opened"
proof
  assume "look_for_result answers order opened 0 result_attempts = None"
  from look_for_result_none[OF this] show "\<not> result_named answers order opened"
    by (auto simp: result_named_def result_attempts_def list_ex_iff split: sum.splits)
next
  assume no: "\<not> result_named answers order opened"
  show "look_for_result answers order opened 0 result_attempts = None"
  proof (rule ccontr)
    assume "look_for_result answers order opened 0 result_attempts \<noteq> None"
    then obtain r where "look_for_result answers order opened 0 result_attempts = Some r" by blast
    from look_for_result_some[OF this] no show False
      by (force simp: result_named_def result_attempts_def list_ex_iff)
  qed
qed



section \<open>What a press sends\<close>

lemma open_order_calls:
  "order_calls (open_order bk symbol strategy side notional horizon max_loss leverage take_profit t) =
   order_calls t @ [CallOpen (open_body symbol strategy side notional horizon max_loss leverage take_profit)]"
  by (auto simp: open_order_def Let_def split: sum.split)

definition tap_body :: "tap_inputs \<Rightarrow> side \<Rightarrow> open_request" where
  "tap_body i side = open_body (in_symbol i) (in_id i) side (js_string (se_size (in_settings i))) (se_horizon (in_settings i) * 60)
     (max_loss_fraction (in_settings i)) (js_string (tap_leverage i)) (take_profit_fraction (in_settings i))"

lemma open_side_calls: "order_calls (ss_trading (open_side bk i side s)) = order_calls (ss_trading s) @ [CallOpen (tap_body i side)]"
  by (simp add: open_side_def open_order_calls tap_body_def)

lemma not_held: "held_by ps None symbol = None \<Longrightarrow> p \<in> set ps \<Longrightarrow> ps_symbol p \<noteq> symbol"
  by (auto simp: held_by_def find_None_iff split: option.splits)

text \<open>
  C9. A press of a key sends an order only where one can stand: when it sends
  anything it is one order for the screen's market and strategy on the side
  pressed, nothing else was under way, the state was known, the strategy is
  Direction or was showing a signal, and, with no position of its own, no
  other strategy held the market, the free balance covered the stake and its
  fee, and the limit of open positions was not reached.
\<close>

theorem press_opens_only_where_allowed:
  assumes "order_calls (ss_trading (press_key bk i side s)) \<noteq> order_calls (ss_trading s)"
  shows "order_calls (ss_trading (press_key bk i side s)) = order_calls (ss_trading s) @ [CallOpen (tap_body i side)] \<and>
    tr_busy (in_trading i) = None \<and> (in_id i = ''direction'' \<or> in_lit i \<noteq> None) \<and>
    (\<exists>st. tr_state (in_trading i) = Some st \<and>
      (in_position i = None \<longrightarrow>
        (\<forall>p \<in> set (pf_positions st). ps_symbol p \<noteq> in_symbol i) \<and>
        \<not> tap_need i > js_number (ac_balance (pf_account st)) + cent_half \<and>
        \<not> (lm_max_open_positions (pf_limits st) > 0 \<and> rk_open_positions (pf_risk st) \<ge> lm_max_open_positions (pf_limits st))))"
proof -
  have on: "\<not> keys_disabled i" and lit: "in_id i = ''direction'' \<or> in_lit i \<noteq> None"
    using assms by (auto simp: press_key_def tap_key_def split: if_splits)
  from on obtain st where st: "tr_state (in_trading i) = Some st" by (auto simp: keys_disabled_def)
  have "order_calls (ss_trading (press_key bk i side s)) = order_calls (ss_trading s) @ [CallOpen (tap_body i side)]"
    using on lit by (simp add: press_key_def tap_key_def open_side_calls)
  moreover have "\<forall>p \<in> set (pf_positions st). ps_symbol p \<noteq> in_symbol i" if "in_position i = None"
    using on that st not_held[of "pf_positions st" "in_symbol i"] by (auto simp: keys_disabled_def is_taken_def positions_of_def)
  ultimately show ?thesis
    using on lit st by (auto simp: keys_disabled_def is_short_def at_limit_def free_balance_def max_open_def open_now_def)
qed

definition sample_inputs :: "side option \<Rightarrow> tap_inputs" where
  "sample_inputs lit = \<lparr>in_id = ''rsi'', in_symbol = ''MON'', in_settings = default_settings, in_bounds = fallback_bounds,
     in_trading = start_trading\<lparr>tr_state := Some (sample_state [])\<rparr>, in_position = None, in_lit = lit\<rparr>"

definition sample_screen :: strategy_screen where
  "sample_screen = \<lparr>ss_trading = start_trading\<lparr>tr_state := Some (sample_state [])\<rparr>,
     ss_memory = \<lparr>sm_cache = None, sm_place = \<lparr>pl_mode = Works, pl_item = None\<rparr>\<rparr>,
     ss_asking = None, ss_reversing = None, ss_leaving = False, ss_settling = False, ss_route = None, ss_was = None\<rparr>"

lemma sample_enabled: "\<not> keys_disabled (sample_inputs lit)"
  by (simp add: keys_disabled_def sample_inputs_def start_trading_def is_taken_def held_by_def positions_of_def
      is_short_def at_limit_def tap_need_def tap_leverage_def free_balance_def max_open_def open_now_def cent_half_def
      default_settings_def fallback_bounds_def sample_defs js_eval)

theorem press_opens_only_where_allowed_witness:
  "order_calls (ss_trading (press_key (refusing no_key_error) (sample_inputs (Some Long)) Short sample_screen)) =
   order_calls (ss_trading sample_screen) @ [CallOpen (tap_body (sample_inputs (Some Long)) Short)]"
proof -
  have "order_calls (ss_trading (press_key (refusing no_key_error) (sample_inputs (Some Long)) Short sample_screen)) \<noteq>
    order_calls (ss_trading sample_screen)"
    using sample_enabled[of "Some Long"] by (simp add: press_key_def tap_key_def open_side_calls sample_inputs_def)
  from press_opens_only_where_allowed[OF this] show ?thesis by simp
qed

text \<open>The sheet that asks before a tap without a signal does not look again: what was
  asked is opened when it is confirmed, whatever has become of the keys since.\<close>

lemma late_confirm_still_opens:
  "ss_asking s = Some side \<Longrightarrow>
   order_calls (ss_trading (confirm_asked bk i s)) = order_calls (ss_trading s) @ [CallOpen (tap_body i side)]"
  by (simp add: confirm_asked_def open_side_calls)

section \<open>The lines on the chart\<close>

text \<open>
  The line drawn for a stop is where the stop is: at the price of the line the
  position has lost or made the amount it is to be closed at, up to the
  rounding of the price to the entry's own decimals.
\<close>

theorem stop_line_is_the_stop:
  fixes sg :: rat
  assumes "js_number (ps_size p) = Num q" "0 < q" "js_number (ps_entry_price p) = Num e"
    and "ps_stop_pnl p = Some v" "js_number v = Num w" "sg = (if ps_side p = Long then 1 else -1)"
    and "0 \<le> e + sg * w / q" "e + sg * w / q < 10 ^ 21"
  shows "\<exists>t r. cl_stop (levels_of p) = Some t \<and> js_number t = Num r \<and>
    \<bar>sg * (r - e) * q - w\<bar> \<le> q / (2 * 10 ^ decimals_of (ps_entry_price p))"
proof -
  let ?x = "e + sg * w / q" and ?d = "decimals_of (ps_entry_price p)"
  have plain: "to_fixed (Num x) d = fixed_abs x d" if "0 \<le> x" "x < 10 ^ 21" for x d using that by simp
  have sum: "js_number (ps_entry_price p) + (if ps_side p = Long then 1 else -1) * js_number v / js_number (ps_size p) = Num ?x"
    using assms(1-6) by (simp add: one_Num)
  have "0 < js_number (ps_size p)" using assms(1,2) by (simp add: zero_Num)
  then have "level_at p (Some v) = Some (to_fixed (Num ?x) ?d)"
    by (simp add: level_at_def Let_def sum del: to_fixed.simps)
  then have at: "level_at p (Some v) = Some (fixed_abs ?x ?d)" using plain[OF assms(7,8)] by simp
  obtain r where r: "js_number (fixed_abs ?x ?d) = Num r" "\<bar>r - ?x\<bar> \<le> 1 / (2 * 10 ^ ?d)"
    using fixed_close[OF assms(7), of ?d] by auto
  have "sg * (r - e) * q - w = sg * (r - ?x) * q"
    using assms(2,6) by (simp add: field_simps split: if_splits)
  then have "\<bar>sg * (r - e) * q - w\<bar> = \<bar>r - ?x\<bar> * q" using assms(2,6) by (simp add: abs_mult)
  also have "\<dots> \<le> 1 / (2 * 10 ^ ?d) * q" using r(2) assms(2) by (intro mult_right_mono) simp_all
  finally show ?thesis using at r(1) assms(4) by (simp add: levels_of_def)
qed

theorem stop_line_is_the_stop_witness:
  "\<exists>t r. cl_stop (levels_of ((sample_position ''MON'' Short None)\<lparr>ps_stop_pnl := Some ''-1''\<rparr>)) = Some t \<and> js_number t = Num r \<and>
    \<bar>-1 * (r - 1/50) * 100 - (-1)\<bar> \<le> 100 / (2 * 10 ^ 2)"
proof -
  let ?p = "(sample_position ''MON'' Short None)\<lparr>ps_stop_pnl := Some ''-1''\<rparr>"
  have n: "js_number (ps_size ?p) = Num 100" "js_number (ps_entry_price ?p) = Num (1/50)" "js_number ''-1'' = Num (-1)"
    by (simp_all add: sample_position_def js_eval)
  have "decimals_of (ps_entry_price ?p) = 2" by (simp add: decimals_of_def sample_position_def split_at_def)
  with stop_line_is_the_stop[OF n(1) _ n(2) _ n(3) refl] show ?thesis by (simp add: sample_position_def)
qed

end
