(* ===== verification/Journal.thy ===== *)
theory Journal
  imports Paging Bytes "HOL-Library.Word" "HOL-Library.Product_Lexorder" "HOL-Library.List_Lexorder" "HOL-Library.Char_ord"
begin

text \<open>
  The two lists the screens read page by page, as the platform answers them
  (services/internal/store/store.go, services/internal/platform/http.go): the
  round trips of a wallet, newest first, behind an opaque cursor, and the
  standings of a board by volume, behind an offset. Decimal texts are a
  parameter (\<open>dec\<close>): how a number of the journal is written on the wire.
\<close>

section \<open>The journal\<close>

record journal_row =
  jr_id :: int
  jr_wallet :: string
  jr_strategy :: string
  jr_symbol :: string
  jr_size :: rat
  jr_entry_price :: rat
  jr_pnl :: rat
  jr_opened_at :: "64 word"
  jr_closed_at :: "64 word option"

text \<open>A row is numbered when it is written, one after another, until the sequence
  runs out; times are nanoseconds in 64 signed bits.\<close>

definition rows_of :: "journal_row list \<Rightarrow> journal_row list" where
  "rows_of table = (let written = take (2 ^ 63 - 1) table in
     List.map2 (\<lambda>k r. r\<lparr>jr_id := int k\<rparr>) [1..<Suc (length written)] written)"

section \<open>A page of round trips\<close>

type_synonym trade_cursor = "int \<times> int"

record trade_query =
  tq_wallet :: string
  tq_symbol :: string
  tq_strategy :: string
  tq_closed_only :: bool
  tq_limit :: nat
  tq_after :: "trade_cursor option"

definition cursor_key :: "journal_row \<Rightarrow> trade_cursor" where
  "cursor_key r = (sint (jr_opened_at r), jr_id r)"

definition asked_for :: "trade_query \<Rightarrow> journal_row \<Rightarrow> bool" where
  "asked_for q r \<longleftrightarrow> jr_wallet r = tq_wallet q \<and> (tq_symbol q = [] \<or> jr_symbol r = tq_symbol q) \<and>
     (tq_strategy q = [] \<or> jr_strategy r = tq_strategy q) \<and> (\<not> tq_closed_only q \<or> jr_closed_at r \<noteq> None)"

definition newest_first :: "journal_row list \<Rightarrow> journal_row list" where
  "newest_first rows = sort_key (\<lambda>r. (- sint (jr_opened_at r), - jr_id r)) rows"

definition page_of_trades :: "journal_row list \<Rightarrow> trade_query \<Rightarrow> journal_row list \<times> trade_cursor option" where
  "page_of_trades table q =
     (let found = newest_first (filter (\<lambda>r. asked_for q r \<and> (case tq_after q of None \<Rightarrow> True | Some k \<Rightarrow> cursor_key r < k)) (rows_of table));
          page = take (tq_limit q) found
      in (page, if length page = tq_limit q \<and> tq_limit q > 0 then Some (cursor_key (last page)) else None))"

section \<open>The cursor on the wire\<close>

definition alphabet :: string where
  "alphabet = ''ABCDEFGHIJKLMNOPQRSTUVWXYZabcdefghijklmnopqrstuvwxyz0123456789-_''"

fun sextets :: "nat list \<Rightarrow> nat list" where
  "sextets (a # b # c # r) = [a div 4, a mod 4 * 16 + b div 16, b mod 16 * 4 + c div 64, c mod 64] @ sextets r"
| "sextets [a, b] = [a div 4, a mod 4 * 16 + b div 16, b mod 16 * 4]"
| "sextets [a] = [a div 4, a mod 4 * 16]"
| "sextets [] = []"

fun octets :: "nat list \<Rightarrow> nat list option" where
  "octets (w # x # y # z # r) = map_option (\<lambda>os. [w * 4 + x div 16, x mod 16 * 16 + y div 4, y mod 4 * 64 + z] @ os) (octets r)"
| "octets [w, x, y] = Some [w * 4 + x div 16, x mod 16 * 16 + y div 4]"
| "octets [w, x] = Some [w * 4 + x div 16]"
| "octets [w] = None"
| "octets [] = Some []"

definition raw_url_encode :: "string \<Rightarrow> string" where
  "raw_url_encode s = List.map (\<lambda>k. alphabet ! k) (sextets (List.map code_of s))"

definition raw_url_decode :: "string \<Rightarrow> string option" where
  "raw_url_decode v =
     (if list_all (\<lambda>c. c \<in> set alphabet) v
      then map_option (List.map (\<lambda>n. char_of n)) (octets (List.map (\<lambda>c. length (takeWhile (\<lambda>d. d \<noteq> c) alphabet)) v))
      else None)"

text \<open>A whole number of 64 bits, with or without a sign.\<close>

definition parse_int64 :: "string \<Rightarrow> int option" where
  "parse_int64 s =
     (let digits = (if s \<noteq> [] \<and> hd s \<in> {CHR ''-'', CHR ''+''} then tl s else s);
          n = int (digits_value 0 digits);
          v = (if s \<noteq> [] \<and> hd s = CHR ''-'' then - n else n)
      in if digits \<noteq> [] \<and> list_all is_digit digits \<and> - (2 ^ 63) \<le> v \<and> v < 2 ^ 63 then Some v else None)"

text \<open>\<open>strings.Cut\<close>: what precedes the first separator and all that follows it.\<close>

definition cut :: "char \<Rightarrow> string \<Rightarrow> string \<times> string option" where
  "cut c s = (let p = takeWhile (\<lambda>x. x \<noteq> c) s in (p, case drop (length p) s of [] \<Rightarrow> None | _ # r \<Rightarrow> Some r))"

definition encode_trade_cursor :: "trade_cursor option \<Rightarrow> string option" where
  "encode_trade_cursor c = map_option (\<lambda>(nanos, i). raw_url_encode (show_int nanos @ '':'' @ show_int i)) c"

definition parse_trade_cursor :: "string option \<Rightarrow> unit + trade_cursor option" where
  "parse_trade_cursor v = (case v of None \<Rightarrow> Inr None | Some t \<Rightarrow>
     if list_all is_space t then Inr None else
     case raw_url_decode t of None \<Rightarrow> Inl ()
     | Some raw \<Rightarrow>
         (case cut (CHR '':'') raw of
            (_, None) \<Rightarrow> Inl ()
          | (nanos, Some i) \<Rightarrow>
              (case (parse_int64 nanos, parse_int64 i) of
                 (Some n, Some k) \<Rightarrow> Inr (Some (n, k))
               | _ \<Rightarrow> Inl ())))"

definition page_limit :: "nat option \<Rightarrow> nat" where
  "page_limit v = (case v of Some n \<Rightarrow> if n > 0 \<and> n \<le> 500 then n else 50 | None \<Rightarrow> 50)"

definition trades_handler :: "journal_row list \<Rightarrow> string \<Rightarrow> string \<Rightarrow> nat option \<Rightarrow> string option \<Rightarrow> unit + (journal_row list \<times> string option)" where
  "trades_handler table wallet strategy limit cursor =
     (case parse_trade_cursor cursor of
        Inl e \<Rightarrow> Inl e
      | Inr after \<Rightarrow>
          (let (page, next_place) = page_of_trades table \<lparr>tq_wallet = wallet, tq_symbol = [], tq_strategy = strategy, tq_closed_only = False,
                 tq_limit = page_limit limit, tq_after = after\<rparr>
           in Inr (page, encode_trade_cursor next_place)))"

section \<open>The cursor comes back as it left\<close>

lemma put_back:
  assumes "q < m" "0 < m"
  shows "(p * m + q) div m = p" "(p * m + q) mod m = (q::nat)"
  using assms by simp_all

lemma sextet_sums:
  fixes a b c :: nat
  assumes "b < 256" "c < 256"
  shows "a div 4 * 4 + (a mod 4 * 16 + b div 16) div 16 = a"
    "(a mod 4 * 16 + b div 16) mod 16 * 16 + (b mod 16 * 4 + c div 64) div 4 = b"
    "(b mod 16 * 4 + c div 64) mod 4 * 64 + c mod 64 = c"
proof -
  have "b div 16 < 16" "c div 64 < 4" using assms by (simp_all add: less_mult_imp_div_less)
  then show "a div 4 * 4 + (a mod 4 * 16 + b div 16) div 16 = a"
    "(a mod 4 * 16 + b div 16) mod 16 * 16 + (b mod 16 * 4 + c div 64) div 4 = b"
    "(b mod 16 * 4 + c div 64) mod 4 * 64 + c mod 64 = c"
    by (simp_all only: put_back div_mult_mod_eq)
qed

lemma sextet_sums_last:
  fixes a b :: nat
  assumes "b < 256"
  shows "(a mod 4 * 16 + b div 16) mod 16 * 16 + b mod 16 * 4 div 4 = b" "a div 4 * 4 + a mod 4 * 16 div 16 = a"
    "a div 4 * 4 + (a mod 4 * 16 + b div 16) div 16 = a"
  using sextet_sums(2)[of b 0 a] sextet_sums(1)[of 0 0 a] sextet_sums(1)[of b 0 a] assms by simp_all

lemma octets_sextets: "list_all (\<lambda>b. b < 256) bs \<Longrightarrow> octets (sextets bs) = Some bs"
proof (induction bs rule: sextets.induct)
  case (1 a b c r)
  then have "b < 256" "c < 256" "octets (sextets r) = Some r" by simp_all
  then show ?case by (simp only: sextets.simps append.simps octets.simps sextet_sums option.map)
next
  case (2 a b)
  then have "b < 256" by simp
  then show ?case by (simp only: sextets.simps octets.simps sextet_sums_last)
next
  case (3 a)
  then show ?case using sextet_sums_last(2)[of 0 a] by (simp only: sextets.simps octets.simps)
qed simp

lemma sextets_small: "list_all (\<lambda>b. b < 256) bs \<Longrightarrow> k \<in> set (sextets bs) \<Longrightarrow> k < 64"
proof -
  have low: "a mod 4 * 16 + b div 16 < 64" "b mod 16 * 4 + b' div 64 < 64" if "b < 256" "b' < 256" for a b b' :: nat
  proof -
    have "b div 16 < 16" "b' div 64 < 4" "a mod 4 < 4" "b mod 16 < 16" using that by (simp_all add: less_mult_imp_div_less)
    then show "a mod 4 * 16 + b div 16 < 64" "b mod 16 * 4 + b' div 64 < 64" by linarith+
  qed
  have top: "a div 4 < 64" if "a < 256" for a :: nat using that by (simp add: less_mult_imp_div_less)
  show "list_all (\<lambda>b. b < 256) bs \<Longrightarrow> k \<in> set (sextets bs) \<Longrightarrow> k < 64"
    by (induction bs rule: sextets.induct) (use low low[of 0] top in \<open>auto simp del: One_nat_def\<close>)
qed

lemma alphabet_ok: "distinct alphabet" "length alphabet = 64"
  by (simp_all add: alphabet_def)

lemma index_of_nth: "distinct xs \<Longrightarrow> k < length xs \<Longrightarrow> length (takeWhile (\<lambda>d. d \<noteq> xs ! k) xs) = k"
proof (induction xs arbitrary: k)
  case (Cons x xs)
  then show ?case by (cases k) (auto simp: nth_mem)
qed simp

lemma decode_encode_raw: "raw_url_decode (raw_url_encode s) = Some s"
proof -
  let ?bs = "List.map code_of s"
  have bytes: "list_all (\<lambda>b. b < 256) ?bs" by (simp add: list_all_iff code_of_bound)
  have small: "k \<in> set (sextets ?bs) \<Longrightarrow> k < 64" for k by (rule sextets_small[OF bytes])
  have "List.map (\<lambda>c. length (takeWhile (\<lambda>d. d \<noteq> c) alphabet)) (raw_url_encode s) = sextets ?bs"
    using small alphabet_ok by (simp add: raw_url_encode_def map_idI index_of_nth)
  moreover have "list_all (\<lambda>c. c \<in> set alphabet) (raw_url_encode s)"
    using small alphabet_ok by (auto simp: raw_url_encode_def list_all_iff)
  ultimately show ?thesis by (simp add: raw_url_decode_def octets_sextets[OF bytes] code_of_def map_idI)
qed

lemma show_int_plain: "show_int i \<noteq> []" "CHR '':'' \<notin> set (show_int i)"
proof -
  have "CHR '':'' \<notin> set (show_nat n)" for n using show_nat_digits[of "CHR '':''" n] by (auto simp: is_digit_def code_of_def)
  then show "show_int i \<noteq> []" "CHR '':'' \<notin> set (show_int i)" by (simp_all add: show_int_def)
qed

lemma show_nat_head: "hd (show_nat n) \<notin> {CHR ''-'', CHR ''+''}" "list_all is_digit (show_nat n)"
proof -
  have "is_digit (hd (show_nat n))" by (rule show_nat_digits[of _ n]) simp
  then show "hd (show_nat n) \<notin> {CHR ''-'', CHR ''+''}" by (auto simp: is_digit_def code_of_def)
  show "list_all is_digit (show_nat n)" by (simp add: list_all_iff show_nat_digits)
qed

lemma parse_show_int64: "- (2 ^ 63) \<le> i \<Longrightarrow> i < 2 ^ 63 \<Longrightarrow> parse_int64 (show_int i) = Some i"
  using show_nat_head[of "nat i"] show_nat_head[of "nat (- i)"]
  by (auto simp: parse_int64_def show_int_def Let_def)

lemma cut_joined: "c \<notin> set a \<Longrightarrow> cut c (a @ c # b) = (a, Some b)"
proof -
  assume "c \<notin> set a"
  then have "takeWhile (\<lambda>x. x \<noteq> c) (a @ c # b) = a" by (induction a) auto
  then show ?thesis by (simp add: cut_def)
qed

lemma raw_not_blank: "s \<noteq> [] \<Longrightarrow> \<not> list_all is_space (raw_url_encode s)"
proof -
  assume "s \<noteq> []"
  then obtain k ks where k: "sextets (List.map code_of s) = k # ks" by (cases "List.map code_of s" rule: sextets.cases) auto
  have "k < 64" by (rule sextets_small[of "List.map code_of s"]) (simp_all add: k list_all_iff code_of_bound)
  then have "alphabet ! k \<in> set alphabet" using alphabet_ok by simp
  moreover have "list_all (\<lambda>c. \<not> is_space c) alphabet" by (simp add: alphabet_def is_space_def code_of_def)
  ultimately show ?thesis by (auto simp: raw_url_encode_def k list_all_iff)
qed

definition in_64 :: "trade_cursor \<Rightarrow> bool" where
  "in_64 k \<longleftrightarrow> - (2 ^ 63) \<le> fst k \<and> fst k < 2 ^ 63 \<and> - (2 ^ 63) \<le> snd k \<and> snd k < 2 ^ 63"

lemma parse_encode_cursor: "pred_option in_64 c \<Longrightarrow> parse_trade_cursor (encode_trade_cursor c) = Inr c"
  by (auto simp: in_64_def encode_trade_cursor_def parse_trade_cursor_def raw_not_blank decode_encode_raw show_int_plain
      cut_joined parse_show_int64 split: option.splits)

section \<open>Pages that lose nothing\<close>

lemma ids_of: "List.map jr_id (rows_of table) = List.map int [1..<Suc (length (take (2 ^ 63 - 1) table))]"
  by (simp add: rows_of_def Let_def List.map2_map_map o_def split_def del: length_take upt_Suc power_Suc)
     (simp add: list_eq_iff_nth_eq del: upt_Suc)

lemma keys_distinct: "distinct (List.map cursor_key (rows_of table))"
proof -
  have "distinct (List.map jr_id (rows_of table))" by (simp add: ids_of distinct_map del: upt_Suc)
  then show ?thesis by (auto simp: distinct_map inj_on_def cursor_key_def)
qed

lemma keys_in_64: "r \<in> set (rows_of table) \<Longrightarrow> in_64 (cursor_key r)"
proof -
  assume "r \<in> set (rows_of table)"
  then have "jr_id r \<in> set (List.map jr_id (rows_of table))" by simp
  then have "0 < jr_id r" "jr_id r < 2 ^ 63" unfolding ids_of by auto
  moreover have "- (2 ^ 63) \<le> sint (jr_opened_at r)" "sint (jr_opened_at r) < 2 ^ 63"
    using sint_greater_eq[of "jr_opened_at r"] sint_less[of "jr_opened_at r"] by simp_all
  ultimately show ?thesis by (simp add: in_64_def cursor_key_def)
qed

lemma sorted_distinct: "sorted_wrt R xs \<Longrightarrow> distinct xs \<Longrightarrow> sorted_wrt (\<lambda>a b. R a b \<and> a \<noteq> b) xs"
  by (induction xs) auto

lemma newest_first_descends:
  assumes "distinct (List.map cursor_key rows)"
  shows "sorted_wrt (\<lambda>a b. cursor_key b < cursor_key a) (newest_first rows)"
proof -
  let ?f = "\<lambda>r. (- sint (jr_opened_at r), - jr_id r)"
  have inj: "inj_on ?f (set rows)" using assms by (auto simp: distinct_map inj_on_def cursor_key_def)
  have "sorted_wrt (\<lambda>a b. ?f a \<le> ?f b) (newest_first rows)"
    using sorted_sort_key[of ?f rows] by (simp add: newest_first_def sorted_map)
  moreover have "distinct (newest_first rows)" using assms by (simp add: newest_first_def distinct_map)
  ultimately have "sorted_wrt (\<lambda>a b. ?f a \<le> ?f b \<and> a \<noteq> b) (newest_first rows)"
    by (rule sorted_distinct)
  then show ?thesis
    by (rule sorted_wrt_mono_rel[rotated])
       (use inj in \<open>auto simp: newest_first_def cursor_key_def inj_on_def less_eq_prod_def less_prod_def order_le_less\<close>)
qed

text \<open>Behind the last row of a page lies exactly what comes after the page.\<close>

lemma behind_page:
  fixes key :: "'a \<Rightarrow> 'k::linorder"
  assumes "sorted_wrt (\<lambda>a b. key b < key a) xs" "0 < n" "n \<le> length xs"
  shows "filter (\<lambda>r. key r < key (last (take n xs))) xs = drop n xs"
proof -
  have split: "xs = take n xs @ drop n xs" by simp
  have w: "sorted_wrt (\<lambda>a b. key b < key a) (take n xs @ drop n xs)" using assms(1) by simp
  have ne: "take n xs \<noteq> []" using assms(2,3) by auto
  have "filter (\<lambda>r. key r < key (last (take n xs))) (take n xs) = []"
  proof (rule filter_False, rule ballI, rule notI)
    fix r assume r: "r \<in> set (take n xs)" "key r < key (last (take n xs))"
    have "sorted_wrt (\<lambda>a b. key b < key a) (butlast (take n xs) @ [last (take n xs)])"
      using w ne by (simp add: sorted_wrt_append)
    moreover have "r \<in> set (butlast (take n xs)) \<or> r = last (take n xs)" using r(1) ne
      by (metis append_butlast_last_id in_set_conv_decomp_last rotate1.simps(2) set_ConsD set_rotate1)
    ultimately show False using r(2) by (auto simp: sorted_wrt_append)
  qed
  moreover have "filter (\<lambda>r. key r < key (last (take n xs))) (drop n xs) = drop n xs"
  proof -
    have "\<forall>a \<in> set (take n xs). \<forall>b \<in> set (drop n xs). key b < key a" using w unfolding sorted_wrt_append by blast
    then show ?thesis using last_in_set[OF ne] by (simp add: filter_id_conv)
  qed
  ultimately show ?thesis by (metis append_Nil filter_append split)
qed

text \<open>What the handler answers to a client that only carries the cursor back, and
  what lies ahead of a cursor: an unreadable one has nothing ahead of it.\<close>

definition trades_answer :: "journal_row list \<Rightarrow> string \<Rightarrow> string \<Rightarrow> nat option \<Rightarrow> string option \<Rightarrow> journal_row list \<times> string option" where
  "trades_answer table wallet strategy limit cursor =
     (case trades_handler table wallet strategy limit cursor of Inl _ \<Rightarrow> ([], None) | Inr p \<Rightarrow> p)"

definition wallet_rows :: "journal_row list \<Rightarrow> string \<Rightarrow> string \<Rightarrow> journal_row list" where
  "wallet_rows table wallet strategy =
     newest_first (filter (\<lambda>r. jr_wallet r = wallet \<and> (strategy = [] \<or> jr_strategy r = strategy)) (rows_of table))"

definition trades_ahead :: "journal_row list \<Rightarrow> string \<Rightarrow> string \<Rightarrow> string option \<Rightarrow> journal_row list" where
  "trades_ahead table wallet strategy cursor = (case parse_trade_cursor cursor of
     Inl _ \<Rightarrow> []
   | Inr None \<Rightarrow> wallet_rows table wallet strategy
   | Inr (Some k) \<Rightarrow> filter (\<lambda>r. cursor_key r < k) (wallet_rows table wallet strategy))"

lemma page_limit_pos: "page_limit limit > 0" "page_limit (Some (Suc 6)) = 7"
  by (simp_all add: page_limit_def split: option.splits)

lemma trades_page_ahead:
  assumes "parse_trade_cursor cursor = Inr after"
  shows "page_of_trades table \<lparr>tq_wallet = wallet, tq_symbol = [], tq_strategy = strategy, tq_closed_only = False, tq_limit = n, tq_after = after\<rparr> =
    (let page = take n (trades_ahead table wallet strategy cursor)
     in (page, if length page = n \<and> n > 0 then Some (cursor_key (last page)) else None))"
proof -
  have "newest_first (filter (\<lambda>r. P r \<and> Q r) rows) = filter Q (newest_first (filter P rows))" for P Q rows
    by (simp add: newest_first_def filter_sort conj_commute)
  then show ?thesis using assms
    by (auto simp: page_of_trades_def asked_for_def trades_ahead_def wallet_rows_def Let_def conj_assoc split: option.splits)
qed

lemma wallet_rows_descend: "sorted_wrt (\<lambda>a b. cursor_key b < cursor_key a) (wallet_rows table wallet strategy)"
  unfolding wallet_rows_def by (rule newest_first_descends) (simp add: distinct_map_filter keys_distinct)

lemma ahead_descends: "sorted_wrt (\<lambda>a b. cursor_key b < cursor_key a) (trades_ahead table wallet strategy cursor)"
  using wallet_rows_descend by (auto simp: trades_ahead_def sorted_wrt_filter split: sum.splits option.splits)

lemma ahead_in_64: "r \<in> set (trades_ahead table wallet strategy cursor) \<Longrightarrow> in_64 (cursor_key r)"
  by (auto simp: trades_ahead_def wallet_rows_def newest_first_def keys_in_64 split: sum.splits option.splits)

lemma trades_answer_ahead:
  "trades_ahead table wallet strategy cursor =
     fst (trades_answer table wallet strategy limit cursor) @
     (case snd (trades_answer table wallet strategy limit cursor) of None \<Rightarrow> [] | Some c \<Rightarrow> trades_ahead table wallet strategy (Some c))"
proof (cases "parse_trade_cursor cursor")
  case (Inl e)
  then show ?thesis by (simp add: trades_answer_def trades_handler_def trades_ahead_def)
next
  case (Inr after)
  let ?n = "page_limit limit" and ?rows = "trades_ahead table wallet strategy cursor"
  let ?k = "cursor_key (last (take ?n ?rows))"
  have answer: "trades_answer table wallet strategy limit cursor =
      (take ?n ?rows, if ?n \<le> length ?rows then encode_trade_cursor (Some ?k) else None)"
    using page_limit_pos Inr
    by (auto simp: trades_answer_def trades_handler_def trades_page_ahead[OF Inr] Let_def encode_trade_cursor_def min_def cursor_key_def)
  show ?thesis
  proof (cases "?n \<le> length ?rows")
    case True
    then have "take ?n ?rows \<noteq> []" using page_limit_pos(1)[of limit] by auto
    then have "last (take ?n ?rows) \<in> set ?rows" by (meson in_set_takeD last_in_set)
    then have "parse_trade_cursor (encode_trade_cursor (Some ?k)) = Inr (Some ?k)"
      by (intro parse_encode_cursor) (simp add: ahead_in_64)
    moreover obtain t where "encode_trade_cursor (Some ?k) = Some t" by (simp add: encode_trade_cursor_def split_beta)
    moreover have "filter (\<lambda>r. cursor_key r < ?k) (wallet_rows table wallet strategy) = filter (\<lambda>r. cursor_key r < ?k) ?rows"
    proof (cases after)
      case (Some k)
      have "?k < k" using \<open>last (take ?n ?rows) \<in> set ?rows\<close> Inr Some by (simp add: trades_ahead_def)
      then show ?thesis using Inr Some by (auto simp: trades_ahead_def intro!: filter_cong)
    qed (use Inr in \<open>simp add: trades_ahead_def\<close>)
    moreover have "filter (\<lambda>r. cursor_key r < ?k) ?rows = drop ?n ?rows"
      by (rule behind_page[OF ahead_descends page_limit_pos(1) True])
    ultimately show ?thesis using True by (simp add: answer trades_ahead_def)
  qed (simp add: answer)
qed

lemma nothing_ahead:
  assumes "trades_ahead table wallet strategy cursor = []"
  shows "trades_answer table wallet strategy limit cursor = ([], None)"
proof (cases "parse_trade_cursor cursor")
  case (Inr after)
  then show ?thesis using assms
    by (auto simp: trades_answer_def trades_handler_def trades_page_ahead[OF Inr] Let_def encode_trade_cursor_def)
qed (simp add: trades_answer_def trades_handler_def)

lemma encoded_cursor: "\<exists>c. encode_trade_cursor (Some k) = Some c \<and> c \<noteq> []"
proof -
  obtain a b where k: "k = (a, b)" by (cases k)
  have "\<not> list_all is_space (raw_url_encode (show_int a @ '':'' @ show_int b))" by (rule raw_not_blank) simp
  then show ?thesis by (auto simp: encode_trade_cursor_def k)
qed

interpretation journal_pages: paged_source "trades_answer table wallet strategy limit" "trades_ahead table wallet strategy"
  by unfold_locales (rule trades_answer_ahead)

section \<open>The standings of a board\<close>

record board_row =
  br_wallet :: string
  br_pnl :: rat
  br_trades :: nat
  br_volume :: rat

text \<open>The round trips of a board: closed in the period, of one strategy or of all.\<close>

definition on_board :: "string \<Rightarrow> int \<Rightarrow> int \<Rightarrow> journal_row \<Rightarrow> bool" where
  "on_board strategy since until r \<longleftrightarrow>
     (case jr_closed_at r of None \<Rightarrow> False | Some t \<Rightarrow> since \<le> sint t \<and> sint t < until) \<and>
     (strategy = [] \<or> jr_strategy r = strategy)"

definition line_of :: "journal_row list \<Rightarrow> string \<Rightarrow> board_row" where
  "line_of played wallet = (let own = filter (\<lambda>r. jr_wallet r = wallet) played in
     \<lparr>br_wallet = wallet, br_pnl = sum_list (List.map jr_pnl own), br_trades = length own,
      br_volume = sum_list (List.map (\<lambda>r. jr_size r * jr_entry_price r) own)\<rparr>)"

definition board_order :: "board_row list \<Rightarrow> board_row list" where
  "board_order lines = sort_key (\<lambda>b. (- br_volume b, br_wallet b)) lines"

definition board_lines :: "journal_row list \<Rightarrow> string \<Rightarrow> int \<Rightarrow> int \<Rightarrow> board_row list" where
  "board_lines table strategy since until =
     (let played = filter (on_board strategy since until) (rows_of table)
      in board_order (List.map (line_of played) (remdups (List.map jr_wallet played))))"

definition standings_page :: "journal_row list \<Rightarrow> string \<Rightarrow> int \<Rightarrow> int \<Rightarrow> nat \<Rightarrow> nat \<Rightarrow> board_row list \<times> nat" where
  "standings_page table strategy since until limit offset =
     (let lines = board_lines table strategy since until
      in (take limit (drop offset lines), length lines))"

text \<open>One wallet's line, and how many wallets traded more, plus one.\<close>

definition standing_of :: "journal_row list \<Rightarrow> string \<Rightarrow> int \<Rightarrow> int \<Rightarrow> string \<Rightarrow> (board_row \<times> nat) option" where
  "standing_of table strategy since until wallet =
     (let played = filter (on_board strategy since until) (rows_of table);
          own = line_of played (lower wallet)
      in if br_trades own = 0 then None
         else Some (own, length (filter (\<lambda>b. br_volume b > br_volume own)
                                   (List.map (line_of played) (remdups (List.map jr_wallet played)))) + 1))"

definition board_limit :: "nat option \<Rightarrow> nat" where
  "board_limit v = (case v of Some n \<Rightarrow> if n > 0 \<and> n \<le> 200 then n else 25 | None \<Rightarrow> 25)"

record board_page =
  bp_lines :: "board_row list"
  bp_players :: nat
  bp_next_offset :: "nat option"
  bp_you :: "(board_row \<times> nat) option"

definition standings_handler ::
    "journal_row list \<Rightarrow> string \<Rightarrow> int \<Rightarrow> int \<Rightarrow> string option \<Rightarrow> nat option \<Rightarrow> nat option \<Rightarrow> board_page" where
  "standings_handler table strategy since until wallet limit offset =
     (let from_row = (case offset of Some n \<Rightarrow> n | None \<Rightarrow> 0);
          (page, players) = standings_page table (if strategy = ''all'' then [] else strategy) since until (board_limit limit) from_row;
          after = from_row + length page
      in \<lparr>bp_lines = page, bp_players = players,
          bp_next_offset = (if after < players \<and> after > 0 then Some after else None),
          bp_you = (case wallet of None \<Rightarrow> None | Some w \<Rightarrow>
             if w = [] then None else standing_of table (if strategy = ''all'' then [] else strategy) since until w)\<rparr>)"

definition standings_answer ::
    "journal_row list \<Rightarrow> string \<Rightarrow> int \<Rightarrow> int \<Rightarrow> string option \<Rightarrow> nat option \<Rightarrow> nat option \<Rightarrow> board_row list \<times> nat option" where
  "standings_answer table strategy since until wallet limit offset =
     (let page = standings_handler table strategy since until wallet limit offset in (bp_lines page, bp_next_offset page))"

definition standings_ahead :: "journal_row list \<Rightarrow> string \<Rightarrow> int \<Rightarrow> int \<Rightarrow> nat option \<Rightarrow> board_row list" where
  "standings_ahead table strategy since until offset =
     drop (case offset of Some n \<Rightarrow> n | None \<Rightarrow> 0) (board_lines table (if strategy = ''all'' then [] else strategy) since until)"

lemma board_limit_pos: "board_limit limit > 0" "board_limit (Some 7) = 7"
  by (simp_all add: board_limit_def split: option.splits)

lemma standings_answer_ahead:
  "standings_ahead table strategy since until offset =
     fst (standings_answer table strategy since until wallet limit offset) @
     (case snd (standings_answer table strategy since until wallet limit offset) of
        None \<Rightarrow> [] | Some n \<Rightarrow> standings_ahead table strategy since until (Some n))"
proof -
  let ?lines = "board_lines table (if strategy = ''all'' then [] else strategy) since until" and ?n = "board_limit limit"
  let ?o = "case offset of Some n \<Rightarrow> n | None \<Rightarrow> 0"
  have "0 < ?n" by (rule board_limit_pos)
  have page: "standings_answer table strategy since until wallet limit offset =
      (take ?n (drop ?o ?lines),
       let after = ?o + length (take ?n (drop ?o ?lines)) in if after < length ?lines \<and> after > 0 then Some after else None)"
    by (simp add: standings_answer_def standings_handler_def standings_page_def Let_def del: length_take length_drop)
  show ?thesis
  proof (cases "?o + ?n < length ?lines")
    case True
    then have "length (take ?n (drop ?o ?lines)) = ?n" by simp
    then show ?thesis using True \<open>0 < ?n\<close>
      by (simp add: page standings_ahead_def Let_def del: length_take length_drop)
         (metis add.commute append_take_drop_id drop_drop)
  next
    case False
    then have "take ?n (drop ?o ?lines) = drop ?o ?lines" "\<not> ?o + length (take ?n (drop ?o ?lines)) < length ?lines" by simp_all
    then show ?thesis by (simp add: page standings_ahead_def Let_def del: length_take length_drop)
  qed
qed

interpretation board_pages: paged_source "standings_answer table strategy since until wallet limit" "standings_ahead table strategy since until"
  by unfold_locales (rule standings_answer_ahead)

end
