(* ===== verification/History.thy ===== *)
theory History
  imports Journal Client
begin

text \<open>
  The history screen (app/history.tsx): the wallet's round trips a page at a
  time, read as positions or as orders, the reads it starts and drops, and what
  each row says. The journal behind it is the one of theory Journal.
\<close>

section \<open>The book of what has been read\<close>

datatype history_tab = AsPositions | AsOrders

datatype history_problem = ProblemLocked | ProblemOffline

record history_book =
  hb_key :: string
  hb_trades :: "trade list"
  hb_cursor :: "string option"
  hb_at :: nat

text \<open>\<open>hi_first\<close> is the read of a filter's first page that is still wanted, and
  \<open>hi_more\<close> the read of a further one: the filter it was asked for, the cursor
  and the page it is to show.\<close>

record history =
  hi_filter :: string
  hi_tab :: history_tab
  hi_book :: history_book
  hi_loading :: bool
  hi_problem :: "history_problem option"
  hi_first :: "string option"
  hi_more :: "(string \<times> string \<times> nat) option"

definition history_filters :: "(string \<times> string) list" where
  "history_filters = [(''all'', ''All''), (''direction'', ''Direction''), (''ma-cross'', ''MA Cross''), (''rsi'', ''RSI''),
     (''donchian'', ''Turtles''), (''orb'', ''ORB'')]"

text \<open>The screen when the account layer has read the device.\<close>

definition open_history :: history where
  "open_history = \<lparr>hi_filter = ''all'', hi_tab = AsPositions, hi_book = \<lparr>hb_key = [], hb_trades = [], hb_cursor = None, hb_at = 0\<rparr>,
     hi_loading = False, hi_problem = None, hi_first = Some ''all'', hi_more = None\<rparr>"

definition history_current :: "history \<Rightarrow> bool" where
  "history_current s \<longleftrightarrow> hb_key (hi_book s) = hi_filter s"

definition rows_per :: "history_tab \<Rightarrow> trade \<Rightarrow> nat" where
  "rows_per tab t = (case tab of AsOrders \<Rightarrow> if given (td_closed_at t) then 2 else 1 | AsPositions \<Rightarrow> 1)"

definition rows_in :: "history_tab \<Rightarrow> trade list \<Rightarrow> nat" where
  "rows_in tab ts = (case tab of AsOrders \<Rightarrow> foldl (\<lambda>n t. n + (if given (td_closed_at t) then 2 else 1)) 0 ts | AsPositions \<Rightarrow> length ts)"

text \<open>The filter as the platform is asked for it: no filter is an empty one.\<close>

definition asked_strategy :: "string \<Rightarrow> string" where
  "asked_strategy f = (if f = ''all'' then [] else f)"

text \<open>What a read comes to: a refusal may be an answer, or a problem and nothing.\<close>

type_synonym history_answer = "trade list \<times> string option"

definition history_read :: "string \<Rightarrow> exn + history_answer \<Rightarrow> history_answer option \<times> history_problem option" where
  "history_read f res = (case res of
     Inr answer \<Rightarrow> (Some answer, None)
   | Inl e \<Rightarrow>
       if has_code ''no_key'' e \<and> f \<noteq> ''all'' then (Some ([], None), None)
       else (None, Some (if has_code ''network'' e then ProblemOffline else ProblemLocked)))"

definition with_problem :: "history_problem option \<Rightarrow> history \<Rightarrow> history" where
  "with_problem p s = (case p of None \<Rightarrow> s | Some _ \<Rightarrow> s\<lparr>hi_problem := p\<rparr>)"

definition first_begins :: "history \<Rightarrow> history" where
  "first_begins s = (if hi_first s = None then s else s\<lparr>hi_problem := None\<rparr>)"

text \<open>A read that is no longer wanted can still say what went wrong.\<close>

definition dropped_answered :: "string \<Rightarrow> exn + history_answer \<Rightarrow> history \<Rightarrow> history" where
  "dropped_answered f res s = with_problem (snd (history_read f res)) s"

definition first_answered :: "exn + history_answer \<Rightarrow> history \<Rightarrow> history" where
  "first_answered res s = (case hi_first s of
     None \<Rightarrow> s
   | Some f \<Rightarrow>
       (case history_read f res of (answer, problem) \<Rightarrow>
          let s1 = with_problem problem (s\<lparr>hi_first := None\<rparr>) in
          (case answer of
             None \<Rightarrow> s1
           | Some (ts, cursor) \<Rightarrow> s1\<lparr>hi_book := \<lparr>hb_key = f, hb_trades = ts, hb_cursor = cursor, hb_at = 0\<rparr>\<rparr>)))"

definition pick_filter :: "string \<Rightarrow> history \<Rightarrow> history" where
  "pick_filter f s = (if f = hi_filter s then s else s\<lparr>hi_filter := f, hi_first := Some f\<rparr>)"

definition pick_tab :: "history_tab \<Rightarrow> history \<Rightarrow> history" where
  "pick_tab tab s = s\<lparr>hi_tab := tab\<rparr>"

section \<open>Turning the page\<close>

definition covers :: "history \<Rightarrow> nat \<Rightarrow> bool" where
  "covers s k \<longleftrightarrow> rows_in (hi_tab s) (hb_trades (hi_book s)) \<ge> (k + 1) * page_size"

definition next_page :: "history \<Rightarrow> history" where
  "next_page s =
     (let b = hi_book s; target = hb_at b + 1 in
      if \<not> history_current s \<or> hi_loading s then s
      else if rows_in (hi_tab s) (hb_trades b) > target * page_size \<and> (covers s target \<or> \<not> given (hb_cursor b))
      then s\<lparr>hi_book := b\<lparr>hb_at := target\<rparr>\<rparr>
      else if \<not> given (hb_cursor b) then s
      else s\<lparr>hi_loading := True, hi_more := Some (hi_filter s, the (hb_cursor b), target)\<rparr>)"

definition more_answered :: "exn + history_answer \<Rightarrow> history \<Rightarrow> history" where
  "more_answered res s = (case hi_more s of
     None \<Rightarrow> s
   | Some (f, c, target) \<Rightarrow>
       (case history_read f res of (answer, problem) \<Rightarrow>
          let s1 = with_problem problem (s\<lparr>hi_loading := False, hi_more := None\<rparr>) in
          (case answer of
             None \<Rightarrow> s1
           | Some (ts, cursor) \<Rightarrow>
               if hb_key (hi_book s1) = f
               then s1\<lparr>hi_book := \<lparr>hb_key = f, hb_trades = hb_trades (hi_book s1) @ ts, hb_cursor = cursor, hb_at = target\<rparr>\<rparr>
               else s1)))"

definition prev_page :: "history \<Rightarrow> history" where
  "prev_page s = (if \<not> history_current s \<or> hb_at (hi_book s) = 0 then s
     else s\<lparr>hi_book := (hi_book s)\<lparr>hb_at := hb_at (hi_book s) - 1\<rparr>\<rparr>)"

section \<open>The page that is on_page\<close>

text \<open>Round trips are told apart by where they are in the book.\<close>

type_synonym placed = "nat \<times> trade"

fun page_cut :: "history_tab \<Rightarrow> nat \<Rightarrow> nat \<Rightarrow> nat \<Rightarrow> placed list \<Rightarrow> placed list" where
  "page_cut tab start stop row [] = []"
| "page_cut tab start stop row (t # ts) =
     (let n = rows_per tab (snd t);
          here = (if row + n > start \<and> row < stop then [t] else [])
      in if row + n \<ge> stop then here else here @ page_cut tab start stop (row + n) ts)"

definition placed_trades :: "history \<Rightarrow> placed list" where
  "placed_trades s = zip [0..<length (hb_trades (hi_book s))] (hb_trades (hi_book s))"

definition page_trades :: "history \<Rightarrow> placed list" where
  "page_trades s = (if history_current s
     then page_cut (hi_tab s) (hb_at (hi_book s) * page_size) (hb_at (hi_book s) * page_size + page_size) 0 (placed_trades s) else [])"

fun rows_before :: "history_tab \<Rightarrow> placed list \<Rightarrow> placed list \<Rightarrow> nat" where
  "rows_before tab on_page [] = 0"
| "rows_before tab on_page (t # ts) = (if t \<in> set on_page then 0 else rows_per tab (snd t) + rows_before tab on_page ts)"

definition order_offset :: "history \<Rightarrow> nat" where
  "order_offset s = hb_at (hi_book s) * page_size -
     (if history_current s then rows_before (hi_tab s) (page_trades s) (placed_trades s) else 0)"

definition history_has_next :: "history \<Rightarrow> bool" where
  "history_has_next s \<longleftrightarrow> history_current s \<and>
     (rows_in (hi_tab s) (hb_trades (hi_book s)) > (hb_at (hi_book s) + 1) * page_size \<or> hb_cursor (hi_book s) \<noteq> None)"

section \<open>What the rows say\<close>

record order_line =
  ol_key :: string
  ol_title :: string
  ol_note :: string
  ol_moment :: string
  ol_to :: "(string \<times> string \<times> string) option"

definition history_side :: "side \<Rightarrow> string" where
  "history_side d = (if d = Long then ''Up'' else ''Down'')"

definition history_hm :: "device_words \<Rightarrow> int \<Rightarrow> string \<Rightarrow> string" where
  "history_hm = time_or []"

text \<open>The orders of a round trip: two when it is closed, the close first.\<close>

definition orders_of_trade :: "device_words \<Rightarrow> int \<Rightarrow> trade \<Rightarrow> order_line list" where
  "orders_of_trade w tz t =
     (let d = history_side (td_side t);
          link = (\<lambda>which. if given (td_id t) then Some (the (td_id t), td_strategy t, which) else None);
          i = (case td_id t of Some i \<Rightarrow> i | None \<Rightarrow> td_opened_at t)
      in (if given (td_closed_at t)
          then [\<lparr>ol_key = i @ ''-close'',
                 ol_title = ''Close '' @ d @ dot_mark @ ''@ '' @ trim (case td_exit_price t of Some p \<Rightarrow> p | None \<Rightarrow> ''0''),
                 ol_note = history_hm w tz (the (td_closed_at t)) @ dot_mark @ ''fee '' @ to_fixed (js_number_opt (Some (case td_exit_fee t of Some f \<Rightarrow> f | None \<Rightarrow> ''0''))) 2,
                 ol_moment = the (td_closed_at t), ol_to = link ''close''\<rparr>]
          else []) @
         [\<lparr>ol_key = i @ ''-open'', ol_title = ''Open '' @ d @ dot_mark @ ''@ '' @ trim (td_entry_price t),
           ol_note = history_hm w tz (td_opened_at t) @ dot_mark @ ''fee '' @ to_fixed (js_number (td_entry_fee t)) 2,
           ol_moment = td_opened_at t, ol_to = link ''open''\<rparr>])"

definition orders_of :: "device_words \<Rightarrow> int \<Rightarrow> trade list \<Rightarrow> order_line list" where
  "orders_of w tz ts = List.concat (List.map (orders_of_trade w tz) ts)"

text \<open>The name of a moment's day, and rows gathered under it in the order the days
  are met.\<close>

definition local_day :: "int \<Rightarrow> int \<Rightarrow> int" where
  "local_day tz ms = (ms + tz) div ms_per_day"

definition day_name :: "device_words \<Rightarrow> int \<Rightarrow> int \<Rightarrow> string \<Rightarrow> string" where
  "day_name w tz now moment = (case parse_date tz moment of
     Num q \<Rightarrow>
       (if local_day tz \<lfloor>q\<rfloor> = local_day tz now then ''Today''
        else if local_day tz \<lfloor>q\<rfloor> = local_day tz (now - ms_per_day) then ''Yesterday''
        else dw_date w \<lfloor>q\<rfloor>)
   | _ \<Rightarrow> ''Invalid Date'')"

fun put_under :: "string \<Rightarrow> 'a \<Rightarrow> (string \<times> 'a list) list \<Rightarrow> (string \<times> 'a list) list" where
  "put_under day x [] = [(day, [x])]"
| "put_under day x ((d, xs) # groups) = (if d = day then (d, xs @ [x]) # groups else (d, xs) # put_under day x groups)"

definition group_days :: "('a \<Rightarrow> string) \<Rightarrow> 'a list \<Rightarrow> (string \<times> 'a list) list" where
  "group_days day xs = foldl (\<lambda>groups x. put_under (day x) x groups) [] xs"

definition by_day :: "device_words \<Rightarrow> int \<Rightarrow> int \<Rightarrow> trade list \<Rightarrow> (string \<times> trade list) list" where
  "by_day w tz now = group_days (\<lambda>t. day_name w tz now (case td_closed_at t of Some c \<Rightarrow> c | None \<Rightarrow> td_opened_at t))"

definition by_day_orders :: "device_words \<Rightarrow> int \<Rightarrow> int \<Rightarrow> order_line list \<Rightarrow> (string \<times> order_line list) list" where
  "by_day_orders w tz now = group_days (\<lambda>o'. day_name w tz now (ol_moment o'))"

definition why_closed :: "trade \<Rightarrow> string" where
  "why_closed t = (if \<not> given (td_closed_at t) then ''open now'' else case td_close_reason t of
     Some Horizon \<Rightarrow> ''by timer'' | Some Stop \<Rightarrow> ''stop'' | Some TakeProfit \<Rightarrow> ''take profit'' | _ \<Rightarrow> ''closed'')"

record position_row =
  pr_to :: "(string \<times> string) option"
  pr_title :: string
  pr_sub :: string
  pr_result :: "(string \<times> sign_colour) option"

definition times_mark :: string where "times_mark = [CHR 0xC3, CHR 0x97]"

text \<open>A position that still runs leads nowhere.\<close>

definition position_row :: "device_words \<Rightarrow> int \<Rightarrow> trade \<Rightarrow> position_row" where
  "position_row w tz t =
     (let running = (td_closed_at t = None); pnl = js_number (case td_pnl t of Some v \<Rightarrow> v | None \<Rightarrow> ''0'') in
      \<lparr>pr_to = (if given (td_id t) \<and> \<not> running then Some (the (td_id t), td_strategy t) else None),
       pr_title = td_symbol t @ dot_mark @ history_side (td_side t) @
         (if given (td_notional t) then dot_mark @ money (js_number (the (td_notional t))) @ '' AUSD'' else []) @
         '' @ '' @ trim (td_entry_price t) @ (if given (td_exit_price t) then right_arrow @ trim (the (td_exit_price t)) else []),
       pr_sub = strategy_name (td_strategy t) @
         (if given (td_leverage t) then dot_mark @ trim (the (td_leverage t)) @ times_mark else []) @ dot_mark @
         history_hm w tz (td_opened_at t) @
         (if given (td_closed_at t) then en_dash @ history_hm w tz (the (td_closed_at t)) else []) @ dot_mark @ why_closed t,
       pr_result = (if running then None else Some (money pnl, sign_of pnl))\<rparr>)"

section \<open>The screen\<close>

datatype history_body =
    Bones
  | Problem string
  | NoTradesYet
  | PositionDays "(string \<times> trade list) list"
  | OrderDays "(string \<times> order_line list) list"

definition history_body :: "device_words \<Rightarrow> int \<Rightarrow> int \<Rightarrow> history \<Rightarrow> history_body" where
  "history_body w tz now s =
     (let on_page = List.map snd (page_trades s) in
      if \<not> history_current s then
        (case hi_problem s of None \<Rightarrow> Bones
         | Some ProblemLocked \<Rightarrow> Problem ''Sign in with your passkey and open an account to see your history.''
         | Some ProblemOffline \<Rightarrow> Problem ''Server unreachable'')
      else if on_page = [] then NoTradesYet
      else case hi_tab s of
        AsPositions \<Rightarrow> PositionDays (by_day w tz now on_page)
      | AsOrders \<Rightarrow> OrderDays (by_day_orders w tz now (take page_size (drop (order_offset s) (orders_of w tz on_page)))))"

definition history_pager :: "history \<Rightarrow> pager option" where
  "history_pager s = (if \<not> history_current s then None
     else if page_trades s \<noteq> [] \<or> hb_at (hi_book s) + 1 > 1
     then Some (pager_view (hb_at (hi_book s) + 1) None (history_has_next s) (hi_loading s)) else None)"

section \<open>The page that is shown is the page of the rows\<close>

lemma rows_per_pos: "0 < rows_per tab t"
  by (simp add: rows_per_def split: history_tab.split)

lemma cut_subset: "set (page_cut tab start stop row ts) \<subseteq> set ts"
  by (induction tab start stop row ts rule: page_cut.induct) (auto simp: Let_def split: if_splits)

text \<open>However many rows a round trip is read as: the rows from the offset on, of
  the round trips handed back, are the rows of the page.\<close>

lemma page_cut_rows:
  fixes w :: "trade \<Rightarrow> 'r list"
  assumes "\<And>t. length (w t) = rows_per tab t" "row < stop" "start \<le> stop" "distinct (List.map fst ts)"
  shows "let sel = page_cut tab start stop row ts in
    take (stop - row - (start - row)) (drop (start - row - rows_before tab sel ts) (List.concat (List.map (\<lambda>p. w (snd p)) sel))) =
    take (stop - row - (start - row)) (drop (start - row) (List.concat (List.map (\<lambda>p. w (snd p)) ts)))"
  using assms(2,4)
proof (induction ts arbitrary: row)
  case (Cons t ts)
  let ?n = "rows_per tab (snd t)" and ?R = "List.concat (List.map (\<lambda>p. w (snd p)) ts)"
  let ?sel = "page_cut tab start stop (row + ?n) ts"
  have n: "length (w (snd t)) = ?n" by (rule assms(1))
  have new: "t \<notin> set ?sel" using cut_subset[of tab start stop "row + ?n" ts] Cons.prems(2) by force
  show ?case
  proof (cases "row + ?n \<ge> stop")
    case True
    with Cons.prems(1) assms(3) have "start - row \<le> ?n" "stop - row - (start - row) \<le> ?n - (start - row)" by linarith+
    then show ?thesis
    proof (cases "row + ?n > start")
      case True
      with \<open>row + ?n \<ge> stop\<close> have "page_cut tab start stop row (t # ts) = [t]" using Cons.prems(1) by simp
      then show ?thesis using n \<open>stop - row - (start - row) \<le> _\<close> by (simp add: Let_def)
    next
      case False
      with \<open>row + ?n \<ge> stop\<close> assms(3) have "stop = start" "row + ?n = start" by linarith+
      then show ?thesis by simp
    qed
  next
    case False
    then have more_rows: "row + ?n < stop" by simp
    have IH: "take (stop - (row + ?n) - (start - (row + ?n))) (drop (start - (row + ?n) - rows_before tab ?sel ts) (List.concat (List.map (\<lambda>p. w (snd p)) ?sel))) =
        take (stop - (row + ?n) - (start - (row + ?n))) (drop (start - (row + ?n)) ?R)"
      using Cons.IH[OF more_rows] Cons.prems(2) by (simp add: Let_def)
    show ?thesis
    proof (cases "row + ?n > start")
      case True
      then have sel: "page_cut tab start stop row (t # ts) = t # ?sel" using False Cons.prems(1) by (simp add: Let_def)
      have "start - (row + ?n) = 0" using True by simp
      with IH have "take (stop - (row + ?n)) (List.concat (List.map (\<lambda>p. w (snd p)) ?sel)) = take (stop - (row + ?n)) ?R" by simp
      moreover have "stop - row - (start - row) - (?n - (start - row)) = stop - (row + ?n)" "start - row \<le> ?n" using True more_rows by linarith+
      ultimately show ?thesis using n by (simp add: sel Let_def del: page_cut.simps)
    next
      case False
      then have sel: "page_cut tab start stop row (t # ts) = ?sel" using more_rows by (simp add: Let_def)
      have "stop - (row + ?n) - (start - (row + ?n)) = stop - row - (start - row)" "start - row - ?n = start - (row + ?n)" "?n \<le> start - row"
        using False more_rows by linarith+
      then show ?thesis using IH n new by (simp add: sel Let_def diff_diff_left add.assoc del: page_cut.simps)
    qed
  qed
qed simp

lemma positions_cut:
  "row < stop \<Longrightarrow> start \<le> stop \<Longrightarrow>
   page_cut AsPositions start stop row ts = take (stop - row - (start - row)) (drop (start - row) ts)"
proof (induction AsPositions start stop row ts rule: page_cut.induct)
  case (2 start stop row t ts)
  show ?case
  proof (cases "row + 1 \<ge> stop")
    case True
    with 2(2) have "stop = Suc row" by simp
    then show ?thesis using 2(3) by (auto simp: rows_per_def)
  next
    case False
    with 2(1)[OF refl] 2(3) have "page_cut AsPositions start stop (row + 1) ts = take (stop - (row + 1) - (start - (row + 1))) (drop (start - (row + 1)) ts)"
      by (auto simp: rows_per_def)
    with False show ?thesis by (cases "start \<le> row") (auto simp: rows_per_def take_Cons' drop_Cons' Suc_diff_Suc)
  qed
qed simp

lemma orders_of_trade_count: "length (orders_of_trade w tz t) = rows_per AsOrders t"
  by (simp add: orders_of_trade_def rows_per_def Let_def)

lemma placed_distinct: "distinct (List.map fst (placed_trades s))"
  by (simp add: placed_trades_def)

lemma placed_snd: "List.map snd (placed_trades s) = hb_trades (hi_book s)"
  by (simp add: placed_trades_def)

lemma positions_shown:
  assumes "history_current s" "hi_tab s = AsPositions"
  shows "List.map snd (page_trades s) = take page_size (drop (hb_at (hi_book s) * page_size) (hb_trades (hi_book s)))"
proof -
  have "0 < hb_at (hi_book s) * page_size + page_size" by (simp add: page_size_def)
  then show ?thesis using assms
    by (simp add: page_trades_def positions_cut take_map[symmetric] drop_map[symmetric] placed_snd)
qed

text \<open>
  C18. The page is the page, read either way: as positions the screen shows the
  seven round trips from seven times the page on; as orders, the lines it cuts
  from the round trips it hands back, starting at the offset it works out, are
  the seven lines from seven times the page on among the orders of everything
  read, also where a page boundary falls between a close and its open.
\<close>

theorem history_page_is_the_cut:
  assumes "history_current s"
  shows "let k = hb_at (hi_book s) * page_size; ts = hb_trades (hi_book s) in
    (hi_tab s = AsPositions \<longrightarrow> List.map snd (page_trades s) = take page_size (drop k ts)) \<and>
    (hi_tab s = AsOrders \<longrightarrow> take page_size (drop (order_offset s) (orders_of w tz (List.map snd (page_trades s)))) =
       take page_size (drop k (orders_of w tz ts)))"
proof -
  let ?k = "hb_at (hi_book s) * page_size"
  have pos: "0 < ?k + page_size" by (simp add: page_size_def)
  have "take page_size (drop (order_offset s) (orders_of w tz (List.map snd (page_trades s)))) =
      take page_size (drop ?k (orders_of w tz (hb_trades (hi_book s))))" if "hi_tab s = AsOrders"
    using page_cut_rows[where w = "orders_of_trade w tz" and tab = AsOrders and start = ?k and row = 0, OF orders_of_trade_count pos _ placed_distinct[of s]]
      assms that
    by (simp add: page_trades_def order_offset_def orders_of_def Let_def o_def flip: placed_snd[of s])
  then show ?thesis using assms by (simp add: Let_def positions_shown)
qed

definition sample_trade :: "string \<Rightarrow> string option \<Rightarrow> trade" where
  "sample_trade i finish = \<lparr>td_strategy = ''rsi'', td_symbol = ''MON'', td_side = Long, td_size = ''10'', td_entry_price = ''2'', td_entry_fee = ''0'',
     td_exit_price = None, td_exit_fee = None, td_pnl = None, td_close_reason = None, td_opened_at = [], td_closed_at = finish, td_id = Some i,
     td_open_order_id = None, td_close_order_id = None, td_notional = None, td_leverage = None, td_collateral = None, td_stop_pnl = None,
     td_tp_pnl = None, td_worst_pnl = None, td_best_pnl = None\<rparr>"

text \<open>Four closed round trips are eight orders: the second page of orders is one line.\<close>

theorem history_page_is_the_cut_witness:
  "\<forall>w tz. \<exists>s. hi_tab s = AsOrders \<and> hb_at (hi_book s) = 1 \<and>
     List.map ol_key (take page_size (drop (order_offset s) (orders_of w tz (List.map snd (page_trades s))))) = [''d-open'']"
proof (intro allI)
  fix w tz
  let ?t = "\<lambda>i. sample_trade i (Some ''x'')"
  let ?s = "open_history\<lparr>hi_tab := AsOrders, hi_book := \<lparr>hb_key = ''all'', hb_trades = [?t ''a'', ?t ''b'', ?t ''c'', ?t ''d''], hb_cursor = None, hb_at = 1\<rparr>\<rparr>"
  have "history_current ?s" by (simp add: history_current_def open_history_def)
  from history_page_is_the_cut[OF this, of w tz] show "\<exists>s. hi_tab s = AsOrders \<and> hb_at (hi_book s) = 1 \<and>
     List.map ol_key (take page_size (drop (order_offset s) (orders_of w tz (List.map snd (page_trades s))))) = [''d-open'']"
    by (intro exI[of _ ?s]) (simp add: Let_def orders_of_def orders_of_trade_def sample_trade_def given_def page_size_def open_history_def)
qed

section \<open>What is read is what the journal holds\<close>

datatype history_event =
    PickFilter string
  | PickTab history_tab
  | PressNext
  | PressPrev
  | FirstBegins
  | FirstAnswered "exn option"
  | MoreAnswered "exn option"
  | DroppedAnswered string exn

type_synonym history_source = "string \<Rightarrow> string option \<Rightarrow> history_answer"

fun history_step :: "history_source \<Rightarrow> history \<Rightarrow> history_event \<Rightarrow> history" where
  "history_step src s (PickFilter f) = pick_filter f s"
| "history_step src s (PickTab tab) = pick_tab tab s"
| "history_step src s PressNext = next_page s"
| "history_step src s PressPrev = prev_page s"
| "history_step src s FirstBegins = first_begins s"
| "history_step src s (FirstAnswered failed) = (case hi_first s of None \<Rightarrow> s
     | Some f \<Rightarrow> first_answered (case failed of Some e \<Rightarrow> Inl e | None \<Rightarrow> Inr (src f None)) s)"
| "history_step src s (MoreAnswered failed) = (case hi_more s of None \<Rightarrow> s
     | Some (f, c, target) \<Rightarrow> more_answered (case failed of Some e \<Rightarrow> Inl e | None \<Rightarrow> Inr (src f (Some c))) s)"
| "history_step src s (DroppedAnswered f e) = dropped_answered f (Inl e) s"

text \<open>A calm hand: no other filter while a further page is on its way, no further
  page while the first is; and the wallet's key is not taken away meanwhile.\<close>

fun calm :: "history \<Rightarrow> history_event \<Rightarrow> bool" where
  "calm s (PickFilter f) = (hi_more s = None \<and> f \<noteq> [])"
| "calm s PressNext = (hi_first s = None)"
| "calm s (FirstAnswered (Some e)) = (\<not> has_code ''no_key'' e)"
| "calm s (MoreAnswered (Some e)) = (\<not> has_code ''no_key'' e)"
| "calm s _ = True"

definition calm_step :: "history_source \<Rightarrow> history \<Rightarrow> history_event \<Rightarrow> history" where
  "calm_step src s e = (if calm s e then history_step src s e else s)"

definition platform_answer :: "(journal_row \<Rightarrow> trade) \<Rightarrow> journal_row list \<Rightarrow> string \<Rightarrow> history_source" where
  "platform_answer render table wallet f c =
     (let (rows, next_place) = trades_answer table wallet (asked_strategy f) (Some page_size) c in (List.map render rows, next_place))"

interpretation history_pages: paged_source "platform_answer render table wallet f"
    "\<lambda>c. List.map render (trades_ahead table wallet (asked_strategy f) c)"
proof unfold_locales
  fix c
  show "List.map render (trades_ahead table wallet (asked_strategy f) c) =
      fst (platform_answer render table wallet f c) @
      (case snd (platform_answer render table wallet f c) of None \<Rightarrow> [] | Some c' \<Rightarrow> List.map render (trades_ahead table wallet (asked_strategy f) (Some c')))"
    by (subst journal_pages.page_then_ahead[of table wallet "asked_strategy f" c "Some page_size"])
       (simp add: platform_answer_def split_beta split: option.split)
qed

definition history_ok :: "(journal_row \<Rightarrow> trade) \<Rightarrow> journal_row list \<Rightarrow> string \<Rightarrow> history \<Rightarrow> bool" where
  "history_ok render table wallet s \<longleftrightarrow>
     (hb_key (hi_book s) \<noteq> [] \<longrightarrow> history_pages.kept render table wallet (hb_key (hi_book s)) (hb_trades (hi_book s)) (hb_cursor (hi_book s))) \<and>
     (case hi_more s of None \<Rightarrow> True | Some (f, c, target) \<Rightarrow>
        hi_loading s \<and> hi_first s = None \<and> hb_key (hi_book s) = f \<and> hb_cursor (hi_book s) = Some c)"

lemma with_problem_keeps [simp]:
  "hi_book (with_problem p s) = hi_book s" "hi_more (with_problem p s) = hi_more s"
  "hi_first (with_problem p s) = hi_first s" "hi_loading (with_problem p s) = hi_loading s"
  by (simp_all add: with_problem_def split: option.splits)

lemma calm_step_ok: "history_ok render table wallet s \<Longrightarrow> history_ok render table wallet (calm_step (platform_answer render table wallet) s e)"
proof (cases e)
  case (FirstAnswered failed)
  assume ok: "history_ok render table wallet s"
  show ?thesis
  proof (cases "calm s e \<and> hi_first s \<noteq> None")
    case True
    then obtain f where f: "hi_first s = Some f" by auto
    with ok have "hi_more s = None" by (auto simp: history_ok_def split: option.splits)
    with ok True f FirstAnswered history_pages.kept_first[of render table wallet f] show ?thesis
      by (cases failed; cases "platform_answer render table wallet f None")
         (auto simp: calm_step_def first_answered_def history_read_def history_ok_def Let_def)
  qed (use ok FirstAnswered in \<open>auto simp: calm_step_def\<close>)
next
  case (MoreAnswered failed)
  assume ok: "history_ok render table wallet s"
  show ?thesis
  proof (cases "calm s e \<and> hi_more s \<noteq> None")
    case True
    then obtain f c target where f: "hi_more s = Some (f, c, target)" by (cases "hi_more s") auto
    with ok True f MoreAnswered history_pages.kept_more[of render table wallet f "hb_trades (hi_book s)" c] show ?thesis
      by (cases failed; cases "platform_answer render table wallet f (Some c)")
         (auto simp: calm_step_def more_answered_def history_read_def history_ok_def Let_def)
  qed (use ok MoreAnswered in \<open>auto simp: calm_step_def split: option.splits\<close>)
qed (auto simp: calm_step_def history_ok_def pick_filter_def pick_tab_def next_page_def prev_page_def first_begins_def dropped_answered_def
       history_current_def Let_def given_def split: option.splits if_splits)

interpretation history_machine: state_machine "calm_step (platform_answer render table wallet)" "history_ok render table wallet"
  by unfold_locales (rule calm_step_ok)

text \<open>
  C5. History loses and repeats nothing: whatever filters, tabs and pages are
  picked and however the reads come back, what the screen has read under a
  filter is the beginning of the wallet's round trips in the journal, newest
  first, and all of them once it holds no cursor; provided no other filter is
  picked while a further page is on its way, no further page is asked for while
  the first is, and no read is refused for want of a key.
\<close>

theorem history_reads_the_journal:
  "let s = foldl (calm_step (platform_answer render table wallet)) open_history es;
       all_rows = List.map render (wallet_rows table wallet (asked_strategy (hb_key (hi_book s)))) in
   hb_key (hi_book s) \<noteq> [] \<longrightarrow>
     hb_trades (hi_book s) = take (length (hb_trades (hi_book s))) all_rows \<and>
     (hb_cursor (hi_book s) = None \<longrightarrow> hb_trades (hi_book s) = all_rows)"
proof -
  let ?s = "foldl (calm_step (platform_answer render table wallet)) open_history es"
  have "history_ok render table wallet ?s"
    by (rule history_machine.run_inv) (simp add: history_ok_def open_history_def)
  moreover have "trades_ahead table wallet f None = wallet_rows table wallet f" for f
    by (simp add: trades_ahead_def parse_trade_cursor_def)
  ultimately show ?thesis
    using history_pages.kept_prefix[of render table wallet "hb_key (hi_book ?s)" "hb_trades (hi_book ?s)" "hb_cursor (hi_book ?s)"]
      history_pages.kept_whole[of render table wallet "hb_key (hi_book ?s)" "hb_trades (hi_book ?s)"]
    by (auto simp: history_ok_def Let_def) (metis append_eq_conv_conj)
qed

definition sample_row :: journal_row where
  "sample_row = \<lparr>jr_id = 1, jr_wallet = ''0xab'', jr_strategy = ''rsi'', jr_symbol = ''MON'', jr_size = 10, jr_entry_price = 2, jr_pnl = 1,
     jr_opened_at = 5, jr_closed_at = Some 9\<rparr>"

lemma sample_rows: "wallet_rows [sample_row] ''0xab'' [] = [sample_row]"
  by (simp add: wallet_rows_def rows_of_def newest_first_def sample_row_def Let_def)

theorem history_reads_the_journal_witness:
  "hb_trades (hi_book (foldl (calm_step (platform_answer (\<lambda>r. sample_trade [] None) [sample_row] ''0xab'')) open_history [FirstBegins, FirstAnswered None])) =
    [sample_trade [] None]"
proof -
  let ?src = "platform_answer (\<lambda>r. sample_trade [] None) [sample_row] ''0xab''"
  let ?s = "foldl (calm_step ?src) open_history [FirstBegins, FirstAnswered None]"
  have no_cursor: "parse_trade_cursor None = Inr None" by (simp add: parse_trade_cursor_def)
  have "snd (?src ''all'' None) = None"
    by (simp add: platform_answer_def asked_strategy_def trades_answer_def trades_handler_def no_cursor trades_page_ahead[OF no_cursor]
        trades_ahead_def sample_rows Let_def page_limit_def page_size_def encode_trade_cursor_def)
  then have "hb_key (hi_book ?s) = ''all''" "hb_cursor (hi_book ?s) = None"
    by (cases "?src ''all'' None"; simp add: open_history_def calm_step_def first_begins_def first_answered_def history_read_def with_problem_def Let_def)+
  with history_reads_the_journal[of "\<lambda>r. sample_trade [] None" "[sample_row]" "''0xab''" "[FirstBegins, FirstAnswered None]"] show ?thesis
    by (simp add: Let_def asked_strategy_def sample_rows)
qed

section \<open>Where the screen says there are no trades\<close>

lemma positions_past_the_end:
  assumes "hb_key (hi_book s) = hi_filter s" "hi_tab s = AsPositions" "length (hb_trades (hi_book s)) \<le> hb_at (hi_book s) * page_size"
  shows "history_body w tz now s = NoTradesYet"
proof -
  have "List.map snd (page_trades s) = []"
    using positions_shown[of s] assms by (simp add: history_current_def)
  then show ?thesis using assms by (simp add: history_body_def history_current_def)
qed

text \<open>Changing from orders to positions keeps the number of the page, so a page
  that exists as orders may be past the end as positions.\<close>

lemma tab_change_says_no_trades:
  assumes "history_current s" "length (hb_trades (hi_book s)) \<le> hb_at (hi_book s) * page_size"
  shows "history_body w tz now (pick_tab AsPositions s) = NoTradesYet"
  using assms by (intro positions_past_the_end) (simp_all add: pick_tab_def history_current_def)

text \<open>The journal names a next place after every full page, so a wallet with
  exactly one page of round trips can turn to a second, which is empty.\<close>

lemma exact_page_says_no_trades:
  assumes "length (wallet_rows table wallet []) = page_size"
  shows "let s = foldl (history_step (platform_answer render table wallet)) open_history [FirstBegins, FirstAnswered None, PressNext, MoreAnswered None]
    in hb_trades (hi_book s) = List.map render (wallet_rows table wallet []) \<and> hb_at (hi_book s) = 1 \<and> history_body w tz now s = NoTradesYet"
proof -
  let ?rows = "wallet_rows table wallet []" and ?k = "cursor_key (last (wallet_rows table wallet []))"
  have ahead: "trades_ahead table wallet [] None = ?rows" by (simp add: trades_ahead_def parse_trade_cursor_def)
  have no_cursor: "parse_trade_cursor None = Inr None" by (simp add: parse_trade_cursor_def)
  have limit: "page_limit (Some page_size) = page_size" "0 < page_size" by (simp_all add: page_limit_def page_size_def)
  obtain c where c: "encode_trade_cursor (Some ?k) = Some c" "given (Some c)" using encoded_cursor[of ?k] by (auto simp: given_def)
  have first: "platform_answer render table wallet ''all'' None = (List.map render ?rows, Some c)"
    using assms limit c(1) by (simp add: platform_answer_def asked_strategy_def trades_answer_def trades_handler_def no_cursor
        trades_page_ahead[OF no_cursor] ahead Let_def)
  have "trades_ahead table wallet [] (Some c) = []"
    using journal_pages.page_then_ahead[of table wallet "[]" None "Some page_size"] first ahead
    by (auto simp: platform_answer_def asked_strategy_def split_beta)
  then have second: "platform_answer render table wallet ''all'' (Some c) = ([], None)"
    by (simp add: platform_answer_def asked_strategy_def nothing_ahead)
  let ?s = "foldl (history_step (platform_answer render table wallet)) open_history [FirstBegins, FirstAnswered None, PressNext, MoreAnswered None]"
  have s: "?s = open_history\<lparr>hi_first := None, hi_book := \<lparr>hb_key = ''all'', hb_trades = List.map render ?rows, hb_cursor = None, hb_at = 1\<rparr>\<rparr>"
    using assms c(2) by (simp add: open_history_def first_begins_def first second first_answered_def history_read_def with_problem_def
        next_page_def history_current_def rows_in_def more_answered_def Let_def)
  show ?thesis unfolding s Let_def using assms
    by (simp add: positions_past_the_end open_history_def)
qed

text \<open>A further page that comes back after its filter was left and taken up again is
  put behind a book that has meanwhile been begun anew: a page is lost.\<close>

lemma hasty_hand_loses_a_page:
  assumes "src ''all'' None = (p1, Some c1)" "src ''all'' (Some c1) = (p2, Some c2)" "src ''all'' (Some c2) = (p3, c3)"
    and "length p1 = page_size" "length p2 = page_size" "c1 \<noteq> []" "c2 \<noteq> []"
  shows "hb_trades (hi_book (foldl (history_step src) open_history
    [FirstAnswered None, PressNext, MoreAnswered None, PickFilter ''rsi'', PickFilter ''all'', PressNext, FirstAnswered None, MoreAnswered None])) = p1 @ p3"
  using assms by (simp add: open_history_def first_answered_def history_read_def with_problem_def next_page_def history_current_def
      rows_in_def more_answered_def pick_filter_def given_def Let_def)

end
