(* ===== verification/Leaderboard.thy ===== *)
theory Leaderboard
  imports Journal Client Show
begin

text \<open>
  The leaderboard screen (app/leaderboard.tsx): a board read a page at a time,
  the ranks it shows, the wallet's own line under it, the pool it plays for, the
  prize waiting on the contract and what the chain has settled. The board behind
  it is the one of theory Journal.
\<close>

section \<open>A board, a page at a time\<close>

type_synonym board_key = "string \<times> period"

record standings_book =
  bk_key :: "board_key option"
  bk_pages :: "standing list list"
  bk_players :: nat
  bk_next :: "nat option"
  bk_you :: "ranked_standing option"
  bk_at :: nat

text \<open>\<open>bs_first\<close> is the read of a board's first page that is still wanted,
  \<open>bs_more\<close> the read of a further one: its board and offset.\<close>

record board_screen =
  bs_key :: board_key
  bs_book :: standings_book
  bs_loading :: bool
  bs_first :: "board_key option"
  bs_more :: "(board_key \<times> nat) option"

definition board_tabs :: "string list" where
  "board_tabs = [''direction'', ''ma-cross'', ''rsi'', ''donchian'', ''orb'', ''all'']"

definition tab_label :: "string \<Rightarrow> string" where
  "tab_label id' = (if id' = ''all'' then ''All'' else case map_of strategy_short id' of Some l \<Rightarrow> l | None \<Rightarrow> id')"

definition open_board :: board_screen where
  "open_board = \<lparr>bs_key = (''direction'', AllTime),
     bs_book = \<lparr>bk_key = None, bk_pages = [], bk_players = 0, bk_next = None, bk_you = None, bk_at = 0\<rparr>,
     bs_loading = False, bs_first = Some (''direction'', AllTime), bs_more = None\<rparr>"

definition board_current :: "board_screen \<Rightarrow> bool" where
  "board_current s \<longleftrightarrow> bk_key (bs_book s) = Some (bs_key s)"

definition pick_board :: "board_key \<Rightarrow> board_screen \<Rightarrow> board_screen" where
  "pick_board k s = (if k = bs_key s then s else s\<lparr>bs_key := k, bs_first := Some k\<rparr>)"

definition board_first_answered :: "exn + standings \<Rightarrow> board_screen \<Rightarrow> board_screen" where
  "board_first_answered res s = (case bs_first s of
     None \<Rightarrow> s
   | Some k \<Rightarrow> s\<lparr>bs_first := None, bs_book := (case res of
       Inr a \<Rightarrow> \<lparr>bk_key = Some k, bk_pages = [st_standings a], bk_players = st_players a, bk_next = st_next_offset a, bk_you = st_you a, bk_at = 0\<rparr>
     | Inl _ \<Rightarrow> \<lparr>bk_key = Some k, bk_pages = [[]], bk_players = 0, bk_next = None, bk_you = None, bk_at = 0\<rparr>)\<rparr>)"

definition board_next :: "board_screen \<Rightarrow> board_screen" where
  "board_next s =
     (let b = bs_book s in
      if \<not> board_current s \<or> bs_loading s then s
      else if bk_at b + 1 < length (bk_pages b) then s\<lparr>bs_book := b\<lparr>bk_at := bk_at b + 1\<rparr>\<rparr>
      else case bk_next b of
        None \<Rightarrow> s
      | Some n \<Rightarrow> s\<lparr>bs_loading := True, bs_more := Some (bs_key s, n)\<rparr>)"

definition board_more_answered :: "exn + standings \<Rightarrow> board_screen \<Rightarrow> board_screen" where
  "board_more_answered res s = (case bs_more s of
     None \<Rightarrow> s
   | Some (k, n) \<Rightarrow>
       (let s1 = s\<lparr>bs_loading := False, bs_more := None\<rparr>; b = bs_book s in
        case res of
          Inl _ \<Rightarrow> s1
        | Inr a \<Rightarrow>
            if bk_key b = Some k
            then s1\<lparr>bs_book := \<lparr>bk_key = Some k, bk_pages = bk_pages b @ [st_standings a], bk_players = st_players a,
                   bk_next = st_next_offset a, bk_you = (case st_you a of Some y \<Rightarrow> Some y | None \<Rightarrow> bk_you b), bk_at = length (bk_pages b)\<rparr>\<rparr>
            else s1))"

definition board_prev :: "board_screen \<Rightarrow> board_screen" where
  "board_prev s = (if \<not> board_current s \<or> bk_at (bs_book s) = 0 then s
     else s\<lparr>bs_book := (bs_book s)\<lparr>bk_at := bk_at (bs_book s) - 1\<rparr>\<rparr>)"

text \<open>What the hook hands to the screen.\<close>

definition board_rows :: "board_screen \<Rightarrow> standing list option" where
  "board_rows s = (if board_current s \<and> bk_at (bs_book s) < length (bk_pages (bs_book s))
     then Some (bk_pages (bs_book s) ! bk_at (bs_book s)) else None)"

definition board_you :: "board_screen \<Rightarrow> ranked_standing option" where
  "board_you s = (if board_current s then bk_you (bs_book s) else None)"

definition board_page_no :: "board_screen \<Rightarrow> nat" where
  "board_page_no s = bk_at (bs_book s) + 1"

definition board_page_count :: "board_screen \<Rightarrow> nat" where
  "board_page_count s = pages_of (bk_players (bs_book s)) page_size"

section \<open>The lines of the board\<close>

record rank_row =
  rr_wallet :: string
  rr_volume :: jsnum
  rr_pnl :: jsnum
  rr_trades :: nat
  rr_you :: bool

definition rank_rows :: "standing list \<Rightarrow> string option \<Rightarrow> rank_row list" where
  "rank_rows standings address = List.map (\<lambda>s.
     \<lparr>rr_wallet = lower (sd_wallet s), rr_volume = js_number (case sd_volume s of Some v \<Rightarrow> v | None \<Rightarrow> ''0''),
      rr_pnl = js_number (sd_pnl s), rr_trades = sd_trades s, rr_you = (Some (lower (sd_wallet s)) = address)\<rparr>) standings"

definition own_line :: "rank_row list option \<Rightarrow> ranked_standing option \<Rightarrow> ranked_standing option" where
  "own_line rows you = (case rows of None \<Rightarrow> None
     | Some rs \<Rightarrow> if \<not> list_ex rr_you rs then you else None)"

record board_line =
  bl_rank :: nat
  bl_who :: string
  bl_volume :: string
  bl_result :: string
  bl_colour :: sign_colour

definition board_line :: "nat \<Rightarrow> bool \<Rightarrow> rank_row \<Rightarrow> board_line" where
  "board_line rank copied r =
     \<lparr>bl_rank = rank, bl_who = (if rr_you r then ''you'' else if copied then ''Copied'' else short_address (rr_wallet r)),
      bl_volume = grouped (rr_volume r) @ '' AUSD'',
      bl_result = money (rr_pnl r) @ dot_mark @ show_nat (rr_trades r) @ '' '' @ plural (rr_trades r) ''trade'', bl_colour = sign_of (rr_pnl r)\<rparr>"

definition own_board_line :: "bool \<Rightarrow> ranked_standing \<Rightarrow> board_line" where
  "own_board_line copied y = board_line (sd_rank y) copied
     \<lparr>rr_wallet = sd_wallet y, rr_volume = js_number (case sd_volume y of Some v \<Rightarrow> v | None \<Rightarrow> ''0''),
      rr_pnl = js_number (sd_pnl y), rr_trades = sd_trades y, rr_you = True\<rparr>"

definition ranks_shown :: "board_screen \<Rightarrow> (nat \<times> standing) list" where
  "ranks_shown s = (case board_rows s of None \<Rightarrow> []
     | Some rows \<Rightarrow> List.map2 (\<lambda>i r. ((board_page_no s - 1) * page_size + i + 1, r)) [0..<length rows] rows)"

section \<open>The pool\<close>

definition pool_amount :: "leaderboard \<Rightarrow> string \<Rightarrow> jsnum \<times> bool" where
  "pool_amount lb strategy =
     (case (case lb_prize lb of None \<Rightarrow> None | Some p \<Rightarrow> List.find (\<lambda>x. pp_strategy x = strategy) (wp_pools p)) of
        None \<Rightarrow> (0, False)
      | Some p \<Rightarrow> if js_number (pp_pool p) > 0 then (js_number (pp_pool p), False)
          else (js_number (case pp_accrued p of Some a \<Rightarrow> a | None \<Rightarrow> ''0''), True))"

definition end_of_week :: "device_words \<Rightarrow> int \<Rightarrow> string \<Rightarrow> string" where
  "end_of_week w tz week_start = (case parse_date tz week_start of
     Num q \<Rightarrow> dw_weekday w (\<lfloor>q\<rfloor> + 6 * ms_per_day) | _ \<Rightarrow> ''Sunday'')"

definition pool_line :: "device_words \<Rightarrow> int \<Rightarrow> leaderboard option \<Rightarrow> string \<Rightarrow> period \<Rightarrow> nat \<Rightarrow> string" where
  "pool_line w tz lb tab shown_period players =
     (let who = show_nat players @ '' '' @ plural players ''trader'' in
      if shown_period = AllTime then ''Since launch'' @ dot_mark @ who
      else case lb of None \<Rightarrow> who
      | Some b \<Rightarrow>
         (let parts = (if tab = ''all'' then List.map (\<lambda>x. pool_amount b (bd_id x)) (lb_boards b) else [pool_amount b tab]);
              pool = foldl (\<lambda>sum p. sum + fst p) 0 parts;
              so_far = list_ex (\<lambda>p. snd p \<and> fst p > 0) parts;
              ends = ''ends '' @ end_of_week w tz (lb_week_start b)
          in if pool \<le> 0 then ''No pool yet'' @ dot_mark @ who @ dot_mark @ ends
             else (if tab = ''all'' then ''Pools '' else ''Pool '') @ to_fixed pool 2 @ '' AUSD'' @ (if so_far then '' so far'' else []) @
               dot_mark @ who @ dot_mark @ ends))"

definition micros :: "string \<Rightarrow> string" where
  "micros units = (let n = js_number units / 1000000 in
     if is_finite n then js_string (math_round (n * 100) / 100) else units)"

section \<open>Claiming the prize\<close>

record claim_banner =
  cb_busy :: bool
  cb_notice :: "string option"
  cb_sent :: "(nat option \<times> string) list"
  cb_reloads :: nat

text \<open>The prizes are claimed one after another until one fails; a week the answer
  does not name is passed on as it is. How a claim goes may depend on those sent
  before it.\<close>

type_synonym claim_call = "nat option \<times> string"

fun claim_run :: "(claim_call list \<Rightarrow> claim_call \<Rightarrow> exn + unit) \<Rightarrow> (nat \<times> prize_winner) list \<Rightarrow> nat list \<Rightarrow> claim_banner \<Rightarrow> claim_banner \<times> exn option" where
  "claim_run send [] weeks b = (b, None)"
| "claim_run send ((i, p) # ps) weeks b =
     (if pw_claimed p then claim_run send ps weeks b
      else let asked = (if i < length weeks then Some (weeks ! i) else None, pw_strategy p);
               b1 = b\<lparr>cb_sent := cb_sent b @ [asked]\<rparr>
           in case send (cb_sent b) asked of Inl e \<Rightarrow> (b1, Some e) | Inr _ \<Rightarrow> claim_run send ps weeks b1)"

definition press_claim :: "(claim_call list \<Rightarrow> claim_call \<Rightarrow> exn + unit) \<Rightarrow> my_prizes option \<Rightarrow> claim_banner \<Rightarrow> claim_banner" where
  "press_claim send mine b = (case mine of None \<Rightarrow> b
     | Some m \<Rightarrow>
        (case claim_run send (zip [0..<length (mp_prizes m)] (mp_prizes m)) (mp_weeks m) (b\<lparr>cb_busy := True, cb_notice := None\<rparr>) of
           (b1, None) \<Rightarrow> b1\<lparr>cb_notice := Some ''In your wallet.'', cb_reloads := cb_reloads b1 + 1, cb_busy := False\<rparr>
         | (b1, Some e) \<Rightarrow> b1\<lparr>cb_notice := Some (describe_error e), cb_busy := False\<rparr>))"

section \<open>What the chain has settled\<close>

record history_prize =
  hz_wallet :: string
  hz_rank :: nat
  hz_amount :: string
  hz_claimed :: bool

record history_pool =
  hl_week :: nat
  hl_week_start :: string
  hl_strategy :: string
  hl_funded :: string
  hl_settled :: bool
  hl_prizes :: "history_prize list"

record prize_history =
  ph_pools :: "history_pool list"
  ph_funded :: string
  ph_pool_count :: nat
  ph_stale :: bool

record on_chain_card =
  oc_head :: string
  oc_none :: bool
  oc_weeks :: "(string \<times> string list) list"
  oc_source :: string

text \<open>Nothing is shown before the answer, nor when there is none to be had.\<close>

definition on_chain_card :: "device_words \<Rightarrow> int \<Rightarrow> (exn + prize_history) option \<Rightarrow> on_chain_card option" where
  "on_chain_card w tz read = (case read of
     Some (Inr h) \<Rightarrow>
       (let settled = filter hl_settled (ph_pools h) in Some
        \<lparr>oc_head = show_nat (ph_pool_count h) @ '' pools'' @ dot_mark @ micros (ph_funded h) @ '' AUSD funded'',
         oc_none = (settled = []),
         oc_weeks = List.map (\<lambda>p.
           (strategy_name (hl_strategy p) @ dot_mark @ ''week of '' @
              (case parse_date tz (hl_week_start p) of Num q \<Rightarrow> dw_date w \<lfloor>q\<rfloor> | _ \<Rightarrow> ''Invalid Date'') @ dot_mark @ ''pool '' @ micros (hl_funded p) @ '' AUSD'',
            List.map (\<lambda>z. ''#'' @ show_nat (hz_rank z) @ '' '' @ short_address (hz_wallet z) @ dot_mark @ micros (hz_amount z) @ '' AUSD'' @ dot_mark @
              (if hz_claimed z then ''claimed'' else ''unclaimed'')) (hl_prizes p))) (take 4 settled),
         oc_source = ''Indexed by Envio'' @ (if ph_stale h then dot_mark @ ''last known'' else [])\<rparr>)
   | _ \<Rightarrow> None)"

section \<open>The screen\<close>

datatype board_body = BoardBones | BoardEmpty string | BoardLines "board_line list" "board_line option" "pager option"

definition board_body :: "string option \<Rightarrow> board_screen \<Rightarrow> board_body" where
  "board_body address s = (case board_rows s of
     None \<Rightarrow> BoardBones
   | Some [] \<Rightarrow> BoardEmpty (if snd (bs_key s) = Week
       then ''Nobody has closed a trade on this board this week. The first one is the whole board.'' else ''No trades on this board yet.'')
   | Some standings \<Rightarrow>
       (let rows = rank_rows standings address in
        BoardLines (List.map2 (\<lambda>i r. board_line ((board_page_no s - 1) * page_size + i + 1) False r) [0..<length rows] rows)
          (map_option (own_board_line False) (own_line (Some rows) (board_you s)))
          (if board_page_count s > 1
           then Some (pager_view (board_page_no s) (Some (board_page_count s)) (board_page_no s < board_page_count s) (bs_loading s)) else None)))"

definition board_note :: "period \<Rightarrow> string" where
  "board_note shown_period = (if shown_period = Week
     then ''Ranked by what you traded this week'' @ dot_mark @ ''the pool is half the fees the week paid, funded and settled on-chain once they arrive'' @ dot_mark @ ''claimed here.''
     else ''Everything traded since launch. The prize is weekly: switch to This week.'')"

definition source_line :: "leaderboard \<Rightarrow> string" where
  "source_line lb = (case lb_prize lb of None \<Rightarrow> ''No prize pool this week''
     | Some p \<Rightarrow> ''Prizes paid by contract '' @ short_address (wp_contract p) @ dot_mark @ ''week '' @ show_nat (wp_week p) @
         (if wp_winners p \<noteq> [] then dot_mark @ ''last week: '' @ show_nat (length (wp_winners p)) @ '' winners'' else []))"

definition claim_offered :: "bool \<Rightarrow> leaderboard option \<Rightarrow> my_prizes option \<Rightarrow> jsnum option" where
  "claim_offered unlocked lb mine = (if unlocked \<and> (case lb of Some b \<Rightarrow> lb_prize b \<noteq> None | None \<Rightarrow> False) then unclaimed_total mine else None)"

section \<open>The ranks are the places\<close>

definition wire_standing :: "(rat \<Rightarrow> decimal) \<Rightarrow> board_row \<Rightarrow> standing" where
  "wire_standing dec b = \<lparr>sd_wallet = br_wallet b, sd_pnl = dec (br_pnl b), sd_trades = br_trades b, sd_volume = Some (dec (br_volume b))\<rparr>"

definition wire_you :: "(rat \<Rightarrow> decimal) \<Rightarrow> board_row \<times> nat \<Rightarrow> ranked_standing" where
  "wire_you dec y = \<lparr>sd_wallet = br_wallet (fst y), sd_pnl = dec (br_pnl (fst y)), sd_trades = br_trades (fst y),
     sd_volume = Some (dec (br_volume (fst y))), sd_rank = snd y\<rparr>"

text \<open>The platform as the screen asks it: \<open>since\<close> is where the period begins,
  \<open>wallet\<close> the one in the request's headers.\<close>

definition board_server ::
    "(rat \<Rightarrow> decimal) \<Rightarrow> journal_row list \<Rightarrow> (period \<Rightarrow> int) \<Rightarrow> int \<Rightarrow> string option \<Rightarrow> board_key \<Rightarrow> nat \<Rightarrow> standings" where
  "board_server dec table since until wallet k offset =
     (let p = standings_handler table (fst k) (since (snd k)) until wallet (Some page_size) (Some offset)
      in \<lparr>st_strategy = fst k, st_period = snd k, st_standings = List.map (wire_standing dec) (bp_lines p), st_players = bp_players p,
          st_next_offset = bp_next_offset p, st_you = map_option (wire_you dec) (bp_you p)\<rparr>)"

definition whole_board :: "(rat \<Rightarrow> decimal) \<Rightarrow> journal_row list \<Rightarrow> (period \<Rightarrow> int) \<Rightarrow> int \<Rightarrow> board_key \<Rightarrow> standing list" where
  "whole_board dec table since until k =
     List.map (wire_standing dec) (board_lines table (if fst k = ''all'' then [] else fst k) (since (snd k)) until)"

lemma board_source_page:
  "st_standings (board_server dec table since until wallet k n) = take page_size (drop n (whole_board dec table since until k))"
  "st_players (board_server dec table since until wallet k n) = length (whole_board dec table since until k)"
  "st_next_offset (board_server dec table since until wallet k n) =
     (let after = n + length (take page_size (drop n (whole_board dec table since until k)))
      in if after < length (whole_board dec table since until k) \<and> after > 0 then Some after else None)"
  by (auto simp: board_server_def standings_handler_def standings_page_def whole_board_def board_limit_def page_size_def
      take_map drop_map Let_def)

datatype board_event =
    PickBoard board_key
  | BoardNext
  | BoardPrev
  | BoardFirst "exn option"
  | BoardMore "exn option"

fun board_step :: "(board_key \<Rightarrow> nat \<Rightarrow> standings) \<Rightarrow> board_screen \<Rightarrow> board_event \<Rightarrow> board_screen" where
  "board_step src s (PickBoard k) = pick_board k s"
| "board_step src s BoardNext = board_next s"
| "board_step src s BoardPrev = board_prev s"
| "board_step src s (BoardFirst failed) = (case bs_first s of None \<Rightarrow> s
     | Some k \<Rightarrow> board_first_answered (case failed of Some e \<Rightarrow> Inl e | None \<Rightarrow> Inr (src k 0)) s)"
| "board_step src s (BoardMore failed) = (case bs_more s of None \<Rightarrow> s
     | Some (k, n) \<Rightarrow> board_more_answered (case failed of Some e \<Rightarrow> Inl e | None \<Rightarrow> Inr (src k n)) s)"

text \<open>No other board is picked while a further page is on its way, no further page
  is asked for while the first is, and the first comes.\<close>

fun board_calm :: "board_screen \<Rightarrow> board_event \<Rightarrow> bool" where
  "board_calm s (PickBoard k) = (bs_more s = None)"
| "board_calm s BoardNext = (bs_first s = None)"
| "board_calm s (BoardFirst failed) = (failed = None)"
| "board_calm s _ = True"

definition board_calm_step :: "(board_key \<Rightarrow> nat \<Rightarrow> standings) \<Rightarrow> board_screen \<Rightarrow> board_event \<Rightarrow> board_screen" where
  "board_calm_step src s e = (if board_calm s e then board_step src s e else s)"

text \<open>The pages read are the pages of the board, and the next one asked for is the
  next one there is.\<close>

definition book_ok :: "standing list \<Rightarrow> standings_book \<Rightarrow> bool" where
  "book_ok board b \<longleftrightarrow> bk_players b = length board \<and> bk_at b < length (bk_pages b) \<and>
     bk_pages b = List.map (\<lambda>i. page_slice board (Suc i) page_size) [0..<length (bk_pages b)] \<and>
     bk_next b = (let n = length (bk_pages b) * page_size in if n < length board then Some n else None)"

definition board_ok :: "(board_key \<Rightarrow> standing list) \<Rightarrow> board_screen \<Rightarrow> bool" where
  "board_ok boards s \<longleftrightarrow>
     (case bk_key (bs_book s) of None \<Rightarrow> True | Some k \<Rightarrow> book_ok (boards k) (bs_book s)) \<and>
     (case bs_more s of None \<Rightarrow> True | Some (k, n) \<Rightarrow>
        bs_loading s \<and> bs_first s = None \<and> bk_key (bs_book s) = Some k \<and> bk_next (bs_book s) = Some n)"

lemma page_size_pos [simp]: "0 < page_size" "page_size \<noteq> 0"
  by (simp_all add: page_size_def)

lemma after_page:
  "(let after = n + length (take page_size (drop n board)) in if after < length board \<and> after > 0 then Some after else None) =
   (if n + page_size < length board then Some (n + page_size) else None)"
  by (auto simp: Let_def page_size_def)

lemma board_step_ok:
  assumes "board_ok (whole_board dec table since until) s"
  shows "board_ok (whole_board dec table since until) (board_calm_step (board_server dec table since until wallet) s e)"
proof (cases "board_calm s e")
  case True
  note page = board_source_page[of dec table since until wallet]
  show ?thesis
  proof (cases e)
    case (BoardFirst failed)
    with True assms show ?thesis
      by (auto simp: board_calm_step_def board_ok_def book_ok_def board_first_answered_def page after_page page_slice_def Let_def split: option.splits)
  next
    case (BoardMore failed)
    show ?thesis
    proof (cases "bs_more s")
      case (Some kn)
      then obtain k n where kn: "bs_more s = Some (k, n)" by (cases kn) simp
      with assms have "book_ok (whole_board dec table since until k) (bs_book s)" "n = length (bk_pages (bs_book s)) * page_size" "n < length (whole_board dec table since until k)"
        by (auto simp: board_ok_def book_ok_def Let_def split: if_splits)
      with True assms BoardMore kn show ?thesis
        by (auto simp: board_calm_step_def board_ok_def book_ok_def board_more_answered_def page after_page slice_Suc Let_def add.commute split: option.splits)
    qed (use assms BoardMore in \<open>simp add: board_calm_step_def\<close>)
  qed (use True assms in \<open>auto simp: board_calm_step_def board_ok_def book_ok_def pick_board_def board_next_def board_prev_def board_current_def Let_def
         split: option.splits if_splits\<close>)
qed (use assms in \<open>simp add: board_calm_step_def\<close>)

interpretation board_machine: state_machine "board_calm_step (board_server dec table since until wallet)" "board_ok (whole_board dec table since until)"
  by unfold_locales (rule board_step_ok)

lemma ranked_slice:
  "List.map2 (\<lambda>i r. (k * page_size + i + 1, r)) [0..<length (page_slice board (k + 1) page_size)] (page_slice board (k + 1) page_size) =
   page_slice (zip [1..<Suc (length board)] board) (k + 1) page_size"
  by (rule nth_equalityI) (auto simp: slice_Suc simp del: upt_Suc)



section \<open>The rank under the board\<close>

lemma board_lines_descend: "sorted_wrt (\<lambda>a b. br_volume b \<le> br_volume a) (board_lines table strategy since until)"
proof -
  have "sorted_wrt (\<lambda>a b. (- br_volume a, br_wallet a) \<le> (- br_volume b, br_wallet b)) (board_lines table strategy since until)"
    using sorted_sort_key[of "\<lambda>b. (- br_volume b, br_wallet b)"] by (simp add: board_lines_def board_order_def sorted_map Let_def)
  then show ?thesis by (rule sorted_wrt_mono_rel[rotated]) (auto simp: less_eq_prod_def)
qed

lemma above_all_before:
  assumes "sorted_wrt (\<lambda>a b. v b \<le> (v a :: rat)) xs" "i < length xs"
  shows "filter (\<lambda>b. v (xs ! i) < v b) xs = filter (\<lambda>b. v (xs ! i) < v b) (take i xs)"
proof -
  have "filter (\<lambda>b. v (xs ! i) < v b) (drop i xs) = []"
  proof (rule filter_False, rule ballI)
    fix b assume "b \<in> set (drop i xs)"
    then obtain j where j: "j < length xs - i" "b = xs ! (i + j)" by (auto simp: in_set_conv_nth)
    then have "v b \<le> v (xs ! i)" using assms by (cases "j = 0") (auto simp: sorted_wrt_iff_nth_less)
    then show "\<not> v (xs ! i) < v b" by simp
  qed
  then show ?thesis by (metis append_Nil2 append_take_drop_id filter_append)
qed

text \<open>
  A wallet's rank under the board is the number of wallets that traded more,
  plus one; it is never past the wallet's place on the board, and it is that
  place exactly when no wallet before it on the board traded as much: where two
  wallets tie, the line under the board and the board itself disagree.
\<close>

theorem own_rank_and_place:
  assumes "i < length (board_lines table strategy since until)" "b = board_lines table strategy since until ! i" "lower (br_wallet b) = br_wallet b"
  shows "\<exists>rank. standing_of table strategy since until (br_wallet b) = Some (b, rank) \<and> rank \<le> i + 1 \<and>
    (rank = i + 1 \<longleftrightarrow> (\<forall>j < i. br_volume b < br_volume (board_lines table strategy since until ! j)))"
proof -
  let ?played = "filter (on_board strategy since until) (rows_of table)"
  let ?lines = "board_lines table strategy since until"
  let ?all = "List.map (line_of ?played) (remdups (List.map jr_wallet ?played))"
  have lines: "?lines = board_order ?all" by (simp add: board_lines_def Let_def)
  have "b \<in> set ?all" using assms(1,2) nth_mem[OF assms(1)] by (simp add: lines board_order_def)
  then obtain w where w: "b = line_of ?played w" "w \<in> set (List.map jr_wallet ?played)" by auto
  then have own: "br_wallet b = w" "br_trades b \<noteq> 0" by (auto simp: line_of_def Let_def filter_empty_conv)
  let ?above = "filter (\<lambda>c. br_volume b < br_volume c)"
  have "length (?above ?all) = length (?above ?lines)"
    by (simp add: lines board_order_def filter_sort)
  also have "?above ?lines = ?above (take i ?lines)"
    using above_all_before[OF board_lines_descend assms(1)] assms(2) by simp
  finally have count: "length (?above ?all) = length (?above (take i ?lines))" .
  have "standing_of table strategy since until (br_wallet b) = Some (b, length (?above ?all) + 1)"
    using own w assms(3) by (simp add: standing_of_def Let_def)
  also have "\<dots> = Some (b, length (?above (take i ?lines)) + 1)" by (simp only: count)
  finally have standing: "standing_of table strategy since until (br_wallet b) = Some (b, length (?above (take i ?lines)) + 1)" .
  have "length (?above (take i ?lines)) \<le> i" using assms(1) length_filter_le[of _ "take i ?lines"] by simp
  moreover have "length (?above (take i ?lines)) = i \<longleftrightarrow> (\<forall>j < i. br_volume b < br_volume (?lines ! j))"
  proof -
    have "length (take i ?lines) = i" using assms(1) by simp
    then have "length (?above (take i ?lines)) = i \<longleftrightarrow> (\<forall>c \<in> set (take i ?lines). br_volume b < br_volume c)"
      by (metis (no_types, lifting) filter_id_conv length_filter_less less_irrefl)
    then show ?thesis using assms(1) by (auto simp: all_set_conv_all_nth)
  qed
  ultimately show ?thesis using standing by simp
qed

definition played_for :: "string \<Rightarrow> rat \<Rightarrow> journal_row" where
  "played_for wallet volume = \<lparr>jr_id = 0, jr_wallet = wallet, jr_strategy = ''rsi'', jr_symbol = ''MON'', jr_size = volume,
     jr_entry_price = 1, jr_pnl = 0, jr_opened_at = 1, jr_closed_at = Some 2\<rparr>"

text \<open>Two wallets that traded the same: the second on the board is ranked first below it.\<close>

theorem own_rank_and_place_witness:
  "\<exists>b rank. standing_of [played_for ''0xa'' 5, played_for ''0xb'' 5] [] 0 9 ''0xb'' = Some (b, rank) \<and> rank < 2"
proof -
  let ?table = "[played_for ''0xa'' 5, played_for ''0xb'' 5]"
  let ?b = "\<lambda>w. \<lparr>br_wallet = w, br_pnl = 0, br_trades = 1, br_volume = 5\<rparr>"
  have ab: "(''0xa'' :: string) \<le> ''0xb''" "\<not> (''0xb'' :: string) \<le> ''0xa''" by (simp_all add: less_char_def less_eq_char_def)
  have lines: "board_lines ?table [] 0 9 = [?b ''0xa'', ?b ''0xb'']"
    using ab by (simp add: board_lines_def board_order_def rows_of_def on_board_def line_of_def played_for_def Let_def)
  have "lower ''0xb'' = ''0xb''" by (simp add: lower_def lower_char_def code_of_def)
  then show ?thesis
    using own_rank_and_place[of 1 ?table "[]" 0 9 "?b ''0xb''"] by (auto simp: lines)
qed

section \<open>What fails quietly\<close>

text \<open>A board that could not be read is shown as a board nobody is on.\<close>

lemma unread_board_looks_empty:
  "bs_first s = Some (bs_key s) \<Longrightarrow> \<exists>words. board_body address (board_first_answered (Inl e) s) = BoardEmpty words"
  by (simp add: board_body_def board_rows_def board_first_answered_def board_current_def)

text \<open>A claim that fails half way does not read the prizes again, and the next press
  begins with the first of them again: when the contract refuses what it has
  already paid, the prizes behind it are out of reach.\<close>

lemma claim_run_keeps_reloads: "claim_run send ps weeks b = (b', e) \<Longrightarrow> cb_reloads b' = cb_reloads b"
  by (induction ps arbitrary: b) (auto simp: Let_def split: if_splits sum.splits)

lemma failed_claim_reads_nothing:
  "cb_notice (press_claim send (Some m) b) \<noteq> Some ''In your wallet.'' \<Longrightarrow> cb_reloads (press_claim send (Some m) b) = cb_reloads b"
  by (auto simp: press_claim_def dest!: claim_run_keeps_reloads split: prod.splits option.splits)

lemma refused_claim_stops_the_rest:
  assumes "mp_prizes m = p # ps" "\<not> pw_claimed p" "mp_weeks m = k # ks" "send (cb_sent b) (Some k, pw_strategy p) = Inl e"
  shows "cb_sent (press_claim send (Some m) b) = cb_sent b @ [(Some k, pw_strategy p)]"
  using assms by (simp add: press_claim_def upt_conv_Cons del: upt_Suc)

end
