(* ===== verification/Controls.thy ===== *)
theory Controls
  imports Show
begin

text \<open>
  The controls screens are made of, as far as they decide anything: the slider
  (ui/slider.tsx) and the way back it holds off (ui/gesture.ts, ui/stub.tsx), the
  gauges and their motion (risk/gauge.tsx, ui/anim.tsx), buttons and direction
  keys (ui/button.tsx), bars and insets (ui/surface.tsx, ui/inset.ts) and copying
  (ui/clipboard.ts).
\<close>

section \<open>A slider\<close>

definition grip_width :: jsnum where "grip_width = 18"

definition slider_span :: "jsnum \<Rightarrow> jsnum \<Rightarrow> jsnum" where
  "slider_span lo hi = math_max 1 (hi - lo)"

definition slider_ratio :: "jsnum \<Rightarrow> jsnum \<Rightarrow> jsnum \<Rightarrow> jsnum" where
  "slider_ratio value lo hi = math_min 1 (math_max 0 ((value - lo) / slider_span lo hi))"

text \<open>The value a finger at \<open>x\<close> on a track of this width stands for.\<close>

definition slider_value :: "jsnum \<Rightarrow> jsnum \<Rightarrow> jsnum \<Rightarrow> jsnum \<Rightarrow> jsnum \<Rightarrow> jsnum" where
  "slider_value width lo hi step x =
     (let w = math_max 1 (width - grip_width);
          raw = lo + (math_min w (math_max 0 (x - grip_width / 2)) / w) * slider_span lo hi;
          snapped = math_round (raw / step) * step
      in math_min hi (math_max lo snapped))"

section \<open>The gauges\<close>

definition ease_out :: "jsnum \<Rightarrow> jsnum" where
  "ease_out t = 1 - (1 - t) * (1 - t) * (1 - t)"

text \<open>A number on its way: the value drawn when \<open>elapsed\<close> of the \<open>settle\<close> time has
  passed, and whether it has arrived.\<close>

definition grow_step :: "jsnum \<Rightarrow> jsnum \<Rightarrow> jsnum \<Rightarrow> jsnum \<Rightarrow> jsnum \<times> bool" where
  "grow_step start to settle elapsed =
     (let k = math_min 1 (elapsed / settle) in
      if 1 \<le> k then (to, True) else (start + (to - start) * ease_out k, False))"

definition gauge_target :: "jsnum option \<Rightarrow> jsnum option" where
  "gauge_target pc = map_option (\<lambda>p. math_max 0 (math_min 100 p)) pc"

record gauge_drawing =
  gd_label :: string
  gd_angle :: jsnum
  gd_offset :: "jsnum option"

definition risk_gauge :: "jsnum option \<Rightarrow> jsnum \<Rightarrow> gauge_drawing" where
  "risk_gauge pc p =
     \<lparr>gd_label = (if gauge_target pc = None then ''Reading your risk'' else ''Risk '' @ js_string (math_round p) @ '' percent''),
      gd_angle = Num (- 80) + p * Num (8 / 5),
      gd_offset = (if p > Num (6 / 10) then Some (math_round (345 - (345 * p) / 100)) else None)\<rparr>"

record ring_drawing =
  rg_label :: string
  rg_offset :: "jsnum option"
  rg_text :: "string option"

definition strategy_ring :: "jsnum option \<Rightarrow> jsnum \<Rightarrow> ring_drawing" where
  "strategy_ring pc p =
     \<lparr>rg_label = (if gauge_target pc = None then ''Reading'' else js_string (math_round p) @ '' percent of the budget''),
      rg_offset = (if p > Num (6 / 10) then Some (math_round (163 - (163 * p) / 100)) else None),
      rg_text = (if gauge_target pc = None then None else Some (js_string (math_round p) @ ''%''))\<rparr>"

section \<open>Holding the way back\<close>

text \<open>Whether the finger is held, what the screen was last told, and what it was
  told all along; a screen outside a stack refuses to be told.\<close>

record gesture_hold =
  gh_held :: bool
  gh_enabled :: bool

definition fresh_hold :: gesture_hold where
  "fresh_hold = \<lparr>gh_held = False, gh_enabled = True\<rparr>"

definition hold_gesture :: "bool \<Rightarrow> bool \<Rightarrow> gesture_hold \<Rightarrow> gesture_hold" where
  "hold_gesture in_stack held g = (if gh_held g = held then g
     else g\<lparr>gh_held := held, gh_enabled := (if in_stack then \<not> held else gh_enabled g)\<rparr>)"

definition leave_hold :: "bool \<Rightarrow> gesture_hold \<Rightarrow> gesture_hold" where
  "leave_hold in_stack g = (if \<not> gh_held g then g
     else g\<lparr>gh_held := False, gh_enabled := (if in_stack then True else gh_enabled g)\<rparr>)"

text \<open>The slider holds it from the finger's landing to its lifting or being taken.\<close>

datatype touch = Grant jsnum | Move jsnum | Release | Terminate

definition slider_touch :: "bool \<Rightarrow> jsnum \<Rightarrow> jsnum \<Rightarrow> jsnum \<Rightarrow> jsnum \<Rightarrow> touch \<Rightarrow> gesture_hold \<Rightarrow> gesture_hold \<times> jsnum option" where
  "slider_touch in_stack width lo hi step t g = (case t of
     Grant x \<Rightarrow> (hold_gesture in_stack True g, Some (slider_value width lo hi step x))
   | Move x \<Rightarrow> (g, Some (slider_value width lo hi step x))
   | Release \<Rightarrow> (hold_gesture in_stack False g, None)
   | Terminate \<Rightarrow> (hold_gesture in_stack False g, None))"

definition go_back :: "bool \<Rightarrow> string option" where
  "go_back can_go_back = (if can_go_back then None else Some ''/'')"

section \<open>Buttons and keys\<close>

datatype button_variant = Primary | Outline | Danger

record button_skin =
  bn_pressable :: bool
  bn_fill :: string
  bn_text :: string
  bn_line :: string
  bn_spinner :: bool

definition skin_of :: "button_variant \<Rightarrow> bool \<Rightarrow> string \<times> string \<times> string" where
  "skin_of v off = (if off then (''hair'', ''dim'', ''hair'') else case v of
     Primary \<Rightarrow> (''fill'', ''onFill'', ''fill'') | Danger \<Rightarrow> (''danger'', ''onDanger'', ''danger'')
   | Outline \<Rightarrow> (''transparent'', ''ink'', ''btnLine''))"

definition button_skin :: "button_variant \<Rightarrow> bool \<Rightarrow> bool \<Rightarrow> button_skin" where
  "button_skin v disabled busy = (let off = disabled \<or> busy in case skin_of v off of (fill, txt, line) \<Rightarrow>
     \<lparr>bn_pressable = \<not> off, bn_fill = fill, bn_text = txt, bn_line = line, bn_spinner = busy\<rparr>)"

datatype key_side = KeyUp | KeyDown

record key_view =
  kv_side :: key_side
  kv_filled :: bool
  kv_dimmed :: bool
  kv_busy :: bool
  kv_caption :: string
  kv_pressable :: bool

definition key_view :: "key_side option \<Rightarrow> bool \<Rightarrow> bool \<Rightarrow> key_side option \<Rightarrow> key_side \<Rightarrow> key_view" where
  "key_view recommended always_armed disabled busy side =
     \<lparr>kv_side = side,
      kv_filled = (case busy of Some b \<Rightarrow> b = side | None \<Rightarrow> always_armed \<or> recommended = Some side),
      kv_dimmed = (busy \<noteq> None \<and> busy \<noteq> Some side), kv_busy = (busy = Some side),
      kv_caption = (if busy = Some side then ''opening'' @ ellipsis
        else if recommended = Some side then ''take the signal''
        else if recommended \<noteq> None then ''against the signal''
        else if side = KeyUp then ''it rises'' else ''it falls''),
      kv_pressable = (\<not> disabled \<and> busy = None)\<rparr>"

definition direction_keys :: "key_side option \<Rightarrow> bool \<Rightarrow> bool \<Rightarrow> key_side option \<Rightarrow> key_view list" where
  "direction_keys recommended always_armed disabled busy =
     List.map (key_view recommended always_armed disabled busy) [KeyUp, KeyDown]"

section \<open>Bars, insets and copying\<close>

definition progress_width :: "jsnum \<Rightarrow> jsnum" where
  "progress_width value = math_max 0 (math_min 100 value)"

definition dots_on :: "nat \<Rightarrow> nat \<Rightarrow> bool list" where
  "dots_on count here = List.map (\<lambda>i. i \<le> here) [0..<count]"

definition top_room :: "jsnum \<Rightarrow> jsnum \<Rightarrow> jsnum" where
  "top_room inset room = math_round inset + room"

definition bottom_room :: "jsnum \<Rightarrow> jsnum \<Rightarrow> jsnum" where
  "bottom_room inset room = math_max (math_round inset) room"

text \<open>No line of text is set tighter than its face allows.\<close>

datatype face_kind = NumFace | DisplayFace

definition line_of_face :: "face_kind \<Rightarrow> jsnum" where
  "line_of_face k = (case k of NumFace \<Rightarrow> Num (3 / 2) | DisplayFace \<Rightarrow> Num (13 / 10))"

definition line_box :: "face_kind \<Rightarrow> jsnum \<Rightarrow> jsnum \<Rightarrow> jsnum" where
  "line_box k font_size wanted = font_size * math_max wanted (line_of_face k)"

datatype copied = Copied | Shared | CopyFailed

text \<open>\<open>write\<close> is whether the browser's clipboard took it, \<open>sheet\<close> what became of the
  phone's share sheet: nothing when it failed, else whether it was shared.\<close>

definition copy_text :: "bool \<Rightarrow> bool \<Rightarrow> bool option \<Rightarrow> copied" where
  "copy_text web write sheet = (if web then (if write then Copied else CopyFailed)
     else case sheet of Some True \<Rightarrow> Shared | _ \<Rightarrow> CopyFailed)"

section \<open>The slider stays on its track\<close>

definition track :: "rat \<Rightarrow> rat" where "track w = max 1 (w - 18)"

lemma slider_value_Num:
  assumes "0 < st"
  shows "slider_value (Num w) (Num lo) (Num hi) (Num st) (Num x) =
    Num (min hi (max lo (of_int \<lfloor>(lo + min (track w) (max 0 (x - 9)) / track w * max 1 (hi - lo)) / st + 1 / 2\<rfloor> * st)))"
proof -
  have "track w \<noteq> 0" by (simp add: track_def max_def)
  then show ?thesis using assms
    by (simp add: slider_value_def slider_span_def grip_width_def js_eval Let_def flip: track_def)
qed

lemma round_whole: "\<lfloor>of_int k + 1 / 2 :: rat\<rfloor> = k"
  by (simp add: floor_eq_iff)

text \<open>
  A slider only ever says what it can hold: wherever the finger is and however
  wide the track, the value is within its bounds; a finger further to the right
  never means less; and both ends can be reached when the bounds are multiples
  of the step.
\<close>

theorem slider_stays_on_track:
  assumes "0 < st" "lo \<le> hi"
  shows "let value = \<lambda>x. slider_value (Num w) (Num lo) (Num hi) (Num st) (Num x) in
    (Num lo \<le> value x \<and> value x \<le> Num hi) \<and> (x \<le> y \<longrightarrow> value x \<le> value y) \<and>
    (lo = of_int k * st \<and> x \<le> 9 \<longrightarrow> value x = Num lo) \<and>
    (hi = of_int m * st \<and> x \<ge> 9 + track w \<longrightarrow> value x = Num hi)"
proof -
  let ?raw = "\<lambda>x. lo + min (track w) (max 0 (x - 9)) / track w * max 1 (hi - lo)"
  have w: "0 < track w" by (simp add: track_def max_def)
  have "x \<le> y \<Longrightarrow> ?raw x \<le> ?raw y" using w by (intro add_left_mono mult_right_mono divide_right_mono) auto
  then have mono: "x \<le> y \<Longrightarrow> (of_int \<lfloor>?raw x / st + 1 / 2\<rfloor> * st :: rat) \<le> of_int \<lfloor>?raw y / st + 1 / 2\<rfloor> * st"
    using assms(1) by (intro mult_right_mono) (auto intro!: floor_mono divide_right_mono)
  have left: "x \<le> 9 \<Longrightarrow> ?raw x = lo" using w by simp
  have right: "hi \<le> of_int \<lfloor>?raw x / st + 1 / 2\<rfloor> * st" if "hi = of_int m * st" "x \<ge> 9 + track w"
  proof -
    have "hi \<le> ?raw x" using that w by (simp add: max_def)
    then have "of_int m \<le> ?raw x / st" using that(1) assms(1) by (simp add: le_divide_eq)
    then have "m \<le> \<lfloor>?raw x / st + 1 / 2\<rfloor>" by (simp add: le_floor_iff)
    then show ?thesis using that(1) assms(1) by simp
  qed
  show ?thesis unfolding Let_def slider_value_Num[OF assms(1)]
  proof (intro conjI impI)
    assume "lo = of_int k * st \<and> x \<le> 9"
    then have "?raw x = of_int k * st" using left by (simp only:)
    then have "?raw x / st = of_int k" using assms(1) by (simp only:) simp
    then show "Num (min hi (max lo (of_int \<lfloor>?raw x / st + 1 / 2\<rfloor> * st))) = Num lo"
      using \<open>lo = _ \<and> _\<close> assms(2) by (simp only: round_whole) simp
  next
    assume "x \<le> y"
    then have "min hi (max lo (of_int \<lfloor>?raw x / st + 1 / 2\<rfloor> * st)) \<le> min hi (max lo (of_int \<lfloor>?raw y / st + 1 / 2\<rfloor> * st))"
      by (intro min.mono max.mono mono order_refl)
    then show "Num (min hi (max lo (of_int \<lfloor>?raw x / st + 1 / 2\<rfloor> * st))) \<le> Num (min hi (max lo (of_int \<lfloor>?raw y / st + 1 / 2\<rfloor> * st)))"
      by (simp only: less_eq_jsnum.simps)
  next
    assume "hi = of_int m * st \<and> 9 + track w \<le> x"
    then have "hi \<le> of_int \<lfloor>?raw x / st + 1 / 2\<rfloor> * st" by (intro right) simp_all
    then show "Num (min hi (max lo (of_int \<lfloor>?raw x / st + 1 / 2\<rfloor> * st))) = Num hi"
      using order_trans[OF assms(2)] by (simp only: max.absorb2 min.absorb1)
  qed (simp_all only: less_eq_jsnum.simps min.bounded_iff max.cobounded1 min.cobounded1 assms(2) conj_absorb)
qed

theorem slider_stays_on_track_witness:
  "slider_value (Num 318) (Num 1) (Num 25) (Num 1) (Num 4) = Num 1"
  using slider_stays_on_track[of 1 1 25 318 4 4 1 25] by simp

section \<open>The way back is given back\<close>

lemma touch_keeps: "gh_enabled g = (\<not> gh_held g) \<Longrightarrow>
  gh_enabled (fst (slider_touch True width lo hi step t g)) = (\<not> gh_held (fst (slider_touch True width lo hi step t g)))"
  by (cases t) (auto simp: slider_touch_def hold_gesture_def)

interpretation held_gesture: state_machine "\<lambda>g t. fst (slider_touch True width lo hi step t g)" "\<lambda>g. gh_enabled g = (\<not> gh_held g)"
  by unfold_locales (rule touch_keeps)

text \<open>
  A drag never costs the way back: however fingers land, move, lift and are
  taken, the screen's own gesture is off exactly while a finger is held, it is on
  after every finger that lifted or was taken, and once the screen is left.
\<close>

theorem way_back_returns:
  "let g = foldl (\<lambda>g t. fst (slider_touch True width lo hi step t g)) fresh_hold ts in
     gh_enabled g = (\<not> gh_held g) \<and> gh_enabled (leave_hold True g) \<and>
     (ts \<noteq> [] \<and> last ts \<in> {Release, Terminate} \<longrightarrow> gh_enabled g)"
proof -
  let ?run = "\<lambda>ts. foldl (\<lambda>g t. fst (slider_touch True width lo hi step t g)) fresh_hold ts"
  have "gh_enabled (?run ts) = (\<not> gh_held (?run ts))" for ts
    by (rule held_gesture.run_inv) (simp add: fresh_hold_def)
  moreover have "gh_enabled (?run ts)" if "ts \<noteq> []" "last ts \<in> {Release, Terminate}"
  proof -
    from that(1) obtain us t where ts: "ts = us @ [t]" by (cases ts rule: rev_cases) auto
    show ?thesis using that(2) calculation[of us] by (auto simp: ts slider_touch_def hold_gesture_def)
  qed
  ultimately show ?thesis by (simp add: Let_def leave_hold_def)
qed

theorem way_back_returns_witness:
  "gh_enabled (foldl (\<lambda>g t. fst (slider_touch True (Num 300) 1 25 1 t g)) fresh_hold [Grant (Num 4), Move (Num 90), Release])"
  by (rule way_back_returns[of "Num 300" 1 25 1 "[Grant (Num 4), Move (Num 90), Release]", unfolded Let_def, THEN conjunct2, THEN conjunct2, THEN mp]) simp

section \<open>One key at a time\<close>

text \<open>While an order is on its way neither key can be pressed, the one that sent it
  is filled and the other steps back.\<close>

lemma busy_key:
  "k \<in> set (direction_keys recommended armed disabled (Some side)) \<Longrightarrow>
   \<not> kv_pressable k \<and> (kv_filled k \<longleftrightarrow> kv_side k = side) \<and> (kv_dimmed k \<longleftrightarrow> kv_side k \<noteq> side)"
  by (auto simp: direction_keys_def key_view_def)

end
