(* ===== verification/RiskScreen.thy ===== *)
theory RiskScreen
  imports Risk Client Controls
begin

text \<open>
  The risk screen (app/risk.tsx) and the screen of
  everything closed (app/closed.tsx): the day's reading, the budget, what is open,
  the limits a wallet may move between the safe tier and the ceiling, and the one
  red button.
\<close>

section \<open>The report and today's round trips\<close>

datatype risk_problem = RiskLocked | RiskOffline

record risk_feed =
  rf_report :: "risk_report option"
  rf_problem :: "risk_problem option"

definition risk_refresh :: "exn + risk_report \<Rightarrow> risk_feed \<Rightarrow> risk_feed" where
  "risk_refresh res s = (case res of
     Inr r \<Rightarrow> s\<lparr>rf_report := Some r, rf_problem := None\<rparr>
   | Inl e \<Rightarrow> if has_code ''network'' e then s\<lparr>rf_problem := Some RiskOffline\<rparr>
       else if has_code ''own_account_disabled'' e \<or> has_code ''no_key'' e then s\<lparr>rf_problem := Some RiskLocked\<rparr>
       else s)"

definition risk_strategies :: "string list" where
  "risk_strategies = [''direction'', ''ma-cross'', ''rsi'', ''donchian'', ''orb'']"

definition risk_routes :: "(string \<times> string) list" where
  "risk_routes = [(''direction'', ''/direction''), (''ma-cross'', ''/ma-cross''), (''rsi'', ''/rsi''), (''donchian'', ''/donchian''), (''orb'', ''/orb'')]"

text \<open>A strategy that does not answer has no trades.\<close>

definition today_trades :: "int \<Rightarrow> int \<Rightarrow> (string \<Rightarrow> exn + trade list) \<Rightarrow> trade list" where
  "today_trades tz now read =
     filter (\<lambda>t. given (td_closed_at t) \<and> Num (of_int (day_start tz now)) \<le> parse_date tz (the (td_closed_at t)))
       (List.concat (List.map (\<lambda>s. case read s of Inr ts \<Rightarrow> ts | Inl _ \<Rightarrow> []) risk_strategies))"

datatype risk_view = RiskStalled string | RiskDrawn bool

definition risk_badge :: "risk_feed \<Rightarrow> string" where
  "risk_badge s = (case rf_problem s of Some RiskOffline \<Rightarrow> ''OFFLINE'' | Some RiskLocked \<Rightarrow> ''SIGN IN'' | None \<Rightarrow> ''TESTNET'')"

definition risk_view :: "risk_feed \<Rightarrow> risk_view" where
  "risk_view s = (case (rf_report s, rf_problem s) of
     (None, Some RiskLocked) \<Rightarrow> RiskStalled ''Sign in with your passkey and open an account to see your risk.''
   | (None, Some RiskOffline) \<Rightarrow> RiskStalled ''Server unreachable''
   | (report, _) \<Rightarrow> RiskDrawn (report \<noteq> None))"

text \<open>The way to the danger zone is travelled once, when a limit was named.\<close>

definition show_zone :: "string option \<Rightarrow> jsnum \<Rightarrow> jsnum \<Rightarrow> bool \<Rightarrow> bool \<times> jsnum option" where
  "show_zone focus body_top y travelled =
     (if \<not> given focus \<or> travelled then (travelled, None) else (True, Some (math_max 0 (body_top + y - 12))))"

section \<open>The day\<close>

definition active_budget :: "risk_report \<Rightarrow> jsnum" where
  "active_budget r = (case lb_active (rr_limits r) of Some l \<Rightarrow> js_number (lm_daily_loss l) | None \<Rightarrow> 0)"

definition day_reading :: "risk_report \<Rightarrow> jsnum \<times> string" where
  "day_reading r =
     (let budget = active_budget r;
          lost = js_number (rt_daily_loss (rr_totals r));
          stake = js_number (rt_at_risk (rr_totals r));
          pc = (if budget > 0 then math_min 100 (math_round (((stake + lost) / budget) * 100)) else 0);
          n = length (rr_open r)
      in (pc,
          if num_eq pc 0 then ''Nothing open. The whole day's budget is still yours.''
          else show_nat n @ '' '' @ plural n ''trade'' @ '' open'' @ dot_mark @ to_fixed stake 2 @ '' AUSD can still be lost right now.''))"

datatype day_colour = DayCalm | DayWarm | DayHot

definition day_colour :: "jsnum \<Rightarrow> day_colour" where
  "day_colour pc = (if pc < 34 then DayCalm else if pc < 67 then DayWarm else DayHot)"

record budget_block =
  bb_amount :: string
  bb_lost :: jsnum
  bb_stake :: jsnum
  bb_line :: string
  bb_resets :: string

definition budget_left :: "risk_report \<Rightarrow> jsnum" where
  "budget_left r = math_max 0 (active_budget r - js_number (rt_daily_loss (rr_totals r)))"

definition budget_block :: "device_words \<Rightarrow> int \<Rightarrow> risk_report \<Rightarrow> budget_block" where
  "budget_block w tz r =
     (let budget = active_budget r;
          lost = js_number (rt_daily_loss (rr_totals r));
          stake = math_min (js_number (rt_at_risk (rr_totals r))) (budget_left r)
      in \<lparr>bb_amount = to_fixed lost 2 @ '' of '' @ to_fixed budget 0,
          bb_lost = (if budget > 0 then math_min 100 ((lost / budget) * 100) else 0),
          bb_stake = (if budget > 0 then math_min 100 ((stake / budget) * 100) else 0),
          bb_line = to_fixed lost 2 @ '' lost'' @ dot_mark @ to_fixed stake 2 @ '' at stake now'' @ dot_mark @ to_fixed (budget_left r) 2 @
            '' left. At '' @ to_fixed budget 0 @ '' the day closes itself.'',
          bb_resets = ''The budget starts over at '' @ time_or ''midnight UTC'' w tz (lb_day_resets_at (rr_limits r)) @ '' your time.''\<rparr>)"

record ring_card =
  rc_percent :: jsnum
  rc_name :: string
  rc_size :: string

definition times_text :: string where "times_text = [CHR '' '', CHR 0xC3, CHR 0x97, CHR '' '']"

definition ring_card :: "risk_report \<Rightarrow> risk_strategy \<Rightarrow> ring_card" where
  "ring_card r s =
     (let budget = active_budget r;
          stake = foldl (\<lambda>sum p. sum + js_number (rp_at_risk p)) 0 (rs_open s)
      in \<lparr>rc_percent = (if budget > 0 then math_min 100 (math_round ((stake / budget) * 100)) else 0),
          rc_name = (case map_of strategy_short (rs_id s) of Some n \<Rightarrow> n | None \<Rightarrow> rs_name s),
          rc_size = (case rs_open s of [] \<Rightarrow> ''quiet'' | p # _ \<Rightarrow> to_fixed (js_number (ps_collateral p)) 2 @ times_text @ trim (ps_leverage p) @ ''x'')\<rparr>)"

record open_row =
  or_to :: string
  or_title :: string
  or_sub :: string
  or_pnl :: string
  or_colour :: sign_colour

definition open_row :: "int \<Rightarrow> int \<Rightarrow> risk_position \<Rightarrow> open_row" where
  "open_row tz now p =
     (let pnl = js_number (ps_unrealized_pnl p);
          stop_text = (case ps_stop_pnl p of Some v \<Rightarrow> ''stop '' @ money_in 0 (js_number v) | None \<Rightarrow> ''no stop'')
      in \<lparr>or_to = (case map_of risk_routes (rp_strategy p) of Some t \<Rightarrow> t | None \<Rightarrow> ''/''),
          or_title = strategy_name (rp_strategy p) @ dot_mark @ (if ps_side p = Long then ''Up'' else ''Down''),
          or_sub = to_fixed (js_number (ps_collateral p)) 2 @ times_text @ trim (ps_leverage p) @ ''x'' @ dot_mark @ stop_text @
            (case countdown tz now (ps_closes_at p) of None \<Rightarrow> [] | Some c \<Rightarrow> if c = [] then [] else dot_mark @ ''closes in '' @ c),
          or_pnl = money pnl, or_colour = sign_of pnl\<rparr>)"

definition open_head :: "risk_report \<Rightarrow> string" where
  "open_head r = to_fixed (js_number (rt_at_risk (rr_totals r))) 2 @ '' AUSD at stake''"

definition limit_rows :: "risk_report \<Rightarrow> jsnum \<Rightarrow> (string \<times> string) list" where
  "limit_rows r leverage =
     (let chosen = lb_chosen (rr_limits r) in
      [(''Per position'', ''up to '' @ trim (case lb_active (rr_limits r) of Some l \<Rightarrow> lm_max_leverage l | None \<Rightarrow> ''1'') @ ''x'' @ dot_mark @ ''your whole balance''),
       (''Daily loss'', to_fixed (active_budget r) 0 @ '' AUSD'' @ dot_mark @ js_string (lt_daily_loss_pct chosen) @ ''% of balance''),
       (''Open at once'', js_string (lt_max_open_positions chosen) @ '' '' @ (if num_eq (lt_max_open_positions chosen) 1 then ''position'' else ''positions'')),
       (''Cooldown between taps'', js_string (lt_cooldown_seconds chosen) @ '' s''),
       (''Liquidation'', to_fixed (100 / math_max 1 leverage) 1 @ ''% against you'')])"

definition week_rows :: "perf \<Rightarrow> string \<times> (string \<times> string) list" where
  "week_rows p =
     (js_string (pe_trades p) @ '' '' @ (if num_eq (pe_trades p) 1 then ''trade'' else ''trades''),
      [(''Result'', money (js_number (pe_pnl p)) @ '' AUSD''),
       (''Won'', js_string (pe_wins p) @ '' of '' @ js_string (pe_trades p)),
       (''Worst single tap'', money (js_number (pe_worst p))),
       (''Stops that fired'', js_string (case map_of (pe_by_reason p) ''stop'' of Some n \<Rightarrow> n | None \<Rightarrow> 0)),
       (''Fees paid'', to_fixed (js_number (pe_fees p)) 2)])"

datatype bar_colour = BarNow | BarPlayed | BarQuiet

text \<open>The bar of an hour: how high it stands while the row grows, and its colour.\<close>

definition hour_bar :: "int \<Rightarrow> jsnum \<Rightarrow> nat \<Rightarrow> jsnum \<Rightarrow> jsnum \<times> bar_colour" where
  "hour_bar hour grown i v =
     (let rise = math_max 0 (math_min 1 ((grown - Num (of_nat i) * 2) / 45))
      in (math_max 3 (v * rise), if int i = hour then BarNow else if truthy v then BarPlayed else BarQuiet))"

section \<open>The danger zone\<close>

text \<open>What the sliders show is the draft until it is applied; \<open>dz_sent\<close> is every
  tier sent and \<open>dz_flight\<close> those not answered yet.\<close>

record danger_zone =
  dz_draft :: "limit_tier option"
  dz_confirm :: bool
  dz_busy :: bool
  dz_notice :: "string option"
  dz_faded :: bool
  dz_sent :: "limit_tier list"
  dz_flight :: "limit_tier list"

definition fresh_zone :: danger_zone where
  "fresh_zone = \<lparr>dz_draft = None, dz_confirm = False, dz_busy = False, dz_notice = None, dz_faded = False, dz_sent = [], dz_flight = []\<rparr>"

definition zone_tier :: "limits_block \<Rightarrow> danger_zone \<Rightarrow> limit_tier" where
  "zone_tier l z = (case dz_draft z of Some t \<Rightarrow> t | None \<Rightarrow> lb_chosen l)"

definition zone_dirty :: "limits_block \<Rightarrow> danger_zone \<Rightarrow> bool" where
  "zone_dirty l z = (let t = zone_tier l z; c = lb_chosen l in
     \<not> num_eq (lt_daily_loss_pct t) (lt_daily_loss_pct c) \<or> \<not> num_eq (lt_max_open_positions t) (lt_max_open_positions c) \<or>
     \<not> num_eq (lt_cooldown_seconds t) (lt_cooldown_seconds c))"

definition past_safe :: "limits_block \<Rightarrow> limit_tier \<Rightarrow> bool" where
  "past_safe l t = (let s = lb_safe l in lt_daily_loss_pct t > lt_daily_loss_pct s \<or>
     lt_max_open_positions t > lt_max_open_positions s \<or> lt_cooldown_seconds t < lt_cooldown_seconds s)"

datatype limit_row = DailyLoss | OpenAtOnce | Cooldown

text \<open>The three sliders: their bounds, and what moving one does.\<close>

fun row_bounds :: "limits_block \<Rightarrow> limit_row \<Rightarrow> jsnum \<times> jsnum" where
  "row_bounds l DailyLoss = (1, lt_daily_loss_pct (lb_ceiling l))"
| "row_bounds l OpenAtOnce = (1, lt_max_open_positions (lb_ceiling l))"
| "row_bounds l Cooldown = (lt_cooldown_seconds (lb_ceiling l), 60)"

fun with_row :: "limit_row \<Rightarrow> jsnum \<Rightarrow> limit_tier \<Rightarrow> limit_tier" where
  "with_row DailyLoss v t = t\<lparr>lt_daily_loss_pct := v\<rparr>"
| "with_row OpenAtOnce v t = t\<lparr>lt_max_open_positions := v\<rparr>"
| "with_row Cooldown v t = t\<lparr>lt_cooldown_seconds := v\<rparr>"

definition slide_row :: "limits_block \<Rightarrow> limit_row \<Rightarrow> jsnum \<Rightarrow> jsnum \<Rightarrow> danger_zone \<Rightarrow> danger_zone" where
  "slide_row l row width x z = (case row_bounds l row of (lo, hi) \<Rightarrow>
     z\<lparr>dz_confirm := False, dz_draft := Some (with_row row (slider_value width lo hi 1 x) (zone_tier l z))\<rparr>)"

definition apply_tier :: "limits_block \<Rightarrow> limit_tier \<Rightarrow> danger_zone \<Rightarrow> danger_zone" where
  "apply_tier l t z = (if \<not> dz_confirm z \<and> past_safe l t then z\<lparr>dz_confirm := True\<rparr>
     else z\<lparr>dz_confirm := False, dz_busy := True, dz_notice := None, dz_sent := dz_sent z @ [t], dz_flight := dz_flight z @ [t]\<rparr>)"

definition tier_answered :: "limits_block \<Rightarrow> limit_tier \<Rightarrow> exn option \<Rightarrow> danger_zone \<Rightarrow> danger_zone" where
  "tier_answered l t failed z = (let z1 = z\<lparr>dz_busy := False, dz_flight := remove1 t (dz_flight z)\<rparr> in case failed of
     Some e \<Rightarrow> z1\<lparr>dz_notice := Some (describe_error e)\<rparr>
   | None \<Rightarrow> z1\<lparr>dz_draft := None, dz_notice := Some (if past_safe l t
       then ''Applied. You are past the safe tier: the stop and the budget are what is left.'' else ''Applied.'')\<rparr>)"

text \<open>The button is off when nothing is changed or an answer is awaited; the way
  back to the safe tier is a line of text, which is there when something is past it.\<close>

definition press_apply :: "limits_block \<Rightarrow> danger_zone \<Rightarrow> danger_zone" where
  "press_apply l z = (if bn_pressable (button_skin Primary (\<not> zone_dirty l z) (dz_busy z)) then apply_tier l (zone_tier l z) z else z)"

definition press_safe :: "limits_block \<Rightarrow> danger_zone \<Rightarrow> danger_zone" where
  "press_safe l z = (if past_safe l (lb_chosen l) \<or> past_safe l (zone_tier l z) then apply_tier l (lb_safe l) z else z)"

definition lit_row :: "string option \<Rightarrow> danger_zone \<Rightarrow> string option" where
  "lit_row focus z = (if given focus \<and> \<not> dz_faded z then focus else None)"

record zone_view =
  zv_safe :: string
  zv_rows :: "(string \<times> string \<times> bool \<times> bool) list"
  zv_title :: string
  zv_variant :: button_variant
  zv_reset :: bool
  zv_notice :: "string option"

definition zone_view :: "limits_block \<Rightarrow> string option \<Rightarrow> danger_zone \<Rightarrow> zone_view" where
  "zone_view l focus z =
     (let t = zone_tier l z; s = lb_safe l; lit = lit_row focus z in
      \<lparr>zv_safe = ''safe: '' @ js_string (lt_daily_loss_pct s) @ ''%'' @ dot_mark @ js_string (lt_max_open_positions s) @ '' open'' @ dot_mark @
         js_string (lt_cooldown_seconds s) @ '' s'',
       zv_rows = [(''Daily loss budget'', js_string (lt_daily_loss_pct t) @ ''% of balance'', lt_daily_loss_pct t > lt_daily_loss_pct s, lit = Some ''daily-loss''),
         (''Open at once'', js_string (lt_max_open_positions t), lt_max_open_positions t > lt_max_open_positions s, lit = Some ''open-positions''),
         (''Cooldown between taps'', js_string (lt_cooldown_seconds t) @ '' s'', lt_cooldown_seconds t < lt_cooldown_seconds s, lit = Some ''cooldown'')],
       zv_title = (if dz_busy z then ''Applying'' @ ellipsis else if dz_confirm z then ''Tap again to go past the safe tier'' else ''Apply''),
       zv_variant = (if dz_confirm z then Danger else if past_safe l t then Outline else Primary),
       zv_reset = (past_safe l (lb_chosen l) \<or> past_safe l t), zv_notice = dz_notice z\<rparr>)"

section \<open>Close everything\<close>

record closed_result =
  cr_strategy :: string
  cr_symbol :: string
  cr_closed :: bool
  cr_error :: "string option"
  cr_pnl :: "decimal option"

record close_all =
  ca_confirm :: nat
  ca_busy :: bool
  ca_error :: "string option"
  ca_calls :: nat
  ca_route :: "(jsnum \<times> closed_result list) option"

definition fresh_close :: close_all where
  "fresh_close = \<lparr>ca_confirm = 0, ca_busy = False, ca_error = None, ca_calls = 0, ca_route = None\<rparr>"

text \<open>A press arms the button for three seconds, another sends; with nothing open,
  or while it is busy, it does nothing.\<close>

definition press_close_all :: "nat \<Rightarrow> close_all \<Rightarrow> close_all" where
  "press_close_all open_count c = (if open_count = 0 \<or> ca_busy c then c
     else if ca_confirm c = 0 then c\<lparr>ca_confirm := 3\<rparr>
     else c\<lparr>ca_confirm := 0, ca_busy := True, ca_error := None, ca_calls := ca_calls c + 1\<rparr>)"

definition close_all_tick :: "close_all \<Rightarrow> close_all" where
  "close_all_tick c = (if ca_confirm c = 0 then c else c\<lparr>ca_confirm := ca_confirm c - 1\<rparr>)"

definition close_all_answered :: "exn + (jsnum \<times> closed_result list) \<Rightarrow> close_all \<Rightarrow> close_all" where
  "close_all_answered res c = (case res of
     Inr r \<Rightarrow> c\<lparr>ca_busy := False, ca_route := Some r\<rparr>
   | Inl e \<Rightarrow> c\<lparr>ca_busy := False, ca_error := Some (describe_error e)\<rparr>)"

definition close_all_view :: "nat \<Rightarrow> close_all \<Rightarrow> string \<times> bool \<times> string" where
  "close_all_view open_count c =
     ((if open_count = 0 then ''Nothing to close''
       else if ca_confirm c > 0 then ''Tap again to close everything'' @ dot_mark @ show_nat (ca_confirm c) else ''Close everything''),
      open_count > 0 \<and> \<not> ca_busy c,
      case ca_error c of Some e \<Rightarrow> e | None \<Rightarrow> ''One tap closes every open trade at market.'')"

section \<open>Everything closed\<close>

text \<open>What the screen reads of its parameter: the count as a number, the results when
  they are a list, nothing of a text that is not JSON.\<close>

definition read_closed :: "(jsnum \<times> closed_result list option) option \<Rightarrow> jsnum \<times> closed_result list" where
  "read_closed parsed = (case parsed of None \<Rightarrow> (0, [])
     | Some (n, rs) \<Rightarrow> (num_or n 0, case rs of Some xs \<Rightarrow> xs | None \<Rightarrow> []))"

definition closed_pnl :: "closed_result \<Rightarrow> jsnum" where
  "closed_pnl x = num_or (js_number_opt (cr_pnl x)) 0"

record closed_view =
  cv_head :: string
  cv_pnl :: string
  cv_line :: string
  cv_rows :: "(string \<times> string) list"

definition closed_view :: "jsnum \<times> closed_result list \<Rightarrow> closed_view" where
  "closed_view r =
     (let rows = filter cr_closed (snd r); failed = filter (\<lambda>x. \<not> cr_closed x) (snd r);
          pnl = foldl (\<lambda>sum x. sum + closed_pnl x) 0 rows;
          label = (\<lambda>x. strategy_name (cr_strategy x) @ dot_mark @ cr_symbol x)
      in \<lparr>cv_head = (if pnl \<ge> 0 then ''You made'' else ''You lost''), cv_pnl = money pnl,
          cv_line = ''AUSD'' @ dot_mark @ js_string (fst r) @ '' '' @ (if num_eq (fst r) 1 then ''position'' else ''positions'') @ '' closed at market'',
          cv_rows = List.map (\<lambda>x. (label x, money (closed_pnl x))) rows @
            List.map (\<lambda>x. (label x, case cr_error x of Some e \<Rightarrow> e | None \<Rightarrow> ''not closed'')) failed @
            [(''Nothing open now'', ''0 AUSD at risk'')]\<rparr>)"

section \<open>Past the safe tier only twice asked\<close>

datatype zone_event = Slide limit_row rat rat | PressApply | PressSafe | TierAnswered limit_tier "exn option" | Expire

fun zone_step :: "limits_block \<Rightarrow> danger_zone \<Rightarrow> zone_event \<Rightarrow> danger_zone" where
  "zone_step l z (Slide row width x) = slide_row l row (Num width) (Num x) z"
| "zone_step l z PressApply = press_apply l z"
| "zone_step l z PressSafe = press_safe l z"
| "zone_step l z (TierAnswered t failed) = tier_answered l t failed z"
| "zone_step l z Expire = z\<lparr>dz_confirm := False\<rparr>"

text \<open>The zone with the tier it last asked about.\<close>

definition zone_asking :: "limits_block \<Rightarrow> danger_zone \<times> limit_tier option \<Rightarrow> zone_event \<Rightarrow> danger_zone \<times> limit_tier option" where
  "zone_asking l za e = (let z' = zone_step l (fst za) e in
     (z', if dz_confirm z' \<and> \<not> dz_confirm (fst za) then Some (zone_tier l (fst za)) else snd za))"

definition between :: "jsnum \<Rightarrow> jsnum \<Rightarrow> jsnum \<Rightarrow> bool" where
  "between lo hi v \<longleftrightarrow> (case (lo, hi, v) of (Num a, Num b, Num q) \<Rightarrow> a \<le> q \<and> q \<le> b | _ \<Rightarrow> False)"

definition tier_in :: "limits_block \<Rightarrow> limit_tier \<Rightarrow> bool" where
  "tier_in l t \<longleftrightarrow> between 1 (lt_daily_loss_pct (lb_ceiling l)) (lt_daily_loss_pct t) \<and>
     between 1 (lt_max_open_positions (lb_ceiling l)) (lt_max_open_positions t) \<and>
     between (lt_cooldown_seconds (lb_ceiling l)) 60 (lt_cooldown_seconds t)"

definition block_ok :: "limits_block \<Rightarrow> bool" where
  "block_ok l \<longleftrightarrow> tier_in l (lb_chosen l) \<and> tier_in l (lb_safe l)"

definition zone_ok :: "limits_block \<Rightarrow> danger_zone \<times> limit_tier option \<Rightarrow> bool" where
  "zone_ok l za \<longleftrightarrow> tier_in l (zone_tier l (fst za)) \<and>
     (dz_confirm (fst za) \<longrightarrow> (\<exists>t. snd za = Some t \<and> (dz_draft (fst za) = Some t \<or> dz_draft (fst za) = None)))"

lemma between_Num: "between lo hi v \<Longrightarrow> \<exists>a b q. lo = Num a \<and> hi = Num b \<and> v = Num q \<and> a \<le> q \<and> q \<le> b"
  by (auto simp: between_def split: jsnum.splits)

lemma safe_not_past: "\<not> past_safe l (lb_safe l)"
  by (simp add: past_safe_def Let_def) (metis less_jsnum.simps jsnum.exhaust less_irrefl)

lemma slid_between:
  assumes "between lo hi v"
  shows "between lo hi (slider_value (Num w) lo hi 1 (Num x))"
proof -
  from between_Num[OF assms] obtain a b where ab: "lo = Num a" "hi = Num b" "a \<le> b" by auto
  then show ?thesis using slider_value_Num[of 1 w a b x] by (simp add: between_def one_Num)
qed

lemma slide_row_in: "tier_in l (zone_tier l z) \<Longrightarrow> tier_in l (zone_tier l (slide_row l row (Num w) (Num x) z))"
  using slid_between by (cases row) (auto simp: slide_row_def zone_tier_def tier_in_def)

lemma chosen_clean: "block_ok l \<Longrightarrow> dz_draft z = None \<Longrightarrow> \<not> zone_dirty l z"
  by (auto simp: zone_dirty_def zone_tier_def block_ok_def tier_in_def num_eq_def between_def Let_def split: jsnum.splits)

lemma zone_asking_ok: "block_ok l \<Longrightarrow> zone_ok l za \<Longrightarrow> zone_ok l (zone_asking l za e)"
proof (cases e)
  case (Slide row w x)
  assume "block_ok l" "zone_ok l za"
  then show ?thesis using slide_row_in[of l "fst za" row w x] Slide
    by (auto simp: zone_ok_def zone_asking_def slide_row_def Let_def split: prod.splits)
next
  case PressApply
  assume "block_ok l" "zone_ok l za"
  then show ?thesis using PressApply chosen_clean[of l "fst za"]
    by (cases "dz_draft (fst za)")
       (auto simp: zone_ok_def zone_asking_def press_apply_def apply_tier_def button_skin_def zone_tier_def Let_def split: prod.splits)
next
  case PressSafe
  assume "block_ok l" "zone_ok l za"
  then show ?thesis using PressSafe safe_not_past
    by (auto simp: zone_ok_def zone_asking_def press_safe_def apply_tier_def zone_tier_def Let_def)
next
  case (TierAnswered t failed)
  assume "block_ok l" "zone_ok l za"
  then show ?thesis using TierAnswered
    by (auto simp: zone_ok_def zone_asking_def tier_answered_def zone_tier_def block_ok_def Let_def split: option.splits)
next
  case Expire
  assume "block_ok l" "zone_ok l za"
  then show ?thesis using Expire by (auto simp: zone_ok_def zone_asking_def zone_tier_def Let_def)
qed

interpretation zone: guarded_machine "\<lambda>za (l, e). if block_ok l then zone_asking l za e else za" "\<lambda>(l', e). l' = l" "zone_ok l"
  by unfold_locales (auto intro: zone_asking_ok)

text \<open>
  C3. The limits a wallet sends are ones it may have and meant: whatever sliders
  are dragged, buttons pressed and answers awaited, a press sends at most one
  tier; that tier lies between the least a limit can be and the platform's
  ceiling; and when it goes past the safe tier, the screen was asking about
  exactly that tier and waiting for the second tap.
\<close>

theorem danger_is_asked_twice:
  assumes "block_ok l" "(z, asked) = foldl (zone_asking l) (fresh_zone, None) es"
  shows "dz_sent (zone_step l z e) = dz_sent z \<or>
    (\<exists>t. dz_sent (zone_step l z e) = dz_sent z @ [t] \<and> tier_in l t \<and> (past_safe l t \<longrightarrow> dz_confirm z \<and> asked = Some t))"
proof -
  have "foldl (\<lambda>za (l, e). if block_ok l then zone_asking l za e else za) za (List.map (Pair l) es) = foldl (zone_asking l) za es" for za
    using assms(1) by (induction es arbitrary: za) simp_all
  moreover have "zone_ok l (fresh_zone, None)" using assms(1) by (simp add: zone_ok_def fresh_zone_def zone_tier_def block_ok_def)
  ultimately have ok: "zone_ok l (z, asked)"
    using zone.guarded_run[of l "(fresh_zone, None)" "List.map (Pair l) es"] assms(2) by (simp add: list_all_iff)
  show ?thesis
  proof (cases e)
    case PressApply
    then show ?thesis using ok chosen_clean[OF assms(1), of z]
      by (cases "dz_draft z") (auto simp: zone_ok_def press_apply_def apply_tier_def button_skin_def zone_tier_def Let_def split: prod.splits)
  next
    case PressSafe
    then show ?thesis using assms(1) safe_not_past by (auto simp: press_safe_def apply_tier_def block_ok_def)
  qed (auto simp: slide_row_def tier_answered_def Let_def split: prod.splits option.splits)
qed

definition sample_block :: limits_block where
  "sample_block = (let tier = (\<lambda>d n c. \<lparr>lt_daily_loss_pct = d, lt_max_open_positions = n, lt_cooldown_seconds = c\<rparr>) in
     \<lparr>lb_chosen = tier 5 2 10, lb_safe = tier 5 2 10, lb_ceiling = tier 20 5 0, lb_active = None, lb_balance = None,
      lb_day_resets_at = ''''\<rparr>)"

text \<open>The daily loss is dragged to the end of its track, and Apply pressed twice.\<close>

definition sample_presses :: "zone_event list" where
  "sample_presses = [Slide DailyLoss 100 100, PressApply]"

lemma danger_is_asked_twice_witness:
  "let z = fst (foldl (zone_asking sample_block) (fresh_zone, None) sample_presses); t = zone_tier sample_block z in
     past_safe sample_block t \<and> dz_sent z = [] \<and> dz_sent (zone_step sample_block z PressApply) = [t] \<and> lt_daily_loss_pct t = 20 \<and>
     (dz_sent (zone_step sample_block z PressApply) = dz_sent z \<or>
      (\<exists>t. dz_sent (zone_step sample_block z PressApply) = dz_sent z @ [t] \<and> tier_in sample_block t \<and>
        (past_safe sample_block t \<longrightarrow> dz_confirm z \<and> snd (foldl (zone_asking sample_block) (fresh_zone, None) sample_presses) = Some t)))"
proof -
  have ok: "block_ok sample_block" by code_simp
  have run: "dz_sent z = []" "past_safe sample_block (zone_tier sample_block z)" "dz_sent (zone_step sample_block z PressApply) = [zone_tier sample_block z]"
    "lt_daily_loss_pct (zone_tier sample_block z) = 20"
    if "z = fst (foldl (zone_asking sample_block) (fresh_zone, None) sample_presses)" for z
    unfolding that by code_simp+
  show ?thesis
    using run danger_is_asked_twice[OF ok prod.collapse, of sample_presses PressApply] unfolding Let_def by blast
qed

section \<open>The bar of the budget\<close>

text \<open>
  C39. The two parts of the budget bar fit on it: with a budget, a loss and a
  stake that are not negative, what is lost and what is at stake are each between
  nothing and the whole, and together never longer than the bar, however far the
  loss or the stake is past the budget.
\<close>

theorem budget_fits_its_bar:
  assumes "active_budget r = Num b" "0 < b" "js_number (rt_daily_loss (rr_totals r)) = Num lost" "0 \<le> lost"
    "js_number (rt_at_risk (rr_totals r)) = Num stake" "0 \<le> stake"
  shows "\<exists>x y. bb_lost (budget_block w tz r) = Num x \<and> bb_stake (budget_block w tz r) = Num y \<and> 0 \<le> x \<and> 0 \<le> y \<and> x + y \<le> 100"
proof -
  let ?s = "min stake (max 0 (b - lost))"
  have v: "bb_lost (budget_block w tz r) = Num (min 100 (lost / b * 100))" "bb_stake (budget_block w tz r) = Num (min 100 (?s / b * 100))"
    using assms by (simp_all add: budget_block_def budget_left_def Let_def js_eval)
  have "lost / b * 100 \<le> 100 \<Longrightarrow> lost / b * 100 + ?s / b * 100 \<le> 100"
  proof -
    assume "lost / b * 100 \<le> 100"
    then have "lost \<le> b" using assms(2) by (simp add: field_simps)
    then have "lost + ?s \<le> b" by linarith
    then show ?thesis using assms(2) by (simp add: field_simps)
  qed
  moreover have "100 < lost / b * 100 \<Longrightarrow> ?s = 0" using assms(2,6) by (simp add: field_simps)
  ultimately have "min 100 (lost / b * 100) + min 100 (?s / b * 100) \<le> 100"
    by (cases "lost / b * 100 \<le> 100") (simp_all add: min_def)
  moreover have "0 \<le> min 100 (lost / b * 100)" "0 \<le> min 100 (?s / b * 100)" using assms(2,4,6) by simp_all
  ultimately show ?thesis using v by blast
qed

section \<open>One tap does not close everything\<close>

datatype close_event = PressClose nat | CloseTick | CloseAnswered "exn + (jsnum \<times> closed_result list)"

fun close_step :: "close_all \<Rightarrow> close_event \<Rightarrow> close_all" where
  "close_step c (PressClose n) = press_close_all n c"
| "close_step c CloseTick = close_all_tick c"
| "close_step c (CloseAnswered res) = close_all_answered res c"

definition presses :: "close_event list \<Rightarrow> nat" where
  "presses es = length (filter (\<lambda>e. case e of PressClose n \<Rightarrow> n > 0 | _ \<Rightarrow> False) es)"

definition seconds :: "close_event list \<Rightarrow> nat" where
  "seconds es = length (filter (\<lambda>e. e = CloseTick) es)"

text \<open>Armed with \<open>k\<close> seconds left means a press \<open>3 - k\<close> seconds ago.\<close>

definition armed_by :: "nat \<Rightarrow> close_event list \<Rightarrow> bool" where
  "armed_by k es \<longleftrightarrow> (\<exists>before n since. es = before @ PressClose n # since \<and> 0 < n \<and> seconds since + k = 3 \<and> presses since = 0)"

lemma armed_snoc: "armed_by k es \<Longrightarrow> presses [e] = 0 \<Longrightarrow> k = k' + seconds [e] \<Longrightarrow> armed_by k' (es @ [e])"
  unfolding armed_by_def by (elim exE conjE, rule exI, rule exI, rule exI[where x="since @ [e]" for since])
    (auto simp: seconds_def presses_def)

lemma close_run:
  "c = foldl close_step fresh_close es \<Longrightarrow>
     2 * ca_calls c + (if ca_confirm c = 0 then 0 else 1) \<le> presses es \<and> (ca_confirm c > 0 \<longrightarrow> armed_by (ca_confirm c) es \<and> \<not> ca_busy c)"
proof (induction es arbitrary: c rule: rev_induct)
  case Nil
  then show ?case by (simp add: fresh_close_def)
next
  case (snoc e es)
  let ?d = "foldl close_step fresh_close es"
  have ih: "2 * ca_calls ?d + (if ca_confirm ?d = 0 then 0 else 1) \<le> presses es" "ca_confirm ?d > 0 \<Longrightarrow> armed_by (ca_confirm ?d) es"
    "ca_confirm ?d > 0 \<Longrightarrow> \<not> ca_busy ?d"
    using snoc.IH[OF refl] by auto
  have c: "c = close_step ?d e" using snoc.prems by simp
  show ?case
  proof (cases e)
    case (PressClose n)
    have "armed_by 3 (es @ [PressClose n])" if "n > 0"
      unfolding armed_by_def using that by (intro exI[of _ es] exI[of _ n] exI[of _ "[]"]) (simp add: seconds_def presses_def)
    then show ?thesis using ih PressClose c armed_snoc[of "ca_confirm ?d" es e "ca_confirm ?d"]
      by (cases "n = 0") (auto simp: press_close_all_def presses_def seconds_def split: if_splits)
  next
    case CloseTick
    then show ?thesis using ih c armed_snoc[of "ca_confirm ?d" es e "ca_confirm ?d - 1"]
      by (auto simp: close_all_tick_def presses_def seconds_def split: if_splits)
  next
    case (CloseAnswered res)
    then show ?thesis using ih c armed_snoc[of "ca_confirm ?d" es e "ca_confirm ?d"]
      by (auto simp: close_all_answered_def presses_def seconds_def split: sum.splits)
  qed
qed

text \<open>
  C22. Everything closes only on a second tap: however often the button is
  pressed, time passes and answers come, a press asks the server at most once, and
  when it does there was a press before it, no more than two whole seconds
  earlier and with none between, and no earlier call is awaited; every call
  cost two presses of its own.
\<close>

theorem closing_takes_two_taps:
  "let c = foldl close_step fresh_close es in 2 * ca_calls c \<le> presses es \<and>
    (ca_calls (press_close_all n c) = ca_calls c \<or>
     ca_calls (press_close_all n c) = ca_calls c + 1 \<and> ca_busy c = False \<and> n > 0 \<and>
       (\<exists>before m since. es = before @ PressClose m # since \<and> 0 < m \<and> seconds since < 3 \<and> presses since = 0))"
proof -
  let ?c = "foldl close_step fresh_close es"
  have run: "2 * ca_calls ?c \<le> presses es" "ca_confirm ?c > 0 \<Longrightarrow> armed_by (ca_confirm ?c) es"
    using close_run[of ?c es] by auto
  have "\<exists>before m since. es = before @ PressClose m # since \<and> 0 < m \<and> seconds since < 3 \<and> presses since = 0" if "ca_confirm ?c > 0"
    using run(2)[OF that] that unfolding armed_by_def by fastforce
  then show ?thesis using run(1) by (auto simp: press_close_all_def Let_def)
qed

definition sample_report :: "decimal \<Rightarrow> decimal \<Rightarrow> limits option \<Rightarrow> risk_position list \<Rightarrow> risk_report" where
  "sample_report lost stake active rows =
     \<lparr>rr_wallet = ''w'', rr_limits = sample_block\<lparr>lb_active := active\<rparr>, rr_strategies = [], rr_open = rows,
      rr_totals = \<lparr>rt_exposure = ''0'', rt_at_risk = stake, rt_daily_loss = lost, rt_today = None, rt_week = None, rt_all = None\<rparr>,
      rr_market = [], rr_updated_at = ''''\<rparr>"

text \<open>A stake of 20 with 6 left of the budget is drawn as those 6.\<close>

lemma budget_fits_its_bar_witness:
  "let r = sample_report ''4'' ''20'' (Some (sample_limits\<lparr>lm_daily_loss := ''10''\<rparr>)) [];
       v = budget_block \<lparr>dw_time = (\<lambda>_. []), dw_date = (\<lambda>_. []), dw_weekday = (\<lambda>_. [])\<rparr> 0 r in
     bb_lost v = 40 \<and> bb_stake v = 60 \<and> (\<exists>x y. bb_lost v = Num x \<and> bb_stake v = Num y \<and> 0 \<le> x \<and> 0 \<le> y \<and> x + y \<le> 100)"
proof -
  let ?r = "sample_report ''4'' ''20'' (Some (sample_limits\<lparr>lm_daily_loss := ''10''\<rparr>)) []"
  have nums: "active_budget ?r = Num 10" "js_number (rt_daily_loss (rr_totals ?r)) = Num 4" "js_number (rt_at_risk (rr_totals ?r)) = Num 20"
    by code_simp+
  have bars: "bb_lost (budget_block w 0 ?r) = 40" "bb_stake (budget_block w 0 ?r) = 60" for w
    unfolding budget_block_def budget_left_def Let_def nums by (simp_all add: js_eval)
  show ?thesis unfolding Let_def
    by (intro conjI bars budget_fits_its_bar[OF nums(1) _ nums(2) _ nums(3)]) simp_all
qed

text \<open>With no budget known the day reads as if nothing were open, whatever is.\<close>

lemma unknown_budget_reads_calm:
  "lb_active (rr_limits r) = None \<Longrightarrow> day_reading r = (0, ''Nothing open. The whole day's budget is still yours.'')"
  by (simp add: day_reading_def active_budget_def Let_def num_eq_def js_eval)

text \<open>A round number hides a small stake: an open trade whose stake is under half a
  percent of the budget reads as nothing open.\<close>

lemma small_stake_reads_calm:
  assumes "active_budget r = Num b" "0 < b" "js_number (rt_daily_loss (rr_totals r)) = Num lost" "js_number (rt_at_risk (rr_totals r)) = Num stake"
    "0 \<le> stake + lost" "stake + lost < b / 200"
  shows "day_reading r = (0, ''Nothing open. The whole day's budget is still yours.'')"
proof -
  have "0 \<le> (stake + lost) / b * 100" "(stake + lost) / b * 100 + 1/2 < 1" using assms by (simp_all add: field_simps)
  then have fl: "\<lfloor>(stake + lost) / b * 100 + 1/2\<rfloor> = 0" by linarith
  have "math_round ((Num stake + Num lost) / Num b * 100) = Num 0" using assms(2) fl by (simp add: js_eval del: One_nat_def)
  then show ?thesis using assms by (simp add: day_reading_def Let_def num_eq_def js_eval)
qed

text \<open>A position that would not close is listed, and the last line still says that
  nothing is open.\<close>

lemma unclosed_yet_nothing_open:
  "cv_rows (closed_view (1, [\<lparr>cr_strategy = ''rsi'', cr_symbol = ''BTC'', cr_closed = False, cr_error = None, cr_pnl = None\<rparr>])) =
     [(strategy_name ''rsi'' @ dot_mark @ ''BTC'', ''not closed''), (''Nothing open now'', ''0 AUSD at risk'')]"
  by (simp add: closed_view_def Let_def)

end
