(* ===== verification/TradeCards.thy ===== *)
theory TradeCards
  imports History Controls
begin

text \<open>
  What is told of one round trip: the result the moment it ended (app/result.tsx), its
  report and its two orders (app/trade/[id].tsx), and what is shared of it
  (trading/share.ts).
\<close>

section \<open>What is read\<close>

datatype closed_trade = Found trade | Missing

text \<open>The read of the result, asked again while the journal still has the trade open:
  \<open>cd_waiting\<close> is whether another read is on its way.\<close>

record closed_read =
  cd_attempts :: nat
  cd_trade :: "closed_trade option"
  cd_waiting :: bool

definition fresh_read :: closed_read where
  "fresh_read = \<lparr>cd_attempts = 0, cd_trade = None, cd_waiting = True\<rparr>"

definition read_attempts :: nat where "read_attempts = 10"

definition closed_answer :: "closed_read \<Rightarrow> exn + trade \<Rightarrow> closed_read" where
  "closed_answer s res = (if \<not> cd_waiting s then s else case res of
     Inr t \<Rightarrow> if given (td_closed_at t) \<or> read_attempts \<le> cd_attempts s then s\<lparr>cd_trade := Some (Found t), cd_waiting := False\<rparr>
       else s\<lparr>cd_attempts := cd_attempts s + 1\<rparr>
   | Inl e \<Rightarrow> if has_code ''no_trade'' e then s\<lparr>cd_trade := Some Missing, cd_waiting := False\<rparr>
       else if cd_attempts s < read_attempts then s\<lparr>cd_attempts := cd_attempts s + 1\<rparr>
       else s\<lparr>cd_waiting := False\<rparr>)"

text \<open>The report is read once.\<close>

datatype trade_problem = NoTrade | TradeLocked | TradeOffline

definition trade_read :: "exn + trade \<Rightarrow> trade option \<times> trade_problem option" where
  "trade_read res = (case res of Inr t \<Rightarrow> (Some t, None)
   | Inl e \<Rightarrow> (None, Some (if has_code ''no_trade'' e then NoTrade else if has_code ''network'' e then TradeOffline else TradeLocked)))"

definition trade_problem_text :: "trade_problem \<Rightarrow> string" where
  "trade_problem_text p = (case p of NoTrade \<Rightarrow> ''That trade is not on this wallet.'' | TradeOffline \<Rightarrow> ''Server unreachable''
   | TradeLocked \<Rightarrow> ''Sign in with your passkey to see this trade.'')"

section \<open>Numbers of a trade\<close>

definition trade_pnl :: "trade \<Rightarrow> jsnum" where
  "trade_pnl t = js_number (case td_pnl t of Some p \<Rightarrow> p | None \<Rightarrow> ''0'')"

definition notional_of :: "trade \<Rightarrow> jsnum" where
  "notional_of t = (if given (td_notional t) then js_number (the (td_notional t)) else js_number (td_size t) * js_number (td_entry_price t))"

definition moved_by :: "trade \<Rightarrow> jsnum" where
  "moved_by t = (if \<not> given (td_exit_price t) \<or> num_eq (js_number (td_entry_price t)) 0 then 0
     else (js_number (the (td_exit_price t)) / js_number (td_entry_price t) - 1) * 100)"

definition trade_fees :: "trade \<Rightarrow> jsnum" where
  "trade_fees t = js_number (td_entry_fee t) + js_number (case td_exit_fee t of Some f \<Rightarrow> f | None \<Rightarrow> ''0'')"

definition on_margin :: "trade \<Rightarrow> bool" where
  "on_margin t \<longleftrightarrow> given (td_closed_at t) \<and> given (td_collateral t) \<and> js_number (the (td_collateral t)) > 0"

definition return_on :: "trade \<Rightarrow> jsnum" where
  "return_on t = (let margin = js_number (case td_collateral t of Some c \<Rightarrow> c | None \<Rightarrow> ''0'') in
     if margin > 0 then (trade_pnl t / margin) * 100 else 0)"

definition won :: "jsnum \<Rightarrow> bool" where "won pnl \<longleftrightarrow> pnl > cent_half"

definition lost :: "jsnum \<Rightarrow> bool" where "lost pnl \<longleftrightarrow> pnl < - cent_half"

section \<open>How long it ran\<close>

definition ran_ms :: "int \<Rightarrow> trade \<Rightarrow> jsnum" where
  "ran_ms tz t = parse_date tz (the (td_closed_at t)) - parse_date tz (td_opened_at t)"

definition minutes_text :: "jsnum \<Rightarrow> string" where
  "minutes_text m = (if m \<ge> 60 then js_string (math_floor (m / 60)) @ '' h '' @ js_string (m - math_floor (m / 60) * 60) @ '' min''
     else js_string m @ '' min'')"

text \<open>The result counts whole seconds first, the report the minutes at once.\<close>

definition result_seconds :: "jsnum \<Rightarrow> jsnum" where
  "result_seconds ms = math_max 0 (math_round (ms / 1000))"

definition result_minutes :: "jsnum \<Rightarrow> jsnum" where
  "result_minutes ms = math_round (result_seconds ms / 60)"

definition report_minutes :: "jsnum \<Rightarrow> jsnum" where
  "report_minutes ms = math_max 1 (math_round (ms / 60000))"

definition result_duration :: "int \<Rightarrow> trade \<Rightarrow> string" where
  "result_duration tz t = (if \<not> given (td_closed_at t) then em_dash
     else if result_seconds (ran_ms tz t) < 60 then ''under a minute'' else minutes_text (result_minutes (ran_ms tz t)))"

definition report_duration :: "int \<Rightarrow> trade \<Rightarrow> string" where
  "report_duration tz t = minutes_text (report_minutes (ran_ms tz t))"

section \<open>Words\<close>

definition up_word :: "side \<Rightarrow> string" where "up_word s = (if s = Long then ''Up'' else ''Down'')"

definition closed_by :: "close_reason option \<Rightarrow> string" where
  "closed_by r = (case r of Some Horizon \<Rightarrow> ''the timer'' | Some Stop \<Rightarrow> ''the stop'' | Some TakeProfit \<Rightarrow> ''the target'' | _ \<Rightarrow> ''you'')"

definition kicker :: "close_reason option \<Rightarrow> string" where
  "kicker r = (case r of Some Horizon \<Rightarrow> ''TIME IS UP'' | Some Stop \<Rightarrow> ''STOPPED'' | Some TakeProfit \<Rightarrow> ''TAKE PROFIT'' | _ \<Rightarrow> ''YOU CLOSED IT'')"

definition moral :: "trade \<Rightarrow> bool \<Rightarrow> string" where
  "moral t good = (case td_close_reason t of
     Some Stop \<Rightarrow> ''The stop did its job: that was the most this tap could lose, and the next one starts clean.''
   | Some TakeProfit \<Rightarrow> ''The target did the closing: the win was banked before the time ran out.''
   | Some Horizon \<Rightarrow> if good then ''Right side, right time. The clock closed it for you.''
       else ''The clock closed it. A '' @ to_fixed (math_abs (trade_pnl t)) 2 @ '' lesson, not a dent: the day's budget is what keeps it that way.''
   | _ \<Rightarrow> if good then ''Closed by hand, in the green. '' @
         (case map_of strategy_names (td_strategy t) of Some n \<Rightarrow> n | None \<Rightarrow> ''The strategy'') @ '' is ready for the next one.''
       else ''Closed by hand. Small ones like this are the cost of finding the ones that pay.'')"

definition report_reason :: "trade \<Rightarrow> string" where
  "report_reason t = (if \<not> given (td_closed_at t) then ''open now'' else case td_close_reason t of
     Some Horizon \<Rightarrow> ''by timer'' | Some Stop \<Rightarrow> ''stopped'' | Some TakeProfit \<Rightarrow> ''take profit'' | _ \<Rightarrow> ''you closed it'')"

definition short_id :: "string option \<Rightarrow> string" where
  "short_id i = (if \<not> given i then em_dash else if length (the i) > 12
     then take 6 (the i) @ ellipsis @ drop (length (the i) - 4) (the i) else the i)"

definition plus_if :: "jsnum \<Rightarrow> string" where "plus_if n = (if n > 0 then ''+'' else [])"

section \<open>The result\<close>

definition streak_told :: "jsnum \<Rightarrow> perf option \<Rightarrow> jsnum" where
  "streak_told pnl week = (case week of Some w \<Rightarrow> if won pnl \<and> pe_streak w \<ge> 2 then pe_streak w else 0 | None \<Rightarrow> 0)"

record result_card =
  rd_kicker :: string
  rd_head :: string
  rd_pnl :: string
  rd_line :: string
  rd_streak :: "string option"
  rd_facts :: "(string \<times> string) list"
  rd_moral :: string

definition result_card :: "int \<Rightarrow> perf option \<Rightarrow> trade \<Rightarrow> result_card" where
  "result_card tz week t =
     (let pnl = trade_pnl t; moved = moved_by t; streak = streak_told pnl week in
      \<lparr>rd_kicker = kicker (td_close_reason t),
       rd_head = (if won pnl then ''Nice call.'' else if lost pnl then ''Not this time.'' else ''Break even.''),
       rd_pnl = money pnl,
       rd_line = ''AUSD'' @ dot_mark @ td_symbol t @ '' '' @ (if moved \<ge> 0 then ''up'' else ''down'') @ '' '' @ to_fixed (math_abs moved) 2 @
         ''% in '' @ result_duration tz t @ dot_mark @ ''fees '' @ to_fixed (trade_fees t) 2,
       rd_streak = (if streak > 0 then Some (js_string streak @ '' in a row this week'') else None),
       rd_facts = [(''Trade'', up_word (td_side t) @ '' on '' @ td_symbol t @ dot_mark @ to_fixed (notional_of t) 2 @ '' AUSD'' @
           (if given (td_leverage t) then '' at '' @ js_string (js_number (the (td_leverage t))) @ ''x'' else [])),
         (''In'' @ right_arrow @ ''out'', trim (td_entry_price t) @ right_arrow @ (if given (td_exit_price t) then trim (the (td_exit_price t)) else em_dash)),
         (''Held'', result_duration tz t), (''Fees'', to_fixed (trade_fees t) 4 @ '' AUSD'')] @
         (if td_best_pnl t \<noteq> None \<or> td_worst_pnl t \<noteq> None
          then [(''Best'' @ dot_mark @ ''worst'', money (js_number (case td_best_pnl t of Some b \<Rightarrow> b | None \<Rightarrow> ''0'')) @ dot_mark @
            money (js_number (case td_worst_pnl t of Some b \<Rightarrow> b | None \<Rightarrow> ''0'')))] else []) @
         [(''Closed by'', closed_by (td_close_reason t))],
       rd_moral = moral t (won pnl)\<rparr>)"

datatype result_body = ResultBones | NotOnWallet | ResultOf result_card

definition result_body :: "int \<Rightarrow> perf option \<Rightarrow> closed_trade option \<Rightarrow> result_body" where
  "result_body tz week s = (case s of None \<Rightarrow> ResultBones | Some Missing \<Rightarrow> NotOnWallet | Some (Found t) \<Rightarrow> ResultOf (result_card tz week t))"

definition tap_again :: "string \<Rightarrow> string" where
  "tap_again strategy = (if strategy \<in> set (List.map fst strategy_names) then ''/'' @ strategy else ''/direction'')"

section \<open>The report and its orders\<close>

text \<open>A row is its label, its value and the number its colour follows.\<close>

type_synonym fact_row = "string \<times> string \<times> jsnum option"

definition plain :: "string \<Rightarrow> string \<Rightarrow> fact_row" where "plain label v = (label, v, None)"

definition ausd :: "jsnum \<Rightarrow> nat \<Rightarrow> string" where "ausd n d = to_fixed n d @ '' AUSD''"

definition report_rows :: "device_words \<Rightarrow> int \<Rightarrow> trade \<Rightarrow> fact_row list" where
  "report_rows w tz t =
     (let moved = moved_by t; finished = given (td_closed_at t); at_time = time_or em_dash w tz in
      [plain ''Strategy'' (strategy_name (td_strategy t)), plain ''Side'' (up_word (td_side t)), plain ''Entry price'' (trim (td_entry_price t)),
       plain ''Exit price'' (if given (td_exit_price t) then trim (the (td_exit_price t)) else em_dash),
       (''Price change'', if given (td_exit_price t) then plus_if moved @ to_fixed moved 2 @ ''%'' else em_dash, Some moved),
       plain ''Size'' (trim (td_size t) @ '' '' @ td_symbol t), plain ''Notional'' (ausd (notional_of t) 2),
       plain ''Leverage'' (if given (td_leverage t) then trim (the (td_leverage t)) @ ''x'' else em_dash),
       plain ''Margin'' (if given (td_collateral t) then ausd (js_number (the (td_collateral t))) 2 else em_dash),
       plain ''Stop'' (if given (td_stop_pnl t) then money (js_number (the (td_stop_pnl t))) @ '' AUSD'' else ''off''),
       plain ''Take profit'' (if given (td_tp_pnl t) then money (js_number (the (td_tp_pnl t))) @ '' AUSD'' else ''off''),
       plain ''Opened'' (at_time (td_opened_at t)), plain ''Closed'' (if finished then at_time (the (td_closed_at t)) else em_dash),
       plain ''Duration'' (if finished then report_duration tz t else em_dash),
       plain ''Closed by'' (if \<not> finished then em_dash else case td_close_reason t of
         Some Horizon \<Rightarrow> ''timer'' | Some Stop \<Rightarrow> ''stop'' | Some TakeProfit \<Rightarrow> ''take profit'' | _ \<Rightarrow> ''you''),
       plain ''Fees'' (ausd (trade_fees t) 2),
       (''Realized PnL'', if finished then money (trade_pnl t) @ '' AUSD'' else em_dash, if finished then Some (trade_pnl t) else None),
       (''Return on margin'', if on_margin t then plus_if (return_on t) @ to_fixed (return_on t) 1 @ ''%'' else em_dash,
        if finished then Some (return_on t) else None)])"

record trade_head =
  th_what :: string
  th_pnl :: string
  th_when :: string
  th_return :: "(string \<times> string) option"

definition trade_head :: "device_words \<Rightarrow> int \<Rightarrow> trade \<Rightarrow> trade_head" where
  "trade_head w tz t =
     (let pnl = trade_pnl t; at_time = time_or em_dash w tz; margin = js_number (the (td_collateral t)); share = (pnl / margin) * 100 in
      \<lparr>th_what = strategy_name (td_strategy t) @ dot_mark @ up_word (td_side t) @ dot_mark @ report_reason t, th_pnl = money pnl,
       th_when = (if given (td_closed_at t) then ''AUSD'' @ dot_mark @ at_time (td_opened_at t) @ en_dash @ at_time (the (td_closed_at t))
         else ''AUSD'' @ dot_mark @ ''open since '' @ at_time (td_opened_at t)),
       th_return = (if on_margin t then Some (plus_if share @ to_fixed share 1 @ ''%'', ''of the '' @ to_fixed margin 2 @ '' you put in'') else None)\<rparr>)"

datatype order_end = OpenOrder | CloseOrder

definition order_of_param :: "string option \<Rightarrow> order_end option" where
  "order_of_param p = (if p = Some ''open'' then Some OpenOrder else if p = Some ''close'' then Some CloseOrder else None)"

text \<open>What an order sent, what it filled at and what it cost.\<close>

definition order_price :: "order_end \<Rightarrow> trade \<Rightarrow> decimal" where
  "order_price e t = (case e of OpenOrder \<Rightarrow> td_entry_price t | CloseOrder \<Rightarrow> (case td_exit_price t of Some p \<Rightarrow> p | None \<Rightarrow> ''0''))"

definition order_fee :: "order_end \<Rightarrow> trade \<Rightarrow> decimal" where
  "order_fee e t = (case e of OpenOrder \<Rightarrow> td_entry_fee t | CloseOrder \<Rightarrow> (case td_exit_fee t of Some f \<Rightarrow> f | None \<Rightarrow> ''0''))"

definition order_at :: "order_end \<Rightarrow> trade \<Rightarrow> string" where
  "order_at e t = (case e of OpenOrder \<Rightarrow> td_opened_at t | CloseOrder \<Rightarrow> (case td_closed_at t of Some c \<Rightarrow> c | None \<Rightarrow> []))"

definition order_id :: "order_end \<Rightarrow> trade \<Rightarrow> string option" where
  "order_id e t = (case e of OpenOrder \<Rightarrow> td_open_order_id t | CloseOrder \<Rightarrow> td_close_order_id t)"

definition order_side :: "order_end \<Rightarrow> side \<Rightarrow> string" where
  "order_side e s = (if (e = CloseOrder) = (s = Long) then ''Sell'' else ''Buy'')"

definition order_facts :: "device_words \<Rightarrow> int \<Rightarrow> order_end \<Rightarrow> trade \<Rightarrow> fact_row list" where
  "order_facts w tz e t =
     [plain ''Order'' (if e = CloseOrder then ''Close'' else ''Open''), plain ''Side'' (order_side e (td_side t)), plain ''Type'' ''Market'',
      plain ''Size'' (trim (td_size t) @ '' '' @ td_symbol t), plain ''Notional'' (ausd (notional_of t) 2),
      plain ''Leverage'' (if given (td_leverage t) then trim (the (td_leverage t)) @ ''x'' else em_dash),
      plain ''Fill price'' (trim (order_price e t)), plain ''Fee'' (ausd (js_number (order_fee e t)) 4),
      plain ''Filled'' (time_or em_dash w tz (order_at e t)), plain ''Status'' ''Filled'', plain ''Order id'' (short_id (order_id e t))]"

record order_head =
  oh_what :: string
  oh_price :: string
  oh_when :: string
  oh_size :: string
  oh_worth :: string

definition order_head :: "device_words \<Rightarrow> int \<Rightarrow> order_end \<Rightarrow> trade \<Rightarrow> order_head" where
  "order_head w tz e t =
     \<lparr>oh_what = (if e = CloseOrder then ''Close'' else ''Open'') @ dot_mark @ up_word (td_side t) @ dot_mark @ strategy_name (td_strategy t),
      oh_price = trim (order_price e t), oh_when = td_symbol t @ dot_mark @ ''filled at market'' @ dot_mark @ time_or em_dash w tz (order_at e t),
      oh_size = trim (td_size t), oh_worth = td_symbol t @ dot_mark @ ausd (notional_of t) 2\<rparr>"

text \<open>An order leads to its round trip once there is one.\<close>

definition to_trade :: "device_words \<Rightarrow> int \<Rightarrow> trade \<Rightarrow> string option" where
  "to_trade w tz t = (if given (td_closed_at t)
     then Some (''closed '' @ time_or em_dash w tz (the (td_closed_at t)) @ dot_mark @ money (trade_pnl t) @ [CHR '' '', CHR 0xE2, CHR 0x80, CHR 0xBA]) else None)"

definition order_ids :: "trade \<Rightarrow> string" where
  "order_ids t = ''Order ids '' @ short_id (td_open_order_id t) @
     (if given (td_close_order_id t) then '', '' @ short_id (td_close_order_id t) else []) @ dot_mark @ ''filled at the exchange''"

datatype trade_body = TradeProblem string | TradeBones | TradeReport trade_head "fact_row list" string | OrderReport order_head "fact_row list" "string option" string

definition trade_body :: "device_words \<Rightarrow> int \<Rightarrow> string option \<Rightarrow> trade option \<times> trade_problem option \<Rightarrow> trade_body" where
  "trade_body w tz order s = (case s of
     (_, Some p) \<Rightarrow> TradeProblem (trade_problem_text p)
   | (None, None) \<Rightarrow> TradeBones
   | (Some t, None) \<Rightarrow> (case order_of_param order of
       None \<Rightarrow> TradeReport (trade_head w tz t) (report_rows w tz t) (order_ids t)
     | Some e \<Rightarrow> OrderReport (order_head w tz e t) (order_facts w tz e t) (to_trade w tz t) (order_ids t)))"

definition trade_mark :: "string option \<Rightarrow> trade \<Rightarrow> string" where
  "trade_mark order t = (case order_of_param order of None \<Rightarrow> strategy_name (td_strategy t)
   | Some e \<Rightarrow> short_id (order_id e t) @ dot_mark @ ''filled'')"

section \<open>Sharing\<close>

datatype share_kind = LiveTrade | ClosedTrade

record share_trade =
  sh_kind :: share_kind
  sh_strategy :: string
  sh_symbol :: string
  sh_side :: side
  sh_notional :: jsnum
  sh_leverage :: string
  sh_pnl :: jsnum
  sh_closes_in :: "string option"
  sh_move :: "jsnum option"
  sh_reason :: "string option"
  sh_rank :: "(nat \<times> nat) option"

definition shared_result :: "standings option \<Rightarrow> trade \<Rightarrow> share_trade" where
  "shared_result standing t =
     \<lparr>sh_kind = ClosedTrade, sh_strategy = td_strategy t, sh_symbol = td_symbol t, sh_side = td_side t, sh_notional = notional_of t,
      sh_leverage = (if given (td_leverage t) then js_string (js_number (the (td_leverage t))) else ''1''), sh_pnl = trade_pnl t,
      sh_closes_in = None, sh_move = Some (moved_by t), sh_reason = Some (JsText.lower (kicker (td_close_reason t))),
      sh_rank = (case standing of None \<Rightarrow> None | Some s \<Rightarrow> map_option (\<lambda>y. (sd_rank y, st_players s)) (st_you s))\<rparr>"

text \<open>The wallet's invite, or the site when there is none; \<open>site\<close> is the address the
  app was built with, empty when it was not.\<close>

definition invite_link :: "string \<Rightarrow> exn + (string \<times> string) \<Rightarrow> string" where
  "invite_link site res = (case res of
     Inr (code, link) \<Rightarrow> if site \<noteq> [] then site @ ''/i/'' @ code else link
   | Inl _ \<Rightarrow> if site \<noteq> [] then site else ''https://inflight.work'')"

definition new_line :: string where "new_line = [CHR 0x0A]"

definition share_head :: "string \<Rightarrow> share_trade \<Rightarrow> string" where
  "share_head app s = up_word (sh_side s) @ '' on '' @ sh_symbol s @ dot_mark @ money (sh_pnl s) @ '' AUSD'' @
     (if sh_kind s = LiveTrade then '' so far'' else []) @ dot_mark @ strategy_name (sh_strategy s) @ '' on '' @ app"

definition share_tail :: "share_trade \<Rightarrow> string" where
  "share_tail s = (if sh_kind s = LiveTrade \<and> given (sh_closes_in s) then ''Closes in '' @ the (sh_closes_in s) @ ''.''
     else case sh_rank s of Some (place, n) \<Rightarrow> ''#'' @ show_nat place @ '' of '' @ show_nat n @ '' this week.'' | None \<Rightarrow> [])"

definition share_text :: "string \<Rightarrow> share_trade \<Rightarrow> string \<Rightarrow> string" where
  "share_text app s link = share_head app s @ new_line @ (if share_tail s \<noteq> [] then share_tail s @ new_line else []) @ ''Trade with me: '' @ link"

datatype sheet_end = SheetDone | SheetAborted | SheetBroke

text \<open>Whether the browser has a sheet, how it ends, whether its clipboard takes the
  words; on a phone what became of the phone's own sheet. With the outcome goes
  whether the words were put on the clipboard.\<close>

definition share_trade_out :: "bool \<Rightarrow> sheet_end option \<Rightarrow> bool \<Rightarrow> bool option \<Rightarrow> copied \<times> bool" where
  "share_trade_out web sheet clipboard native =
     (if web then (case sheet of Some SheetDone \<Rightarrow> (Shared, False) | Some SheetAborted \<Rightarrow> (CopyFailed, False)
        | _ \<Rightarrow> (if copy_text True clipboard None = Copied then Copied else CopyFailed, clipboard))
      else (case native of Some True \<Rightarrow> Shared | _ \<Rightarrow> CopyFailed, False))"

definition shared_note :: "copied \<Rightarrow> string" where
  "shared_note c = (case c of Copied \<Rightarrow> ''Copied '' @ em_dash @ '' paste it anywhere'' | Shared \<Rightarrow> ''Shared'' | CopyFailed \<Rightarrow> ''Share'')"

text \<open>The picture: its small lines.\<close>

definition shared_line :: "share_trade \<Rightarrow> string" where
  "shared_line s = (if sh_kind s = LiveTrade
     then ''AUSD so far'' @ (if given (sh_closes_in s) then dot_mark @ ''closes in '' @ the (sh_closes_in s) @ dot_mark @ ''follow live'' else [])
     else ''AUSD'' @ dot_mark @ sh_symbol s @ '' '' @ (case sh_move s of Some m \<Rightarrow> (if m \<ge> 0 then ''up'' else ''down'') @ '' '' @ to_fixed (math_abs m) 2 @ ''%'' | None \<Rightarrow> []) @
       (if given (sh_reason s) then dot_mark @ the (sh_reason s) else []))"

definition card_foot :: "share_trade \<Rightarrow> string" where
  "card_foot s = (case sh_rank s of Some (place, n) \<Rightarrow> ''#'' @ show_nat place @ '' of '' @ show_nat n @ '' this week''
     | None \<Rightarrow> if won (sh_pnl s) then ''Called it.'' else if lost (sh_pnl s) then ''Next one.'' else ''Flat.'')"

definition card_what :: "share_trade \<Rightarrow> string" where
  "card_what s = up_word (sh_side s) @ '' on '' @ sh_symbol s @ dot_mark @ to_fixed (sh_notional s) 0 @ '' AUSD at '' @ sh_leverage s @ ''x''"

section \<open>The result is found or given up\<close>

definition settles_read :: "exn + trade \<Rightarrow> bool" where
  "settles_read res = (case res of Inr t \<Rightarrow> given (td_closed_at t) | Inl e \<Rightarrow> has_code ''no_trade'' e)"

text \<open>What the reads come to: the first answer that settles it among the first eleven,
  else the trade as the last of them has it.\<close>

definition first_settled :: "(nat \<Rightarrow> exn + trade) \<Rightarrow> closed_trade option" where
  "first_settled ans =
     (let last_read = read_attempts; k = (case find (\<lambda>k. settles_read (ans k)) [0..<last_read] of Some k \<Rightarrow> k | None \<Rightarrow> last_read) in
      case ans k of Inr t \<Rightarrow> Some (Found t) | Inl e \<Rightarrow> if has_code ''no_trade'' e then Some Missing else None)"

definition reads :: "(nat \<Rightarrow> exn + trade) \<Rightarrow> nat \<Rightarrow> closed_read" where
  "reads ans n = foldl closed_answer fresh_read (List.map ans [0..<n])"

lemma reads_Suc: "reads ans (Suc n) = closed_answer (reads ans n) (ans n)"
  by (simp add: reads_def)

lemma find_snoc: "find P (xs @ [x]) = (case find P xs of Some y \<Rightarrow> Some y | None \<Rightarrow> if P x then Some x else None)"
  by (induction xs) auto

text \<open>While it goes on nothing has settled it; once it is over it stays over.\<close>

lemma reads_so_far:
  "n \<le> read_attempts \<Longrightarrow> (case find (\<lambda>k. settles_read (ans k)) [0..<n] of
     None \<Rightarrow> reads ans n = \<lparr>cd_attempts = n, cd_trade = None, cd_waiting = True\<rparr>
   | Some k \<Rightarrow> k < read_attempts \<and> reads ans n = \<lparr>cd_attempts = k, cd_trade = (case ans k of Inr t \<Rightarrow> Some (Found t) | Inl e \<Rightarrow> Some Missing), cd_waiting = False\<rparr> \<and>
       settles_read (ans k))"
proof (induction n)
  case 0
  then show ?case by (simp add: reads_def fresh_read_def)
next
  case (Suc n)
  then show ?case
    by (auto simp: reads_Suc find_snoc closed_answer_def settles_read_def read_attempts_def split: option.splits sum.splits)
qed

lemma reads_over: "\<not> cd_waiting (reads ans n) \<Longrightarrow> reads ans (n + k) = reads ans n"
  by (induction k) (simp_all add: reads_Suc closed_answer_def)

text \<open>
  C26. The result is found or given up: whatever the server answers, the screen
  asks at most eleven times and then never again, and what it shows then is
  exactly the first answer that settled the trade (closed, or not this
  wallet's) among the first ten, or failing that the trade as the eleventh
  answer has it, or nothing when that one did not come.
\<close>

theorem result_reads_end:
  "cd_waiting (reads ans (n + 11)) = False \<and> cd_trade (reads ans (n + 11)) = first_settled ans"
proof -
  let ?n = read_attempts
  have "cd_waiting (reads ans (Suc ?n)) = False \<and> cd_trade (reads ans (Suc ?n)) = first_settled ans"
  proof (cases "find (\<lambda>k. settles_read (ans k)) [0..<?n]")
    case (Some k)
    then have at: "reads ans ?n = \<lparr>cd_attempts = k, cd_trade = (case ans k of Inr t \<Rightarrow> Some (Found t) | Inl e \<Rightarrow> Some Missing), cd_waiting = False\<rparr>"
      and "settles_read (ans k)"
      using reads_so_far[OF order_refl, of ans] by simp_all
    moreover have "reads ans (Suc ?n) = reads ans ?n" using reads_over[of ans ?n 1] at by simp
    ultimately show ?thesis using Some by (auto simp: first_settled_def Let_def settles_read_def split: sum.splits)
  next
    case None
    then have "reads ans ?n = \<lparr>cd_attempts = ?n, cd_trade = None, cd_waiting = True\<rparr>"
      using reads_so_far[OF order_refl, of ans] by simp
    moreover have "first_settled ans = (case ans ?n of Inr t \<Rightarrow> Some (Found t) | Inl e \<Rightarrow> if has_code ''no_trade'' e then Some Missing else None)"
      using None by (simp add: first_settled_def)
    ultimately show ?thesis by (simp add: reads_Suc closed_answer_def split: sum.split)
  qed
  moreover have "Suc ?n = 11" by (simp add: read_attempts_def)
  ultimately show ?thesis using reads_over[of ans 11 n] by (simp add: add.commute)
qed

text \<open>When every read fails the bones stay, with no word of why.\<close>

lemma unreachable_result_stays_blank:
  "(\<And>k. ans k = Inl e) \<Longrightarrow> \<not> has_code ''no_trade'' e \<Longrightarrow>
     result_body tz week (cd_trade (reads ans (n + 11))) = ResultBones \<and> \<not> cd_waiting (reads ans (n + 11))"
proof -
  assume a: "\<And>k. ans k = Inl e" "\<not> has_code ''no_trade'' e"
  then have "find (\<lambda>k. settles_read (ans k)) [0..<m] = None" for m by (simp add: find_None_iff settles_read_def)
  then have "reads ans read_attempts = \<lparr>cd_attempts = read_attempts, cd_trade = None, cd_waiting = True\<rparr>"
    using reads_so_far[OF order_refl, of ans] by simp
  then have "reads ans (Suc read_attempts) = \<lparr>cd_attempts = read_attempts, cd_trade = None, cd_waiting = False\<rparr>"
    using a by (simp add: reads_Suc closed_answer_def)
  then have "reads ans 11 = \<lparr>cd_attempts = 10, cd_trade = None, cd_waiting = False\<rparr>" by (simp add: read_attempts_def)
  then show ?thesis using reads_over[of ans 11 n] by (simp add: add.commute result_body_def)
qed

section \<open>Two tellings of how long\<close>

lemma minutes_below_hour:
  assumes "60 \<le> k"
  shows "minutes_text (Num (of_int k)) = js_string (Num (of_int (k div 60))) @ '' h '' @ js_string (Num (of_int (k mod 60))) @ '' min''"
proof -
  have "\<lfloor>of_int k / of_int 60 :: rat\<rfloor> = k div 60" by (rule floor_divide_of_int_eq)
  then have fl: "math_floor (Num (of_int k) / 60) = Num (of_int (k div 60))" by (simp add: js_eval)
  have md: "of_int k - of_int (k div 60) * 60 = (of_int (k mod 60) :: rat)"
    by (metis minus_div_mult_eq_mod of_int_diff of_int_mult of_int_numeral)
  have "Num (of_int k) \<ge> 60" using assms by (simp add: js_eval)
  then show ?thesis unfolding minutes_text_def fl using md by (simp add: numeral_Num)
qed

text \<open>
  The result and the report of one trade never tell its length more than a
  minute apart: the result rounds to seconds before it rounds to minutes and may
  say nothing for less than one, the report rounds once and says at least one.
\<close>

theorem durations_within_a_minute:
  "\<exists>a b. result_minutes (Num ms) = Num (of_int a) \<and> report_minutes (Num ms) = Num (of_int b) \<and> \<bar>a - b\<bar> \<le> 1"
proof -
  let ?s = "max 0 \<lfloor>ms / 1000 + 1 / 2\<rfloor>" and ?b = "\<lfloor>ms / 60000 + 1 / 2\<rfloor>"
  let ?a = "\<lfloor>of_int ?s / 60 + 1 / 2 :: rat\<rfloor>"
  have "max 0 (of_int \<lfloor>ms / 1000 + 1 / 2\<rfloor>) = (of_int ?s :: rat)" by (simp add: max_def)
  then have a: "result_minutes (Num ms) = Num (of_int ?a)"
    by (simp add: result_minutes_def result_seconds_def js_eval del: of_int_max)
  have b: "report_minutes (Num ms) = Num (of_int (max 1 ?b))"
    by (simp add: report_minutes_def js_eval)
  have "\<bar>?a - max 1 ?b\<bar> \<le> 1"
  proof (cases "0 \<le> \<lfloor>ms / 1000 + 1 / 2\<rfloor>")
    case True
    then have "?s = \<lfloor>ms / 1000 + 1 / 2\<rfloor>" by simp
    then have "of_int ?s \<le> ms / 1000 + 1 / 2" "ms / 1000 - 1 / 2 < of_int ?s" by linarith+
    then show ?thesis using True by linarith
  next
    case False
    then show ?thesis by linarith
  qed
  then show ?thesis using a b by blast
qed

text \<open>And they may be a minute apart: 89.5 seconds.\<close>

lemma durations_differ: "result_minutes (Num 89500) = 2 \<and> report_minutes (Num 89500) = 1"
proof -
  have "\<lfloor>90 :: rat\<rfloor> = 90" "\<lfloor>2 :: rat\<rfloor> = 2" "\<lfloor>239 / 120 :: rat\<rfloor> = 1" by linarith+
  then show ?thesis by (simp add: result_minutes_def result_seconds_def report_minutes_def js_eval)
qed

section \<open>The verdict, the orders, the words\<close>

text \<open>The headline, the sign in front of the number and its colour say the same, and
  a streak is only told with a win.\<close>

lemma verdict_agrees:
  "(rd_head (result_card tz week t) = ''Nice call.'') = (sign_of (trade_pnl t) = Up) \<and>
   (rd_head (result_card tz week t) = ''Not this time.'') = (sign_of (trade_pnl t) = Down) \<and>
   (rd_streak (result_card tz week t) \<noteq> None \<longrightarrow> sign_of (trade_pnl t) = Up)"
proof -
  have "\<not> (won p \<and> lost p)" for p by (cases p) (auto simp: won_def lost_def cent_half_def)
  then show ?thesis
    by (auto simp: result_card_def Let_def sign_of_def won_def lost_def streak_told_def js_eval split: option.splits if_splits)
qed

text \<open>The two orders of a trade are on opposite sides and their fees are its fees.\<close>

lemma orders_make_the_trade:
  "order_side CloseOrder s \<noteq> order_side OpenOrder s \<and>
     js_number (order_fee OpenOrder t) + js_number (order_fee CloseOrder t) = trade_fees t"
  by (cases s) (simp_all add: order_side_def order_fee_def trade_fees_def)

text \<open>On the web a tap shares, or leaves the words on the clipboard, unless the sheet
  was put away or the clipboard refused; on the phone a sheet that breaks leaves nothing.\<close>

lemma share_leaves_something:
  "share_trade_out True sheet clipboard native = (Shared, False) \<or> sheet = Some SheetAborted \<or>
     share_trade_out True sheet clipboard native = (if clipboard then Copied else CopyFailed, clipboard)"
  by (auto simp: share_trade_out_def copy_text_def split: option.splits sheet_end.splits)

lemma phone_leaves_nothing: "share_trade_out False sheet clipboard None = (CopyFailed, False)"
  by (simp add: share_trade_out_def)

text \<open>The words end with the invite.\<close>

lemma share_ends_with_invite: "\<exists>before. share_text app s link = before @ new_line @ ''Trade with me: '' @ link"
  by (auto simp: share_text_def)

end
