(* ===== verification/Walks.thy ===== *)
theory Walks
  imports JsPrelude
begin

text \<open>
  The bars the illustrations are drawn from (ui/series.ts): a seeded walk of bars,
  the averages, the strength index and the channel computed from it, and the
  mapping of a price onto the drawing. The generator multiplies past the integers
  a double holds, so the rounding of those products is written out; the bars
  themselves are exact.
\<close>

unbundle bit_operations_syntax

section \<open>The generator\<close>

function bit_length :: "int \<Rightarrow> nat" where
  "bit_length n = (if n \<le> 0 then 0 else Suc (bit_length (n div 2)))"
  by pat_completeness auto
termination by (relation "measure nat") auto

declare bit_length.simps [simp del]

text \<open>The double nearest to a natural number, the even one of two as near.\<close>

definition as_double :: "int \<Rightarrow> int" where
  "as_double n = (let k = bit_length n - 53; p = 2 ^ k; q = n div p; r = n mod p in
     if k = 0 then n else (if 2 * r > p \<or> 2 * r = p \<and> odd q then q + 1 else q) * p)"

definition top_seed :: int where "top_seed = 0x7FFFFFFF"

text \<open>One step: the product and the sum as doubles, then the low 31 bits of the word.\<close>

definition rnd_next :: "int \<Rightarrow> int" where
  "rnd_next s = uint (word_of_int (as_double (as_double (s * 1103515245) + 12345)) AND (0x7FFFFFFF :: 32 word))"

definition rnd_value :: "int \<Rightarrow> rat" where
  "rnd_value s = of_int s / of_int top_seed"

section \<open>Bars\<close>

record bar =
  bar_o :: rat
  bar_h :: rat
  bar_l :: rat
  bar_c :: rat

text \<open>A bar takes three numbers of the generator: for its close, its high, its low.\<close>

definition walk_bar :: "int \<Rightarrow> rat \<Rightarrow> rat \<Rightarrow> rat \<Rightarrow> bar \<times> int" where
  "walk_bar s price drift vol =
     (let s1 = rnd_next s; s2 = rnd_next s1; s3 = rnd_next s2;
          c = price + (rnd_value s1 - 1 / 2) * (34 / 10) * vol + drift
      in (\<lparr>bar_o = price, bar_h = max price c + rnd_value s2 * (3 / 2) * vol, bar_l = min price c - rnd_value s3 * (3 / 2) * vol, bar_c = c\<rparr>, s3))"

fun walk :: "nat \<Rightarrow> int \<Rightarrow> rat \<Rightarrow> rat \<Rightarrow> rat \<Rightarrow> bar list \<times> int \<times> rat" where
  "walk 0 s price drift vol = ([], s, price)"
| "walk (Suc n) s price drift vol = (case walk_bar s price drift vol of (b, s') \<Rightarrow>
     (case walk n s' (bar_c b) drift vol of (bs, end') \<Rightarrow> (b # bs, end')))"

definition ohlc :: "nat \<Rightarrow> int \<Rightarrow> rat \<Rightarrow> rat \<Rightarrow> bar list" where
  "ohlc count seed drift vol = fst (walk count seed 100 drift vol)"

text \<open>A leg is its length, its drift and its volatility, one when none is named.\<close>

type_synonym leg = "nat \<times> rat \<times> rat option"

fun walk_legs :: "leg list \<Rightarrow> int \<Rightarrow> rat \<Rightarrow> bar list" where
  "walk_legs [] s price = []"
| "walk_legs ((n, drift, vol) # ls) s price =
     (case walk n s price drift (case vol of Some v \<Rightarrow> v | None \<Rightarrow> 1) of (bs, s', price') \<Rightarrow> bs @ walk_legs ls s' price')"

definition ohlc_legs :: "int \<Rightarrow> leg list \<Rightarrow> bar list" where
  "ohlc_legs seed ls = walk_legs ls seed 100"

definition lesson_bars :: "bar list" where "lesson_bars = ohlc 46 7 (12 / 100) 1"

definition cold_bars :: "bar list" where "cold_bars = ohlc 46 23 (- 78 / 100) (115 / 100)"

definition trend_bars :: "bar list" where
  "trend_bars = ohlc_legs 11 [(20, - 62 / 100, Some (9 / 10)), (26, 78 / 100, Some (105 / 100))]"

definition break_bars :: "bar list" where
  "break_bars = ohlc_legs 14 [(30, 2 / 100, Some (55 / 100)), (4, 9 / 10, Some (8 / 10)), (12, 62 / 100, Some 1)]"

definition session_bars :: "bar list" where
  "session_bars = ohlc_legs 2 [(10, - 5 / 100, Some (6 / 10)), (15, 4 / 100, Some (9 / 10)), (6, 1 / 10, Some (5 / 10)), (5, 11 / 10, Some (9 / 10))]"

definition swing_bars :: "bar list" where
  "swing_bars = ohlc_legs 29 [(14, 5 / 10, Some (9 / 10)), (12, - 62 / 100, Some 1), (14, 58 / 100, Some (95 / 100)),
     (10, - 45 / 100, Some (11 / 10)), (10, - 35 / 100, Some (13 / 10))]"

section \<open>What is computed of them\<close>

definition sma_at :: "bar list \<Rightarrow> nat \<Rightarrow> nat \<Rightarrow> rat" where
  "sma_at bars period i = (let window = js_slice (Suc i - period) (Suc i) bars in
     foldl (\<lambda>sum b. sum + bar_c b) 0 window / of_nat (length window))"

definition sma :: "bar list \<Rightarrow> nat \<Rightarrow> rat list" where
  "sma bars period = List.map (sma_at bars period) [0..<length bars]"

definition add_move :: "rat \<times> rat \<Rightarrow> rat \<Rightarrow> rat \<times> rat" where
  "add_move ud move = (case ud of (up, down) \<Rightarrow> if move \<ge> 0 then (up + move, down) else (up, down - move))"

definition rsi_at :: "bar list \<Rightarrow> nat \<Rightarrow> nat \<Rightarrow> rat" where
  "rsi_at bars period i =
     (let window = js_slice (max 1 (Suc i - period)) (Suc i) bars;
          moves = List.map (\<lambda>k. bar_c (window ! k) - bar_c (bars ! (i + 1 - length window + k - 1))) [0..<length window]
      in case foldl add_move (0, 0) moves of (up, down) \<Rightarrow> if down = 0 then 100 else 100 - 100 / (1 + up / down))"

definition rsi :: "bar list \<Rightarrow> nat \<Rightarrow> rat list" where
  "rsi bars period = List.map (rsi_at bars period) [0..<length bars]"

text \<open>The channel before a bar, and none where there is no window behind it.\<close>

definition donchian_at :: "bar list \<Rightarrow> nat \<Rightarrow> nat \<Rightarrow> jsnum \<times> jsnum" where
  "donchian_at bars period i = (if i < period then (NaN, NaN)
     else let window = js_slice (i - period) i bars in
       (math_max_list (List.map (\<lambda>b. Num (bar_h b)) window), math_min_list (List.map (\<lambda>b. Num (bar_l b)) window)))"

definition donchian :: "bar list \<Rightarrow> nat \<Rightarrow> (jsnum \<times> jsnum) list" where
  "donchian bars period = List.map (donchian_at bars period) [0..<length bars]"

text \<open>The last index from the end, not before \<open>start\<close>, where something holds.\<close>

definition last_from :: "nat \<Rightarrow> nat \<Rightarrow> (nat \<Rightarrow> bool) \<Rightarrow> int" where
  "last_from start stop P = (case find P (rev [start..<stop]) of Some i \<Rightarrow> int i | None \<Rightarrow> - 1)"

definition breaks :: "bar list \<Rightarrow> (jsnum \<times> jsnum) list \<Rightarrow> nat \<Rightarrow> bool" where
  "breaks bars channel i \<longleftrightarrow> (case channel ! i of (hi, lo) \<Rightarrow>
     is_finite hi \<and> (Num (bar_c (bars ! i)) > hi \<or> Num (bar_c (bars ! i)) < lo))"

definition last_break :: "bar list \<Rightarrow> (jsnum \<times> jsnum) list \<Rightarrow> nat \<Rightarrow> int" where
  "last_break bars channel start = last_from start (length bars) (breaks bars channel)"

definition crosses :: "rat list \<Rightarrow> rat list \<Rightarrow> nat \<Rightarrow> bool" where
  "crosses fast slow i \<longleftrightarrow> (fast ! i - slow ! i) * (fast ! (i - 1) - slow ! (i - 1)) < 0"

definition last_cross :: "rat list \<Rightarrow> rat list \<Rightarrow> nat \<Rightarrow> int" where
  "last_cross fast slow start = last_from (Suc start) (length fast - 1) (crosses fast slow)"

definition scale_bounds :: "bar list \<Rightarrow> jsnum \<times> jsnum" where
  "scale_bounds bars =
     (let hi = math_max_list (List.map (\<lambda>b. Num (bar_h b)) bars); lo = math_min_list (List.map (\<lambda>b. Num (bar_l b)) bars);
          pad = num_or ((hi - lo) * Num (9 / 100)) 1
      in (hi + pad, lo - pad))"

definition scale :: "bar list \<Rightarrow> jsnum \<Rightarrow> jsnum \<Rightarrow> jsnum \<Rightarrow> jsnum" where
  "scale bars y0 height value = (case scale_bounds bars of (hi, lo) \<Rightarrow> y0 + height - ((value - lo) / (hi - lo)) * height)"

section \<open>Every bar is a bar\<close>

lemma rnd_in_range: "0 \<le> rnd_value (rnd_next s)" "rnd_value (rnd_next s) \<le> 1"
proof -
  let ?x = "word_of_int (as_double (as_double (s * 1103515245) + 12345)) :: 32 word"
  have u: "rnd_next s = uint ?x AND 0x7FFFFFFF" by (simp add: rnd_next_def uint_and)
  then have "0 \<le> rnd_next s" by simp
  moreover have "rnd_next s \<le> 0x7FFFFFFF" unfolding u by (rule AND_upper2) simp
  ultimately have "0 \<le> (of_int (rnd_next s) :: rat)" "(of_int (rnd_next s) :: rat) \<le> of_int 0x7FFFFFFF"
    by (simp_all only: of_int_le_iff of_int_0_le_iff)
  then show "0 \<le> rnd_value (rnd_next s)" "rnd_value (rnd_next s) \<le> 1"
    by (simp_all add: rnd_value_def top_seed_def)
qed

definition bar_ok :: "bar \<Rightarrow> bool" where
  "bar_ok b \<longleftrightarrow> bar_l b \<le> bar_o b \<and> bar_l b \<le> bar_c b \<and> bar_o b \<le> bar_h b \<and> bar_c b \<le> bar_h b"

text \<open>Each bar opens where the one before it closed.\<close>

fun chained :: "rat \<Rightarrow> bar list \<Rightarrow> bool" where
  "chained p [] = True"
| "chained p (b # bs) = (bar_o b = p \<and> chained (bar_c b) bs)"

definition close_of :: "rat \<Rightarrow> bar list \<Rightarrow> rat" where
  "close_of p bs = (if bs = [] then p else bar_c (last bs))"

lemma chained_append: "chained p (xs @ ys) = (chained p xs \<and> chained (close_of p xs) ys)"
  by (induction xs arbitrary: p) (auto simp: close_of_def)

lemma wick_holds_body:
  "0 \<le> x \<Longrightarrow> 0 \<le> y \<Longrightarrow> min p c - y \<le> p \<and> min p c - y \<le> c \<and> p \<le> max p c + x \<and> c \<le> max p (c :: rat) + x"
  by (auto simp: min_def max_def)

lemma walk_bar_ok: "0 \<le> vol \<Longrightarrow> bar_ok (fst (walk_bar s p drift vol)) \<and> bar_o (fst (walk_bar s p drift vol)) = p"
proof -
  assume "0 \<le> vol"
  then have "0 \<le> rnd_value (rnd_next t) * (3 / 2) * vol" for t
    using rnd_in_range(1)[of t] by (intro mult_nonneg_nonneg) simp_all
  from wick_holds_body[OF this this] show ?thesis
    unfolding walk_bar_def Let_def bar_ok_def fst_conv bar.simps by (intro conjI; (elim conjE)?; (assumption | rule refl | blast))
qed

lemma walk_ok:
  "0 \<le> vol \<Longrightarrow> walk n s p drift vol = (bs, s', p') \<Longrightarrow>
     length bs = n \<and> list_all bar_ok bs \<and> chained p bs \<and> p' = close_of p bs"
proof (induction n arbitrary: s p bs s' p')
  case 0
  then show ?case by (simp add: close_of_def)
next
  case (Suc n)
  obtain b t where b: "walk_bar s p drift vol = (b, t)" by force
  obtain cs u q where w: "walk n t (bar_c b) drift vol = (cs, u, q)" by (metis prod_cases3)
  have "bar_ok b \<and> bar_o b = p" using walk_bar_ok[OF Suc.prems(1), of s p drift] b by simp
  then show ?case using Suc.IH[OF Suc.prems(1) w] Suc.prems(2) b w by (auto simp: close_of_def)
qed

definition leg_vol :: "leg \<Rightarrow> rat" where
  "leg_vol l = (case snd (snd l) of Some v \<Rightarrow> v | None \<Rightarrow> 1)"

lemma walk_legs_ok:
  "list_all (\<lambda>l. 0 \<le> leg_vol l) ls \<Longrightarrow>
     length (walk_legs ls s p) = sum_list (List.map fst ls) \<and> list_all bar_ok (walk_legs ls s p) \<and> chained p (walk_legs ls s p)"
proof (induction ls arbitrary: s p)
  case Nil
  then show ?case by simp
next
  case (Cons l ls)
  obtain n drift vol where l: "l = (n, drift, vol)" by (cases l) auto
  obtain bs s' p' where w: "walk n s p drift (case vol of Some v \<Rightarrow> v | None \<Rightarrow> 1) = (bs, s', p')" by (metis prod_cases3)
  have "0 \<le> (case vol of Some v \<Rightarrow> v | None \<Rightarrow> 1)" using Cons.prems l by (simp add: leg_vol_def)
  from walk_ok[OF this w] show ?case using Cons l w by (simp add: chained_append list_all_append)
qed

text \<open>A walk of one kind is a walk in one leg.\<close>

lemma ohlc_one_leg: "ohlc n seed drift vol = ohlc_legs seed [(n, drift, Some vol)]"
  by (simp add: ohlc_def ohlc_legs_def split: prod.split)

text \<open>
  C35. A picture of a market is a market: however a walk is made of legs and
  whatever its seed, as long as no leg's volatility is negative there are
  exactly as many bars as the legs have, no bar's body leaves its wick, the first
  opens at a hundred and every other where the one before it closed.
\<close>

theorem walks_are_markets:
  assumes "list_all (\<lambda>l. 0 \<le> leg_vol l) ls"
  shows "length (ohlc_legs seed ls) = sum_list (List.map fst ls) \<and> list_all bar_ok (ohlc_legs seed ls) \<and> chained 100 (ohlc_legs seed ls)"
  using walk_legs_ok[OF assms] by (simp add: ohlc_legs_def)

theorem walks_are_markets_witness:
  "length trend_bars = 46 \<and> list_all bar_ok trend_bars \<and> chained 100 trend_bars"
  using walks_are_markets[of "[(20, - 62 / 100, Some (9 / 10)), (26, 78 / 100, Some (105 / 100))]" 11]
  by (simp add: trend_bars_def leg_vol_def)

section \<open>The strength index\<close>

definition moves_at :: "bar list \<Rightarrow> nat \<Rightarrow> nat \<Rightarrow> rat list" where
  "moves_at bars period i = List.map (\<lambda>k. bar_c (bars ! k) - bar_c (bars ! (k - 1))) [max 1 (Suc i - period)..<Suc i]"

definition gains :: "rat list \<Rightarrow> rat" where "gains ms = sum_list (List.map (max 0) ms)"

definition losses :: "rat list \<Rightarrow> rat" where "losses ms = sum_list (List.map (\<lambda>m. max 0 (- m)) ms)"

lemma add_moves: "foldl add_move (u, d) ms = (u + gains ms, d + losses ms)"
  by (induction ms arbitrary: u d) (auto simp: add_move_def gains_def losses_def max_def)

lemma gains_nonneg: "0 \<le> gains ms" "0 \<le> losses ms"
  unfolding gains_def losses_def by (induction ms; simp add: add_nonneg_nonneg)+

lemma window_moves:
  assumes "i < length bars"
  shows "(let window = js_slice (max 1 (Suc i - period)) (Suc i) bars in
     List.map (\<lambda>k. bar_c (window ! k) - bar_c (bars ! (i + 1 - length window + k - 1))) [0..<length window]) = moves_at bars period i"
proof -
  let ?a = "max 1 (Suc i - period)"
  let ?w = "js_slice ?a (Suc i) bars"
  have len: "length ?w = Suc i - ?a" using assms by auto
  have "List.map (\<lambda>k. bar_c (?w ! k) - bar_c (bars ! (i + 1 - length ?w + k - 1))) [0..<length ?w] =
      List.map (\<lambda>k. bar_c (bars ! (k + ?a)) - bar_c (bars ! (k + ?a - 1))) [0..<Suc i - ?a]"
    unfolding len by (rule map_cong) (use assms in \<open>auto simp: js_slice_def add.commute\<close>)
  also have "\<dots> = List.map (\<lambda>k. bar_c (bars ! k) - bar_c (bars ! (k - 1))) (List.map (\<lambda>k. k + ?a) [0..<Suc i - ?a])"
    by (simp add: o_def)
  also have "List.map (\<lambda>k. k + ?a) [0..<Suc i - ?a] = [?a..<Suc i]"
    by (cases "?a \<le> Suc i") (simp_all add: map_add_upt del: upt_Suc)
  finally show ?thesis by (simp add: moves_at_def Let_def)
qed

text \<open>
  C37. The strength index is what its name says: at every bar it is the share of
  the gains in all the moves of the window, in percent, a hundred where nothing was
  lost, and so always between nothing and a hundred.
\<close>

theorem rsi_is_share_of_gains:
  "rsi bars period = List.map (\<lambda>i. let up = gains (moves_at bars period i); down = losses (moves_at bars period i) in
     if down = 0 then 100 else 100 * up / (up + down)) [0..<length bars] \<and>
   list_all (\<lambda>r. 0 \<le> r \<and> r \<le> 100) (rsi bars period)"
proof -
  have share: "100 - 100 / (1 + up / down) = 100 * up / (up + down)" "0 \<le> 100 * up / (up + down)" "100 * up / (up + down) \<le> 100"
    if "0 \<le> up" "0 < down" for up down :: rat
    using that by (simp_all add: field_simps add_nonneg_pos)
  have at: "rsi_at bars period i = (let up = gains (moves_at bars period i); down = losses (moves_at bars period i) in
      if down = 0 then 100 else 100 * up / (up + down))" if "i < length bars" for i
    using window_moves[OF that, of period] gains_nonneg(1)[of "moves_at bars period i"] gains_nonneg(2)[of "moves_at bars period i"]
      share(1)[of "gains (moves_at bars period i)" "losses (moves_at bars period i)"]
    unfolding rsi_at_def Let_def by (simp add: add_moves)
  moreover have "0 \<le> rsi_at bars period i \<and> rsi_at bars period i \<le> 100" if "i < length bars" for i
    using at[OF that] share(2,3)[of "gains (moves_at bars period i)" "losses (moves_at bars period i)"]
      gains_nonneg[of "moves_at bars period i"] by (simp add: Let_def less_le)
  ultimately show ?thesis by (simp add: rsi_def list_all_iff)
qed

section \<open>The channel\<close>

definition beyond_all :: "bar list \<Rightarrow> nat \<Rightarrow> nat \<Rightarrow> bool" where
  "beyond_all bars period i \<longleftrightarrow> 0 < period \<and> period \<le> i \<and>
     (list_all (\<lambda>k. bar_h (bars ! k) < bar_c (bars ! i)) [i - period..<i] \<or> list_all (\<lambda>k. bar_c (bars ! i) < bar_l (bars ! k)) [i - period..<i])"

lemma foldl_max_less: "(foldl max a xs < (c :: 'a :: linorder)) = (a < c \<and> list_all (\<lambda>x. x < c) xs)"
  by (induction xs arbitrary: a) auto

lemma foldl_min_greater: "((c :: 'a :: linorder) < foldl min a xs) = (c < a \<and> list_all (\<lambda>x. c < x) xs)"
  by (induction xs arbitrary: a) auto

lemma math_min_list_Num: "math_min_list (Num a # map Num xs) = Num (foldl min a xs)"
proof -
  have "foldl math_min (Num a) (map Num xs) = Num (foldl min a xs)" for a
    by (induction xs arbitrary: a) simp_all
  moreover have "math_min PosInf (Num a) = Num a" by (simp add: math_min_def)
  ultimately show ?thesis by (simp add: math_min_list_def)
qed

lemma edges_Num:
  "bs \<noteq> [] \<Longrightarrow> math_max_list (List.map (\<lambda>b. Num (f b)) bs) = Num (foldl max (f (hd bs)) (List.map f (tl bs)))"
  "bs \<noteq> [] \<Longrightarrow> math_min_list (List.map (\<lambda>b. Num (f b)) bs) = Num (foldl min (f (hd bs)) (List.map f (tl bs)))"
  using math_max_list_Num[of "f (hd bs)" "List.map f (tl bs)"] math_min_list_Num[of "f (hd bs)" "List.map f (tl bs)"]
  by (cases bs; simp add: o_def)+

lemma window_all:
  assumes "i < length bars" "period \<le> i"
  shows "list_all P (js_slice (i - period) i bars) = list_all (\<lambda>k. P (bars ! k)) [i - period..<i]"
proof -
  have "js_slice (i - period) i bars = List.map ((!) bars) [i - period..<i]"
    using assms by (intro nth_equalityI) (auto simp: js_slice_def)
  then show ?thesis by (simp add: list_all_iff)
qed

lemma breaks_iff:
  assumes "i < length bars"
  shows "breaks bars (donchian bars period) i = beyond_all bars period i"
proof -
  have ch: "donchian bars period ! i = donchian_at bars period i" using assms by (simp add: donchian_def)
  show ?thesis
  proof (cases "period \<le> i \<and> 0 < period")
    case True
    let ?w = "js_slice (i - period) i bars"
    have ne: "?w \<noteq> []" using True assms by (auto simp: js_slice_def)
    have hi: "(foldl max (f (hd ?w)) (List.map f (tl ?w)) < c) = list_all (\<lambda>b. f b < c) ?w" for f :: "bar \<Rightarrow> rat" and c
      using ne by (cases ?w) (simp_all add: foldl_max_less list_all_iff)
    have lo: "(c < foldl min (f (hd ?w)) (List.map f (tl ?w))) = list_all (\<lambda>b. c < f b) ?w" for f :: "bar \<Rightarrow> rat" and c
      using ne by (cases ?w) (simp_all add: foldl_min_greater list_all_iff)
    show ?thesis using True assms
      by (simp add: breaks_def ch donchian_at_def Let_def edges_Num[OF ne] hi lo window_all beyond_all_def)
  next
    case False
    then show ?thesis
      by (auto simp: breaks_def ch donchian_at_def beyond_all_def js_slice_def math_max_list_def Let_def)
  qed
qed

lemma last_from_spec:
  "last_from start stop P = (case filter P [start..<stop] of [] \<Rightarrow> - 1 | is \<Rightarrow> int (last is))"
proof -
  have "find P (rev xs) = (case filter P xs of [] \<Rightarrow> None | ys \<Rightarrow> Some (last ys))" for xs :: "nat list"
    by (induction xs rule: rev_induct) (auto split: list.splits)
  then show ?thesis by (simp add: last_from_def split: list.split)
qed

text \<open>
  A break of the channel is what the lesson says it is: the bars that break it
  are exactly those with a full window behind them that close above every high
  of the window, or below every low of it, and the last break is the last of them.
\<close>

theorem breaks_close_beyond:
  "filter (breaks bars (donchian bars period)) [0..<length bars] = filter (beyond_all bars period) [0..<length bars] \<and>
   last_break bars (donchian bars period) 0 = (case filter (beyond_all bars period) [0..<length bars] of [] \<Rightarrow> - 1 | is \<Rightarrow> int (last is))"
proof -
  have "filter (breaks bars (donchian bars period)) [0..<length bars] = filter (beyond_all bars period) [0..<length bars]"
    by (rule filter_cong) (simp_all add: breaks_iff)
  then show ?thesis by (simp add: last_break_def last_from_spec)
qed

section \<open>On the stage\<close>

lemma foldl_min_le: "foldl min (a::'a::linorder) xs \<le> a" "x \<in> set xs \<Longrightarrow> foldl min a xs \<le> x"
proof -
  have le: "foldl min b xs \<le> b" for b :: 'a and xs
    by (induction xs arbitrary: b) (auto, metis min.bounded_iff)
  show "foldl min a xs \<le> a" by (rule le)
  show "x \<in> set xs \<Longrightarrow> foldl min a xs \<le> x"
    by (induction xs arbitrary: a) (auto, metis le min.bounded_iff)
qed

lemma edges_hold:
  fixes f :: "bar \<Rightarrow> rat"
  assumes "b \<in> set bs"
  shows "f b \<le> foldl max (f (hd bs)) (List.map f (tl bs))" "foldl min (f (hd bs)) (List.map f (tl bs)) \<le> f b"
proof -
  have "b = hd bs \<or> b \<in> set (tl bs)" using assms by (cases bs) auto
  then show "f b \<le> foldl max (f (hd bs)) (List.map f (tl bs))" "foldl min (f (hd bs)) (List.map f (tl bs)) \<le> f b"
    by (auto simp: foldl_max_ge foldl_min_le)
qed

text \<open>The two edges of the drawing lie outside every bar.\<close>

lemma scale_edges:
  assumes "bars \<noteq> []" "list_all bar_ok bars"
  obtains lo hi where "scale_bounds bars = (Num hi, Num lo)" "lo < hi" "\<And>b. b \<in> set bars \<Longrightarrow> lo < bar_l b \<and> bar_h b < hi"
proof -
  let ?hi = "foldl max (bar_h (hd bars)) (List.map bar_h (tl bars))" and ?lo = "foldl min (bar_l (hd bars)) (List.map bar_l (tl bars))"
  let ?pad = "if (?hi - ?lo) * (9 / 100) = 0 then 1 else (?hi - ?lo) * (9 / 100)"
  have hd: "hd bars \<in> set bars" using assms(1) by simp
  then have "bar_l (hd bars) \<le> bar_h (hd bars)" using assms(2) by (auto simp: bar_ok_def list_all_iff)
  then have "?lo \<le> ?hi" using edges_hold[OF hd] by (meson order.trans)
  then have pad: "0 < ?pad" by simp
  have "num_or ((Num ?hi - Num ?lo) * Num (9 / 100)) 1 = Num ?pad"
    by (auto simp: num_or_def truthy_def js_eval)
  then have "scale_bounds bars = (Num (?hi + ?pad), Num (?lo - ?pad))"
    unfolding scale_bounds_def edges_Num[OF assms(1)] Let_def by simp
  moreover have "?lo - ?pad < ?hi + ?pad" using pad \<open>?lo \<le> ?hi\<close> by linarith
  moreover have "?lo - ?pad < bar_l b \<and> bar_h b < ?hi + ?pad" if "b \<in> set bars" for b
    using edges_hold(1)[OF that, of bar_h] edges_hold(2)[OF that, of bar_l] pad by linarith
  ultimately show ?thesis using that by blast
qed

text \<open>
  Nothing is drawn off the stage and nothing upside down: on a drawing of
  real bars with a positive height, each bar's high and low land strictly inside the
  band the drawing was given, and a higher price is drawn higher.
\<close>

theorem bars_stay_on_stage:
  assumes "list_all bar_ok bars" "b \<in> set bars" "0 < height" "p < q"
  shows "\<exists>h l yp yq. scale bars (Num y0) (Num height) (Num (bar_h b)) = Num h \<and> scale bars (Num y0) (Num height) (Num (bar_l b)) = Num l \<and>
    y0 < h \<and> h \<le> l \<and> l < y0 + height \<and>
    scale bars (Num y0) (Num height) (Num p) = Num yp \<and> scale bars (Num y0) (Num height) (Num q) = Num yq \<and> yq < yp"
proof -
  have "bars \<noteq> []" using assms(2) by auto
  from scale_edges[OF this assms(1)] obtain lo hi where e: "scale_bounds bars = (Num hi, Num lo)" "lo < hi" "lo < bar_l b" "bar_h b < hi"
    using assms(2) by metis
  have lh: "bar_l b \<le> bar_h b" using assms(1,2) by (auto simp: bar_ok_def list_all_iff)
  have at: "scale bars (Num y0) (Num height) (Num v) = Num (y0 + height - (v - lo) / (hi - lo) * height)" for v
    using e(1,2) by (simp add: scale_def)
  have mono: "(v - lo) / (hi - lo) * height < (w - lo) / (hi - lo) * height" if "v < w" for v w
    using that e(2) assms(3) by (simp add: divide_strict_right_mono)
  have "(bar_h b - lo) / (hi - lo) * height < height" "0 < (bar_l b - lo) / (hi - lo) * height"
    using mono[OF e(4)] mono[OF e(3)] e(2) by simp_all
  moreover have "(bar_l b - lo) / (hi - lo) * height \<le> (bar_h b - lo) / (hi - lo) * height"
    using mono[of "bar_l b" "bar_h b"] lh by (cases "bar_l b = bar_h b") auto
  moreover have "(p - lo) / (hi - lo) * height < (q - lo) / (hi - lo) * height" by (rule mono[OF assms(4)])
  ultimately have "y0 < y0 + height - (bar_h b - lo) / (hi - lo) * height \<and>
      y0 + height - (bar_h b - lo) / (hi - lo) * height \<le> y0 + height - (bar_l b - lo) / (hi - lo) * height \<and>
      y0 + height - (bar_l b - lo) / (hi - lo) * height < y0 + height \<and>
      y0 + height - (q - lo) / (hi - lo) * height < y0 + height - (p - lo) / (hi - lo) * height"
    by linarith
  then show ?thesis unfolding at by blast
qed

theorem bars_stay_on_stage_witness:
  "\<exists>h l. scale trend_bars 22 156 (Num (bar_h (hd trend_bars))) = Num h \<and> scale trend_bars 22 156 (Num (bar_l (hd trend_bars))) = Num l \<and> 22 < h \<and> h \<le> l \<and> l < 178"
proof -
  have m: "list_all bar_ok trend_bars" "length trend_bars = 46"
    using walk_legs_ok[of "[(20, - 62 / 100, Some (9 / 10)), (26, 78 / 100, Some (105 / 100))]" 11 100]
    by (simp_all add: trend_bars_def ohlc_legs_def leg_vol_def)
  then have "trend_bars \<noteq> []" by auto
  then have "hd trend_bars \<in> set trend_bars" by simp
  from bars_stay_on_stage[OF m(1) this, of 156 0 1 22] show ?thesis by (auto simp: numeral_Num)
qed

end
