(* ===== verification/LessonArt.thy ===== *)
theory LessonArt
  imports Walks
begin

text \<open>
  What the pictures of the lessons point at (ui/lesson-art.tsx) and where they put it:
  the turn and the middle of a move, a real cross and a near miss, the first close
  outside and the wick that closed back in. Strokes and colours are not modelled.
\<close>

section \<open>The stage\<close>

definition stage_clamp :: "jsnum \<Rightarrow> jsnum \<Rightarrow> jsnum \<Rightarrow> jsnum" where
  "stage_clamp v lo hi = math_min hi (math_max lo v)"

text \<open>The rules of the grid: one less than the rows.\<close>

definition grid_lines :: "jsnum \<Rightarrow> jsnum \<Rightarrow> nat \<Rightarrow> jsnum list" where
  "grid_lines y0 height rows = List.map (\<lambda>k. y0 + (height / Num (of_nat rows)) * Num (of_nat (k + 1))) [0..<rows - 1]"

record candle =
  cn_x :: jsnum
  cn_high_y :: jsnum
  cn_low_y :: jsnum
  cn_body_y :: jsnum
  cn_body_height :: jsnum
  cn_width :: jsnum
  cn_up :: bool

definition stage_x :: "jsnum \<Rightarrow> jsnum \<Rightarrow> nat \<Rightarrow> jsnum" where
  "stage_x left_edge step i = left_edge + step * (Num (of_nat i) + Num (1 / 2))"

definition candles :: "bar list \<Rightarrow> jsnum \<Rightarrow> jsnum \<Rightarrow> jsnum \<Rightarrow> jsnum \<Rightarrow> candle list" where
  "candles bars left_edge y0 width height =
     (let y = scale bars y0 height; step = width / Num (of_nat (length bars)); bw = math_max (Num (24 / 10)) (step * Num (58 / 100)) in
      List.map (\<lambda>i. let b = bars ! i; t = y (Num (max (bar_o b) (bar_c b))); f = y (Num (min (bar_o b) (bar_c b))) in
        \<lparr>cn_x = stage_x left_edge step i, cn_high_y = y (Num (bar_h b)), cn_low_y = y (Num (bar_l b)), cn_body_y = t,
         cn_body_height = math_max (Num (16 / 10)) (f - t), cn_width = bw, cn_up = (bar_c b \<ge> bar_o b)\<rparr>) [0..<length bars])"

datatype mark_at = MarkBelow | MarkAbove | MarkLeft | MarkRight

definition mark_label :: "jsnum \<Rightarrow> jsnum \<Rightarrow> mark_at \<Rightarrow> jsnum \<times> jsnum" where
  "mark_label x y at_side = (case at_side of MarkBelow \<Rightarrow> (x, y + 27) | MarkAbove \<Rightarrow> (x, y - 18)
   | MarkLeft \<Rightarrow> (x - 17, y + 4) | MarkRight \<Rightarrow> (x + 17, y + 4))"

section \<open>Direction\<close>

record fork =
  fk_now_x :: jsnum
  fk_last_y :: jsnum
  fk_up_y :: jsnum
  fk_down_y :: jsnum

definition direction_idea :: fork where
  "direction_idea = (let past = take 30 lesson_bars; step = 186 / Num (of_nat (length past));
       last_y = stage_clamp (scale past 32 136 (Num (bar_c (last past)))) 64 136 in
     \<lparr>fk_now_x = 10 + step * Num (of_nat (length past)), fk_last_y = last_y,
      fk_up_y = stage_clamp (last_y - 54) 30 100, fk_down_y = stage_clamp (last_y + 54) 100 176\<rparr>)"

definition turning_level :: "bar list \<Rightarrow> rat \<times> rat" where
  "turning_level bars = (let lo = Min (bar_l ` set bars); hi = Max (bar_h ` set bars) in (lo + (hi - lo) * (3 / 10), (hi - lo) * (5 / 100)))"

definition touches :: "bar list \<Rightarrow> nat list" where
  "touches bars = (case turning_level bars of (level, near) \<Rightarrow> filter (\<lambda>i. \<bar>bar_l (bars ! i) - level\<bar> < near) [0..<length bars])"

definition the_turn :: "bar list \<Rightarrow> int" where
  "the_turn bars = (if touches bars \<noteq> [] then int (last (touches bars)) else 12)"

definition mid_move :: "bar list \<Rightarrow> int" where
  "mid_move bars = (let turn = the_turn bars; mid = min (int (length bars) - 4) (turn + 16) in
     if mid - turn < 10 then max 4 (turn - 16) else mid)"

section \<open>The cross\<close>

definition real_cross :: "rat list \<Rightarrow> rat list \<Rightarrow> nat \<Rightarrow> int" where
  "real_cross fast slow start = max (int start + 1) (last_cross fast slow start)"

definition crosses_near :: "rat list \<Rightarrow> rat list \<Rightarrow> nat \<Rightarrow> bool" where
  "crosses_near fast slow i = list_ex (crosses fast slow) [max 1 (i - 3)..<Suc (min (length fast - 1) (i + 3))]"

text \<open>The near miss is looked for away from the real cross: the smallest gap so far
  and where it was.\<close>

definition near_step :: "rat list \<Rightarrow> rat list \<Rightarrow> int \<Rightarrow> nat \<times> rat option \<Rightarrow> nat \<Rightarrow> nat \<times> rat option" where
  "near_step fast slow ringed s i =
     (if \<bar>int i - ringed\<bar> < 10 \<or> crosses_near fast slow i then s
      else let gap = \<bar>fast ! i - slow ! i\<bar> in
        case snd s of Some best \<Rightarrow> if gap < best then (i, Some gap) else s | None \<Rightarrow> (i, Some gap))"

definition near_miss :: "rat list \<Rightarrow> rat list \<Rightarrow> nat \<Rightarrow> nat" where
  "near_miss fast slow start =
     fst (foldl (near_step fast slow (real_cross fast slow start)) (start + 2, None) [start + 2..<length fast - 2])"

text \<open>The two averages of the picture.\<close>

definition cross_picture :: "int \<times> nat" where
  "cross_picture = (let fast = sma trend_bars 5; slow = sma trend_bars 13 in (real_cross fast slow 4, near_miss fast slow 4))"

definition cross_side :: "int \<Rightarrow> nat \<Rightarrow> mark_at" where
  "cross_side ringed n = (if of_int ringed > of_nat n * (6 / 10 :: rat) then MarkLeft else MarkRight)"

section \<open>The thermometer\<close>

definition pane_y :: "rat \<Rightarrow> rat" where "pane_y v = 120 + 72 - (v / 100) * 72"

definition rsi_picture :: "rat list" where
  "rsi_picture = (let values = rsi swing_bars 14; start = length swing_bars - 46 in List.map pane_y (drop start values))"

section \<open>The channel and the range\<close>

definition find_index :: "(nat \<Rightarrow> bool) \<Rightarrow> nat \<Rightarrow> nat \<Rightarrow> nat" where
  "find_index P start n = (case find P [start..<n] of Some i \<Rightarrow> i | None \<Rightarrow> n - 1)"

definition closes_above :: "bar list \<Rightarrow> (jsnum \<times> jsnum) list \<Rightarrow> nat \<Rightarrow> bool" where
  "closes_above bars chan i \<longleftrightarrow> is_finite (fst (chan ! i)) \<and> Num (bar_c (bars ! i)) > fst (chan ! i)"

definition pokes_through :: "bar list \<Rightarrow> (nat \<Rightarrow> jsnum) \<Rightarrow> nat \<Rightarrow> bool" where
  "pokes_through bars edge i \<longleftrightarrow> Num (bar_h (bars ! i)) > edge i \<and> Num (bar_c (bars ! i)) \<le> edge i"

definition channel_break :: "bar list \<Rightarrow> nat \<Rightarrow> nat \<Rightarrow> nat" where
  "channel_break bars period start = find_index (closes_above bars (donchian bars period)) start (length bars)"

text \<open>The wick before it that only poked through, looked for backwards.\<close>

definition channel_wick :: "bar list \<Rightarrow> nat \<Rightarrow> nat \<Rightarrow> int" where
  "channel_wick bars period start =
     last_from (start + 2) (channel_break bars period start - 1) (pokes_through bars (\<lambda>i. fst (donchian bars period ! i)))"

definition channel_picture :: "nat \<times> int" where
  "channel_picture = (channel_break break_bars 20 12, channel_wick break_bars 20 12)"

definition range_edges :: "bar list \<Rightarrow> nat \<Rightarrow> nat \<Rightarrow> jsnum \<times> jsnum" where
  "range_edges bars open_at len = (let rng = js_slice open_at (open_at + len) bars in
     (math_max_list (List.map (\<lambda>b. Num (bar_h b)) rng), math_min_list (List.map (\<lambda>b. Num (bar_l b)) rng)))"

definition closes_outside :: "bar list \<Rightarrow> jsnum \<times> jsnum \<Rightarrow> nat \<Rightarrow> bool" where
  "closes_outside bars edges i \<longleftrightarrow> Num (bar_c (bars ! i)) > fst edges \<or> Num (bar_c (bars ! i)) < snd edges"

definition opening_break :: "bar list \<Rightarrow> nat \<Rightarrow> nat \<Rightarrow> nat" where
  "opening_break bars open_at len = find_index (closes_outside bars (range_edges bars open_at len)) (open_at + len) (length bars)"

definition range_wick :: "bar list \<Rightarrow> nat \<Rightarrow> nat \<Rightarrow> int" where
  "range_wick bars open_at len =
     last_from (open_at + len) (opening_break bars open_at len) (pokes_through bars (\<lambda>_. fst (range_edges bars open_at len)))"

definition range_picture :: "nat \<times> int" where
  "range_picture = (opening_break session_bars 10 15, range_wick session_bars 10 15)"

section \<open>The run of a tap\<close>

record tap_run =
  tr_entry_y :: jsnum
  tr_exit_y :: jsnum
  tr_won :: bool
  tr_stop_y :: jsnum

definition direction_run :: tap_run where
  "direction_run = (let bars = drop 14 lesson_bars; y = scale bars 24 118; entry = bars ! 9; leave = last bars; ey = y (Num (bar_c entry)) in
     \<lparr>tr_entry_y = ey, tr_exit_y = y (Num (bar_c leave)), tr_won = (bar_c leave \<ge> bar_c entry), tr_stop_y = stage_clamp (ey + 30) (24 + 10) (24 + 118 + 20)\<rparr>)"

text \<open>The channel steps up after its first break: the window is on the second.\<close>

definition channel_again :: "bar list \<Rightarrow> nat \<Rightarrow> nat \<Rightarrow> nat list \<times> nat" where
  "channel_again bars period start =
     (let bs = filter (closes_above bars (donchian bars period)) [start..<length bars] in
      (take 2 bs, if bs = [] then length bars - 1 else bs ! min 1 (length bs - 1)))"

record window_band =
  wb_x :: jsnum
  wb_width :: jsnum
  wb_pill_x :: jsnum
  wb_after :: bool
  wb_note_x :: jsnum

definition window_band :: "jsnum \<Rightarrow> jsnum \<Rightarrow> window_band" where
  "window_band at_x step = (let band_x = at_x - step / 2; band_w = step * 3; after = band_x + band_w + 6 < 258 in
     \<lparr>wb_x = band_x, wb_width = band_w, wb_pill_x = stage_clamp (at_x + step) 70 250, wb_after = after,
      wb_note_x = (if after then band_x + band_w + 6 else band_x - 6)\<rparr>)"

text \<open>The two crowds of the last step: where each stands and how high.\<close>

definition bulls :: "(nat \<times> nat) list" where
  "bulls = List.map (\<lambda>i. (24 + i * 15, 18 + i * 9 + (i mod 2) * 6)) [0..<9]"

definition bears :: "(nat \<times> nat) list" where
  "bears = List.map (\<lambda>i. (296 - i * 15, 18 + i * 9 + ((i + 1) mod 2) * 6)) [0..<9]"

section \<open>The marks are where they say\<close>

definition gap_at :: "rat list \<Rightarrow> rat list \<Rightarrow> nat \<Rightarrow> rat" where
  "gap_at fast slow i = \<bar>fast ! i - slow ! i\<bar>"

definition away :: "rat list \<Rightarrow> rat list \<Rightarrow> int \<Rightarrow> nat \<Rightarrow> bool" where
  "away fast slow ringed i \<longleftrightarrow> 10 \<le> \<bar>int i - ringed\<bar> \<and> \<not> crosses_near fast slow i"

definition best_of :: "rat list \<Rightarrow> rat list \<Rightarrow> nat list \<Rightarrow> nat \<times> rat option \<Rightarrow> bool" where
  "best_of fast slow cand s \<longleftrightarrow> (if cand = [] then snd s = None
     else fst s \<in> set cand \<and> snd s = Some (gap_at fast slow (fst s)) \<and> list_all (\<lambda>i. gap_at fast slow (fst s) \<le> gap_at fast slow i) cand)"

lemma near_step_away:
  "near_step fast slow ringed s i = (if \<not> away fast slow ringed i then s
     else case snd s of Some g \<Rightarrow> if gap_at fast slow i < g then (i, Some (gap_at fast slow i)) else s | None \<Rightarrow> (i, Some (gap_at fast slow i)))"
  by (auto simp: near_step_def away_def gap_at_def Let_def split: option.split)

lemma near_fold:
  "let s = foldl (near_step fast slow ringed) (d, None) is in
     best_of fast slow (filter (away fast slow ringed) is) s \<and> (filter (away fast slow ringed) is = [] \<longrightarrow> fst s = d)"
proof (induction "is" rule: rev_induct)
  case Nil
  then show ?case by (simp add: best_of_def)
next
  case (snoc i "is")
  obtain here best where s: "foldl (near_step fast slow ringed) (d, None) is = (here, best)" by force
  show ?case
  proof (cases "away fast slow ringed i")
    case False
    then show ?thesis using snoc s by (simp add: near_step_away)
  next
    case True
    then have step: "near_step fast slow ringed (here, best) i =
        (case best of Some g \<Rightarrow> if gap_at fast slow i < g then (i, Some (gap_at fast slow i)) else (here, best) | None \<Rightarrow> (i, Some (gap_at fast slow i)))"
      by (simp add: near_step_away)
    show ?thesis
    proof (cases "filter (away fast slow ringed) is = []")
      case True
      then show ?thesis using snoc s step \<open>away fast slow ringed i\<close> by (simp add: best_of_def)
    next
      case False
      then have "best = Some (gap_at fast slow here)" "here \<in> set (filter (away fast slow ringed) is)"
        "list_all (\<lambda>k. gap_at fast slow here \<le> gap_at fast slow k) (filter (away fast slow ringed) is)"
        using snoc s by (simp_all add: best_of_def)
      then show ?thesis using s step \<open>away fast slow ringed i\<close> False
        by (auto simp: best_of_def list_all_iff intro: order.trans less_imp_le)
    qed
  qed
qed

text \<open>
  The near miss is a miss, and the nearest: whatever the two averages, when
  any place is ten bars from the ringed cross with no crossing within three bars of
  it, the mark is at such a place and no other such place has a smaller gap; only
  without one does it fall back to the start of the lines.
\<close>

theorem near_miss_is_nearest_miss:
  "let ringed = real_cross fast slow start; cand = filter (away fast slow ringed) [start + 2..<length fast - 2] in
     if cand = [] then near_miss fast slow start = start + 2
     else near_miss fast slow start \<in> set cand \<and> list_all (\<lambda>i. gap_at fast slow (near_miss fast slow start) \<le> gap_at fast slow i) cand"
  using near_fold[of fast slow "real_cross fast slow start" "start + 2" "[start + 2..<length fast - 2]"]
  unfolding near_miss_def best_of_def Let_def by (auto split: if_splits)

text \<open>A cross is ringed wherever there is one.\<close>

lemma ringed_is_a_cross:
  "filter (crosses fast slow) [Suc start..<length fast - 1] \<noteq> [] \<Longrightarrow>
     \<exists>i. real_cross fast slow start = int i \<and> crosses fast slow i"
proof -
  let ?is = "filter (crosses fast slow) [Suc start..<length fast - 1]"
  assume "?is \<noteq> []"
  then have "last ?is \<in> set ?is" by (rule last_in_set)
  moreover have "last_cross fast slow start = int (last ?is)"
    using \<open>?is \<noteq> []\<close> unfolding last_cross_def last_from_spec by (cases ?is) simp_all
  ultimately show ?thesis by (auto simp: real_cross_def)
qed

text \<open>The middle of the move is well away from the turn.\<close>

lemma mid_move_far:
  "10 \<le> \<bar>mid_move lesson_bars - the_turn lesson_bars\<bar> \<and> 4 \<le> mid_move lesson_bars \<and> mid_move lesson_bars \<le> 42"
proof -
  have len: "length lesson_bars = 46"
    using walk_legs_ok[of "[(46, 12 / 100, Some 1)]" 7 100]
    by (simp add: lesson_bars_def ohlc_one_leg ohlc_legs_def leg_vol_def)
  have "touches lesson_bars \<noteq> [] \<Longrightarrow> last (touches lesson_bars) < 46"
    using last_in_set[of "touches lesson_bars"] len by (auto simp: touches_def split: prod.splits)
  then have "0 \<le> the_turn lesson_bars \<and> the_turn lesson_bars \<le> 45" by (auto simp: the_turn_def dest: less_imp_le)
  then show ?thesis using len by (auto simp: mid_move_def Let_def)
qed

text \<open>The wick in the channel's picture went through and came back, before the break.\<close>

lemma wick_came_back:
  "channel_wick bars period start = int w \<Longrightarrow>
     w + 1 < channel_break bars period start \<and> pokes_through bars (\<lambda>i. fst (donchian bars period ! i)) w \<and> \<not> closes_above bars (donchian bars period) w"
proof -
  let ?P = "pokes_through bars (\<lambda>i. fst (donchian bars period ! i))" and ?r = "[start + 2..<channel_break bars period start - 1]"
  assume a: "channel_wick bars period start = int w"
  then have "filter ?P ?r \<noteq> []" "w = last (filter ?P ?r)"
    unfolding channel_wick_def last_from_spec by (auto split: list.splits)
  then have "w \<in> set (filter ?P ?r)" by (metis last_in_set)
  then show ?thesis
    by (cases "fst (donchian bars period ! w)") (auto simp: pokes_through_def closes_above_def)
qed

text \<open>The two crowds are the same, a step apart at the front.\<close>

lemma crowds_mirror: "List.map (\<lambda>(x, h). 320 - x) bulls = List.map fst bears"
  by (simp add: bulls_def bears_def)

end
