(* ===== verification/Forms.thy ===== *)
theory Forms
  imports StrategyScreen Controls Trading
begin

text \<open>
  The two forms a trade is shaped with: the standard position
  (trading/position-form.tsx) and the exits of a running one
  (trading/exits-sheet.tsx).
\<close>

section \<open>The standard position as a form\<close>

definition stop_choices :: "nat list" where "stop_choices = [10, 25, 50, 75]"

definition take_choices :: "nat list" where "take_choices = [25, 50, 100, 200]"

definition size_shares :: "nat list" where "size_shares = [25, 50, 75, 100]"

text \<open>Four stops along the leverage track, each once.\<close>

fun first_of_each :: "jsnum list \<Rightarrow> jsnum list" where
  "first_of_each [] = []"
| "first_of_each (x # xs) = x # filter (\<lambda>y. y \<noteq> x) (first_of_each xs)"

definition ticks_to :: "jsnum \<Rightarrow> jsnum list" where
  "ticks_to most = first_of_each (List.map (\<lambda>v. math_min most (math_max 1 v)) [1, math_round (most / 3), math_round ((most * 2) / 3), most])"

definition form_max :: "settings_provider \<Rightarrow> string \<Rightarrow> jsnum" where
  "form_max st mkt = max_size_for (sp_bounds st) (se_leverage (for_market st mkt))"

definition size_step :: "jsnum \<Rightarrow> jsnum" where
  "size_step most = (if most > 200 then 5 else 1)"

definition share_size :: "jsnum \<Rightarrow> jsnum \<Rightarrow> nat \<Rightarrow> jsnum" where
  "share_size min_size most share =
     math_max min_size (math_round ((most * Num (of_nat share)) / 100 / size_step most) * size_step most)"

text \<open>Only the digits of what is typed count.\<close>

definition typed_size :: "string \<Rightarrow> jsnum" where
  "typed_size txt = js_number (filter is_digit txt)"

datatype form_event =
    TypeSize string
  | SlideSize jsnum jsnum
  | PickShare nat
  | SlideLeverage jsnum jsnum
  | PickTick jsnum
  | ToggleStop
  | ToggleTake
  | PickStop nat
  | PickTake nat

text \<open>What the form asks of the provider: a slider's events carry its width and where
  the finger is.\<close>

definition form_change :: "settings_provider \<Rightarrow> string \<Rightarrow> form_event \<Rightarrow> settings_event" where
  "form_change st mkt e =
     (let most = form_max st mkt; b = sp_bounds st; s = for_market st mkt in case e of
        TypeSize txt \<Rightarrow> Updated (no_settings_change\<lparr>ch_size := Some (if is_finite (typed_size txt) then typed_size txt else bo_min_size b)\<rparr>)
      | SlideSize w x \<Rightarrow> Updated (no_settings_change\<lparr>ch_size := Some (slider_value w (bo_min_size b) most (size_step most) x)\<rparr>)
      | PickShare share \<Rightarrow> Updated (no_settings_change\<lparr>ch_size := Some (share_size (bo_min_size b) most share)\<rparr>)
      | SlideLeverage w x \<Rightarrow> LeverageSet mkt (slider_value w 1 (max_leverage_for b mkt) 1 x)
      | PickTick v \<Rightarrow> LeverageSet mkt v
      | ToggleStop \<Rightarrow> Updated (no_settings_change\<lparr>ch_stop_on := Some (\<not> se_stop_on s)\<rparr>)
      | ToggleTake \<Rightarrow> Updated (no_settings_change\<lparr>ch_tp_on := Some (\<not> se_tp_on s)\<rparr>)
      | PickStop p \<Rightarrow> Updated (no_settings_change\<lparr>ch_stop_percent := Some (Num (of_nat p))\<rparr>)
      | PickTake p \<Rightarrow> Updated (no_settings_change\<lparr>ch_tp_percent := Some (Num (of_nat p))\<rparr>))"

definition form_step :: "string \<Rightarrow> settings_provider \<Rightarrow> form_event \<Rightarrow> settings_provider" where
  "form_step mkt st e = settings_step st (form_change st mkt e)"

record rule_view =
  rv_on :: bool
  rv_note :: string
  rv_chips :: "(string \<times> bool) list"

definition rule_view :: "bool \<Rightarrow> string \<Rightarrow> string \<Rightarrow> nat list \<Rightarrow> jsnum \<Rightarrow> rule_view" where
  "rule_view on note sg presets value =
     \<lparr>rv_on = on, rv_note = (if on then note else ''off''),
      rv_chips = (if on then List.map (\<lambda>p. (sg @ show_nat p @ ''%'', num_eq value (Num (of_nat p)))) presets else [])\<rparr>"

record form_view =
  fv_max :: string
  fv_size :: string
  fv_slider :: "jsnum \<times> jsnum \<times> jsnum"
  fv_chips :: "(string \<times> bool) list"
  fv_stake :: string
  fv_ceiling :: string
  fv_leverage :: string
  fv_ticks :: "(string \<times> bool) list"
  fv_stop :: rule_view
  fv_take :: rule_view

definition form_view :: "settings_provider \<Rightarrow> string \<Rightarrow> form_view" where
  "form_view st mkt =
     (let s = for_market st mkt; b = sp_bounds st; most = form_max st mkt; ceiling = max_leverage_for b mkt in
      \<lparr>fv_max = ''max '' @ grouped most, fv_size = js_string (se_size s),
       fv_slider = (math_min (se_size s) most, bo_min_size b, most),
       fv_chips = List.map (\<lambda>share. (if share = 100 then ''Max'' else show_nat share @ ''%'', num_eq (se_size s) (share_size (bo_min_size b) most share))) size_shares,
       fv_stake = to_fixed (own_stake s) 0 @ '' AUSD of yours at '' @ js_string (se_leverage s) @ ''x'',
       fv_ceiling = mkt @ dot_mark @ ''up to '' @ js_string ceiling @ ''x'', fv_leverage = js_string (se_leverage s) @ ''x'',
       fv_ticks = List.map (\<lambda>v. (js_string v @ ''x'', num_eq (se_leverage s) v)) (ticks_to ceiling),
       fv_stop = rule_view (se_stop_on s) (minus_sign @ js_string (se_stop_percent s) @ ''%'' @ dot_mark @ to_fixed (at_risk s) 2 @ '' AUSD'')
         minus_sign stop_choices (se_stop_percent s),
       fv_take = rule_view (se_tp_on s) (''+'' @ js_string (se_tp_percent s) @ ''%'' @ dot_mark @
           to_fixed (case possible_win s of Some w \<Rightarrow> w | None \<Rightarrow> 0) 2 @ '' AUSD'')
         ''+'' take_choices (se_tp_percent s)\<rparr>)"

text \<open>What a tap can win and lose, and the line of it on a trading screen.\<close>

definition possible_outcomes :: "position_settings \<Rightarrow> string \<times> string" where
  "possible_outcomes s =
     (case possible_win s of None \<Rightarrow> ''+'' @ to_fixed (se_size s / 100) 2 @ '' per 1%, no cap''
      | Some w \<Rightarrow> ''+'' @ to_fixed w 2 @ '' at +'' @ js_string (se_tp_percent s) @ ''%'',
      minus_sign @ to_fixed (at_risk s) 2 @ '' at most'')"

definition settings_chip :: "position_settings \<Rightarrow> string \<times> string \<times> string \<times> string" where
  "settings_chip s =
     (js_string (se_size s), js_string (se_leverage s) @ ''x'',
      (if se_stop_on s then ''stop '' @ minus_sign @ js_string (se_stop_percent s) @ ''%'' else ''no stop'') @ dot_mark @
      (if se_tp_on s then ''TP +'' @ js_string (se_tp_percent s) @ ''%'' else ''no TP''),
      minus_sign @ to_fixed (at_risk s) 0)"

section \<open>The exits of a running position\<close>

definition extend_choices :: "(string \<times> nat) list" where
  "extend_choices = [(''+15 min'', 15 * 60), (''+1 h'', 60 * 60), (''+4 h'', 4 * 60 * 60)]"

definition percent_of :: "string option \<Rightarrow> jsnum" where
  "percent_of share = (let n = js_number_opt share in if is_finite n \<and> n > 0 then math_round (n * 100) else 0)"

text \<open>The sheet is open or not; open, it holds what is picked.\<close>

record exits_sheet =
  xs_open :: bool
  xs_stop :: jsnum
  xs_take :: jsnum
  xs_extend :: nat

definition open_exits :: "position \<Rightarrow> exits_sheet" where
  "open_exits p = \<lparr>xs_open = True, xs_stop = percent_of (ps_max_loss p), xs_take = percent_of (ps_take_profit p), xs_extend = 0\<rparr>"

definition exits_changed :: "position \<Rightarrow> exits_sheet \<Rightarrow> exits_change" where
  "exits_changed p s =
     \<lparr>ex_max_loss = (if num_eq (xs_stop s) (percent_of (ps_max_loss p)) then None else Some (to_fixed (xs_stop s / 100) 4)),
      ex_take_profit = (if num_eq (xs_take s) (percent_of (ps_take_profit p)) then None else Some (to_fixed (xs_take s / 100) 4)),
      ex_extend_seconds = (if xs_extend s > 0 then Some (Num (of_nat (xs_extend s))) else None)\<rparr>"

definition exits_dirty :: "exits_change \<Rightarrow> bool" where
  "exits_dirty c \<longleftrightarrow> ex_max_loss c \<noteq> None \<or> ex_take_profit c \<noteq> None \<or> ex_extend_seconds c \<noteq> None"

datatype exits_event = PickExitStop nat | PickExitTake nat | PickExtend nat

fun exits_step :: "exits_sheet \<Rightarrow> exits_event \<Rightarrow> exits_sheet" where
  "exits_step s (PickExitStop p) = s\<lparr>xs_stop := Num (of_nat p)\<rparr>"
| "exits_step s (PickExitTake p) = s\<lparr>xs_take := Num (of_nat p)\<rparr>"
| "exits_step s (PickExtend n) = s\<lparr>xs_extend := n\<rparr>"

text \<open>Pressing Apply sends what changed; the sheet closes when it was taken.\<close>

definition exits_pressable :: "position \<Rightarrow> bool \<Rightarrow> exits_sheet \<Rightarrow> bool" where
  "exits_pressable p busy s = (let dirty = exits_dirty (exits_changed p s) in bn_pressable (button_skin Primary (\<not> dirty \<or> busy) busy))"

definition press_exits :: "backend \<Rightarrow> string \<Rightarrow> string \<Rightarrow> position \<Rightarrow> trading \<times> exits_sheet \<Rightarrow> trading \<times> exits_sheet" where
  "press_exits bk symbol strategy p ts = (case ts of (t, s) \<Rightarrow>
     if exits_pressable p (tr_busy t = Some Amending) s
     then case amend_order bk symbol strategy (exits_changed p s) t of (t', taken) \<Rightarrow> (t', if taken then s\<lparr>xs_open := False\<rparr> else s)
     else ts)"

text \<open>Where a share of the stake is reached on the price.\<close>

definition price_at :: "position \<Rightarrow> jsnum \<Rightarrow> string" where
  "price_at p pnl = (let held = js_number (ps_size p); sg = (if ps_side p = Long then 1 else -1) in
     if held > 0 then to_fixed (js_number (ps_entry_price p) + (sg * pnl) / held) (decimals_of (ps_entry_price p)) else em_dash)"

definition extend_label :: "nat \<Rightarrow> string" where
  "extend_label n = (case List.find (\<lambda>e. snd e = n) extend_choices of Some e \<Rightarrow> fst e | None \<Rightarrow> [])"

definition stop_note :: "position \<Rightarrow> exits_sheet \<Rightarrow> string" where
  "stop_note p s = (let pnl = - (js_number (ps_collateral p) * xs_stop s) / 100 in
     if xs_stop s > 0 then minus_sign @ js_string (xs_stop s) @ ''%'' @ dot_mark @ money pnl @ '' AUSD'' @ dot_mark @ ''at '' @ trim (price_at p pnl)
     else ''off'' @ dot_mark @ ''the time limit is the exit'')"

definition take_note :: "position \<Rightarrow> exits_sheet \<Rightarrow> string" where
  "take_note p s = (let pnl = (js_number (ps_collateral p) * xs_take s) / 100 in
     if xs_take s > 0 then ''+'' @ js_string (xs_take s) @ ''%'' @ dot_mark @ money pnl @ '' AUSD'' @ dot_mark @ ''at '' @ trim (price_at p pnl)
     else ''off'' @ dot_mark @ ''runs to the time limit'')"

definition time_note :: "int \<Rightarrow> int \<Rightarrow> position \<Rightarrow> exits_sheet \<Rightarrow> string" where
  "time_note tz now p s =
     (if given (ps_closes_at p)
      then ''closes in '' @ (case countdown tz now (ps_closes_at p) of Some c \<Rightarrow> c | None \<Rightarrow> em_dash) @
        (if xs_extend s > 0 then dot_mark @ extend_label (xs_extend s) @ '' more'' else [])
      else if xs_extend s > 0 then ''a limit of '' @ filter (\<lambda>c. c \<noteq> CHR ''+'') (extend_label (xs_extend s)) @ '' from now''
      else ''no time limit'')"

record exits_view =
  xv_stop :: "string \<times> (string \<times> bool) list"
  xv_take :: "string \<times> (string \<times> bool) list"
  xv_time :: "string \<times> (string \<times> bool) list"
  xv_button :: "string \<times> bool"

definition exits_view :: "int \<Rightarrow> int \<Rightarrow> position \<Rightarrow> bool \<Rightarrow> exits_sheet \<Rightarrow> exits_view" where
  "exits_view tz now p busy s =
     \<lparr>xv_stop = (stop_note p s, (''Off'', num_eq (xs_stop s) 0) # List.map (\<lambda>n. (minus_sign @ show_nat n @ ''%'', num_eq (xs_stop s) (Num (of_nat n)))) stop_choices),
      xv_take = (take_note p s, (''Off'', num_eq (xs_take s) 0) # List.map (\<lambda>n. (''+'' @ show_nat n @ ''%'', num_eq (xs_take s) (Num (of_nat n)))) take_choices),
      xv_time = (time_note tz now p s, (''As is'', xs_extend s = 0) # List.map (\<lambda>(l, n). (l, xs_extend s = n)) extend_choices),
      xv_button = (if exits_dirty (exits_changed p s) then ''Apply'' else ''Nothing changed'', exits_pressable p busy s)\<rparr>"

section \<open>The form keeps the position one that can be opened\<close>

text \<open>A finger is somewhere on a slider that is laid out.\<close>

fun form_ok :: "form_event \<Rightarrow> bool" where
  "form_ok (SlideSize w x) = (is_finite w \<and> is_finite x)"
| "form_ok (SlideLeverage w x) = (is_finite w \<and> is_finite x)"
| "form_ok (PickTick v) = is_finite v"
| "form_ok e = True"

lemma size_step_pos: "\<exists>q. size_step m = Num q \<and> 0 < q"
  by (simp add: size_step_def js_eval)

lemma form_max_Num:
  assumes "settings_ok st"
  obtains m lo where "form_max st mkt = Num m" "bo_min_size (sp_bounds st) = Num lo"
proof -
  have ok: "bounds_ok (sp_bounds st)" "sane (sp_settings st)" "markets_finite (sp_settings st)" using assms by (auto simp: settings_ok_def)
  have "1 \<le> se_leverage (for_market st mkt) \<and> se_leverage (for_market st mkt) \<le> max_leverage_for (sp_bounds st) mkt"
    using leverage_for_bounded[OF ok] by (simp add: for_market_def)
  moreover obtain c where "max_leverage_for (sp_bounds st) mkt = Num c" using cap_Num[OF ok(1)] by blast
  ultimately obtain l where "se_leverage (for_market st mkt) = Num l" by (cases "se_leverage (for_market st mkt)") (auto simp: one_Num)
  then show thesis using max_size_Num[OF ok(1), of l] that ok(1) by (auto simp: form_max_def bounds_ok_def is_finite_Num)
qed

lemma form_change_ok:
  assumes "settings_ok st" "form_ok e"
  shows "case form_change st mkt e of Updated c \<Rightarrow> change_ok c | LeverageSet m v \<Rightarrow> True | _ \<Rightarrow> False"
proof -
  obtain m lo where n: "form_max st mkt = Num m" "bo_min_size (sp_bounds st) = Num lo" using form_max_Num[OF assms(1)] .
  obtain q where q: "size_step (form_max st mkt) = Num q" "0 < q" using size_step_pos by blast
  show ?thesis
  proof (cases e)
    case (SlideSize w x)
    then obtain v u where wx: "w = Num v" "x = Num u" using assms(2) by (auto simp: is_finite_Num)
    show ?thesis using q(2)
      by (simp add: SlideSize wx form_change_def change_ok_def no_settings_change_def n(2) q(1)[unfolded n(1)] n(1) slider_value_Num Let_def)
  next
    case (PickShare share)
    show ?thesis using q(2)
      by (simp add: PickShare form_change_def change_ok_def no_settings_change_def share_size_def n q(1)[unfolded n(1)] Let_def js_eval)
  qed (use n in \<open>simp_all add: form_change_def change_ok_def no_settings_change_def Let_def\<close>)
qed

lemma form_step_ok: "settings_ok st \<Longrightarrow> form_ok e \<Longrightarrow> settings_ok (form_step mkt st e)"
proof -
  assume a: "settings_ok st" "form_ok e"
  show ?thesis
  proof (cases "form_change st mkt e")
    case (Updated c)
    then have "event_ok (form_change st mkt e)" using form_change_ok[OF a, of mkt] by simp
    then show ?thesis unfolding form_step_def by (rule settings_step_ok[OF a(1)])
  next
    case (LeverageSet m v)
    have "sane ((sp_settings st)\<lparr>se_leverage_by := u\<rparr>)" for u using a(1) by (simp add: settings_ok_def sane_def)
    then show ?thesis using a(1) by (simp add: form_step_def LeverageSet Let_def set_clamped_ok)
  qed (use form_change_ok[OF a, of mkt] in auto)
qed

interpretation form: guarded_machine "form_step mkt" form_ok settings_ok for mkt
  by unfold_locales (rule form_step_ok)

lemma form_frame [simp]: "sp_ready (form_step mkt st e) = sp_ready st" "sp_bounds (form_step mkt st e) = sp_bounds st"
  if "settings_ok st" "form_ok e"
  using form_change_ok[OF that, of mkt] by (cases "form_change st mkt e"; simp add: form_step_def set_settings_def Let_def)+



section \<open>Where the form and its numbers part\<close>

text \<open>A wallet whose largest position is 203: the chip Max asks for 205, which becomes
  203, and the chip is then not lit.\<close>

definition sample_form :: "jsnum \<Rightarrow> settings_provider" where
  "sample_form most = (start_settings \<lparr>pl_mode = Works, pl_item = None\<rparr>)\<lparr>sp_ready := True,
     sp_bounds := sample_bounds\<lparr>bo_max_notional := most, bo_balance := 0\<rparr>\<rparr>"

lemma max_chip_misses_max:
  "let st = form_step ''MON'' (sample_form 203) (PickShare 100) in
     form_max (sample_form 203) ''MON'' = 203 \<and> se_size (sp_settings st) = 203 \<and> last (fv_chips (form_view st ''MON'')) = (''Max'', False)"
proof -
  have a: "form_max (sample_form 203) ''MON'' = 203" "se_size (sp_settings (form_step ''MON'' (sample_form 203) (PickShare 100))) = 203"
    "form_max (form_step ''MON'' (sample_form 203) (PickShare 100)) ''MON'' = 203"
    "bo_min_size (sp_bounds (form_step ''MON'' (sample_form 203) (PickShare 100))) = 5" "num_eq 203 (share_size 5 203 100) = False"
    by code_simp+
  then show ?thesis by (simp add: form_view_def for_market_def size_shares_def Let_def)
qed

text \<open>The field is brought inside the bounds on every keystroke: clear it and type 1
  and 2, and it is not twelve.\<close>

definition type_key :: "string \<Rightarrow> settings_provider \<Rightarrow> char \<Rightarrow> settings_provider" where
  "type_key mkt st c = form_step mkt st (TypeSize (fv_size (form_view st mkt) @ [c]))"

lemma cannot_type_twelve:
  "let st = foldl (type_key ''MON'') (form_step ''MON'' (sample_form 1000) (TypeSize [])) ''12'' in se_size (sp_settings st) = 512"
  by code_simp

section \<open>What the exits say and send\<close>

text \<open>
  The sheet of the exits and the chart name one price: the price the sheet
  gives for a result is the price the chart draws for a level of that result,
  wherever the chart draws one.
\<close>

theorem sheet_names_the_chart_price:
  "level_at p (Some v) = (if js_number (ps_size p) > 0 then Some (price_at p (js_number v)) else None)"
  by (simp add: level_at_def price_at_def Let_def del: to_fixed.simps)

lemma whole_percent:
  assumes "0 < n" "n \<le> 1000"
  shows "percent_of (Some (to_fixed (Num (of_nat n) / 100) 4)) = Num (of_nat n)"
proof -
  have "Num (of_nat n) / 100 = Num (of_nat n / 100)" by (simp add: js_eval)
  moreover have "(of_nat n :: rat) / 100 < 10 ^ 21" "0 \<le> (of_nat n :: rat) / 100"
  proof -
    have "(of_nat n :: rat) \<le> of_nat 1000" using assms(2) by (simp only: of_nat_le_iff)
    then show "(of_nat n :: rat) / 100 < 10 ^ 21" by simp
  qed simp
  ultimately have t: "to_fixed (Num (of_nat n) / 100) 4 = fixed_abs (of_nat n / 100) 4" by simp
  obtain r where r: "js_number (fixed_abs (of_nat n / 100) 4) = Num r" "\<bar>r - of_nat n / 100\<bar> \<le> 1 / (2 * 10 ^ 4)"
    using fixed_close[of "of_nat n / 100" 4] by auto
  have "(1 :: rat) \<le> of_nat n" using assms(1) by simp
  moreover have "r - of_nat n / 100 \<le> 1 / 20000" "of_nat n / 100 - r \<le> 1 / 20000" using r(2)[unfolded abs_le_iff] by simp_all
  ultimately have "0 < r" and near: "of_nat n - 1 / 2 < r * 100" "r * 100 < of_nat n + 1 / 2" by linarith+
  have "\<lfloor>r * 100 + 1 / 2\<rfloor> = int n" using near by (simp add: floor_eq_iff)
  then have "math_round (Num r * 100) = Num (of_nat n)" by (simp add: numeral_Num)
  then show ?thesis using \<open>0 < r\<close> by (simp add: percent_of_def t js_number_opt_def r(1) Let_def zero_Num del: to_fixed.simps)
qed

lemma no_percent: "percent_of (Some (to_fixed (Num (of_nat 0) / 100) 4)) = 0"
  by code_simp

lemma percent_picks: "n \<le> 1000 \<Longrightarrow> percent_of (Some (to_fixed (Num (of_nat n) / 100) 4)) = Num (of_nat n)"
  using whole_percent[of n] no_percent by (cases "n = 0") (simp_all add: zero_Num)

text \<open>What the exchange holds after a change it took: what was named is replaced.\<close>

definition amended_position :: "exits_change \<Rightarrow> position \<Rightarrow> position" where
  "amended_position c p = p\<lparr>ps_max_loss := (case ex_max_loss c of Some v \<Rightarrow> Some v | None \<Rightarrow> ps_max_loss p),
     ps_take_profit := (case ex_take_profit c of Some v \<Rightarrow> Some v | None \<Rightarrow> ps_take_profit p)\<rparr>"

fun pick_ok :: "exits_event \<Rightarrow> bool" where
  "pick_ok (PickExitStop n) = (n \<le> 1000)"
| "pick_ok (PickExitTake n) = (n \<le> 1000)"
| "pick_ok (PickExtend n) = True"

definition picks_ok :: "position \<Rightarrow> exits_sheet \<Rightarrow> bool" where
  "picks_ok p s \<longleftrightarrow> (xs_stop s = percent_of (ps_max_loss p) \<or> (\<exists>n \<le> 1000. xs_stop s = Num (of_nat n))) \<and>
     (xs_take s = percent_of (ps_take_profit p) \<or> (\<exists>n \<le> 1000. xs_take s = Num (of_nat n)))"

interpretation picks: guarded_machine exits_step pick_ok "picks_ok p" for p
proof unfold_locales
  show "picks_ok p s \<Longrightarrow> pick_ok e \<Longrightarrow> picks_ok p (exits_step s e)" for s e
    by (cases e) (auto simp: picks_ok_def)
qed

text \<open>
  C33. What was applied is what the sheet opens on: whatever chips were picked,
  once the exchange holds what Apply sent the sheet shows the same stop and the
  same target as before, and with no more time asked for there is nothing
  left to apply.
\<close>

theorem applied_exits_come_back:
  assumes "list_all pick_ok es"
  shows "let s = foldl exits_step (open_exits p) es; again = open_exits (amended_position (exits_changed p s) p) in
    xs_stop again = xs_stop s \<and> xs_take again = xs_take s \<and>
    exits_dirty (exits_changed (amended_position (exits_changed p s) p) again) = False"
proof -
  let ?s = "foldl exits_step (open_exits p) es"
  have "picks_ok p (open_exits p)" by (simp add: picks_ok_def open_exits_def)
  from picks.guarded_run[OF this assms] have ok: "picks_ok p ?s" .
  have finite: "is_finite (percent_of v)" for v
    by (cases "js_number_opt v") (simp_all add: percent_of_def Let_def js_eval)
  then have same: "num_eq (percent_of v) (percent_of v)" for v by (simp add: num_eq_finite)
  have "xs_stop (open_exits (amended_position (exits_changed p ?s) p)) = xs_stop ?s"
    using ok finite[of "ps_max_loss p"]
    by (auto simp: picks_ok_def open_exits_def amended_position_def exits_changed_def percent_picks num_eq_def split: if_splits)
  moreover have "xs_take (open_exits (amended_position (exits_changed p ?s) p)) = xs_take ?s"
    using ok finite[of "ps_take_profit p"]
    by (auto simp: picks_ok_def open_exits_def amended_position_def exits_changed_def percent_picks num_eq_def split: if_splits)
  moreover have "exits_dirty (exits_changed q (open_exits q)) = False" for q
    by (simp add: exits_dirty_def exits_changed_def open_exits_def same)
  ultimately show ?thesis by (simp add: Let_def)
qed

theorem applied_exits_come_back_witness:
  "let p = sample_position ''MON'' Long None; s = foldl exits_step (open_exits p) [PickExitStop 25, PickExitTake 200] in
     ex_max_loss (exits_changed p s) \<noteq> None \<and> xs_stop (open_exits (amended_position (exits_changed p s) p)) = 25"
proof -
  let ?p = "sample_position ''MON'' Long None"
  have "percent_of (ps_max_loss ?p) = 0" by (simp add: sample_position_def percent_of_def js_number_opt_def)
  then have "ex_max_loss (exits_changed ?p (foldl exits_step (open_exits ?p) [PickExitStop 25, PickExitTake 200])) \<noteq> None"
    by (simp add: exits_changed_def open_exits_def num_eq_def js_eval)
  then show ?thesis
    using applied_exits_come_back[of "[PickExitStop 25, PickExitTake 200]" ?p] by (simp add: Let_def numeral_Num)
qed

text \<open>Nothing is sent while an answer is awaited, nor when nothing changed.\<close>

lemma exits_wait: "exits_pressable p busy s \<Longrightarrow> \<not> busy \<and> exits_dirty (exits_changed p s)"
  by (simp add: exits_pressable_def button_skin_def Let_def split: prod.splits)

end
