(* ===== verification/Deposit.thy ===== *)
theory Deposit
  imports Account Activation Dates Show
begin

text \<open>
  Depositing from any chain (app/deposit.tsx): the amount typed as the asset's own
  units, the quote and the address it gives, and following the deposit. With it the
  account section it shows (components/account.tsx).
\<close>

section \<open>Units of an amount\<close>

text \<open>The first comma is a point; then digits with at most one point among them.\<close>

definition decimal_text :: "string \<Rightarrow> string" where
  "decimal_text amount = (let s = strip amount in case split_at (CHR '','') s of
     (whole, None) \<Rightarrow> s | (whole, Some _) \<Rightarrow> whole @ ''.'' @ drop (length whole + 1) s)"

definition whole_part :: "string \<Rightarrow> string" where
  "whole_part s = takeWhile (\<lambda>c. c \<noteq> CHR ''.'') s"

definition decimal_part :: "string \<Rightarrow> string" where
  "decimal_part s = drop (length (whole_part s) + 1) s"

definition looks_decimal :: "string \<Rightarrow> bool" where
  "looks_decimal s \<longleftrightarrow> list_all is_digit (whole_part s) \<and> list_all is_digit (decimal_part s) \<and> s \<noteq> [] \<and> s \<noteq> ''.''"

definition no_leading_zeros :: "string \<Rightarrow> string" where
  "no_leading_zeros s = (let t = dropWhile (\<lambda>c. c = CHR ''0'') s in if t = [] \<and> s \<noteq> [] then ''0'' else t)"

definition to_units :: "string \<Rightarrow> nat \<Rightarrow> exn + string" where
  "to_units amount decimals =
     (let s = decimal_text amount in
      if \<not> looks_decimal s then Inl (Fail ''Enter an amount'')
      else let whole = whole_part s; part = decimal_part s in
        if length part > decimals then Inl (Fail (''At most '' @ show_nat decimals @ '' decimals for this asset''))
        else let raw = (if whole = [] then ''0'' else whole) @ part @ replicate (decimals - length part) (CHR ''0''); trimmed = no_leading_zeros raw in
          if \<not> list_ex (\<lambda>c. is_digit c \<and> c \<noteq> CHR ''0'') trimmed then Inl (Fail ''Enter an amount above zero'') else Inr trimmed)"

section \<open>The screen\<close>

record deposit_option =
  do_asset_id :: string
  do_chain :: string
  do_chain_name :: string
  do_symbol :: string
  do_decimals :: nat
  do_price_usd :: decimal

record deposit_options =
  dp_symbol :: string
  dp_chain :: string
  dp_options :: "deposit_option list"

record deposit_quote =
  dq_address :: "string option"
  dq_amount_in :: decimal
  dq_amount_in_usd :: decimal
  dq_amount_out :: decimal
  dq_seconds :: jsnum
  dq_deadline :: string

datatype deposit_stage = PendingDeposit | KnownDepositTx | IncompleteDeposit | ProcessingDeposit | DepositSuccess | DepositRefunded | DepositFailed

fun stage_text :: "deposit_stage \<Rightarrow> string" where
  "stage_text PendingDeposit = ''Waiting for your transfer to arrive''"
| "stage_text KnownDepositTx = ''Transfer seen, waiting for confirmations''"
| "stage_text IncompleteDeposit = ''Less arrived than quoted '' @ em_dash @ '' send the rest, or it will be refunded''"
| "stage_text ProcessingDeposit = ''Swapping and bridging to Monad''"
| "stage_text DepositSuccess = ''Landed in your wallet on Monad''"
| "stage_text DepositRefunded = ''Refunded to your address on the origin chain''"
| "stage_text DepositFailed = ''Failed '' @ em_dash @ '' funds are refunded to the origin address''"

datatype offered = OfferLoading | OfferUnavailable | Offered deposit_options

record deposit_screen =
  ds_offer :: offered
  ds_chain :: string
  ds_asset_id :: string
  ds_amount :: string
  ds_quote :: "deposit_quote option"
  ds_status :: "deposit_stage option"
  ds_busy :: bool
  ds_notice :: "string option"
  ds_asked :: "(string \<times> string) list"

definition open_deposit :: deposit_screen where
  "open_deposit = \<lparr>ds_offer = OfferLoading, ds_chain = [], ds_asset_id = [], ds_amount = [], ds_quote = None, ds_status = None,
     ds_busy = False, ds_notice = None, ds_asked = []\<rparr>"

definition options_read :: "exn + deposit_options \<Rightarrow> deposit_screen \<Rightarrow> deposit_screen" where
  "options_read res s = (case res of
     Inl _ \<Rightarrow> s\<lparr>ds_offer := OfferUnavailable\<rparr>
   | Inr o' \<Rightarrow> (case dp_options o' of [] \<Rightarrow> s\<lparr>ds_offer := Offered o'\<rparr>
       | d # _ \<Rightarrow> s\<lparr>ds_offer := Offered o', ds_chain := do_chain d, ds_asset_id := do_asset_id d\<rparr>))"

definition offered_options :: "deposit_screen \<Rightarrow> deposit_option list" where
  "offered_options s = (case ds_offer s of Offered o' \<Rightarrow> dp_options o' | _ \<Rightarrow> [])"

text \<open>Each chain once, where it was first met, under the last of its names.\<close>

definition deposit_chains :: "deposit_screen \<Rightarrow> (string \<times> string) list" where
  "deposit_chains s = foldl (\<lambda>seen d. AList.update (do_chain d) (do_chain_name d) seen) [] (offered_options s)"

definition deposit_assets :: "deposit_screen \<Rightarrow> deposit_option list" where
  "deposit_assets s = filter (\<lambda>d. do_chain d = ds_chain s) (offered_options s)"

definition deposit_asset :: "deposit_screen \<Rightarrow> deposit_option option" where
  "deposit_asset s = (case List.find (\<lambda>d. do_asset_id d = ds_asset_id s) (deposit_assets s) of Some d \<Rightarrow> Some d
     | None \<Rightarrow> (case deposit_assets s of [] \<Rightarrow> None | d # _ \<Rightarrow> Some d))"

definition pick_chain :: "string \<Rightarrow> deposit_screen \<Rightarrow> deposit_screen" where
  "pick_chain c s = s\<lparr>ds_chain := c, ds_quote := None, ds_status := None\<rparr>"

definition pick_asset :: "string \<Rightarrow> deposit_screen \<Rightarrow> deposit_screen" where
  "pick_asset named s = s\<lparr>ds_asset_id := (case List.find (\<lambda>d. do_symbol d = named) (deposit_assets s) of Some d \<Rightarrow> do_asset_id d | None \<Rightarrow> [])\<rparr>"

text \<open>The button is off while a quote is awaited.\<close>

definition get_quote :: "bool \<Rightarrow> deposit_screen \<Rightarrow> deposit_screen" where
  "get_quote unlocked s = (if ds_busy s then s else case deposit_asset s of None \<Rightarrow> s | Some d \<Rightarrow>
     if \<not> unlocked then s
     else let s1 = s\<lparr>ds_notice := None, ds_status := None\<rparr> in
       case to_units (ds_amount s) (do_decimals d) of
         Inl e \<Rightarrow> s1\<lparr>ds_quote := None, ds_notice := Some (describe_error e)\<rparr>
       | Inr raw \<Rightarrow> s1\<lparr>ds_busy := True, ds_asked := ds_asked s @ [(do_asset_id d, raw)]\<rparr>)"

definition quote_answered :: "exn + deposit_quote \<Rightarrow> deposit_screen \<Rightarrow> deposit_screen" where
  "quote_answered res s = (case res of
     Inr q \<Rightarrow> s\<lparr>ds_quote := Some q, ds_busy := False\<rparr>
   | Inl e \<Rightarrow> s\<lparr>ds_quote := None, ds_notice := Some (describe_error e), ds_busy := False\<rparr>)"

text \<open>The deposit is followed while its address is shown: another address, or none,
  ends the reading.\<close>

definition followed :: "deposit_screen \<Rightarrow> string option" where
  "followed s = (case ds_quote s of None \<Rightarrow> None | Some q \<Rightarrow> if given (dq_address q) then dq_address q else None)"

definition status_read :: "string \<Rightarrow> exn + deposit_stage \<Rightarrow> deposit_screen \<Rightarrow> deposit_screen" where
  "status_read addr res s = (if followed s \<noteq> Some addr then s else case res of Inr st \<Rightarrow> s\<lparr>ds_status := Some st\<rparr> | Inl _ \<Rightarrow> s)"

datatype deposit_event =
    OptionsRead "exn + deposit_options"
  | PickChain string
  | PickAsset string
  | TypeAmount string
  | GetQuote bool
  | QuoteAnswered "exn + deposit_quote"
  | StatusRead string "exn + deposit_stage"

fun deposit_step :: "deposit_screen \<Rightarrow> deposit_event \<Rightarrow> deposit_screen" where
  "deposit_step s (OptionsRead res) = options_read res s"
| "deposit_step s (PickChain c) = pick_chain c s"
| "deposit_step s (PickAsset named) = pick_asset named s"
| "deposit_step s (TypeAmount txt) = s\<lparr>ds_amount := txt\<rparr>"
| "deposit_step s (GetQuote unlocked) = get_quote unlocked s"
| "deposit_step s (QuoteAnswered res) = quote_answered res s"
| "deposit_step s (StatusRead addr res) = status_read addr res s"

definition deposit_done :: "deposit_screen \<Rightarrow> bool" where
  "deposit_done s \<longleftrightarrow> (case ds_status s of Some st \<Rightarrow> st \<in> {DepositSuccess, DepositRefunded, DepositFailed} | None \<Rightarrow> False)"

record quote_view =
  qv_send :: string
  qv_where :: string
  qv_address :: string
  qv_until :: string
  qv_status :: string
  qv_tone :: sign_colour

definition quote_view :: "device_words \<Rightarrow> int \<Rightarrow> deposit_screen \<Rightarrow> deposit_quote \<Rightarrow> quote_view" where
  "quote_view w tz s q =
     \<lparr>qv_send = ''Send '' @ dq_amount_in q @ '' '' @ (case deposit_asset s of Some d \<Rightarrow> do_symbol d | None \<Rightarrow> []) @ '' ($'' @
        to_fixed (js_number (dq_amount_in_usd q)) 2 @ '')'' @ dot_mark @ ''you get '' @ dq_amount_out q @ '' '' @
        (case ds_offer s of Offered o' \<Rightarrow> dp_symbol o' | _ \<Rightarrow> []) @ dot_mark @ ''about '' @ js_string (math_max 1 (math_round (dq_seconds q / 60))) @ '' min'',
      qv_where = ''To this address on '' @ (case map_of (deposit_chains s) (ds_chain s) of Some n \<Rightarrow> n | None \<Rightarrow> ds_chain s) @ '':'',
      qv_address = (case dq_address q of Some a \<Rightarrow> a | None \<Rightarrow> []),
      qv_until = ''select to copy'' @ dot_mark @ ''valid until '' @ time_or ''Invalid Date'' w tz (dq_deadline q),
      qv_status = (case ds_status s of Some st \<Rightarrow> stage_text st | None \<Rightarrow> ''Waiting for your transfer'' @ ellipsis),
      qv_tone = (if deposit_done s then (if ds_status s = Some DepositSuccess then Up else Down) else Ink)\<rparr>"

text \<open>\<open>precision\<close> renders a number with three significant digits.\<close>

definition minimum_hint :: "(jsnum \<Rightarrow> string) \<Rightarrow> decimal \<Rightarrow> string" where
  "minimum_hint precision price = (let p = js_number price in if \<not> truthy p then ''0''
     else let least = 1000 / p in ''min '' @ [CHR 0xE2, CHR 0x89, CHR 0x88, CHR '' ''] @ (if least \<ge> 100 then js_string (math_ceil least) else precision least))"

datatype deposit_body = DepositUnavailable string | DepositLoading string | DepositForm string "(string \<times> bool) list" "(string \<times> bool) list" string "string option"

definition deposit_body :: "bool \<Rightarrow> deposit_screen \<Rightarrow> deposit_body" where
  "deposit_body unlocked s = (case ds_offer s of
     OfferUnavailable \<Rightarrow> DepositUnavailable ''Any-chain deposits are not available on this platform.''
   | OfferLoading \<Rightarrow> DepositLoading (''Loading what you can send'' @ ellipsis)
   | Offered o' \<Rightarrow> DepositForm (''Arrives as '' @ dp_symbol o' @ '' on '' @ (if dp_chain o' = ''monad'' then ''Monad'' else dp_chain o') @
         '' in this wallet. Refunds go to the same address on the chain you send from.'')
       (List.map (\<lambda>c. (fst c, fst c = ds_chain s)) (deposit_chains s))
       (List.map (\<lambda>d. (do_symbol d, Some (do_symbol d) = map_option do_symbol (deposit_asset s))) (deposit_assets s))
       (''Amount'' @ (case deposit_asset s of Some d \<Rightarrow> '' ('' @ do_symbol d @ '')'' | None \<Rightarrow> []))
       (if unlocked then None else Some (''Sign in with your passkey first '' @ em_dash @ '' the deposit lands in your wallet.'')))"

section \<open>The units are the amount\<close>

definition amount_value :: "string \<Rightarrow> rat" where
  "amount_value s = of_nat (digits_value 0 (whole_part s @ decimal_part s)) / 10 ^ length (decimal_part s)"

lemma digits_value_drop: "digits_value 0 (dropWhile (\<lambda>c. c = CHR ''0'') s) = digits_value 0 s"
  by (induction s) (simp_all add: code_of_def)

lemma no_leading_value: "digits_value 0 (no_leading_zeros s) = digits_value 0 s"
proof (cases "dropWhile (\<lambda>c. c = CHR ''0'') s = []")
  case True
  have "digits_value 0 s = 0" using digits_value_drop[of s] True by simp
  then show ?thesis using True by (simp add: no_leading_zeros_def Let_def code_of_def)
next
  case False
  then show ?thesis by (simp add: no_leading_zeros_def Let_def digits_value_drop del: dropWhile_eq_Nil_conv)
qed

lemma digits_value_acc: "digits_value acc s = acc * 10 ^ length s + digits_value 0 s"
proof (induction s arbitrary: acc)
  case (Cons c s)
  let ?k = "code_of c - 48"
  have "digits_value acc (c # s) = (10 * acc + ?k) * 10 ^ length s + digits_value 0 s" using Cons[of "10 * acc + ?k"] by simp
  also have "\<dots> = acc * 10 ^ length (c # s) + (?k * 10 ^ length s + digits_value 0 s)" by (simp add: algebra_simps)
  also have "?k * 10 ^ length s + digits_value 0 s = digits_value 0 (c # s)" using Cons[of ?k] by simp
  finally show ?case .
qed simp

lemma digits_value_pad: "digits_value 0 (s @ replicate k (CHR ''0'')) = digits_value 0 s * 10 ^ k"
proof -
  have "digits_value 0 (replicate k (CHR ''0'')) = 0" by (induction k) (simp_all add: code_of_def)
  then show ?thesis using digits_value_acc[of "digits_value 0 s" "replicate k (CHR ''0'')"] by simp
qed

lemma code_of_inject: "code_of c = code_of d \<Longrightarrow> c = d"
  by (simp add: code_of_def)

lemma digit_value: "is_digit c \<Longrightarrow> code_of c - 48 = 0 \<longleftrightarrow> c = CHR ''0''"
  using code_of_inject[of c "CHR ''0''"] by (auto simp: is_digit_def code_of_def)

lemma nonzero_digit: "list_all is_digit s \<Longrightarrow> list_ex (\<lambda>c. is_digit c \<and> c \<noteq> CHR ''0'') s = (0 < digits_value 0 s)"
proof (induction s)
  case (Cons c s)
  have "digits_value 0 (c # s) = (code_of c - 48) * 10 ^ length s + digits_value 0 s"
    using digits_value_acc[of "code_of c - 48" s] by simp
  then show ?case using Cons digit_value[of c] by auto
qed simp

lemma no_leading_digits: "list_all is_digit s \<Longrightarrow> list_all is_digit (no_leading_zeros s)"
  unfolding no_leading_zeros_def Let_def list_all_iff by (auto simp: is_digit_def code_of_def dest: set_dropWhileD)

lemma no_leading_head: "0 < digits_value 0 (no_leading_zeros s) \<Longrightarrow> no_leading_zeros s \<noteq> [] \<and> hd (no_leading_zeros s) \<noteq> CHR ''0''"
proof -
  let ?t = "dropWhile (\<lambda>c. c = CHR ''0'') s"
  assume pos: "0 < digits_value 0 (no_leading_zeros s)"
  have "?t \<noteq> []"
  proof
    assume "?t = []"
    then have "no_leading_zeros s = [] \<or> no_leading_zeros s = ''0''" by (simp add: no_leading_zeros_def)
    then show False using pos by (auto simp: code_of_def)
  qed
  then have "no_leading_zeros s = ?t" "hd ?t \<noteq> CHR ''0''" using hd_dropWhile[of "\<lambda>c. c = CHR ''0''" s] by (auto simp: no_leading_zeros_def Let_def)
  then show ?thesis using \<open>?t \<noteq> []\<close> by simp
qed


text \<open>A comma that keeps thousands apart is read as the point: a thousand is one.\<close>

lemma thousands_are_units: "to_units ''1,000'' 6 = Inr ''1000000''" "to_units ''1000'' 6 = Inr ''1000000000''"
  by code_simp+

section \<open>A quote outlives what it was asked for\<close>

definition sample_options :: deposit_options where
  "sample_options = (let coin = (\<lambda>i c n y. \<lparr>do_asset_id = i, do_chain = c, do_chain_name = n, do_symbol = y, do_decimals = 6, do_price_usd = ''1''\<rparr>) in
     \<lparr>dp_symbol = ''AUSD'', dp_chain = ''monad'',
      dp_options = [coin ''a'' ''eth'' ''Ethereum'' ''USDC'', coin ''b'' ''eth'' ''Ethereum'' ''USDT'', coin ''c'' ''base'' ''Base'' ''USDC'']\<rparr>)"

definition sample_quote :: "string \<Rightarrow> deposit_quote" where
  "sample_quote addr = \<lparr>dq_address = Some addr, dq_amount_in = ''2000'', dq_amount_in_usd = ''2000'', dq_amount_out = ''1998'', dq_seconds = 60, dq_deadline = []\<rparr>"

definition asked_usdc :: "deposit_event list" where
  "asked_usdc = [OptionsRead (Inr sample_options), TypeAmount ''2000'', GetQuote True]"

text \<open>Asked for USDC on Ethereum, the address is then shown as USDT's, when the asset
  was changed after; and as Base's, when the chain was changed before the answer came.\<close>

lemma quote_shown_for_another_asset:
  "let s = foldl deposit_step open_deposit (asked_usdc @ [QuoteAnswered (Inr (sample_quote ''0xA'')), PickAsset ''USDT'']) in
     List.map fst (ds_asked s) = [''a''] \<and> map_option dq_address (ds_quote s) = Some (Some ''0xA'') \<and>
     take 14 (qv_send (quote_view w tz s (the (ds_quote s)))) = ''Send 2000 USDT''"
proof -
  let ?s = "foldl deposit_step open_deposit (asked_usdc @ [QuoteAnswered (Inr (sample_quote ''0xA'')), PickAsset ''USDT''])"
  have "List.map fst (ds_asked ?s) = [''a'']" "ds_quote ?s = Some (sample_quote ''0xA'')" "map_option do_symbol (deposit_asset ?s) = Some ''USDT''"
    by code_simp+
  then show ?thesis by (auto simp: quote_view_def sample_quote_def Let_def)
qed

lemma quote_shown_for_another_chain:
  "let s = foldl deposit_step open_deposit (asked_usdc @ [PickChain ''base'', QuoteAnswered (Inr (sample_quote ''0xA''))]) in
     List.map fst (ds_asked s) = [''a''] \<and> map_option dq_address (ds_quote s) = Some (Some ''0xA'') \<and>
     qv_where (quote_view w tz s (the (ds_quote s))) = ''To this address on Base:''"
proof -
  let ?s = "foldl deposit_step open_deposit (asked_usdc @ [PickChain ''base'', QuoteAnswered (Inr (sample_quote ''0xA''))])"
  have "List.map fst (ds_asked ?s) = [''a'']" "ds_quote ?s = Some (sample_quote ''0xA'')" "map_of (deposit_chains ?s) (ds_chain ?s) = Some ''Base''"
    by code_simp+
  then show ?thesis by (simp add: quote_view_def sample_quote_def Let_def)
qed

text \<open>A second quote is asked for while the first is still followed: what is heard of
  the first address stands under the second, until the second is heard of.\<close>

lemma old_status_under_new_address:
  "let s = foldl deposit_step open_deposit (asked_usdc @ [QuoteAnswered (Inr (sample_quote ''0xA'')), GetQuote True,
       StatusRead ''0xA'' (Inr DepositSuccess), QuoteAnswered (Inr (sample_quote ''0xB'')), StatusRead ''0xB'' (Inl (Fail ''unknown''))]) in
     followed s = Some ''0xB'' \<and> ds_status s = Some DepositSuccess \<and> deposit_done s"
  by code_simp

text \<open>What is asked for is the asset and the amount on the screen when it was asked.\<close>

lemma asked_is_shown:
  "ds_asked (get_quote u s) = ds_asked s \<or>
   (\<exists>d raw. deposit_asset s = Some d \<and> to_units (ds_amount s) (do_decimals d) = Inr raw \<and> ds_asked (get_quote u s) = ds_asked s @ [(do_asset_id d, raw)])"
  by (auto simp: get_quote_def Let_def split: option.splits sum.splits)

section \<open>The account section\<close>

text \<open>What stands between the wallet and its first order.\<close>

fun status_hint :: "account_status \<Rightarrow> string" where
  "status_hint NoExchangeAccount = ''Exchange account not activated yet '' @ em_dash @ '' fund the wallet with MON and AUSD, then activate trading''"
| "status_hint ForwardingDisabled = ''Exchange account exists but API trading is not authorized yet''"
| "status_hint FrozenAccount = ''The exchange has frozen this account''"
| "status_hint ActiveAccount = []"

fun pending_of :: "account_status \<Rightarrow> pending_status option" where
  "pending_of NoExchangeAccount = Some NoAccountYet"
| "pending_of ForwardingDisabled = Some ForwardingOff"
| "pending_of _ = None"

definition known_wallet :: "account_layer \<Rightarrow> stored_account option" where
  "known_wallet a = (case al_state a of Unlocked st \<Rightarrow> Some st | Remembered st \<Rightarrow> Some st | _ \<Rightarrow> None)"

definition is_unlocked :: "account_layer \<Rightarrow> bool" where
  "is_unlocked a \<longleftrightarrow> (case al_state a of Unlocked _ \<Rightarrow> True | _ \<Rightarrow> False)"

record account_row =
  aw_line :: string
  aw_address :: string
  aw_error :: "string option"
  aw_buttons :: "string list"
  aw_busy :: bool

definition account_row :: "account_layer \<Rightarrow> account_row" where
  "account_row a =
     \<lparr>aw_line = (case al_state a of Unlocked _ \<Rightarrow> ''Signed in with passkey'' | Remembered _ \<Rightarrow> ''Locked'' @ dot_mark @ ''passkey to unlock'' | _ \<Rightarrow> ''No account''),
      aw_address = (case known_wallet a of Some st \<Rightarrow> sa_address st | None \<Rightarrow> ''Create one with a passkey '' @ em_dash @ '' no seed phrase''),
      aw_error = al_error a,
      aw_buttons = (case al_state a of NoAccount \<Rightarrow> [''Create account'', ''Sign in''] | Loading \<Rightarrow> [''Create account'', ''Sign in'']
        | Remembered _ \<Rightarrow> [''Sign in''] | Unlocked _ \<Rightarrow> [''Sign out'']),
      aw_busy = al_busy a\<rparr>"

record activation_card =
  ac_title :: string
  ac_funding :: string
  ac_send :: "string option"
  ac_progress :: "string option"
  ac_error :: "string option"
  ac_pressable :: bool

definition activation_card :: "(nat \<Rightarrow> nat \<Rightarrow> string) \<Rightarrow> pending_status \<Rightarrow> activation_screen \<Rightarrow> activation_card" where
  "activation_card format_units status a =
     \<lparr>ac_title = (if status = ForwardingOff then ''Enable API trading'' else ''Activate trading''),
      ac_funding = (case (as_network a, as_funding a) of
        (Some net, Some f) \<Rightarrow> (if status = NoAccountYet then xn_collateral_symbol net @ '' '' @ format_units (fu_collateral f) (xn_collateral_decimals net) @ '' of '' @ xn_min_account_open_amount net @ dot_mark else []) @
          ''MON '' @ format_native format_units (fu_native f) @ '' for gas'' @ (if sh_native (shortfall net f) > 0 then '' (need 0.1)'' else [])
      | _ \<Rightarrow> if given (as_error a) then [] else ''Reading balances'' @ ellipsis),
      ac_send = (case as_network a of Some net \<Rightarrow> if funded (Some status) a then None
          else Some (''Send '' @ (if status = NoAccountYet then xn_min_account_open_amount net @ '' '' @ xn_collateral_symbol net @ '' and '' else []) @
            ''some MON to the address above ('' @ (case xn_network net of Testnet \<Rightarrow> ''testnet'' | Mainnet \<Rightarrow> ''mainnet'') @ '')'')
        | None \<Rightarrow> None),
      ac_progress = map_option (\<lambda>(step, h). step_label step @ (case h of Some t \<Rightarrow> if t = [] then [] else ellipsis | None \<Rightarrow> [])) (as_progress a),
      ac_error = as_error a, ac_pressable = (funded (Some status) a \<and> \<not> as_busy a)\<rparr>"

text \<open>The exchange key, once it is known whether there is one: a line of it, or the
  button that enrolls it.\<close>

datatype key_card = KeyLine string | KeyOffer "string option" bool

definition key_card :: "key_screen \<Rightarrow> key_card option" where
  "key_card k = (case ks_status k of
     KeyUnknown \<Rightarrow> None
   | KeyEnabled e \<Rightarrow> Some (KeyLine (''Exchange key enrolled'' @ dot_mark @ ''builder '' @ show_nat (ek_builder_id e) @ dot_mark @ ''fee up to '' @
       (case ek_max_builder_fee_pct e of Some p \<Rightarrow> p | None \<Rightarrow> []) @ (if ek_derived e then dot_mark @ ''derived from your passkey'' else [])))
   | KeyMissing \<Rightarrow> Some (KeyOffer (ks_error k) (\<not> ks_busy k)))"

text \<open>The section: the row, the hint of a wallet that cannot trade, and the card that
  fixes it.\<close>

definition account_section :: "account_layer \<Rightarrow> platform_state option \<Rightarrow> account_row \<times> string option \<times> pending_status option" where
  "account_section a state =
     (account_row a,
      (case state of Some s \<Rightarrow> if ac_status (pf_account s) \<noteq> ActiveAccount then Some (status_hint (ac_status (pf_account s))) else None | None \<Rightarrow> None),
      (case state of Some s \<Rightarrow> if is_unlocked a then pending_of (ac_status (pf_account s)) else None | None \<Rightarrow> None))"

end
