(* ===== verification/Crowd.thy ===== *)
theory Crowd
  imports Client Signals Lobby
begin

text \<open>
  What the crowd on-chain has been doing: the card of a market (components/context.tsx),
  its folded and open panel under the keys (strategy/context.tsx), and the day's
  analysis with its strategy of the day (strategy/analysis-sheet.tsx).
\<close>

section \<open>The card of a market\<close>

datatype lean = Buyers | Sellers | Balanced

record context_trader =
  cx_address :: string
  cx_label :: "string option"
  cx_bought_usd :: decimal
  cx_sold_usd :: decimal

record context_hour =
  ch_at :: string
  ch_inflow_usd :: decimal
  ch_outflow_usd :: decimal
  ch_complete :: bool

record market_context =
  mc_symbol :: string
  mc_chain :: string
  mc_token_address :: string
  mc_token_symbol :: string
  mc_price_usd :: decimal
  mc_change_24h_pct :: decimal
  mc_volume_24h_usd :: decimal
  mc_buy_volume_usd :: decimal
  mc_sell_volume_usd :: decimal
  mc_netflow_usd :: decimal
  mc_liquidity_usd :: decimal
  mc_market_cap_usd :: decimal
  mc_lean :: lean
  mc_headline :: string
  mc_hours :: "context_hour list"
  mc_top_buyers :: "context_trader list"
  mc_top_sellers :: "context_trader list"
  mc_source :: string
  mc_updated_at :: string
  mc_stale :: bool

datatype context_card = NoCard | CardUnavailable | Card market_context

text \<open>The hook: the market it is asked for, and what it holds. A read answers the market
  it was made for, and only while that market's effect lives.\<close>

record context_hook =
  hk_symbol :: string
  hk_card :: context_card

definition mount_context :: "string \<Rightarrow> context_hook" where
  "mount_context symbol = \<lparr>hk_symbol = symbol, hk_card = NoCard\<rparr>"

fun context_read :: "exn + market_context \<Rightarrow> context_card \<Rightarrow> context_card" where
  "context_read (Inr c) old = Card c"
| "context_read (Inl (Api e)) old = (if ae_code e = ''context_unavailable'' then CardUnavailable else old)"
| "context_read (Inl (Fail m)) old = old"

datatype context_event = MarketTurned string | ContextAnswered string "exn + market_context"

fun context_step :: "context_hook \<Rightarrow> context_event \<Rightarrow> context_hook" where
  "context_step h (MarketTurned symbol) = h\<lparr>hk_symbol := symbol\<rparr>"
| "context_step h (ContextAnswered symbol res) = (if symbol = hk_symbol h then h\<lparr>hk_card := context_read res (hk_card h)\<rparr> else h)"

section \<open>Words and shorthands\<close>

text \<open>An amount of dollars: billions and millions with one decimal, thousands and less whole.\<close>

definition usd :: "string \<Rightarrow> string" where
  "usd s = (let n = js_number s; v = math_abs n; sign = (if n < 0 then ''-'' else []) in
     if v \<ge> 1000000000 then sign @ ''$'' @ to_fixed (v / 1000000000) 1 @ ''B''
     else if v \<ge> 1000000 then sign @ ''$'' @ to_fixed (v / 1000000) 1 @ ''M''
     else if v \<ge> 1000 then sign @ ''$'' @ js_string (math_round (v / 1000)) @ ''k''
     else sign @ ''$'' @ js_string (math_round v))"

definition who :: "string \<Rightarrow> string option \<Rightarrow> string" where
  "who address label = (case label of
     Some l \<Rightarrow> if strip l \<noteq> [] then l else take 6 address @ ellipsis @ drop (length address - 4) address
   | None \<Rightarrow> take 6 address @ ellipsis @ drop (length address - 4) address)"

definition trim_price :: "string \<Rightarrow> string" where
  "trim_price s = (let v = js_number s in if v \<ge> 1 then to_fixed v 2 else to_precision v 3)"

definition chain_name :: "string \<Rightarrow> string" where
  "chain_name slug = (case map_of [(''monad'', ''Monad''), (''ethereum'', ''Ethereum''), (''base'', ''Base''), (''solana'', ''Solana'')] slug of
     Some n \<Rightarrow> n | None \<Rightarrow> slug)"

definition context_clock :: "int \<Rightarrow> string \<Rightarrow> string" where
  "context_clock tz moment = hm tz moment"

fun lean_text :: "lean \<Rightarrow> string" where
  "lean_text Buyers = ''buyers ahead''"
| "lean_text Sellers = ''sellers ahead''"
| "lean_text Balanced = ''even''"

fun lean_title :: "lean \<Rightarrow> string" where
  "lean_title Buyers = ''Buyers ahead''"
| "lean_title Sellers = ''Sellers ahead''"
| "lean_title Balanced = ''Even''"

fun lean_colour :: "lean \<Rightarrow> sign_colour" where
  "lean_colour Buyers = Up"
| "lean_colour Sellers = Down"
| "lean_colour Balanced = Ink"

section \<open>The panel under the keys\<close>

definition buy_share :: "market_context \<Rightarrow> jsnum" where
  "buy_share c = (let buy = js_number (mc_buy_volume_usd c); sell = js_number (mc_sell_volume_usd c) in
     if buy + sell > 0 then math_round (buy / (buy + sell) * 100) else 50)"

definition as_of :: "int \<Rightarrow> market_context \<Rightarrow> string" where
  "as_of tz c = (if mc_stale c then ''last known'' else hm tz (mc_updated_at c))"

record wallet_line =
  wl_name :: string
  wl_size :: decimal
  wl_buy :: bool

definition buyer_lines :: "market_context \<Rightarrow> wallet_line list" where
  "buyer_lines c = List.map (\<lambda>t. \<lparr>wl_name = who (cx_address t) (cx_label t), wl_size = cx_bought_usd t, wl_buy = True\<rparr>) (take 2 (mc_top_buyers c))"

definition seller_lines :: "market_context \<Rightarrow> wallet_line list" where
  "seller_lines c = List.map (\<lambda>t. \<lparr>wl_name = who (cx_address t) (cx_label t), wl_size = cx_sold_usd t, wl_buy = False\<rparr>) (take 2 (mc_top_sellers c))"

definition wallet_amount :: "wallet_line \<Rightarrow> string" where
  "wallet_amount w = (if wl_buy w then ''+'' else minus_sign) @ usd (wl_size w)"

datatype context_panel =
    NoPanel
  | FoldedPanel string string string jsnum
  | OpenPanel string string "string \<times> string" jsnum "string \<times> string" "(string \<times> string) list"

definition context_panel :: "int \<Rightarrow> bool \<Rightarrow> context_card \<Rightarrow> context_panel" where
  "context_panel tz opened held = (case held of
     Card c \<Rightarrow>
       if \<not> opened then FoldedPanel (''Analysis'' @ dot_mark @ ''Nansen'' @ dot_mark @ as_of tz c) (lean_title (mc_lean c)) (dot_mark @ mc_headline c) (buy_share c)
       else OpenPanel (''as of '' @ as_of tz c @ dot_mark @ ''tap to fold'') (mc_headline c)
         (''Buys '' @ usd (mc_buy_volume_usd c), ''Sells '' @ usd (mc_sell_volume_usd c)) (buy_share c)
         (js_string (buy_share c) @ ''% of today's flow is buying'' @ dot_mark, lean_title (mc_lean c))
         (List.map (\<lambda>w. (wl_name w, wallet_amount w)) (buyer_lines c @ seller_lines c))
   | _ \<Rightarrow> NoPanel)"

section \<open>The card before an entry\<close>

definition signed_change :: "market_context \<Rightarrow> string" where
  "signed_change c = (let change = js_number (mc_change_24h_pct c) in (if change > 0 then ''+'' else []) @ to_fixed change 1 @ ''%'')"

definition change_colour :: "market_context \<Rightarrow> sign_colour" where
  "change_colour c = (let change = js_number (mc_change_24h_pct c) in if change > 0 then Up else if change < 0 then Down else Ink)"

definition traders_line :: "market_context \<Rightarrow> string option" where
  "traders_line c =
     (let buyers = take 2 (mc_top_buyers c); sellers = take 2 (mc_top_sellers c);
          named = (\<lambda>size t. who (cx_address t) (cx_label t) @ '' '' @ usd (size t)) in
      if length buyers + length sellers > 0 then
        Some ((if buyers \<noteq> [] then ''Buying: '' @ join '', '' (List.map (named cx_bought_usd) buyers) else []) @
          (if buyers \<noteq> [] \<and> sellers \<noteq> [] then dot_mark else []) @
          (if sellers \<noteq> [] then ''Selling: '' @ join '', '' (List.map (named cx_sold_usd) sellers) else []))
      else None)"

record entry_card =
  ec_head :: string
  ec_price :: string
  ec_change_colour :: sign_colour
  ec_headline :: string
  ec_volumes :: string
  ec_lean :: string
  ec_lean_colour :: sign_colour
  ec_traders :: "string option"
  ec_source :: string

definition entry_card :: "int \<Rightarrow> context_card \<Rightarrow> entry_card option" where
  "entry_card tz held = (case held of
     Card c \<Rightarrow> Some \<lparr>ec_head = ''ON-CHAIN'' @ dot_mark @ mc_token_symbol c @ '' on '' @ chain_name (mc_chain c),
       ec_price = ''$'' @ trim_price (mc_price_usd c) @ dot_mark @ signed_change c,
       ec_change_colour = change_colour c,
       ec_headline = mc_headline c,
       ec_volumes = ''buys '' @ usd (mc_buy_volume_usd c) @ dot_mark @ ''sells '' @ usd (mc_sell_volume_usd c),
       ec_lean = lean_text (mc_lean c),
       ec_lean_colour = lean_colour (mc_lean c),
       ec_traders = traders_line c,
       ec_source = ''Nansen'' @ dot_mark @ (if mc_stale c then ''last known'' else ''as of '' @ context_clock tz (mc_updated_at c))\<rparr>
   | _ \<Rightarrow> None)"

section \<open>The day's analysis\<close>

text \<open>The four fifteen-minute signals, each of which may be missing: a read that failed is none.\<close>

record tape_reads =
  tp_rsi :: "exn + rsi_signal"
  tp_cross :: "exn + ma_cross_signal"
  tp_donchian :: "exn + donchian_signal"
  tp_orb :: "exn + orb_signal"

fun read_or_null :: "exn + 'a \<Rightarrow> 'a option" where
  "read_or_null (Inl e) = None"
| "read_or_null (Inr x) = Some x"

definition minutes_ago :: "int \<Rightarrow> int \<Rightarrow> string option \<Rightarrow> jsnum option" where
  "minutes_ago tz now moment = (case moment of None \<Rightarrow> None
     | Some t \<Rightarrow> if t = [] then None else Some ((Num (of_int now) - parse_date tz t) / 60000))"

definition today_of :: "int \<Rightarrow> int \<Rightarrow> string \<Rightarrow> tape_reads \<Rightarrow> today_input" where
  "today_of tz now symbol reads =
     (let r = read_or_null (tp_rsi reads); m = read_or_null (tp_cross reads); d = read_or_null (tp_donchian reads); o' = read_or_null (tp_orb reads) in
      \<lparr>ti_day = today_key tz now, ti_symbol = symbol,
       ti_rsi = (case r of Some r \<Rightarrow> if rx_ready r then Some (js_number (rx_value r)) else None | None \<Rightarrow> None),
       ti_trend = (case m of Some m \<Rightarrow> if mx_ready m then Some (mx_trend m) else None | None \<Rightarrow> None),
       ti_last_cross = minutes_ago tz now (Option.bind m (\<lambda>m. map_option snd (mx_last_cross m))),
       ti_last_break = minutes_ago tz now (Option.bind d (\<lambda>d. map_option wb_at (dx_last_break d))),
       ti_phase = (case o' of Some x \<Rightarrow> if ox_ready x then Some (ox_phase x) else None | None \<Rightarrow> None),
       ti_next_open = (case o' of Some x \<Rightarrow> Some (- (case minutes_ago tz now (Some (ox_next_open_at x)) of Some n \<Rightarrow> n | None \<Rightarrow> 0)) | None \<Rightarrow> None)\<rparr>)"

definition no_reads :: "int \<Rightarrow> int \<Rightarrow> string \<Rightarrow> today_input" where
  "no_reads tz now symbol = \<lparr>ti_day = today_key tz now, ti_symbol = symbol, ti_rsi = None, ti_trend = None, ti_last_cross = None,
     ti_last_break = None, ti_phase = None, ti_next_open = None\<rparr>"

text \<open>The pick is made once, when the last of the four has answered; until then it is a
  quiet day's.\<close>

definition today_picked :: "int \<Rightarrow> int \<Rightarrow> string \<Rightarrow> tape_reads \<Rightarrow> string \<times> string" where
  "today_picked tz at' symbol reads = strategy_of_the_day (today_of tz at' symbol reads)"

definition analysis_pick :: "int \<Rightarrow> int \<Rightarrow> string \<Rightarrow> (string \<times> string) option \<Rightarrow> string \<times> string" where
  "analysis_pick tz now symbol today = (case today of Some p \<Rightarrow> p | None \<Rightarrow> strategy_of_the_day (no_reads tz now symbol))"

record analysis_view =
  aw_kicker :: string
  aw_headline :: string
  aw_volumes :: "(string \<times> string) option"
  aw_pick :: "string \<times> string"
  aw_reason :: string
  aw_open :: "(string \<times> string) option"

definition analysis_view :: "int \<Rightarrow> int \<Rightarrow> string \<Rightarrow> string \<Rightarrow> context_card \<Rightarrow> (string \<times> string) option \<Rightarrow> analysis_view" where
  "analysis_view tz now symbol current held today =
     (let (pick, reason) = analysis_pick tz now symbol today; name = strategy_name pick;
          clock_text = two_digits (local_hour tz now) @ '':'' @ two_digits (local_minute tz now) in
      \<lparr>aw_kicker = ''Today on '' @ symbol @ (case held of Card _ \<Rightarrow> dot_mark @ ''Nansen'' | _ \<Rightarrow> []) @ dot_mark @ clock_text,
       aw_headline = (case held of Card c \<Rightarrow> mc_headline c | _ \<Rightarrow> ''Strategy of the day: '' @ name),
       aw_volumes = (case held of Card c \<Rightarrow> Some (''buys '' @ usd (mc_buy_volume_usd c) @ dot_mark @ ''sells '' @ usd (mc_sell_volume_usd c), lean_text (mc_lean c)) | _ \<Rightarrow> None),
       aw_pick = (pick, name),
       aw_reason = reason,
       aw_open = (if pick \<noteq> current then map_option (\<lambda>route. (''Open '' @ name, route)) (map_of strategy_routes pick) else None)\<rparr>)"

section \<open>A card of another market\<close>

text \<open>A screen that turns to another market keeps the last market's card, under the new
  market's name, until the new one's read answers; a read that fails for any reason but
  \<open>context_unavailable\<close> leaves it there.\<close>

lemma card_of_another_market:
  "context_panel tz opened (hk_card (foldl context_step (mount_context ''MON'')
      [ContextAnswered ''MON'' (Inr c), MarketTurned ''BTC'', ContextAnswered ''BTC'' (Inl (Fail msg))]))
   = context_panel tz opened (Card c)"
  "aw_headline (analysis_view tz now ''BTC'' current (hk_card (foldl context_step (mount_context ''MON'')
      [ContextAnswered ''MON'' (Inr c), MarketTurned ''BTC''])) today) = mc_headline c"
  by (simp_all add: mount_context_def analysis_view_def Let_def split_beta)

section \<open>The bar and the shorthand\<close>

text \<open>
  The bar of the day's flow stays on its track: for volumes that are not negative
  the share that is buying is a whole percentage between 0 and 100, and it is half
  when nothing was bought or sold.
\<close>

lemma share_stays_on_bar:
  assumes "js_number (mc_buy_volume_usd c) = Num b" "js_number (mc_sell_volume_usd c) = Num s" "0 \<le> b" "0 \<le> s"
  shows "\<exists>k::int. buy_share c = Num (of_int k) \<and> 0 \<le> k \<and> k \<le> 100 \<and> (b + s = 0 \<longrightarrow> k = 50)"
proof (cases "b + s > 0")
  case True
  let ?q = "b / (b + s) * 100"
  have "0 \<le> ?q" "?q \<le> 100" using assms True by (simp_all add: field_simps)
  then have "0 \<le> \<lfloor>?q + 1/2\<rfloor>" "\<lfloor>?q + 1/2\<rfloor> \<le> 100" by linarith+
  moreover have "buy_share c = Num (of_int \<lfloor>?q + 1/2\<rfloor>)" using assms True by (simp add: buy_share_def Let_def numeral_Num one_Num zero_Num)
  ultimately show ?thesis using True by (intro exI[of _ "\<lfloor>?q + 1/2\<rfloor>"]) simp
next
  case False
  then have "buy_share c = Num (of_int 50)" using assms by (simp add: buy_share_def Let_def numeral_Num one_Num zero_Num)
  then show ?thesis by (intro exI[of _ 50]) simp
qed

lemma js_number_whole: "js_number (show_nat n) = Num (of_nat n)"
proof -
  have "show_nat n \<noteq> []" by (cases "n < 10") (simp_all add: show_nat.simps)
  moreover have "list_all is_digit (show_nat n)" by (simp add: list_all_iff show_nat_digits)
  ultimately have "js_number (pointed_text (show_nat n) []) = Num (of_nat (digits_value 0 (show_nat n @ [])) / 10 ^ 0)"
    using js_number_pointed[of "show_nat n" "[]"] by simp
  then show ?thesis by (simp add: pointed_text_def)
qed

lemma whole_text:
  assumes "0 \<le> q" "q < 10 ^ 20"
  shows "\<exists>r. js_number (js_string (math_round (Num q))) = Num r \<and> \<bar>r - q\<bar> \<le> 1 / 2"
proof -
  let ?k = "\<lfloor>q + 1/2\<rfloor>"
  have near: "\<bar>of_int ?k - q\<bar> \<le> 1 / 2" by linarith
  have "(of_int ?k :: rat) \<le> q + 1/2" "q + 1/2 < 10 ^ 21" using assms by simp_all
  then have k: "0 \<le> ?k" "(of_int ?k :: rat) < 10 ^ 21" using assms by simp_all
  have zero: "show_nat 0 = ''0''" by code_simp
  have "js_string (math_round (Num q)) = show_nat (nat ?k)"
    using k by (cases "?k = 0") (simp_all add: show_int_def zero)
  then show ?thesis using near k(1) js_number_whole[of "nat ?k"] by (intro exI[of _ "of_int ?k"]) simp
qed

lemma one_place_text:
  assumes "0 \<le> q" "q < 10 ^ 20"
  shows "\<exists>r. js_number (to_fixed (Num q) 1) = Num r \<and> \<bar>r - q\<bar> \<le> 1 / 20"
  using fixed_close[OF assms(1), of 1] assms by (auto simp: abs_of_nonneg)

text \<open>The units of the shorthand, and half of the last digit each shows.\<close>

definition usd_units :: "(string \<times> rat \<times> rat) set" where
  "usd_units = {([], 1, 1 / 2), (''k'', 1000, 500), (''M'', 1000000, 50000), (''B'', 1000000000, 50000000)}"

lemma scaled_close: "0 < u \<Longrightarrow> \<bar>r - v / u\<bar> \<le> e \<Longrightarrow> \<bar>r * u - v\<bar> \<le> e * u" for r v u e :: rat
proof -
  assume "0 < u" "\<bar>r - v / u\<bar> \<le> e"
  then have "\<bar>(r - v / u) * u\<bar> \<le> e * u" by (simp add: abs_mult)
  moreover have "(r - v / u) * u = r * u - v" using \<open>0 < u\<close> by (simp add: left_diff_distrib)
  ultimately show ?thesis by simp
qed

text \<open>
  The shorthand is the amount: what stands before its letter, read back and
  multiplied by what the letter says, is the amount without its sign to within half
  of the last digit shown, and the sign stands in front exactly for an amount below
  nothing.
\<close>

lemma usd_reads_back:
  assumes "js_number s = Num q" "\<bar>q\<bar> < 10 ^ 20"
  shows "\<exists>digits letter unit half r. (letter, unit, half) \<in> usd_units \<and>
     usd s = (if q < 0 then ''-'' else []) @ ''$'' @ digits @ letter \<and> js_number digits = Num r \<and> \<bar>r * unit - \<bar>q\<bar>\<bar> \<le> half"
proof -
  let ?v = "\<bar>q\<bar>" and ?sign = "if q < 0 then ''-'' else []"
  consider "?v \<ge> 1000000000" | "\<not> ?v \<ge> 1000000000" "?v \<ge> 1000000" | "\<not> ?v \<ge> 1000000" "?v \<ge> 1000" | "\<not> ?v \<ge> 1000" by blast
  then show ?thesis
  proof cases
    case 1
    obtain r where r: "js_number (to_fixed (Num (?v / 1000000000)) 1) = Num r" "\<bar>r - ?v / 1000000000\<bar> \<le> 1 / 20"
      using one_place_text[of "?v / 1000000000"] assms by auto
    have "usd s = ?sign @ ''$'' @ to_fixed (Num (?v / 1000000000)) 1 @ ''B''"
      using 1 by (simp add: usd_def assms(1) Let_def numeral_Num one_Num zero_Num del: to_fixed.simps js_string.simps math_round.simps)
    moreover have "\<bar>r * 1000000000 - ?v\<bar> \<le> 50000000" using scaled_close[OF _ r(2)] by simp
    ultimately show ?thesis using r(1) unfolding usd_units_def by blast
  next
    case 2
    obtain r where r: "js_number (to_fixed (Num (?v / 1000000)) 1) = Num r" "\<bar>r - ?v / 1000000\<bar> \<le> 1 / 20"
      using one_place_text[of "?v / 1000000"] assms by auto
    have "usd s = ?sign @ ''$'' @ to_fixed (Num (?v / 1000000)) 1 @ ''M''"
      using 2 by (simp add: usd_def assms(1) Let_def numeral_Num one_Num zero_Num del: to_fixed.simps js_string.simps math_round.simps)
    moreover have "\<bar>r * 1000000 - ?v\<bar> \<le> 50000" using scaled_close[OF _ r(2)] by simp
    ultimately show ?thesis using r(1) unfolding usd_units_def by blast
  next
    case 3
    obtain r where r: "js_number (js_string (math_round (Num (?v / 1000)))) = Num r" "\<bar>r - ?v / 1000\<bar> \<le> 1 / 2"
      using whole_text[of "?v / 1000"] assms by auto
    have "usd s = ?sign @ ''$'' @ js_string (math_round (Num (?v / 1000))) @ ''k''"
      using 3 by (simp add: usd_def assms(1) Let_def numeral_Num one_Num zero_Num del: to_fixed.simps js_string.simps math_round.simps)
    moreover have "\<bar>r * 1000 - ?v\<bar> \<le> 500" using scaled_close[OF _ r(2)] by simp
    ultimately show ?thesis using r(1) unfolding usd_units_def by blast
  next
    case 4
    obtain r where r: "js_number (js_string (math_round (Num ?v))) = Num r" "\<bar>r - ?v\<bar> \<le> 1 / 2"
      using whole_text[of "?v"] assms by auto
    have "usd s = ?sign @ ''$'' @ js_string (math_round (Num ?v)) @ []"
      using 4 by (simp add: usd_def assms(1) Let_def numeral_Num one_Num zero_Num del: to_fixed.simps js_string.simps math_round.simps)
    moreover have "\<bar>r * 1 - ?v\<bar> \<le> 1 / 2" using r(2) by simp
    ultimately show ?thesis using r(1) unfolding usd_units_def by blast
  qed
qed

text \<open>Just under the next unit the rounding does not move up: a thousand thousands.\<close>

lemma thousand_thousands: "js_number s = Num 999600 \<Longrightarrow> usd s = ''$1000k''"
proof -
  assume s: "js_number s = Num 999600"
  have "\<lfloor>10001 / 10 :: rat\<rfloor> = 1000" by (simp add: floor_eq_iff)
  moreover have "show_nat 1000 = ''1000''" by code_simp
  ultimately show ?thesis using s by (simp add: usd_def Let_def numeral_Num one_Num zero_Num show_int_def)
qed

section \<open>The pick of the day\<close>

lemma quiet_pick_known: "fst (quiet_picks ! (n mod length quiet_picks)) \<in> {''direction'', ''ma-cross'', ''rsi'', ''donchian''}"
proof -
  have "n mod length quiet_picks < 4" by (simp add: quiet_picks_def)
  then have "n mod length quiet_picks \<in> {0, 1, 2, 3}" by auto
  then show ?thesis by (auto simp: quiet_picks_def)
qed

lemma pick_known: "fst (strategy_of_the_day t) \<in> {''direction'', ''ma-cross'', ''rsi'', ''donchian'', ''orb''}"
  unfolding strategy_of_the_day_def Let_def using quiet_pick_known[of "unat (hash (ti_day t @ '':'' @ upper (ti_symbol t)))"] by auto

text \<open>
  The day always has a strategy and it can be opened: whatever the four signals
  answer, and while they have not, the pick is one of the five the app names, the
  sheet offers to open it under that name exactly when it is not the one being looked
  at, and the button leads to that strategy's own screen.
\<close>

theorem pick_can_be_opened:
  "let today = map_option (\<lambda>(at', sym', reads). today_picked tz at' sym' reads) answered;
       v = analysis_view tz now symbol current held today in
     map_of strategy_names (fst (aw_pick v)) = Some (snd (aw_pick v)) \<and>
     aw_open v = (if fst (aw_pick v) = current then None else Some (''Open '' @ snd (aw_pick v), ''/'' @ fst (aw_pick v)))"
proof -
  let ?today = "map_option (\<lambda>(at', sym', reads). today_picked tz at' sym' reads) answered"
  let ?p = "fst (analysis_pick tz now symbol ?today)"
  have "?p \<in> {''direction'', ''ma-cross'', ''rsi'', ''donchian'', ''orb''}"
    by (cases answered) (simp_all add: analysis_pick_def today_picked_def split_beta pick_known del: insert_iff)
  then have "map_of strategy_names ?p = Some (strategy_name ?p) \<and> map_of strategy_routes ?p = Some (''/'' @ ?p)"
    by (auto simp: strategy_names_def strategy_name_def strategy_routes_def)
  then show ?thesis by (simp add: analysis_view_def Let_def split_beta)
qed

end
