(* ===== verification/Rooms.thy ===== *)
theory Rooms
  imports Account Lobby Controls
begin

text \<open>
  The rooms off the lobby: inviting friends (app/invite.tsx), the account
  (app/account.tsx), the draft of one's own strategy (app/own.tsx), the market the
  position form is opened for (app/settings.tsx) and the skin the app wears
  (theme/index.tsx).
\<close>

section \<open>Inviting friends\<close>

record referral_friend =
  rf_wallet :: string
  rf_joined_at :: string
  rf_trades :: nat
  rf_volume :: decimal
  rf_earned :: decimal

record referral =
  rl_code :: string
  rl_link :: string
  rl_share_pct :: jsnum
  rl_fee_bps :: decimal
  rl_friends :: "referral_friend list"
  rl_invited :: nat
  rl_volume :: decimal
  rl_earned :: decimal
  rl_referred_by :: "string option"

datatype invite_problem = InviteLocked | InviteOffline

text \<open>The invite, polled from the moment the account layer has read the device.\<close>

record invite_hook =
  ih_invite :: "referral option"
  ih_problem :: "invite_problem option"
  ih_notice :: "string option"

definition open_invites :: invite_hook where
  "open_invites = \<lparr>ih_invite = None, ih_problem = None, ih_notice = None\<rparr>"

definition invite_ready :: "account_layer \<Rightarrow> bool" where
  "invite_ready l \<longleftrightarrow> al_state l \<noteq> Loading"

definition invite_answered :: "exn + referral \<Rightarrow> invite_hook \<Rightarrow> invite_hook" where
  "invite_answered res h = (case res of
     Inr r \<Rightarrow> h\<lparr>ih_invite := Some r, ih_problem := None\<rparr>
   | Inl e \<Rightarrow> h\<lparr>ih_problem := Some (if has_code ''network'' e then InviteOffline else InviteLocked)\<rparr>)"

definition invite_share :: "invite_hook \<Rightarrow> jsnum" where
  "invite_share h = math_round (case ih_invite h of Some r \<Rightarrow> rl_share_pct r | None \<Rightarrow> 30)"

text \<open>The build's own address with the platform's code on it; the platform's link where
  the build has no address.\<close>

definition own_invite_link :: "string \<Rightarrow> invite_hook \<Rightarrow> string" where
  "own_invite_link web_url h = (case ih_invite h of
     Some r \<Rightarrow> if web_url \<noteq> [] then web_url @ ''/i/'' @ rl_code r else rl_link r | None \<Rightarrow> [])"

definition invite_earns :: "invite_hook \<Rightarrow> bool" where
  "invite_earns h \<longleftrightarrow> js_number (case ih_invite h of Some r \<Rightarrow> rl_fee_bps r | None \<Rightarrow> ''0'') > 0"

definition copied_text :: "string \<Rightarrow> copied \<Rightarrow> string" where
  "copied_text done what = (case what of CopyFailed \<Rightarrow> ''Could not copy'' | Copied \<Rightarrow> done | Shared \<Rightarrow> ''Shared'')"

definition take_link :: "copied \<Rightarrow> invite_hook \<Rightarrow> invite_hook" where
  "take_link what h = (if ih_invite h = None then h else h\<lparr>ih_notice := Some (copied_text ''Link copied'' what)\<rparr>)"

text \<open>\<open>Some what\<close> when the sheet threw, and then what became of the copy.\<close>

definition share_message :: "string \<Rightarrow> string" where
  "share_message link = ''Trade with me on Tap Trader: '' @ link"

definition share_link :: "copied option \<Rightarrow> invite_hook \<Rightarrow> invite_hook" where
  "share_link threw h = (if ih_invite h = None then h else case threw of None \<Rightarrow> h | Some what \<Rightarrow> take_link what h)"

text \<open>The scheme is not read out.\<close>

definition plain_link :: "string \<Rightarrow> string" where
  "plain_link link = (if take 8 link = ''https://'' then drop 8 link else if take 7 link = ''http://'' then drop 7 link else link)"

definition round_volume :: "decimal \<Rightarrow> string" where
  "round_volume v = (let n = js_number v in if \<not> is_finite n then v else if n \<ge> 100 then grouped n else to_fixed n 2)"

record friend_line =
  fl_wallet :: string
  fl_what :: string
  fl_volume :: string
  fl_earned :: string
  fl_lit :: bool

definition friend_line :: "referral_friend \<Rightarrow> friend_line" where
  "friend_line f = (let earned = js_number (rf_earned f) in
     \<lparr>fl_wallet = short_address (rf_wallet f),
      fl_what = (if rf_trades f > 0 then ''trading'' @ dot_mark @ show_nat (rf_trades f) @ '' '' @ (if rf_trades f = 1 then ''trade'' else ''trades'')
        else ''joined, no trade yet''),
      fl_volume = round_volume (rf_volume f),
      fl_earned = (if earned > 0 then ''+'' @ to_fixed earned 2 else em_dash),
      fl_lit = (earned > 0)\<rparr>)"

definition invite_tiles :: "referral \<Rightarrow> (string \<times> string) list" where
  "invite_tiles r = [(show_nat (rl_invited r), ''invited''), (round_volume (rl_volume r), ''AUSD traded''),
     (to_fixed (js_number (rl_earned r)) 2, ''AUSD earned'')]"

datatype friends_part = NoFriends string | FriendLines "friend_line list"

record invite_card =
  iv_link :: string
  iv_copy :: string
  iv_tiles :: "(string \<times> string) list"
  iv_nofee :: "string option"
  iv_friends :: friends_part
  iv_referred :: "string option"

definition invite_card :: "string \<Rightarrow> invite_hook \<Rightarrow> referral \<Rightarrow> invite_card" where
  "invite_card web_url h r =
     \<lparr>iv_link = plain_link (own_invite_link web_url h),
      iv_copy = (case ih_notice h of Some n \<Rightarrow> n | None \<Rightarrow> ''Copy''),
      iv_tiles = invite_tiles r,
      iv_nofee = (if invite_earns h then None
        else Some ''Practice money pays no fee, so nothing is earned here yet. Everyone you bring is counted, and what they trade with it too.''),
      iv_friends = (case rl_friends r of
        [] \<Rightarrow> NoFriends ''Nobody yet. The first friend who opens the app on your link shows up here, before they have traded anything.''
      | fs \<Rightarrow> FriendLines (List.map friend_line fs)),
      iv_referred = (case rl_referred_by r of Some w \<Rightarrow> if w \<noteq> [] then Some (''You came in on '' @ short_address w @ [CHR 0x27] @ ''s link.'') else None | None \<Rightarrow> None)\<rparr>"

datatype invite_body = InviteProblem string | InviteBones | InviteShown invite_card

definition invite_body :: "string \<Rightarrow> invite_hook \<Rightarrow> invite_body" where
  "invite_body web_url h = (case ih_problem h of
     Some p \<Rightarrow> InviteProblem (if p = InviteLocked then ''Sign in with your passkey to get your link.'' else ''Server unreachable'')
   | None \<Rightarrow> (case ih_invite h of None \<Rightarrow> InviteBones | Some r \<Rightarrow> InviteShown (invite_card web_url h r)))"

datatype invite_event = InviteAnswered "exn + referral" | TakeLink copied | ShareLink "copied option"

fun invite_step :: "invite_hook \<Rightarrow> invite_event \<Rightarrow> invite_hook" where
  "invite_step h (InviteAnswered res) = invite_answered res h"
| "invite_step h (TakeLink what) = take_link what h"
| "invite_step h (ShareLink threw) = share_link threw h"

section \<open>The account\<close>

definition account_address :: "account_layer \<Rightarrow> string option" where
  "account_address l = (case al_state l of Unlocked s \<Rightarrow> Some (sa_address s) | Remembered s \<Rightarrow> Some (sa_address s) | _ \<Rightarrow> None)"

definition in_trades :: "trading \<Rightarrow> jsnum" where
  "in_trades t = foldl (\<lambda>sum p. sum + js_number (ps_collateral p)) 0 (positions_of t)"

definition exchange_line :: "trading \<Rightarrow> string" where
  "exchange_line t = (case tr_state t of
     None \<Rightarrow> if tr_offline t then ''Exchange account'' @ dot_mark @ ''offline'' else ''Exchange account'' @ dot_mark @ ellipsis
   | Some s \<Rightarrow> let a = pf_account s in
       if ac_id a = ''0'' then ''No exchange account yet''
       else ''Exchange account #'' @ ac_id a @ dot_mark @ (if ac_can_trade a then ''open'' else if ac_frozen a then ''frozen'' else ''not trading yet''))"

definition balance_row :: "trading \<Rightarrow> string" where
  "balance_row t = (case tr_state t of Some s \<Rightarrow> to_fixed (equity s) 2 @ '' AUSD'' | None \<Rightarrow> if tr_offline t then ''offline'' else ellipsis)"

datatype funding_part = PracticeNote string | FundingButtons "(string \<times> string) list"

definition funding_part :: "prefs \<Rightarrow> funding_part" where
  "funding_part p = (if pr_network p \<noteq> ChoseMainnet
     then PracticeNote ''Practice money: the exchange hands it to every account it opens. Adding and withdrawing arrive with real money.''
     else FundingButtons [(''Add funds'', ''/deposit''), (''Withdraw'', ''/withdraw'')])"

record account_room =
  ro_address :: string
  ro_copy :: "string option"
  ro_exchange :: string
  ro_balance :: string
  ro_in_trades :: string
  ro_funding :: funding_part
  ro_testnet_on :: bool
  ro_light_on :: bool
  ro_dark_on :: bool

definition account_room :: "account_layer \<Rightarrow> prefs \<Rightarrow> trading \<Rightarrow> string option \<Rightarrow> string \<Rightarrow> account_room" where
  "account_room l p t notice skin =
     (let addr = account_address l in
      \<lparr>ro_address = (case addr of Some a \<Rightarrow> if a \<noteq> [] then short_address a else ''not signed in'' | None \<Rightarrow> ''not signed in''),
       ro_copy = (case addr of Some a \<Rightarrow> if a \<noteq> [] then Some (case notice of Some n \<Rightarrow> n | None \<Rightarrow> ''copy'') else None | None \<Rightarrow> None),
       ro_exchange = exchange_line t,
       ro_balance = balance_row t,
       ro_in_trades = to_fixed (in_trades t) 2 @ '' AUSD'',
       ro_funding = funding_part p,
       ro_testnet_on = (pr_network p \<noteq> ChoseMainnet),
       ro_light_on = (skin \<noteq> ''night''),
       ro_dark_on = (skin = ''night'')\<rparr>)"

definition take_address :: "account_layer \<Rightarrow> copied \<Rightarrow> string option \<Rightarrow> string option" where
  "take_address l what notice = (if given (account_address l) then Some (copied_text ''Copied'' what) else notice)"

text \<open>Signing out leads home.\<close>

definition press_sign_out :: "account_layer \<Rightarrow> account_layer \<times> string" where
  "press_sign_out l = (sign_out l, ''/'')"

section \<open>The skin\<close>

text \<open>Three skins ship; a person picks between Paper and Night, and the pick is kept.\<close>

datatype skin = PaperSkin | NightSkin | TerminalSkin

fun skin_name :: "skin \<Rightarrow> string" where
  "skin_name PaperSkin = ''paper''"
| "skin_name NightSkin = ''night''"
| "skin_name TerminalSkin = ''terminal''"

fun worn_skin :: "theme_name \<Rightarrow> skin" where
  "worn_skin Paper = PaperSkin"
| "worn_skin Night = NightSkin"

record wardrobe =
  wr_skin :: skin
  wr_store :: "string place"

datatype skin_event = SetSkin skin | ChooseSkin theme_name | ToggleSkin

fun skin_step :: "wardrobe \<Rightarrow> skin_event \<Rightarrow> wardrobe" where
  "skin_step w (SetSkin k) = w\<lparr>wr_skin := k\<rparr>"
| "skin_step w (ChooseSkin t) = w\<lparr>wr_skin := worn_skin t, wr_store := save_theme_choice t (wr_store w)\<rparr>"
| "skin_step w ToggleSkin = w\<lparr>wr_skin := (if wr_skin w = PaperSkin then TerminalSkin else PaperSkin)\<rparr>"

section \<open>The market of the form\<close>

definition form_symbol :: "string option \<Rightarrow> string" where
  "form_symbol param = upper (case param of Some s \<Rightarrow> if s \<noteq> [] then s else ''MON'' | None \<Rightarrow> ''MON'')"

definition form_title :: "string option \<Rightarrow> string" where
  "form_title param = ''Position'' @ dot_mark @ form_symbol param"

section \<open>One's own strategy\<close>

text \<open>The screen and the device's store; \<open>ow_found\<close> is what the read begun when the
  screen opened will answer.\<close>

record own_screen =
  on_text :: string
  on_listed :: bool
  on_ready :: bool
  on_found :: own_draft
  on_store :: "partial_draft place"

definition open_own :: "partial_draft place \<Rightarrow> own_screen" where
  "open_own store = \<lparr>on_text = [], on_listed = False, on_ready = False, on_found = load_own_draft store, on_store = store\<rparr>"

datatype own_event = DraftRead | EditDraft string | NotifyMe

text \<open>The field takes text once the draft has been read and while one is not listed; the
  button is there whether or not it has been read.\<close>

fun own_step :: "own_screen \<Rightarrow> own_event \<Rightarrow> own_screen" where
  "own_step s DraftRead = (if on_ready s then s
     else s\<lparr>on_text := ow_text (on_found s), on_listed := ow_listed (on_found s), on_ready := True\<rparr>)"
| "own_step s (EditDraft next) = (if \<not> on_ready s \<or> on_listed s then s
     else s\<lparr>on_text := next, on_store := save_own_draft \<lparr>ow_text = next, ow_listed = on_listed s\<rparr> (on_store s)\<rparr>)"
| "own_step s NotifyMe = (if on_listed s then s
     else s\<lparr>on_listed := True, on_store := save_own_draft \<lparr>ow_text = on_text s, ow_listed = True\<rparr> (on_store s)\<rparr>)"

datatype own_body = DraftField string bool | ListedCard string

definition own_body :: "own_screen \<Rightarrow> own_body \<times> string" where
  "own_body s = (if on_listed s
     then (ListedCard (if strip (on_text s) \<noteq> [] then ''We ping you when it opens. Your draft is saved.'' else ''We ping you when it opens.''), ''Back to lobby'')
     else (DraftField (on_text s) (on_ready s), ''Notify me when it opens''))"

section \<open>What the rooms keep\<close>

definition own_kept :: "own_screen \<Rightarrow> bool" where
  "own_kept s \<longleftrightarrow> on_ready s \<and> storage_works (on_store s) \<and> load_own_draft (on_store s) = \<lparr>ow_text = on_text s, ow_listed = on_listed s\<rparr>"

interpretation own_machine: state_machine own_step own_kept
proof
  fix s e
  assume "own_kept s"
  then show "own_kept (own_step s e)"
    using draft.load_save draft.works_save by (cases e) (auto simp: own_kept_def)
qed

text \<open>
  The words are not lost: on a storage that works, once the stored draft has been
  read, whatever is typed and whenever the button is pressed, opening the screen
  again finds exactly the text and the listing that were on it.
\<close>

theorem own_draft_comes_back:
  assumes "storage_works st"
  shows "let s = foldl own_step (open_own st) (DraftRead # es);
     again = own_step (open_own (on_store s)) DraftRead in
     on_text again = on_text s \<and> on_listed again = on_listed s"
proof -
  have "own_kept (own_step (open_own st) DraftRead)" using assms by (simp add: own_kept_def open_own_def)
  then have "own_kept (foldl own_step (own_step (open_own st) DraftRead) es)" by (rule own_machine.run_inv)
  then show ?thesis by (simp add: own_kept_def open_own_def Let_def)
qed

theorem own_draft_comes_back_witness:
  "let st = \<lparr>pl_mode = Works, pl_item = None\<rparr>;
       s = foldl own_step (open_own st) (DraftRead # [EditDraft ''buy low'', NotifyMe]);
       again = own_step (open_own (on_store s)) DraftRead in
     on_text again = ''buy low'' \<and> on_listed again"
proof -
  let ?st = "\<lparr>pl_mode = Works, pl_item = None\<rparr> :: partial_draft place"
  have "storage_works ?st" by (simp add: storage_works_def)
  from own_draft_comes_back[OF this, of "[EditDraft ''buy low'', NotifyMe]"]
  show ?thesis by (simp add: open_own_def load_own_draft_def load_doc_def get_item_def)
qed

text \<open>The button does not wait for the read: pressed before the stored draft has come
  back, it stores an empty one in its place.\<close>

lemma early_press_loses_draft:
  assumes "storage_works st"
  shows "load_own_draft (on_store (own_step (open_own (save_own_draft \<lparr>ow_text = words, ow_listed = False\<rparr> st)) NotifyMe)) = \<lparr>ow_text = [], ow_listed = True\<rparr>"
  using draft.last_save_wins[OF assms] by (simp add: open_own_def)

text \<open>A skin that is chosen is the one the next launch opens with, whatever is tried on after.\<close>

definition tried_on :: "skin_event \<Rightarrow> bool" where
  "tried_on e \<longleftrightarrow> (case e of ChooseSkin t \<Rightarrow> False | _ \<Rightarrow> True)"

lemma trying_stores_nothing: "list_all tried_on es \<Longrightarrow> wr_store (foldl skin_step w es) = wr_store w"
proof (induction es arbitrary: w)
  case (Cons e es)
  then show ?case by (cases e) (simp_all add: tried_on_def)
qed simp

lemma skin_works: "storage_works (wr_store w) \<Longrightarrow> storage_works (wr_store (foldl skin_step w es))"
proof (induction es arbitrary: w)
  case (Cons e es)
  have "storage_works (wr_store (skin_step w e))" using Cons.prems theme.works_save by (cases e) simp_all
  then show ?case using Cons.IH by simp
qed simp

lemma chosen_skin_comes_back:
  assumes "storage_works (wr_store w)" "list_all tried_on after'"
  shows "load_theme_choice (wr_store (foldl skin_step w (before @ ChooseSkin t # after'))) = Some t"
  using theme.load_save[OF skin_works[OF assms(1)]] by (simp add: trying_stores_nothing[OF assms(2)])

text \<open>
  A failed read of the invite is told apart and got over: a request that never
  reached the platform says the server is out of reach and any other failure asks to
  sign in, the problem hides the link and the friends, and the next answer brings
  them back as they then are, with nothing of the problem left.
\<close>

theorem invite_errors_are_told:
  "let h = foldl invite_step open_invites es in
     (invite_body web (invite_step h (InviteAnswered (Inl e))) =
        InviteProblem (if has_code ''network'' e then ''Server unreachable'' else ''Sign in with your passkey to get your link.'')) \<and>
     (\<exists>c. invite_body web (invite_step (invite_step h (InviteAnswered (Inl e))) (InviteAnswered (Inr r))) = InviteShown c \<and>
        iv_tiles c = invite_tiles r \<and>
        iv_friends c = (if rl_friends r = [] then iv_friends c else FriendLines (List.map friend_line (rl_friends r))) \<and>
        iv_link c = plain_link (if web \<noteq> [] then web @ ''/i/'' @ rl_code r else rl_link r))"
  by (auto simp: Let_def invite_answered_def invite_body_def invite_card_def own_invite_link_def split: list.split)

text \<open>A server that fails asks a person who is signed in to sign in.\<close>

lemma server_failure_asks_to_sign_in:
  "invite_body web (foldl invite_step open_invites [InviteAnswered (Inr r), InviteAnswered (Inl (Api \<lparr>ae_status = 500, ae_code = ''internal'', ae_message = [], ae_limit = None, ae_actual = None, ae_retry = None\<rparr>))])
   = InviteProblem ''Sign in with your passkey to get your link.''"
  by (simp add: invite_answered_def invite_body_def open_invites_def has_code_def)

text \<open>The scheme is all that is left out of the link.\<close>

lemma plain_link_suffix: "\<exists>scheme \<in> {[], ''http://'', ''https://''}. link = scheme @ plain_link link"
proof -
  have t: "take n link = w \<Longrightarrow> link = w @ drop n link" for n w by (metis append_take_drop_id)
  show ?thesis using t[of 8 "''https://''"] t[of 7 "''http://''"] by (simp add: plain_link_def)
qed

text \<open>What is in trades is the sum of what each holds.\<close>

lemma in_trades_sum: "in_trades t = sum_list (List.map (\<lambda>p. js_number (ps_collateral p)) (positions_of t))"
proof -
  have "foldl (\<lambda>sum p. sum + f p) a xs = a + sum_list (List.map f xs)" for f :: "position \<Rightarrow> jsnum" and a xs
    by (induction xs arbitrary: a) (simp_all add: add.assoc)
  then show ?thesis by (simp add: in_trades_def)
qed

end
