(* ===== verification/Chart.thy ===== *)
theory Chart
  imports StrategyScreen
begin

text \<open>
  The chart: the page that draws it (public/tv.js) with its feed of candles, and the app
  around it (chart/page.ts, components/TVChart.tsx and its web twin), which name the page
  in a query and talk to it by messages. The library that paints is a third party's; what
  the page asks of it (the bars it hands over, the shapes it draws, the resolution it
  sets) is the page's output.
\<close>

section \<open>The page's address\<close>

text \<open>URLSearchParams: letters, digits and four marks as they are, a space as a plus, the
  rest in percent form.\<close>

definition form_plain :: "char \<Rightarrow> bool" where
  "form_plain c \<longleftrightarrow> is_digit c \<or> (65 \<le> code_of c \<and> code_of c \<le> 90) \<or> (97 \<le> code_of c \<and> code_of c \<le> 122) \<or> c \<in> set ''*-._''"

definition form_char :: "char \<Rightarrow> string" where
  "form_char c = (if form_plain c then [c] else if c = CHR '' '' then ''+'' else percent c)"

definition form_encode :: "string \<Rightarrow> string" where
  "form_encode s = concat (List.map form_char s)"

definition form_query :: "(string \<times> string) list \<Rightarrow> string" where
  "form_query ps = join ''&'' (List.map (\<lambda>(k, v). form_encode k @ ''='' @ form_encode v) ps)"

text \<open>Reading one: a percent sign that no two digits follow stands for itself.\<close>

fun form_decode :: "string \<Rightarrow> string" where
  "form_decode [] = []"
| "form_decode (c # s) = (if c = CHR ''+'' then CHR '' '' # form_decode s
     else if c = CHR ''%'' then (case s of
       h # l # r \<Rightarrow> (case (hex_value h, hex_value l) of (Some a, Some b) \<Rightarrow> char_of (16 * a + b) # form_decode r | _ \<Rightarrow> c # form_decode s)
     | _ \<Rightarrow> c # form_decode s)
     else c # form_decode s)"

definition form_pair :: "string \<Rightarrow> string \<times> string" where
  "form_pair s = (let k = takeWhile (\<lambda>c. c \<noteq> CHR ''='') s in (form_decode k, form_decode (drop (length k + 1) s)))"

function form_pairs :: "string \<Rightarrow> (string \<times> string) list" where
  "form_pairs s = (if s = [] then [] else
     let part = takeWhile (\<lambda>c. c \<noteq> CHR ''&'') s; others = drop (length part + 1) s in
     (if part = [] then [] else [form_pair part]) @ form_pairs others)"
  by pat_completeness auto
termination by (relation "measure length") (auto simp: Let_def)

declare form_pairs.simps [simp del]

definition query_param :: "string \<Rightarrow> string \<Rightarrow> string option" where
  "query_param query k = map_of (form_pairs query) k"

record chart_colours =
  cc_background :: string
  cc_up :: string
  cc_down :: string
  cc_accent :: string
  cc_text :: string
  cc_grid :: string
  cc_line :: string

record chart_look =
  lk_symbol :: string
  lk_dark :: bool
  lk_colours :: chart_colours
  lk_averages :: "(jsnum \<times> jsnum) option"
  lk_study :: "string option"
  lk_study_share :: "jsnum option"
  lk_channel :: "jsnum option"

definition chart_params :: "string \<Rightarrow> chart_look \<Rightarrow> (string \<times> string) list" where
  "chart_params api_url l = (let c = lk_colours l in
    [(''api'', api_url), (''symbol'', lk_symbol l), (''theme'', if lk_dark l then ''dark'' else ''light''),
     (''bg'', cc_background c), (''up'', cc_up c), (''down'', cc_down c), (''accent'', cc_accent c), (''text'', cc_text c),
     (''grid'', cc_grid c), (''line'', cc_line c),
     (''fast'', js_string (case lk_averages l of Some (f, s) \<Rightarrow> f | None \<Rightarrow> 0)),
     (''slow'', js_string (case lk_averages l of Some (f, s) \<Rightarrow> s | None \<Rightarrow> 0)),
     (''study'', case lk_study l of Some s \<Rightarrow> s | None \<Rightarrow> []),
     (''pane'', case lk_study_share l of Some n \<Rightarrow> if truthy n then js_string n else [] | None \<Rightarrow> []),
     (''channel'', js_string (case lk_channel l of Some n \<Rightarrow> n | None \<Rightarrow> 0))])"

definition chart_page_url :: "string \<Rightarrow> string \<Rightarrow> chart_look \<Rightarrow> string" where
  "chart_page_url web_url api_url l = web_url @ ''/tv.html?'' @ form_query (chart_params api_url l)"

section \<open>What the page reads of its address\<close>

record page_setup =
  su_api :: string
  su_symbol :: string
  su_dark :: bool
  su_fast :: jsnum
  su_slow :: jsnum
  su_study :: string
  su_channel :: jsnum
  su_pane :: jsnum
  su_bg :: string
  su_up :: string
  su_down :: string
  su_accent :: string
  su_text :: string
  su_grid :: string
  su_line :: string

definition param_or :: "string \<Rightarrow> string \<Rightarrow> string \<Rightarrow> string" where
  "param_or query k other = (case query_param query k of Some v \<Rightarrow> if v \<noteq> [] then v else other | None \<Rightarrow> other)"

text \<open>The platform's address, without a slash at its end, and the colours.\<close>

definition page_setup :: "string \<Rightarrow> page_setup" where
  "page_setup query =
     (let dark = query_param query ''theme'' = Some ''dark'';
          ink = param_or query ''text'' (if dark then ''#9ca3af'' else ''#6b7280'') in
      \<lparr>su_api = drop_slash (param_or query ''api'' []),
       su_symbol = upper (param_or query ''symbol'' ''MON''),
       su_dark = dark,
       su_fast = js_number (param_or query ''fast'' ''0''),
       su_slow = js_number (param_or query ''slow'' ''0''),
       su_study = param_or query ''study'' [],
       su_channel = js_number (param_or query ''channel'' ''0''),
       su_pane = math_max 0 (math_min (Num (6 / 10)) (js_number (param_or query ''pane'' ''0''))),
       su_bg = param_or query ''bg'' (if dark then ''#212225'' else ''#F0F0F3''),
       su_up = param_or query ''up'' ''#16a34a'',
       su_down = param_or query ''down'' ''#dc2626'',
       su_accent = param_or query ''accent'' ''#2563eb'',
       su_text = ink,
       su_grid = param_or query ''grid'' (if dark then ''rgba(255,255,255,0.06)'' else ''rgba(0,0,0,0.06)''),
       su_line = param_or query ''line'' ink\<rparr>)"

section \<open>The feed\<close>

definition bar_periods :: "(string \<times> int) list" where
  "bar_periods = [(''1'', 60), (''5'', 300), (''15'', 900), (''30'', 1800), (''60'', 3600)]"

definition period_of :: "string \<Rightarrow> int" where
  "period_of resolution = (case map_of bar_periods resolution of Some p \<Rightarrow> p | None \<Rightarrow> 60)"

definition visible_bars :: int where "visible_bars = 90"

text \<open>A row of the platform, and the bar made of it, which keeps the close as it was written.\<close>

record candle_row =
  cr_t :: int
  cr_o :: decimal
  cr_h :: decimal
  cr_l :: decimal
  cr_c :: decimal
  cr_v :: decimal

record feed_bar =
  fb_time :: int
  fb_open :: jsnum
  fb_high :: jsnum
  fb_low :: jsnum
  fb_close :: jsnum
  fb_volume :: jsnum
  fb_text :: string

definition bar_of :: "candle_row \<Rightarrow> feed_bar" where
  "bar_of r = \<lparr>fb_time = cr_t r * 1000, fb_open = js_number (cr_o r), fb_high = js_number (cr_h r), fb_low = js_number (cr_l r),
     fb_close = js_number (cr_c r), fb_volume = js_number (cr_v r), fb_text = cr_c r\<rparr>"

definition candles_path :: "string \<Rightarrow> int \<Rightarrow> int \<Rightarrow> int \<Rightarrow> string" where
  "candles_path symbol period start until = ''/v1/candles?symbol='' @ encode_uri_component symbol @ ''&period_seconds='' @ show_int period @
     ''&from='' @ show_int start @ ''&to='' @ show_int until"

definition in_time :: "candle_row list \<Rightarrow> feed_bar list" where
  "in_time rows = sort_key fb_time (List.map bar_of rows)"

text \<open>The places after the point of the last fifty closes, at least two and at most eight.\<close>

definition places_of :: "feed_bar \<Rightarrow> nat" where
  "places_of b = (case split_at (CHR ''.'') (js_string (fb_close b)) of (w, Some f) \<Rightarrow> length (takeWhile (\<lambda>c. c \<noteq> CHR ''.'') f) | (w, None) \<Rightarrow> 0)"

definition pricescale_for :: "feed_bar list \<Rightarrow> nat" where
  "pricescale_for bs = 10 ^ min (foldl (\<lambda>d b. max d (places_of b)) 2 (drop (length bs - 50) bs)) 8"

text \<open>A history that fails is asked for three times before the library is told.\<close>

definition history_tries :: nat where "history_tries = 3"

fun ask_history :: "(nat \<Rightarrow> exn + candle_row list) \<Rightarrow> nat \<Rightarrow> nat \<Rightarrow> (exn + feed_bar list) \<times> nat" where
  "ask_history answers 0 attempt = (Inl (Fail []), attempt)"
| "ask_history answers (Suc left) attempt = (case answers attempt of
     Inr rows \<Rightarrow> (Inr (in_time rows), attempt + 1)
   | Inl e \<Rightarrow> if left = 0 then (Inl e, attempt + 1) else ask_history answers left (attempt + 1))"

definition get_bars :: "(nat \<Rightarrow> exn + candle_row list) \<Rightarrow> (exn + feed_bar list) \<times> nat" where
  "get_bars answers = ask_history answers history_tries 0"

text \<open>What a poll asks for: from two bars behind to the last three-second tick.\<close>

definition poll_range :: "int \<Rightarrow> int \<Rightarrow> int \<times> int" where
  "poll_range period now = (let until = now - now mod 3 in (until div period * period - 2 * period, until))"

definition visible_range :: "int \<Rightarrow> string \<Rightarrow> int \<times> int" where
  "visible_range now resolution = (let p = period_of resolution in (now - visible_bars * p, now + 5 * p))"

section \<open>What is drawn\<close>

record chart_box =
  bx_top :: string
  bx_bottom :: string
  bx_from :: "jsnum option"
  bx_to :: "jsnum option"

record drawn =
  dr_box :: "chart_box option"
  dr_trades :: "trade list"
  dr_position :: "chart_levels option"
  dr_cross :: "(string \<times> side) option"

datatype shape =
    Level int jsnum string string jsnum bool
  | Shade jsnum jsnum jsnum jsnum
  | Rule jsnum
  | Fill jsnum jsnum bool string
  | Dot jsnum jsnum

definition number_on :: "jsnum option \<Rightarrow> bool" where
  "number_on v \<longleftrightarrow> (case v of Some n \<Rightarrow> truthy n | None \<Rightarrow> False)"

definition box_shapes :: "page_setup \<Rightarrow> int \<Rightarrow> chart_box \<Rightarrow> shape list" where
  "box_shapes st now b =
     (let t = js_number (bx_top b); u = js_number (bx_bottom b) in
      [Level now t (su_accent st) [] 1 True, Level now u (su_accent st) [] 1 True] @
      (if number_on (bx_from b) \<and> number_on (bx_to b) then [Shade (the (bx_from b)) t (the (bx_to b)) u, Rule (the (bx_from b))] else []))"

definition trade_shapes :: "page_setup \<Rightarrow> int \<Rightarrow> trade \<Rightarrow> shape list" where
  "trade_shapes st tz t =
     (if \<not> truthy (js_number (td_entry_price t)) then []
      else let long = td_side t = Long in
        Fill (unix tz (td_opened_at t)) (js_number (td_entry_price t)) long (if long then su_up st else su_down st) #
        (if given (td_closed_at t) \<and> truthy (js_number_opt (td_exit_price t)) then
           [Fill (unix tz (the (td_closed_at t))) (js_number_opt (td_exit_price t)) (\<not> long)
              (if (case td_pnl t of Some p \<Rightarrow> js_number (if p = [] then ''0'' else p) | None \<Rightarrow> 0) \<ge> 0 then su_up st else su_down st)]
         else []))"

text \<open>The bar a cross closed on: a hair before the moment it is dated by.\<close>

definition cross_bar :: "int \<Rightarrow> int \<Rightarrow> string \<Rightarrow> int option" where
  "cross_bar tz period_ms moment = (case parse_date tz moment of Num q \<Rightarrow> Some (\<lfloor>(q - 1) / of_int period_ms\<rfloor> * period_ms) | _ \<Rightarrow> None)"

definition cross_shapes :: "int \<Rightarrow> string \<Rightarrow> (int \<rightharpoonup> feed_bar) \<Rightarrow> string \<Rightarrow> shape list" where
  "cross_shapes tz resolution bars moment = (case cross_bar tz (period_of resolution * 1000) moment of
     None \<Rightarrow> []
   | Some at' \<Rightarrow> (case bars at' of None \<Rightarrow> []
       | Some b \<Rightarrow> [Rule (Num (of_int at' / 1000)), Dot (Num (of_int at' / 1000)) (fb_close b)]))"

definition position_shapes :: "page_setup \<Rightarrow> int \<Rightarrow> chart_levels \<Rightarrow> shape list" where
  "position_shapes st now p =
     (let quiet = (\<lambda>v colour word. if truthy (js_number_opt v) then [Level now (js_number_opt v) colour (word @ the v) 1 False] else []) in
      Level now (js_number (cl_entry p)) (su_line st) (''IN '' @ cl_entry p) (Num (3 / 2)) False #
      quiet (cl_stop p) (su_text st) ''STOP '' @ quiet (cl_take p) (su_text st) ''TP '' @ quiet (cl_liquidation p) (su_down st) ''LIQ '')"

definition draw :: "page_setup \<Rightarrow> int \<Rightarrow> int \<Rightarrow> string \<Rightarrow> (int \<rightharpoonup> feed_bar) \<Rightarrow> drawn \<Rightarrow> shape list" where
  "draw st tz now resolution bars d =
     (case dr_box d of Some b \<Rightarrow> box_shapes st now b | None \<Rightarrow> []) @
     List.concat (List.map (trade_shapes st tz) (take 20 (dr_trades d))) @
     (case dr_cross d of Some (moment, s) \<Rightarrow> cross_shapes tz resolution bars moment | None \<Rightarrow> []) @
     (case dr_position d of Some p \<Rightarrow> position_shapes st now p | None \<Rightarrow> [])"

section \<open>The page\<close>

datatype chart_type = Candles | LineChart

datatype chart_message =
    MChartType chart_type
  | MInterval string
  | MTrend trend
  | MBox "chart_box option"
  | MTrades "trade list"
  | MPosition "chart_levels option"
  | MCross "(string \<times> side) option"

text \<open>What the page hands to the library, and what it posts to the app.\<close>

datatype library_call = GaveHistory string "feed_bar list" | GaveTick string feed_bar | GaveFailure string

datatype posted = PostedReady | PostedPrice string "jsnum option"

record chart_page =
  pg_type :: chart_type
  pg_resolution :: string
  pg_trend :: "trend option"
  pg_drawn :: drawn
  pg_ready :: bool
  pg_waiting :: "chart_message list"
  pg_bars :: "int \<rightharpoonup> feed_bar"
  pg_last :: "feed_bar option"
  pg_oldest :: "feed_bar option"
  pg_day_open :: "jsnum option"
  pg_newest :: "string \<Rightarrow> int"
  pg_calls :: "library_call list"
  pg_posts :: "posted list"

definition fresh_page :: chart_page where
  "fresh_page = \<lparr>pg_type = Candles, pg_resolution = ''1'', pg_trend = None,
     pg_drawn = \<lparr>dr_box = None, dr_trades = [], dr_position = None, dr_cross = None\<rparr>, pg_ready = False, pg_waiting = [],
     pg_bars = (\<lambda>t. None), pg_last = None, pg_oldest = None, pg_day_open = None, pg_newest = (\<lambda>r. 0), pg_calls = [], pg_posts = []\<rparr>"

text \<open>The move since the day opened. The fallback of the code is a bar and not its price,
  and a number divided by an object is NaN.\<close>

definition change_told :: "chart_page \<Rightarrow> feed_bar \<Rightarrow> jsnum option" where
  "change_told pg b = (if number_on (pg_day_open pg) then Some ((fb_close b / the (pg_day_open pg) - 1) * 100)
     else if pg_oldest pg \<noteq> None then Some ((fb_close b / NaN - 1) * 100) else None)"

definition tell :: "chart_page \<Rightarrow> chart_page" where
  "tell pg = (case pg_last pg of None \<Rightarrow> pg | Some b \<Rightarrow> pg\<lparr>pg_posts := pg_posts pg @ [PostedPrice (fb_text b) (change_told pg b)]\<rparr>)"

definition saw :: "chart_page \<Rightarrow> feed_bar \<Rightarrow> chart_page" where
  "saw pg b = pg\<lparr>
     pg_last := (case pg_last pg of None \<Rightarrow> Some b | Some l \<Rightarrow> if fb_time b \<ge> fb_time l then Some b else Some l),
     pg_oldest := (case pg_oldest pg of None \<Rightarrow> Some b | Some o' \<Rightarrow> if fb_time b < fb_time o' then Some b else Some o'),
     pg_bars := (pg_bars pg)(fb_time b \<mapsto> b)\<rparr>"

definition day_read :: "exn + candle_row list \<Rightarrow> chart_page \<Rightarrow> chart_page" where
  "day_read res pg = (case res of Inl e \<Rightarrow> pg | Inr rows \<Rightarrow> (case in_time rows of [] \<Rightarrow> pg | b # _ \<Rightarrow> tell (pg\<lparr>pg_day_open := Some (fb_open b)\<rparr>)))"

definition history_given :: "string \<Rightarrow> exn + feed_bar list \<Rightarrow> chart_page \<Rightarrow> chart_page" where
  "history_given r res pg = (case res of Inl e \<Rightarrow> pg\<lparr>pg_calls := pg_calls pg @ [GaveFailure r]\<rparr>
     | Inr bs \<Rightarrow> (let p1 = foldl saw pg bs;
          p2 = (if bs \<noteq> [] \<and> fb_time (last bs) > pg_newest p1 r then p1\<lparr>pg_newest := (pg_newest p1)(r := fb_time (last bs))\<rparr> else p1)
        in tell (p2\<lparr>pg_calls := pg_calls p2 @ [GaveHistory r bs]\<rparr>)))"

text \<open>A live bar is handed over unless it is older than the newest the library has.\<close>

definition live_bar :: "string \<Rightarrow> chart_page \<Rightarrow> feed_bar \<Rightarrow> chart_page" where
  "live_bar r pg b = (if fb_time b \<ge> pg_newest pg r
     then saw (pg\<lparr>pg_calls := pg_calls pg @ [GaveTick r b], pg_newest := (pg_newest pg)(r := fb_time b)\<rparr>) b else pg)"

definition poll_read :: "string \<Rightarrow> exn + candle_row list \<Rightarrow> chart_page \<Rightarrow> chart_page" where
  "poll_read r res pg = (case res of Inl e \<Rightarrow> pg | Inr rows \<Rightarrow> tell (foldl (live_bar r) pg (in_time rows)))"

text \<open>A message is acted on once the chart is ready, and kept until then.\<close>

fun obey :: "chart_page \<Rightarrow> chart_message \<Rightarrow> chart_page" where
  "obey pg (MChartType t) = pg\<lparr>pg_type := t\<rparr>"
| "obey pg (MInterval i) = (if map_of bar_periods i \<noteq> None then pg\<lparr>pg_resolution := i\<rparr> else pg)"
| "obey pg (MTrend t) = pg\<lparr>pg_trend := Some t\<rparr>"
| "obey pg (MBox b) = pg\<lparr>pg_drawn := (pg_drawn pg)\<lparr>dr_box := b\<rparr>\<rparr>"
| "obey pg (MTrades ts) = pg\<lparr>pg_drawn := (pg_drawn pg)\<lparr>dr_trades := ts\<rparr>\<rparr>"
| "obey pg (MPosition p) = pg\<lparr>pg_drawn := (pg_drawn pg)\<lparr>dr_position := p\<rparr>\<rparr>"
| "obey pg (MCross c) = pg\<lparr>pg_drawn := (pg_drawn pg)\<lparr>dr_cross := c\<rparr>\<rparr>"

definition hear :: "chart_page \<Rightarrow> chart_message \<Rightarrow> chart_page" where
  "hear pg m = (if pg_ready pg then obey pg m else pg\<lparr>pg_waiting := pg_waiting pg @ [m]\<rparr>)"

definition chart_ready :: "chart_page \<Rightarrow> chart_page" where
  "chart_ready pg = (if pg_ready pg then pg else
     let p1 = tell (pg\<lparr>pg_ready := True, pg_waiting := []\<rparr>); p2 = p1\<lparr>pg_posts := pg_posts p1 @ [PostedReady]\<rparr> in
     foldl obey p2 (pg_waiting pg))"

datatype page_event = DayRead "exn + candle_row list" | HistoryRead string "nat \<Rightarrow> exn + candle_row list"
  | PollRead string "exn + candle_row list" | Hears chart_message | ReadyNow

fun page_step :: "chart_page \<Rightarrow> page_event \<Rightarrow> chart_page" where
  "page_step pg (DayRead res) = day_read res pg"
| "page_step pg (HistoryRead r answers) = history_given r (fst (get_bars answers)) pg"
| "page_step pg (PollRead r res) = poll_read r res pg"
| "page_step pg (Hears m) = hear pg m"
| "page_step pg ReadyNow = chart_ready pg"

text \<open>The shapes on the pane: everything is cleared and drawn anew from one state.\<close>

definition on_pane :: "page_setup \<Rightarrow> int \<Rightarrow> int \<Rightarrow> chart_page \<Rightarrow> shape list" where
  "on_pane st tz now pg = (if pg_ready pg then draw st tz now (pg_resolution pg) (pg_bars pg) (pg_drawn pg) else [])"

section \<open>What the app hears\<close>

datatype js_field = FieldText string | FieldNumber jsnum | FieldOther

record post_object =
  po_type :: js_field
  po_price :: js_field
  po_change :: js_field

text \<open>How a post arrives: as text in the language's notation on a phone, where NaN is
  written null, and as the object itself in a browser.\<close>

definition arrives :: "bool \<Rightarrow> posted \<Rightarrow> post_object" where
  "arrives as_text m = (case m of
     PostedReady \<Rightarrow> \<lparr>po_type = FieldText ''ready'', po_price = FieldOther, po_change = FieldOther\<rparr>
   | PostedPrice p c \<Rightarrow> \<lparr>po_type = FieldText ''price'', po_price = FieldText p,
       po_change = (case c of None \<Rightarrow> FieldOther | Some n \<Rightarrow> if as_text \<and> \<not> is_finite n then FieldOther else FieldNumber n)\<rparr>)"

text \<open>None stands for what is not an object or cannot be parsed.\<close>

definition tick_from :: "post_object option \<Rightarrow> (string \<times> jsnum option) option" where
  "tick_from data = (case data of None \<Rightarrow> None
     | Some m \<Rightarrow> (case po_price m of
         FieldText p \<Rightarrow> if po_type m = FieldText ''price''
           then Some (p, case po_change m of FieldNumber n \<Rightarrow> if is_finite n then Some n else None | _ \<Rightarrow> None) else None
       | _ \<Rightarrow> None))"

section \<open>The pane of the app\<close>

record pane_props =
  pp_look :: chart_look
  pp_type :: chart_type
  pp_interval :: string
  pp_trend :: trend
  pp_box :: "chart_box option"
  pp_trades :: "trade list"
  pp_position :: "chart_levels option"
  pp_cross :: "(string \<times> side) option"

definition all_messages :: "pane_props \<Rightarrow> chart_message list" where
  "all_messages p = [MChartType (pp_type p), MInterval (pp_interval p), MTrend (pp_trend p), MBox (pp_box p), MTrades (pp_trades p),
     MPosition (pp_position p), MCross (pp_cross p)]"

text \<open>Each value is sent by an effect of its own, which runs when the value is another.\<close>

definition changed_messages :: "pane_props \<Rightarrow> pane_props \<Rightarrow> chart_message list" where
  "changed_messages p q =
     (if pp_type p \<noteq> pp_type q then [MChartType (pp_type q)] else []) @
     (if pp_interval p \<noteq> pp_interval q then [MInterval (pp_interval q)] else []) @
     (if pp_trend p \<noteq> pp_trend q then [MTrend (pp_trend q)] else []) @
     (if pp_box p \<noteq> pp_box q then [MBox (pp_box q)] else []) @
     (if pp_trades p \<noteq> pp_trades q then [MTrades (pp_trades q)] else []) @
     (if pp_position p \<noteq> pp_position q then [MPosition (pp_position q)] else []) @
     (if pp_cross p \<noteq> pp_cross q then [MCross (pp_cross q)] else [])"

text \<open>In a browser: the frame, whether the page's script listens yet, and whether the frame
  has loaded. Another address is another page; what is sent while nothing listens is lost.\<close>

record web_pane =
  wp_props :: pane_props
  wp_listens :: bool
  wp_loaded :: bool
  wp_page :: chart_page

definition mount_web :: "pane_props \<Rightarrow> web_pane" where
  "mount_web p = \<lparr>wp_props = p, wp_listens = False, wp_loaded = False, wp_page = fresh_page\<rparr>"

datatype pane_event = Turned pane_props | ScriptRuns | FrameLoaded | PageDoes page_event

definition web_send :: "chart_message list \<Rightarrow> web_pane \<Rightarrow> web_pane" where
  "web_send ms w = (if wp_listens w then w\<lparr>wp_page := foldl hear (wp_page w) ms\<rparr> else w)"

fun web_step :: "(chart_look \<Rightarrow> string) \<Rightarrow> web_pane \<Rightarrow> pane_event \<Rightarrow> web_pane" where
  "web_step url w (Turned q) = (if url (pp_look q) \<noteq> url (pp_look (wp_props w)) then mount_web q
     else web_send (changed_messages (wp_props w) q) (w\<lparr>wp_props := q\<rparr>))"
| "web_step url w ScriptRuns = w\<lparr>wp_listens := True\<rparr>"
| "web_step url w FrameLoaded = (if wp_listens w then web_send (all_messages (wp_props w)) (w\<lparr>wp_loaded := True\<rparr>) else w)"
| "web_step url w (PageDoes e) = (if wp_listens w then w\<lparr>wp_page := page_step (wp_page w) e\<rparr> else w)"

text \<open>On a phone: everything is sent when the page first says it is ready, and a value when
  it changes after; another address loads another page and changes nothing else.\<close>

record phone_pane =
  np_props :: pane_props
  np_listens :: bool
  np_ready :: bool
  np_page :: chart_page

definition mount_phone :: "pane_props \<Rightarrow> phone_pane" where
  "mount_phone p = \<lparr>np_props = p, np_listens = False, np_ready = False, np_page = fresh_page\<rparr>"

definition phone_send :: "chart_message list \<Rightarrow> phone_pane \<Rightarrow> phone_pane" where
  "phone_send ms w = (if np_ready w \<and> np_listens w then w\<lparr>np_page := foldl hear (np_page w) ms\<rparr> else w)"

definition phone_hears :: "posted list \<Rightarrow> phone_pane \<Rightarrow> phone_pane" where
  "phone_hears ps w = (if PostedReady \<in> set ps \<and> \<not> np_ready w then phone_send (all_messages (np_props w)) (w\<lparr>np_ready := True\<rparr>) else w)"

fun phone_step :: "(chart_look \<Rightarrow> string) \<Rightarrow> phone_pane \<Rightarrow> pane_event \<Rightarrow> phone_pane" where
  "phone_step url w (Turned q) = (if url (pp_look q) \<noteq> url (pp_look (np_props w))
     then w\<lparr>np_props := q, np_listens := False, np_page := fresh_page\<rparr>
     else phone_send (changed_messages (np_props w) q) (w\<lparr>np_props := q\<rparr>))"
| "phone_step url w ScriptRuns = w\<lparr>np_listens := True\<rparr>"
| "phone_step url w FrameLoaded = w"
| "phone_step url w (PageDoes e) = (if np_listens w
     then (let pg = page_step (np_page w) e in phone_hears (drop (length (pg_posts (np_page w))) (pg_posts pg)) (w\<lparr>np_page := pg\<rparr>)) else w)"

section \<open>The pane shows what the app means\<close>

text \<open>What a person sees of the messages: the kind of chart, the bar size, the trend and
  what is drawn; and what it will be once the messages that wait are acted on.\<close>

type_synonym pane_sight = "chart_type \<times> string \<times> trend option \<times> drawn"

definition sight :: "chart_page \<Rightarrow> pane_sight" where
  "sight pg = (pg_type pg, pg_resolution pg, pg_trend pg, pg_drawn pg)"

fun turn_sight :: "pane_sight \<Rightarrow> chart_message \<Rightarrow> pane_sight" where
  "turn_sight (k, i, t, d) (MChartType k') = (k', i, t, d)"
| "turn_sight (k, i, t, d) (MInterval i') = (k, if map_of bar_periods i' \<noteq> None then i' else i, t, d)"
| "turn_sight (k, i, t, d) (MTrend t') = (k, i, Some t', d)"
| "turn_sight (k, i, t, d) (MBox b) = (k, i, t, d\<lparr>dr_box := b\<rparr>)"
| "turn_sight (k, i, t, d) (MTrades ts) = (k, i, t, d\<lparr>dr_trades := ts\<rparr>)"
| "turn_sight (k, i, t, d) (MPosition p) = (k, i, t, d\<lparr>dr_position := p\<rparr>)"
| "turn_sight (k, i, t, d) (MCross c) = (k, i, t, d\<lparr>dr_cross := c\<rparr>)"

definition sight_ahead :: "chart_page \<Rightarrow> pane_sight" where
  "sight_ahead pg = foldl turn_sight (sight pg) (pg_waiting pg)"

definition waits_well :: "chart_page \<Rightarrow> bool" where
  "waits_well pg \<longleftrightarrow> (pg_ready pg \<longrightarrow> pg_waiting pg = [])"

definition meant :: "pane_props \<Rightarrow> pane_sight" where
  "meant p = (pp_type p, pp_interval p, Some (pp_trend p),
     \<lparr>dr_box = pp_box p, dr_trades = pp_trades p, dr_position = pp_position p, dr_cross = pp_cross p\<rparr>)"

definition known_interval :: "pane_props \<Rightarrow> bool" where
  "known_interval p \<longleftrightarrow> map_of bar_periods (pp_interval p) \<noteq> None"

lemma sight_obey: "sight (obey pg m) = turn_sight (sight pg) m"
  by (cases m) (simp_all add: sight_def)

lemma obey_keeps [simp]: "pg_waiting (obey pg m) = pg_waiting pg" "pg_ready (obey pg m) = pg_ready pg"
  by (cases m; simp)+

lemma obeys_keep [simp]: "pg_waiting (foldl obey pg ms) = pg_waiting pg" "pg_ready (foldl obey pg ms) = pg_ready pg"
  by (induction ms arbitrary: pg) simp_all

lemma sight_obeys: "sight (foldl obey pg ms) = foldl turn_sight (sight pg) ms"
  by (induction ms arbitrary: pg) (simp_all add: sight_obey)

lemma sight_fields [simp]:
  "sight (pg\<lparr>pg_day_open := a\<rparr>) = sight pg" "sight (pg\<lparr>pg_newest := n\<rparr>) = sight pg" "sight (pg\<lparr>pg_calls := c\<rparr>) = sight pg"
  "sight (pg\<lparr>pg_posts := q\<rparr>) = sight pg" "sight (pg\<lparr>pg_waiting := w\<rparr>) = sight pg" "sight (pg\<lparr>pg_ready := r\<rparr>) = sight pg"
  by (simp_all add: sight_def)

lemma hear_ahead: "waits_well pg \<Longrightarrow> sight_ahead (hear pg m) = turn_sight (sight_ahead pg) m \<and> waits_well (hear pg m)"
  by (auto simp: hear_def sight_ahead_def waits_well_def sight_obey)

lemma hears_ahead: "waits_well pg \<Longrightarrow> sight_ahead (foldl hear pg ms) = foldl turn_sight (sight_ahead pg) ms \<and> waits_well (foldl hear pg ms)"
  by (induction ms arbitrary: pg) (simp_all add: hear_ahead)

lemma tell_keeps [simp]: "sight (tell pg) = sight pg" "pg_waiting (tell pg) = pg_waiting pg" "pg_ready (tell pg) = pg_ready pg"
  by (simp_all add: tell_def sight_def split: option.split)

lemma saw_keeps [simp]: "sight (saw pg b) = sight pg" "pg_waiting (saw pg b) = pg_waiting pg" "pg_ready (saw pg b) = pg_ready pg"
  by (simp_all add: saw_def sight_def)

lemma saws_keep [simp]: "sight (foldl saw pg bs) = sight pg" "pg_waiting (foldl saw pg bs) = pg_waiting pg" "pg_ready (foldl saw pg bs) = pg_ready pg"
  by (induction bs arbitrary: pg) simp_all

lemma live_keeps [simp]: "sight (live_bar r pg b) = sight pg" "pg_waiting (live_bar r pg b) = pg_waiting pg" "pg_ready (live_bar r pg b) = pg_ready pg"
  by (simp_all add: live_bar_def)

lemma lives_keep [simp]: "sight (foldl (live_bar r) pg bs) = sight pg" "pg_waiting (foldl (live_bar r) pg bs) = pg_waiting pg"
    "pg_ready (foldl (live_bar r) pg bs) = pg_ready pg"
  by (induction bs arbitrary: pg) simp_all

lemma feed_keeps:
  "sight (day_read res pg) = sight pg \<and> pg_waiting (day_read res pg) = pg_waiting pg \<and> pg_ready (day_read res pg) = pg_ready pg"
  "sight (history_given r h pg) = sight pg \<and> pg_waiting (history_given r h pg) = pg_waiting pg \<and> pg_ready (history_given r h pg) = pg_ready pg"
  "sight (poll_read r res pg) = sight pg \<and> pg_waiting (poll_read r res pg) = pg_waiting pg \<and> pg_ready (poll_read r res pg) = pg_ready pg"
  by (simp_all add: day_read_def history_given_def poll_read_def Let_def split: sum.split list.split)

lemma ready_ahead: "sight_ahead (chart_ready pg) = sight_ahead pg \<and> waits_well pg \<longrightarrow> waits_well (chart_ready pg)"
  by (simp add: chart_ready_def waits_well_def Let_def)

lemma ready_sight: "sight_ahead (chart_ready pg) = sight_ahead pg"
  by (simp add: chart_ready_def sight_ahead_def sight_obeys Let_def)

definition not_heard :: "page_event \<Rightarrow> bool" where
  "not_heard e \<longleftrightarrow> (case e of Hears m \<Rightarrow> False | _ \<Rightarrow> True)"

lemma page_ahead: "waits_well pg \<Longrightarrow> not_heard e \<Longrightarrow> sight_ahead (page_step pg e) = sight_ahead pg \<and> waits_well (page_step pg e)"
  using feed_keeps ready_sight[of pg] ready_ahead[of pg]
  by (cases e) (simp_all add: not_heard_def waits_well_def sight_ahead_def chart_ready_def Let_def)

lemma all_messages_mean: "known_interval p \<Longrightarrow> foldl turn_sight v (all_messages p) = meant p"
  by (cases v) (auto simp: all_messages_def meant_def known_interval_def intro: drawn.equality)

lemma changes_mean: "known_interval q \<Longrightarrow> foldl turn_sight (meant p) (changed_messages p q) = meant q"
  by (auto simp: changed_messages_def meant_def known_interval_def)

definition web_shows :: "web_pane \<Rightarrow> bool" where
  "web_shows w \<longleftrightarrow> waits_well (wp_page w) \<and> known_interval (wp_props w) \<and>
     (wp_loaded w \<longrightarrow> wp_listens w \<and> sight_ahead (wp_page w) = meant (wp_props w))"

definition pane_event_ok :: "pane_event \<Rightarrow> bool" where
  "pane_event_ok e \<longleftrightarrow> (case e of Turned q \<Rightarrow> known_interval q | PageDoes p \<Rightarrow> not_heard p | _ \<Rightarrow> True)"

lemma fresh_waits: "waits_well fresh_page"
  by (simp add: waits_well_def fresh_page_def)

interpretation web_machine: guarded_machine "web_step url" pane_event_ok web_shows for url
proof
  fix w e
  assume w: "web_shows w" and ok: "pane_event_ok e"
  then show "web_shows (web_step url w e)"
    using hears_ahead[of "wp_page w"] page_ahead[of "wp_page w"] fresh_waits
    by (cases e) (auto simp: web_shows_def pane_event_ok_def mount_web_def web_send_def all_messages_mean changes_mean)
qed


definition sample_props :: "string \<Rightarrow> string \<Rightarrow> chart_box option \<Rightarrow> pane_props" where
  "sample_props symbol interval box =
     \<lparr>pp_look = \<lparr>lk_symbol = symbol, lk_dark = False,
        lk_colours = \<lparr>cc_background = ''#fff'', cc_up = ''#0a0'', cc_down = ''#a00'', cc_accent = ''#00a'', cc_text = ''#666'', cc_grid = ''#eee'', cc_line = ''#111''\<rparr>,
        lk_averages = None, lk_study = None, lk_study_share = None, lk_channel = None\<rparr>,
      pp_type = Candles, pp_interval = interval, pp_trend = TFlat, pp_box = box, pp_trades = [], pp_position = None, pp_cross = None\<rparr>"

definition sample_box :: chart_box where
  "sample_box = \<lparr>bx_top = ''12'', bx_bottom = ''10'', bx_from = None, bx_to = None\<rparr>"


text \<open>A phone forgets at the next market: the app knows a ready page already and sends
  nothing to the new one, so it opens on one-minute bars with nothing drawn, whatever the
  screen says.\<close>

lemma phone_forgets:
  "let w = foldl (phone_step lk_symbol) (mount_phone (sample_props ''MON'' ''15'' (Some sample_box)))
       [ScriptRuns, PageDoes ReadyNow, Turned (sample_props ''BTC'' ''15'' (Some sample_box)), ScriptRuns, PageDoes ReadyNow] in
     pp_interval (np_props w) = ''15'' \<and> pp_box (np_props w) = Some sample_box \<and>
     pg_resolution (np_page w) = ''1'' \<and> dr_box (pg_drawn (np_page w)) = None"
  by (simp add: mount_phone_def sample_props_def phone_send_def phone_hears_def all_messages_def changed_messages_def hear_def
      chart_ready_def fresh_page_def tell_def bar_periods_def Let_def)

section \<open>The feed\<close>

definition times_given :: "string \<Rightarrow> library_call list \<Rightarrow> int list" where
  "times_given r calls = List.concat (List.map (\<lambda>c. case c of
     GaveHistory r' bs \<Rightarrow> if r' = r then List.map fb_time bs else []
   | GaveTick r' b \<Rightarrow> if r' = r then [fb_time b] else []
   | GaveFailure r' \<Rightarrow> []) calls)"

definition in_order_after :: "library_call list \<Rightarrow> library_call \<Rightarrow> bool" where
  "in_order_after seen c \<longleftrightarrow> (case c of GaveTick r b \<Rightarrow> list_all (\<lambda>t. t \<le> fb_time b) (times_given r seen) | _ \<Rightarrow> True)"

fun ticks_after :: "library_call list \<Rightarrow> library_call list \<Rightarrow> bool" where
  "ticks_after seen [] = True"
| "ticks_after seen (c # cs) = (in_order_after seen c \<and> ticks_after (seen @ [c]) cs)"

definition ticks_in_order :: "library_call list \<Rightarrow> bool" where
  "ticks_in_order calls = ticks_after [] calls"

lemma times_given_snoc: "times_given r (calls @ [c]) = times_given r calls @ times_given r [c]"
  by (simp add: times_given_def)

lemma ticks_after_append: "ticks_after seen (xs @ ys) \<longleftrightarrow> ticks_after seen xs \<and> ticks_after (seen @ xs) ys"
  by (induction xs arbitrary: seen) simp_all

lemma ticks_in_order_snoc: "ticks_in_order (calls @ [c]) \<longleftrightarrow> ticks_in_order calls \<and> in_order_after calls c"
  by (simp add: ticks_in_order_def ticks_after_append)

definition bars_ok :: "chart_page \<Rightarrow> bool" where
  "bars_ok pg \<longleftrightarrow> ticks_in_order (pg_calls pg) \<and> (\<forall>r. list_all (\<lambda>t. t \<le> pg_newest pg r) (times_given r (pg_calls pg)))"

lemma feed_same [simp]:
  "pg_calls (tell pg) = pg_calls pg" "pg_newest (tell pg) = pg_newest pg"
  "pg_calls (saw pg b) = pg_calls pg" "pg_newest (saw pg b) = pg_newest pg"
  "pg_calls (obey pg m) = pg_calls pg" "pg_newest (obey pg m) = pg_newest pg"
  by (simp_all add: tell_def saw_def split: option.split) (cases m; simp)+

lemma saws_same [simp]: "pg_calls (foldl saw pg bs) = pg_calls pg \<and> pg_newest (foldl saw pg bs) = pg_newest pg"
  by (induction bs arbitrary: pg) simp_all

lemma obeys_same [simp]: "pg_calls (foldl obey pg ms) = pg_calls pg \<and> pg_newest (foldl obey pg ms) = pg_newest pg"
  by (induction ms arbitrary: pg) simp_all

lemma live_bar_ok: "bars_ok pg \<Longrightarrow> bars_ok (live_bar r pg b)"
  by (auto simp: bars_ok_def live_bar_def ticks_in_order_snoc in_order_after_def times_given_snoc list_all_iff times_given_def) fastforce+

lemma live_bars_ok: "bars_ok pg \<Longrightarrow> bars_ok (foldl (live_bar r) pg bs)"
  by (induction bs arbitrary: pg) (simp_all add: live_bar_ok)

lemma sorted_last: "sorted (List.map f xs) \<Longrightarrow> x \<in> set xs \<Longrightarrow> f x \<le> f (last xs)" for f :: "'a \<Rightarrow> int"
  by (induction xs) auto

lemma in_time_last: "b \<in> set (in_time rows) \<Longrightarrow> fb_time b \<le> fb_time (last (in_time rows))"
  by (rule sorted_last) (simp_all add: in_time_def)

lemma history_in_time: "fst (ask_history answers n k) = Inr bs \<Longrightarrow> \<exists>rows. bs = in_time rows"
  by (induction answers n k rule: ask_history.induct) (auto split: sum.splits if_splits)

lemma history_ok:
  assumes "bars_ok pg" "\<And>b. b \<in> set bs \<Longrightarrow> fb_time b \<le> fb_time (last bs)"
  shows "bars_ok (history_given r (Inr bs) pg)"
proof -
  have t: "times_given r' [GaveHistory r bs] = (if r' = r then List.map fb_time bs else [])" for r' by (simp add: times_given_def)
  show ?thesis using assms unfolding bars_ok_def history_given_def Let_def
    by (auto simp: ticks_in_order_snoc in_order_after_def times_given_snoc t list_all_iff) (fastforce dest: assms(2))+
qed

lemma failure_ok: "bars_ok pg \<Longrightarrow> bars_ok (history_given r (Inl e) pg)"
  by (auto simp: bars_ok_def history_given_def ticks_in_order_snoc in_order_after_def times_given_snoc) (simp add: times_given_def)

interpretation feed_machine: state_machine page_step bars_ok
proof
  fix pg e
  assume ok: "bars_ok pg"
  show "bars_ok (page_step pg e)"
  proof (cases e)
    case (DayRead res)
    then show ?thesis using ok by (auto simp: day_read_def bars_ok_def split: sum.split list.split)
  next
    case (HistoryRead r answers)
    show ?thesis
    proof (cases "fst (get_bars answers)")
      case (Inl x)
      then show ?thesis using HistoryRead failure_ok[OF ok] by simp
    next
      case (Inr bs)
      then obtain rows where "bs = in_time rows" using history_in_time[OF Inr[unfolded get_bars_def]] by auto
      then show ?thesis using HistoryRead Inr history_ok[OF ok] in_time_last by simp
    qed
  next
    case (PollRead r res)
    then show ?thesis using live_bars_ok[OF ok] ok by (auto simp: poll_read_def bars_ok_def split: sum.split)
  next
    case (Hears m)
    then show ?thesis using ok by (simp add: hear_def bars_ok_def)
  next
    case ReadyNow
    then show ?thesis using ok by (simp add: chart_ready_def bars_ok_def Let_def)
  qed
qed

text \<open>
  C19. The chart is never handed a live bar older than what it has: whatever histories,
  polls and messages arrive, in whatever order and however their rows are arranged, a
  bar handed over live is, among the bars of its size, no older than any handed over
  before it, of a history or live.
\<close>

theorem live_bars_in_order:
  assumes "pg_calls (foldl page_step fresh_page es) = before @ GaveTick r b # later" "t \<in> set (times_given r before)"
  shows "t \<le> fb_time b"
proof -
  have "bars_ok fresh_page" by (simp add: bars_ok_def fresh_page_def ticks_in_order_def times_given_def)
  then have "bars_ok (foldl page_step fresh_page es)" by (rule feed_machine.run_inv)
  then have "in_order_after before (GaveTick r b)" using assms(1) by (simp add: bars_ok_def ticks_in_order_def ticks_after_append)
  then show ?thesis using assms(2) by (simp add: in_order_after_def list_all_iff)
qed

definition row_at :: "int \<Rightarrow> decimal \<Rightarrow> candle_row" where
  "row_at t c = \<lparr>cr_t = t, cr_o = c, cr_h = c, cr_l = c, cr_c = c, cr_v = ''1''\<rparr>"

theorem live_bars_in_order_witness:
  "\<exists>before b later. pg_calls (foldl page_step fresh_page
       [HistoryRead ''1'' (\<lambda>k. Inr [row_at 120 ''2'', row_at 60 ''1'']), PollRead ''1'' (Inr [row_at 60 ''1'', row_at 180 ''3''])])
     = before @ GaveTick ''1'' b # later \<and> 120000 \<in> set (times_given ''1'' before) \<and> 120000 \<le> fb_time b"
proof -
  let ?es = "[HistoryRead ''1'' (\<lambda>k. Inr [row_at 120 ''2'', row_at 60 ''1'']), PollRead ''1'' (Inr [row_at 60 ''1'', row_at 180 ''3''])]"
  let ?h = "GaveHistory ''1'' [bar_of (row_at 60 ''1''), bar_of (row_at 120 ''2'')]"
  have calls: "pg_calls (foldl page_step fresh_page ?es) = [?h] @ GaveTick ''1'' (bar_of (row_at 180 ''3'')) # []"
    by (simp add: get_bars_def history_tries_def eval_nat_numeral in_time_def row_at_def bar_of_def history_given_def poll_read_def live_bar_def fresh_page_def Let_def
      del: js_number_def)
  have mem: "120000 \<in> set (times_given ''1'' [?h])" by (simp add: times_given_def bar_of_def row_at_def)
  show ?thesis using live_bars_in_order[OF calls mem] calls mem by blast
qed

text \<open>A history is asked for at most three times, and only failures are asked again.\<close>

lemma history_tries_bounded:
  "case get_bars answers of (res, n) \<Rightarrow> 1 \<le> n \<and> n \<le> 3 \<and> (\<forall>k < n - 1. \<not> is_ok (answers k)) \<and>
     (case res of Inr bs \<Rightarrow> answers (n - 1) = Inr bs' \<longrightarrow> bs = in_time bs' | Inl e \<Rightarrow> n = 3)"
  by (auto simp: get_bars_def history_tries_def eval_nat_numeral less_Suc_eq split: sum.split)

text \<open>Every chart of a market asks the same in the same three seconds.\<close>

lemma polls_coincide: "now div 3 = now' div 3 \<Longrightarrow> poll_range period now = poll_range period now'"
  by (simp add: poll_range_def minus_mod_eq_mult_div)

lemma poll_covers: "0 < period \<Longrightarrow> poll_range period now = (a, z) \<Longrightarrow> period dvd a \<and> a + 2 * period \<le> z \<and> z < a + 3 * period \<and> z \<le> now \<and> now < z + 3"
proof -
  assume p: "0 < period" and "poll_range period now = (a, z)"
  then have z: "z = now - now mod 3" and a: "a = z div period * period - 2 * period" by (auto simp: poll_range_def Let_def)
  have "z div period * period \<le> z" "z < z div period * period + period"
    using p div_mult_mod_eq[of z period] pos_mod_sign[of period z] pos_mod_bound[of period z] by linarith+
  moreover have "0 \<le> now mod 3" "now mod 3 < 3" by simp_all
  moreover have "period dvd a" unfolding a by simp
  ultimately show ?thesis unfolding z a by (simp add: algebra_simps)
qed

text \<open>
  A cross is marked on the bar that made it: a moment is put on the bar of the
  pane's own size that had opened before it and closes at it or after, so a cross dated
  by the close of its bar is drawn on that bar and not on the next one.
\<close>

theorem cross_is_on_its_bar:
  assumes "parse_date tz moment = Num (of_int n)" "0 < period"
  shows "\<exists>opened. cross_bar tz period moment = Some opened \<and> period dvd opened \<and> opened < n \<and> n \<le> opened + period \<and>
     (period dvd n \<longrightarrow> opened = n - period)"
proof -
  let ?k = "(n - 1) div period"
  have k: "\<lfloor>(of_int n - 1 :: rat) / of_int period\<rfloor> = ?k"
    using floor_divide_of_int_eq[where 'a = rat, of "n - 1" period] by simp
  have range: "?k * period \<le> n - 1" "n - 1 < ?k * period + period"
    using assms(2) div_mult_mod_eq[of "n - 1" period] pos_mod_sign[of period "n - 1"] pos_mod_bound[of period "n - 1"] by linarith+
  have "period dvd n \<Longrightarrow> ?k * period = n - period"
  proof -
    assume "period dvd n"
    then obtain j where "n = period * j" ..
    then have j: "n = j * period" by (simp add: mult.commute)
    have "?k * period < j * period" using range j by linarith
    moreover have "j * period < (?k + 2) * period" using range j assms(2) by (simp only: distrib_right)
    ultimately have "?k < j" "j < ?k + 2" using assms(2) by (simp_all only: mult_less_cancel_right)
    then have "?k = j - 1" by linarith
    then show ?thesis using j by (simp add: left_diff_distrib)
  qed
  then show ?thesis using assms(1) k range by (simp add: cross_bar_def algebra_simps)
qed

theorem cross_is_on_its_bar_witness:
  "cross_bar 0 60000 ''2026-09-12T12:00:00Z'' = Some 1789214340000 \<and> parse_date 0 ''2026-09-12T12:00:00Z'' = Num 1789214400000"
proof -
  have d: "parse_date 0 ''2026-09-12T12:00:00Z'' = Num (of_int 1789214400000)" by code_simp
  show ?thesis using cross_is_on_its_bar[OF d, of 60000] d by auto
qed

section \<open>The price above the chart\<close>

text \<open>What the page posts is what the app shows: the close as it was written, and the move
  where it is a number.\<close>

lemma app_hears_price:
  "tick_from (Some (arrives as_text (PostedPrice p c))) = Some (p, case c of Some n \<Rightarrow> if is_finite n then Some n else None | None \<Rightarrow> None)"
  "tick_from (Some (arrives as_text PostedReady)) = None"
  by (auto simp: tick_from_def arrives_def split: option.split)

text \<open>Until the first bar of the day has been read the move is never shown: the oldest bar
  stands in for it as an object, not as a price.\<close>

lemma change_waits_for_day_open:
  "pg_day_open pg = None \<Longrightarrow> tick_from (Some (arrives as_text (PostedPrice p (change_told pg b)))) = Some (p, None)"
  by (simp add: app_hears_price change_told_def number_on_def)

text \<open>The last bar is the newest of every size ever seen: bars of a longer size open earlier
  than the minute the pane showed before, so the price stands still until the next of them
  opens, whatever their closes say.\<close>

lemma price_stands_still:
  assumes "pg_last pg = Some l" "\<And>row. row \<in> set rows \<Longrightarrow> cr_t row * 1000 < fb_time l"
  shows "pg_last (poll_read r (Inr rows) pg) = Some l"
proof -
  have "pg_last q = Some l \<Longrightarrow> (\<And>b. b \<in> set bs \<Longrightarrow> fb_time b < fb_time l) \<Longrightarrow> pg_last (foldl (live_bar r) q bs) = Some l" for bs q
  proof (induction bs arbitrary: q)
    case (Cons b bs)
    have "fb_time b < fb_time l" using Cons.prems(2) by simp
    then have "pg_last (live_bar r q b) = Some l" using Cons.prems(1) by (simp add: live_bar_def saw_def)
    then show ?case using Cons by simp
  qed simp
  moreover have "b \<in> set (in_time rows) \<Longrightarrow> fb_time b < fb_time l" for b using assms(2) by (auto simp: in_time_def bar_of_def)
  moreover have "pg_last (tell q) = pg_last q" for q by (simp add: tell_def split: option.split)
  ultimately show ?thesis using assms(1) by (simp add: poll_read_def)
qed

text \<open>The scale holds two to eight places.\<close>

lemma pricescale_range: "\<exists>d. 2 \<le> d \<and> d \<le> 8 \<and> pricescale_for bs = 10 ^ d"
proof -
  have "2 \<le> foldl (\<lambda>d b. max d (places_of b)) a xs" if "2 \<le> a" for a xs using that by (induction xs arbitrary: a) simp_all
  then have "2 \<le> min (foldl (\<lambda>d b. max d (places_of b)) 2 (drop (length bs - 50) bs)) 8" by simp
  then show ?thesis unfolding pricescale_for_def by (metis min.cobounded2)
qed

section \<open>The address is read as it was written\<close>

lemma form_char_clean: "x \<in> set (form_char c) \<Longrightarrow> x \<noteq> CHR ''&'' \<and> x \<noteq> CHR ''=''"
proof -
  assume x: "x \<in> set (form_char c)"
  have "code_of c div 16 < 16" using code_of_bound[of c] by simp
  then have "upper_hex_digit (code_of c div 16) \<noteq> CHR ''&'' \<and> upper_hex_digit (code_of c div 16) \<noteq> CHR ''=''"
    by (rule upper_hex_plain)
  moreover have "upper_hex_digit (code_of c mod 16) \<noteq> CHR ''&'' \<and> upper_hex_digit (code_of c mod 16) \<noteq> CHR ''=''"
    by (rule upper_hex_plain) simp
  moreover have "\<not> form_plain (CHR ''&'')" "\<not> form_plain (CHR ''='')" by (simp_all add: form_plain_def is_digit_def code_of_def)
  ultimately show ?thesis using x by (auto simp: form_char_def percent_def split: if_splits)
qed

lemma form_encode_clean: "x \<in> set (form_encode s) \<Longrightarrow> x \<noteq> CHR ''&'' \<and> x \<noteq> CHR ''=''"
  using form_char_clean by (fastforce simp: form_encode_def)

lemma form_decode_encode: "form_decode (form_encode s) = s"
proof (induction s)
  case (Cons c s)
  have c16: "code_of c div 16 < 16" using code_of_bound[of c] by simp
  have same: "char_of (16 * (code_of c div 16) + code_of c mod 16) = c" by (simp add: code_of_def)
  have plain: "\<not> form_plain (CHR ''+'')" "\<not> form_plain (CHR ''%'')" by (simp_all add: form_plain_def is_digit_def code_of_def)
  have step: "form_encode (c # s) = form_char c @ form_encode s" by (simp add: form_encode_def)
  consider "form_plain c" | "\<not> form_plain c" "c = CHR '' ''" | "\<not> form_plain c" "c \<noteq> CHR '' ''" by blast
  then show ?case
  proof cases
    case 1
    then have "c \<noteq> CHR ''+''" "c \<noteq> CHR ''%''" using plain by auto
    then show ?thesis using 1 Cons by (simp add: step form_char_def)
  next
    case 3
    then show ?thesis using Cons c16 same by (simp add: step form_char_def percent_def)
  next
    case 2
    then show ?thesis using Cons unfolding step by (simp add: form_char_def)
  qed
qed (simp add: form_encode_def)

lemma form_pair_back: "form_pair (form_encode k @ ''='' @ form_encode v) = (k, v)"
proof -
  have "takeWhile (\<lambda>c. c \<noteq> CHR ''='') (form_encode k @ ''='' @ form_encode v) = form_encode k"
    using form_encode_clean by (subst takeWhile_append2) auto
  then show ?thesis by (simp add: form_pair_def Let_def form_decode_encode)
qed

definition written :: "string \<times> string \<Rightarrow> string" where
  "written p = form_encode (fst p) @ ''='' @ form_encode (snd p)"

lemma written_clean: "x \<in> set (written p) \<Longrightarrow> x \<noteq> CHR ''&''"
  using form_encode_clean by (auto simp: written_def)

lemma form_pairs_step: "form_pairs (written p @ CHR ''&'' # r) = p # form_pairs r" "form_pairs (written p) = [p]"
proof -
  have w: "written p \<noteq> []" by (simp add: written_def)
  have pair: "form_pair (written p) = p" using form_pair_back[of "fst p" "snd p"] by (simp add: written_def)
  have "takeWhile (\<lambda>c. c \<noteq> CHR ''&'') (written p @ CHR ''&'' # r) = written p"
    using written_clean by (subst takeWhile_append2) auto
  then show "form_pairs (written p @ CHR ''&'' # r) = p # form_pairs r"
    using w pair by (subst form_pairs.simps) (simp add: Let_def)
  have tw: "takeWhile (\<lambda>c. c \<noteq> CHR ''&'') (written p) = written p" using written_clean by (auto simp: takeWhile_eq_all_conv)
  have nil: "form_pairs [] = []" by (subst form_pairs.simps) simp
  show "form_pairs (written p) = [p]" by (subst form_pairs.simps) (simp add: Let_def tw nil w pair del: takeWhile_eq_all_conv)
qed

lemma form_query_back: "ps \<noteq> [] \<Longrightarrow> form_pairs (form_query ps) = ps"
proof (induction ps rule: induct_list012)
  case (2 p)
  then show ?case using form_pairs_step(2)[of p] by (simp add: form_query_def written_def split_beta)
next
  case (3 p q ps)
  have "form_query (p # q # ps) = written p @ CHR ''&'' # form_query (q # ps)"
    by (simp add: form_query_def written_def split_beta)
  then show ?case using 3 form_pairs_step(1) by simp
qed simp

lemma js_number_count: "n < 10 ^ 20 \<Longrightarrow> js_number (js_string (Num (of_nat n))) = Num (of_nat n)"
proof -
  assume n: "n < 10 ^ 20"
  have "(of_nat n :: rat) < of_nat (10 ^ 20)" using n by (simp only: of_nat_less_iff)
  then have "(of_nat n :: rat) < 10 ^ 21" by simp
  moreover have "show_nat 0 = ''0''" by code_simp
  moreover have "js_number (show_nat n) = Num (of_nat n)"
  proof -
    have "show_nat n \<noteq> []" by (cases "n < 10") (simp_all add: show_nat.simps)
    moreover have "list_all is_digit (show_nat n)" by (simp add: list_all_iff show_nat_digits)
    ultimately have "js_number (pointed_text (show_nat n) []) = Num (of_nat (digits_value 0 (show_nat n @ [])) / 10 ^ 0)"
      using js_number_pointed[of "show_nat n" "[]"] by simp
    then show ?thesis by (simp add: pointed_text_def)
  qed
  ultimately show ?thesis by (cases "n = 0") (simp_all add: show_int_def)
qed

definition chart_query :: "string \<Rightarrow> chart_look \<Rightarrow> string" where
  "chart_query api_url l = form_query (chart_params api_url l)"

lemma param_written: "query_param (chart_query api_url l) k = map_of (chart_params api_url l) k"
  using form_query_back[of "chart_params api_url l"] by (simp add: query_param_def chart_query_def chart_params_def Let_def)

definition lengths_look :: "chart_look \<Rightarrow> nat \<Rightarrow> nat \<Rightarrow> nat \<Rightarrow> chart_look" where
  "lengths_look l fast slow channel = l\<lparr>lk_averages := (if fast = 0 \<and> slow = 0 then None else Some (Num (of_nat fast), Num (of_nat slow))),
     lk_channel := (if channel = 0 then None else Some (Num (of_nat channel)))\<rparr>"

text \<open>
  C31. The page is set up as the app named it: whatever characters the market, the
  study and the colours are made of, what the page reads of its address is the
  platform's address without a slash at its end, the market in capitals, the skin, the
  study, the lengths of the averages and of the channel (nothing for none), and every
  colour that is not empty.
\<close>

theorem page_reads_its_address:
  assumes "fast < 10 ^ 20" "slow < 10 ^ 20" "channel < 10 ^ 20"
  shows "let l' = lengths_look l fast slow channel; st = page_setup (chart_query api_url l'); c = lk_colours l in
     chart_page_url web_url api_url l' = web_url @ ''/tv.html?'' @ chart_query api_url l' \<and>
     su_api st = drop_slash api_url \<and> su_symbol st = upper (if lk_symbol l = [] then ''MON'' else lk_symbol l) \<and> su_dark st = lk_dark l \<and>
     su_study st = (case lk_study l of Some s \<Rightarrow> s | None \<Rightarrow> []) \<and>
     su_fast st = Num (of_nat fast) \<and> su_slow st = Num (of_nat slow) \<and> su_channel st = Num (of_nat channel) \<and>
     (\<forall>(sent, got) \<in> {(cc_background c, su_bg st), (cc_up c, su_up st), (cc_down c, su_down st), (cc_accent c, su_accent st),
        (cc_text c, su_text st), (cc_grid c, su_grid st), (cc_line c, su_line st)}. sent \<noteq> [] \<longrightarrow> got = sent)"
proof -
  let ?l = "lengths_look l fast slow channel"
  have p: "query_param (chart_query api_url ?l) k = map_of (chart_params api_url ?l) k" for k by (rule param_written)
  have num: "js_number (js_string (Num (of_nat n))) = Num (of_nat n)" if "n < 10 ^ 20" for n using that by (rule js_number_count)
  have shows_digit: "js_string (Num (of_nat n)) \<noteq> []" if "n < 10 ^ 20" for n
  proof
    assume none: "js_string (Num (of_nat n)) = []"
    have "js_number [] = Num 0" by code_simp
    then have "n = 0" using num[OF that] none by simp
    then show False using none by simp
  qed
  have zero: "(0::jsnum) = Num (of_nat 0)" by (simp add: zero_Num)
  have average: "(case lk_averages ?l of Some (f, s) \<Rightarrow> f | None \<Rightarrow> 0) = Num (of_nat fast)" "(case lk_averages ?l of Some (f, s) \<Rightarrow> s | None \<Rightarrow> 0) = Num (of_nat slow)"
    "(case lk_channel ?l of Some n \<Rightarrow> n | None \<Rightarrow> 0) = Num (of_nat channel)"
    by (auto simp: lengths_look_def zero)
  have same: "lk_symbol ?l = lk_symbol l" "lk_dark ?l = lk_dark l" "lk_colours ?l = lk_colours l" "lk_study ?l = lk_study l"
    "lk_study_share ?l = lk_study_share l" by (simp_all add: lengths_look_def)
  show ?thesis
    unfolding Let_def page_setup_def param_or_def p chart_params_def average same
    using assms num shows_digit
    by (simp add: chart_page_url_def chart_query_def chart_params_def average same Let_def split: option.split del: js_string.simps of_nat_less_iff)
qed

theorem page_reads_its_address_witness:
  "let st = page_setup (chart_query ''https://api.x/'' (lengths_look (pp_look (sample_props ''mon'' ''1'' None)) 5 20 0)) in
     su_api st = ''https://api.x'' \<and> su_symbol st = ''MON'' \<and> su_fast st = Num 5 \<and> su_slow st = Num 20 \<and> su_channel st = Num 0 \<and> su_bg st = ''#fff''"
proof -
  let ?l = "pp_look (sample_props ''mon'' ''1'' None)"
  have low: "(5::nat) < 10 ^ 20" "(20::nat) < 10 ^ 20" "(0::nat) < 10 ^ 20" by simp_all
  have "drop_slash ''https://api.x/'' = ''https://api.x''" "upper ''mon'' = ''MON''" by code_simp+
  moreover have "lk_symbol ?l = ''mon''" "cc_background (lk_colours ?l) = ''#fff''" by (simp_all add: sample_props_def)
  ultimately show ?thesis using page_reads_its_address[OF low, of ?l "''https://api.x/''"] by (simp add: Let_def)
qed

section \<open>The studies\<close>

text \<open>What is asked of the library once the chart is ready: the strength index in a pane of
  its own, or the channel alone, or the two averages, the slow one first.\<close>

datatype study = StrengthIndex | Channel jsnum | Average jsnum string

definition studies :: "page_setup \<Rightarrow> study list" where
  "studies st = (if su_study st = ''donchian'' \<and> su_channel st > 1 then [Channel (su_channel st)]
     else (if su_study st = ''rsi'' then [StrengthIndex] else []) @
       (if truthy (su_fast st) \<and> truthy (su_slow st) then [Average (su_slow st) (su_text st), Average (su_fast st) (su_accent st)] else []))"

text \<open>The heights of the two panes, at the share asked for.\<close>

definition pane_heights :: "page_setup \<Rightarrow> jsnum \<Rightarrow> (jsnum \<times> jsnum) option" where
  "pane_heights st whole = (if \<not> truthy (su_pane st) then None
     else Some (math_round (whole * (1 - su_pane st)), math_round (whole * su_pane st)))"

lemma panes_fill_box:
  assumes "su_pane st = Num p" "p \<noteq> 0"
  shows "\<exists>a b. pane_heights st (Num (of_int h)) = Some (Num (of_int a), Num (of_int b)) \<and> h \<le> a + b \<and> a + b \<le> h + 1"
proof -
  define x where "x = of_int h * p"
  let ?a = "\<lfloor>of_int h - x + 1/2\<rfloor>" and ?b = "\<lfloor>x + 1/2\<rfloor>"
  have "of_int h - 1 < (of_int (?a + ?b) :: rat)" "(of_int (?a + ?b) :: rat) \<le> of_int h + 1" unfolding of_int_add by linarith+
  then have "h \<le> ?a + ?b" "?a + ?b \<le> h + 1" by linarith+
  moreover have "pane_heights st (Num (of_int h)) = Some (Num (of_int ?a), Num (of_int ?b))"
    using assms by (simp add: pane_heights_def truthy_def one_Num x_def right_diff_distrib)
  ultimately show ?thesis by blast
qed

end
