(* ===== verification/Devices.thy ===== *)
theory Devices
  imports Keychain Account Lobby Paging
begin

text \<open>
  What the app asks of the device it runs on: being told when a position closes
  (push/register.native.ts), counting the funnel (analytics/track.native.ts), when the
  first frame may be drawn (app/_layout.tsx), the note a wide window gets
  (components/wide-note.tsx), the walk for judges (app/judges.tsx) and the routes that
  are a strategy or a screen that is not built yet (app/direction.tsx and its like).
\<close>

section \<open>Being told when a position closes\<close>

text \<open>A notification that arrives while the app is looked at stays silent.\<close>

record note_shown =
  ns_banner :: bool
  ns_list :: bool
  ns_sound :: bool
  ns_badge :: bool

definition handle_notification :: "bool \<Rightarrow> note_shown" where
  "handle_notification looking = \<lparr>ns_banner = (\<not> looking), ns_list = (\<not> looking), ns_sound = (\<not> looking), ns_badge = False\<rparr>"

record permission =
  pm_granted :: bool
  pm_provisional :: bool

text \<open>What the device and the services answer; each can reject.\<close>

record push_world =
  pu_is_device :: bool
  pu_android :: bool
  pu_settings :: "exn + permission"
  pu_requested :: "exn + permission"
  pu_channel :: "exn + unit"
  pu_project :: "string option"
  pu_token :: "exn + string option"
  pu_register :: "string \<Rightarrow> string \<Rightarrow> exn + unit"

datatype push_call = ReadPermission | AskPermission | MadeChannel | AskedToken string | SentToken string string

datatype push_end = NotADevice | PermissionRefused | NoProject | NoToken | NotRegistered exn | PushRegistered

definition allows :: "permission \<Rightarrow> bool" where
  "allows p \<longleftrightarrow> pm_granted p \<or> pm_provisional p"

definition send_token :: "push_world \<Rightarrow> push_call list \<Rightarrow> push_end \<times> push_call list" where
  "send_token w cs = (case pu_project w of
     None \<Rightarrow> (NoProject, cs)
   | Some project \<Rightarrow> if project = [] then (NoProject, cs) else
       (let cs1 = cs @ [AskedToken project] in case pu_token w of
          Inl e \<Rightarrow> (NotRegistered e, cs1)
        | Inr t \<Rightarrow> if \<not> given t then (NoToken, cs1)
            else (let platform = (if pu_android w then ''android'' else ''ios''); cs2 = cs1 @ [SentToken (the t) platform] in
              case pu_register w (the t) platform of Inl e \<Rightarrow> (NotRegistered e, cs2) | Inr u \<Rightarrow> (PushRegistered, cs2))))"

definition make_channel :: "push_world \<Rightarrow> push_call list \<Rightarrow> push_end \<times> push_call list" where
  "make_channel w cs = (if \<not> pu_android w then send_token w cs
     else case pu_channel w of Inl e \<Rightarrow> (NotRegistered e, cs @ [MadeChannel]) | Inr u \<Rightarrow> send_token w (cs @ [MadeChannel]))"

definition register_for_push :: "push_world \<Rightarrow> push_end \<times> push_call list" where
  "register_for_push w = (if \<not> pu_is_device w then (NotADevice, [])
     else case pu_settings w of Inl e \<Rightarrow> (NotRegistered e, [ReadPermission])
     | Inr p \<Rightarrow> if allows p then make_channel w [ReadPermission]
         else (case pu_requested w of Inl e \<Rightarrow> (NotRegistered e, [ReadPermission, AskPermission])
           | Inr p' \<Rightarrow> if allows p' then make_channel w [ReadPermission, AskPermission] else (PermissionRefused, [ReadPermission, AskPermission])))"

definition notification_route :: "string option \<Rightarrow> string" where
  "notification_route strategy = (let s = (case strategy of Some t \<Rightarrow> t | None \<Rightarrow> []) in
     if s \<in> {''ma-cross'', ''rsi'', ''donchian'', ''orb''} then ''/'' @ s else ''/direction'')"

section \<open>Counting the funnel\<close>

datatype funnel_event = AppOpened | PasskeyCreated | PasskeyFailed | AccountActivated | LessonFinished | PositionOpened
  | PositionClosed | ResultSeen | ShareTapped | InviteCopied

record funnel_props =
  fp_strategy :: "string option"
  fp_symbol :: "string option"
  fp_reason :: "string option"
  fp_closed_by :: "string option"
  fp_on_signal :: "bool option"

record analytics =
  an_starting :: bool
  an_client :: "string option"
  an_store :: "string keychain"
  an_captured :: "(string \<times> funnel_event \<times> funnel_props option) list"

definition fresh_analytics :: "string keychain \<Rightarrow> analytics" where
  "fresh_analytics store = \<lparr>an_starting = False, an_client = None, an_store = store, an_captured = []\<rparr>"

text \<open>\<open>fresh\<close> is the random id made when there is none; \<open>builds\<close> whether the client could be made.\<close>

definition start_analytics :: "bool \<Rightarrow> string \<Rightarrow> bool \<Rightarrow> analytics \<Rightarrow> analytics" where
  "start_analytics configured fresh builds a = (if \<not> configured \<or> an_starting a then a
     else let known = load_install_id_native (an_store a);
              person = (case known of Some i \<Rightarrow> if i \<noteq> [] then i else fresh | None \<Rightarrow> fresh);
              store = (if given known then an_store a else save_install_id_native fresh (an_store a)) in
       a\<lparr>an_starting := True, an_store := store, an_client := (if builds then Some person else None)\<rparr>)"

definition track :: "funnel_event \<Rightarrow> funnel_props option \<Rightarrow> analytics \<Rightarrow> analytics" where
  "track e p a = (case an_client a of None \<Rightarrow> a | Some person \<Rightarrow> a\<lparr>an_captured := an_captured a @ [(person, e, p)]\<rparr>)"

datatype analytics_event = StartAnalytics bool string bool | Track funnel_event "funnel_props option"

fun analytics_step :: "analytics \<Rightarrow> analytics_event \<Rightarrow> analytics" where
  "analytics_step a (StartAnalytics configured fresh builds) = start_analytics configured fresh builds a"
| "analytics_step a (Track e p) = track e p a"

section \<open>The first frame\<close>

record first_frame =
  ff_fonts :: bool
  ff_font_error :: bool
  ff_skin :: "string option"

definition theme_read :: "theme_name option \<Rightarrow> first_frame \<Rightarrow> first_frame" where
  "theme_read chosen f = f\<lparr>ff_skin := Some (case chosen of Some t \<Rightarrow> theme_text t | None \<Rightarrow> ''paper'')\<rparr>"

definition frame_ready :: "first_frame \<Rightarrow> bool" where
  "frame_ready f \<longleftrightarrow> (ff_fonts f \<or> ff_font_error f) \<and> ff_skin f \<noteq> None"

definition wide_from :: nat where "wide_from = 820"

definition wide_note :: "bool \<Rightarrow> jsnum \<Rightarrow> bool" where
  "wide_note web width \<longleftrightarrow> \<not> (\<not> web \<or> width < Num (of_nat wide_from))"

section \<open>The walk for judges\<close>

definition judge_titles :: "string list" where
  "judge_titles = [''Simple onboarding'', ''Strategies do the setup'', ''Trading screen for tap traders'', ''We keep you in the game'',
     ''The week pays out on chain'']"

datatype judge_press = JudgePrev | JudgeNext

fun judge_step :: "nat \<Rightarrow> judge_press \<Rightarrow> nat" where
  "judge_step n JudgePrev = n - 1"
| "judge_step n JudgeNext = min (length judge_titles - 1) (n + 1)"

record judge_view =
  jv_caption :: string
  jv_title :: string
  jv_pager :: pager

definition judge_view :: "nat \<Rightarrow> judge_view" where
  "judge_view at' = \<lparr>jv_caption = ''Step '' @ show_nat (at' + 1) @ '' of '' @ show_nat (length judge_titles), jv_title = judge_titles ! at',
     jv_pager = pager_view (at' + 1) (Some (length judge_titles)) (at' < length judge_titles - 1) False\<rparr>"

section \<open>Routes\<close>

datatype route_screen = StrategyRoute string | StubRoute string string

definition plain_routes :: "(string \<times> route_screen) list" where
  "plain_routes = [(''/direction'', StrategyRoute ''direction''), (''/ma-cross'', StrategyRoute ''ma-cross''), (''/rsi'', StrategyRoute ''rsi''),
     (''/donchian'', StrategyRoute ''donchian''), (''/orb'', StrategyRoute ''orb''),
     (''/withdraw'', StubRoute ''Withdraw'' ''COMING SOON''), (''/mainnet'', StubRoute ''Mainnet'' ''COMING SOON'')]"

text \<open>Every card of the lobby and every notification leads to a strategy's own screen.\<close>

lemma routes_are_strategies: "map_of strategy_routes s = Some r \<Longrightarrow> map_of plain_routes r = Some (StrategyRoute s)"
  by (auto simp: strategy_routes_def plain_routes_def split: if_splits)

lemma notification_leads_home:
  "\<exists>s. map_of plain_routes (notification_route strategy) = Some (StrategyRoute s) \<and>
     (case strategy of Some t \<Rightarrow> map_of strategy_routes t \<noteq> None \<longrightarrow> s = t | None \<Rightarrow> s = ''direction'')"
  by (auto simp: notification_route_def plain_routes_def strategy_routes_def Let_def split: option.split)

section \<open>What is kept of the promises\<close>


text \<open>A wallet's device is told to the platform only with the person's leave, and the
  person is asked at most once.\<close>

lemma send_token_calls:
  "case send_token w cs of (res, cs') \<Rightarrow> \<exists>new. cs' = cs @ new \<and> AskPermission \<notin> set new"
  by (auto simp: send_token_def Let_def split: option.split sum.split)

lemma make_channel_calls:
  "case make_channel w cs of (res, cs') \<Rightarrow> \<exists>new. cs' = cs @ new \<and> AskPermission \<notin> set new"
  using send_token_calls[where w = w and cs = cs] send_token_calls[where w = w and cs = "cs @ [MadeChannel]"]
  by (auto simp: make_channel_def split: sum.split)

definition leave_given :: "push_world \<Rightarrow> bool" where
  "leave_given w \<longleftrightarrow> pu_is_device w \<and> (case pu_settings w of Inr p \<Rightarrow> allows p \<or> (case pu_requested w of Inr p' \<Rightarrow> allows p' | Inl e \<Rightarrow> False) | Inl e \<Rightarrow> False)"

lemma push_needs_leave:
  "case register_for_push w of (res, cs) \<Rightarrow>
     (res = PushRegistered \<or> (\<exists>t p. SentToken t p \<in> set cs) \<longrightarrow> leave_given w) \<and> length (filter (\<lambda>c. c = AskPermission) cs) \<le> 1"
proof -
  have none: "AskPermission \<notin> set xs \<Longrightarrow> filter (\<lambda>c. c = AskPermission) xs = []" for xs by (induction xs) auto
  show ?thesis
    using make_channel_calls[where w = w and cs = "[ReadPermission]"] make_channel_calls[where w = w and cs = "[ReadPermission, AskPermission]"]
    by (auto simp: register_for_push_def leave_given_def none split: sum.splits prod.splits)
qed

text \<open>Nothing is counted before the counting has started, everything of a launch is
  counted under one id, and a launch after it counts under the same one on a device
  that keeps it.\<close>

definition one_person :: "analytics \<Rightarrow> bool" where
  "one_person a \<longleftrightarrow> (an_captured a \<noteq> [] \<longrightarrow> an_starting a) \<and> (an_client a \<noteq> None \<longrightarrow> an_starting a) \<and>
     list_all (\<lambda>(person, e, p). an_client a = Some person) (an_captured a)"

interpretation counting: state_machine analytics_step one_person
proof
  fix a e
  assume "one_person a"
  then show "one_person (analytics_step a e)"
    by (cases e) (auto simp: one_person_def start_analytics_def track_def Let_def split: option.split)
qed

lemma same_person_next_launch:
  assumes "kc_works store" "fresh \<noteq> []"
  shows "let a = start_analytics True fresh True (fresh_analytics store);
     again = start_analytics True fresh' True (fresh_analytics (an_store a)) in an_client again = an_client a \<and> an_client a \<noteq> None"
proof (cases "given (load_install_id_native store)")
  case True
  then obtain i where "load_install_id_native store = Some i" "i \<noteq> []" by (auto simp: given_def split: option.splits)
  then show ?thesis by (simp add: start_analytics_def fresh_analytics_def given_def Let_def)
next
  case False
  have kept_id: "load_install_id_native (save_install_id_native fresh store) = Some fresh"
    using assms(1) by (simp add: load_install_id_native_def save_install_id_native_def raw_guarded_def write_guarded_def set_item_async_def get_item_async_def kc_works_def)
  have "(case load_install_id_native store of Some i \<Rightarrow> if i \<noteq> [] then i else fresh | None \<Rightarrow> fresh) = fresh"
    using False by (auto simp: given_def split: option.splits)
  then show ?thesis using False kept_id assms(2) by (simp add: start_analytics_def fresh_analytics_def given_def Let_def)
qed

text \<open>The walk stays on its steps.\<close>

lemma judge_within: "n < length judge_titles \<Longrightarrow> judge_step n e < length judge_titles"
  by (cases e) (simp_all add: judge_titles_def)

interpretation judge_machine: state_machine judge_step "\<lambda>n. n < length judge_titles"
  by unfold_locales (rule judge_within)

lemma judge_keys: "n < length judge_titles \<Longrightarrow> (pg_next (jv_pager (judge_view n)) \<longleftrightarrow> judge_step n JudgeNext \<noteq> n) \<and>
    (pg_prev (jv_pager (judge_view n)) \<longleftrightarrow> judge_step n JudgePrev \<noteq> n)"
  by (auto simp: judge_view_def pager_view_def judge_titles_def)

end
