(* ===== verification/TradingParts.thy ===== *)
theory TradingParts
  imports Trading Risk Show "HOL-Library.Multiset"
begin

text \<open>
  The parts of a trading screen (components/trading.tsx): the position and what the next
  tap risks, the history read as positions and as orders, the notice and the limits.
\<close>

section \<open>The header, the notice, the limits\<close>

definition screen_balance :: "platform_state option \<Rightarrow> bool \<Rightarrow> bool \<Rightarrow> string" where
  "screen_balance state offline locked = (case state of
     Some s \<Rightarrow> ''Balance '' @ to_fixed (equity s) 2
   | None \<Rightarrow> if offline then ''Server unreachable'' else if locked then ''Sign in to trade'' else ''Loading'' @ ellipsis)"

definition limits_line :: "platform_state option \<Rightarrow> string option" where
  "limits_line state = (case state of None \<Rightarrow> None
     | Some s \<Rightarrow> Some (''Limits: up to '' @ lm_max_notional (pf_limits s) @ '' per position'' @ dot_mark @ lm_max_leverage (pf_limits s) @ ''x'' @
         dot_mark @ ''daily loss '' @ rk_daily_loss (pf_risk s) @ '' of '' @ lm_daily_loss (pf_limits s) @
         (if pf_killed s then dot_mark @ ''trading paused'' else [])))"

section \<open>What a tap risks\<close>

definition short_amount :: "jsnum \<Rightarrow> string" where
  "short_amount v = (if v \<ge> 100 then to_fixed v 0 else if v \<ge> 10 then to_fixed v 1 else drop_point_zeros (to_fixed v 2))"

definition default_leverage :: string where "default_leverage = ''2''"

text \<open>The collateral of the next tap, what of it can be lost, and the share of the day's
  budget that is left.\<close>

definition tap_collateral :: "string \<Rightarrow> jsnum" where
  "tap_collateral notional = js_number notional / js_number default_leverage"

definition tap_at_risk :: "string \<Rightarrow> string \<Rightarrow> jsnum" where
  "tap_at_risk notional stop = (let part = js_number stop in if part > 0 then tap_collateral notional * part else tap_collateral notional)"

definition budget_left :: "platform_state \<Rightarrow> jsnum" where
  "budget_left s = math_max 0 (js_number (lm_daily_loss (pf_limits s)) - js_number (rk_daily_loss (pf_risk s)))"

definition tap_share :: "string \<Rightarrow> string \<Rightarrow> platform_state \<Rightarrow> jsnum" where
  "tap_share notional stop s = math_min 999 (math_round (tap_at_risk notional stop / budget_left s * 100))"

definition tap_risk :: "string \<Rightarrow> string \<Rightarrow> platform_state option \<Rightarrow> string option" where
  "tap_risk notional stop state =
     (if \<not> truthy (js_number notional) \<or> \<not> truthy (js_number default_leverage) then None
      else let part = js_number stop; collateral = tap_collateral notional;
               said = (if part > 0
                 then ''This tap risks up to '' @ short_amount (tap_at_risk notional stop) @ '' (stop at '' @ minus_sign @ js_string (math_round (part * 100)) @ ''% of '' @ short_amount collateral @ '' collateral)''
                 else ''This tap risks up to '' @ short_amount collateral @ '' '' @ em_dash @ '' the whole collateral, no stop'') in
        Some (said @ (case state of None \<Rightarrow> []
          | Some s \<Rightarrow> if budget_left s > 0
              then dot_mark @ js_string (tap_share notional stop s) @ ''% of today's '' @ short_amount (budget_left s) @ '' loss budget''
              else dot_mark @ ''today's loss budget is spent'')))"

record number_card =
  nc_head :: string
  nc_number :: string
  nc_colour :: sign_colour
  nc_foot :: string
  nc_risk :: "string option"

definition held_card :: "position \<Rightarrow> string option \<Rightarrow> number_card" where
  "held_card p closes_in = (let pnl = js_number (ps_unrealized_pnl p) in
     \<lparr>nc_head = (if ps_side p = Long then ''Up'' else ''Down'') @ dot_mark @ trim (ps_size p) @ '' '' @ ps_symbol p @ '' @ '' @ trim (ps_entry_price p) @ dot_mark @
        ps_leverage p @ ''x'',
      nc_number = (if pnl > 0 then ''+'' else []) @ trim (ps_unrealized_pnl p),
      nc_colour = (if pnl > 0 then Up else if pnl < 0 then Down else Ink),
      nc_foot = ''unrealized'' @ dot_mark @ ''fees paid '' @ trim (ps_fees_paid p) @
        (if given (ps_stop_pnl p) then dot_mark @ ''stop at '' @ trim (the (ps_stop_pnl p)) else []) @
        (case closes_in of Some c \<Rightarrow> dot_mark @ ''closes in '' @ c | None \<Rightarrow> []),
      nc_risk = None\<rparr>)"

text \<open>\<open>fees\<close> is the round trip's cost as a fraction and in basis points, when the market is known.\<close>

definition flat_card :: "(decimal \<times> string) option \<Rightarrow> string \<Rightarrow> string \<Rightarrow> platform_state option \<Rightarrow> string \<Rightarrow> number_card" where
  "flat_card fees notional stop state leverage =
     \<lparr>nc_head = ''No position'', nc_number = notional, nc_colour = Ink,
      nc_foot = (case fees of Some (taker, bps) \<Rightarrow> ''round trip costs '' @ multiply notional taker @ '' ('' @ bps @ '' bps)'' @ dot_mark @ leverage @ ''x''
        | None \<Rightarrow> leverage @ ''x''),
      nc_risk = (case tap_risk notional stop state of Some r \<Rightarrow> if r \<noteq> [] then Some r else None | None \<Rightarrow> None)\<rparr>"

section \<open>The history, two ways\<close>

record fill_line =
  ol_at :: string
  ol_label :: string
  ol_size :: decimal
  ol_price :: decimal
  ol_fee :: decimal
  ol_side :: side

definition trade_fills :: "trade \<Rightarrow> fill_line list" where
  "trade_fills t =
     (let way = (if td_side t = Long then ''Up'' else ''Down'') in
      (if given (td_closed_at t) \<and> given (td_exit_price t) then
         [\<lparr>ol_at = the (td_closed_at t), ol_label = ''Close '' @ way @ (if td_close_reason t = Some Horizon then dot_mark @ ''timer'' else []),
           ol_size = td_size t, ol_price = the (td_exit_price t), ol_fee = (case td_exit_fee t of Some f \<Rightarrow> f | None \<Rightarrow> ''0''), ol_side = td_side t\<rparr>] else []) @
      [\<lparr>ol_at = td_opened_at t, ol_label = ''Open '' @ way, ol_size = td_size t, ol_price = td_entry_price t, ol_fee = td_entry_fee t, ol_side = td_side t\<rparr>])"

definition order_fills :: "trade list \<Rightarrow> fill_line list" where
  "order_fills ts = List.concat (List.map trade_fills ts)"

text \<open>The comparison calls two fills of one moment out of order whichever comes first, so
  how they are arranged is the engine's affair: \<open>arrange\<close> is its sort.\<close>

definition trades_to_orders :: "(fill_line list \<Rightarrow> fill_line list) \<Rightarrow> trade list \<Rightarrow> fill_line list" where
  "trades_to_orders arrange ts = arrange (order_fills ts)"

definition clock_time :: "int \<Rightarrow> int \<Rightarrow> string \<Rightarrow> string" where
  "clock_time tz now moment = (case parse_date tz moment of
     Num q \<Rightarrow> (let ms = \<lfloor>q\<rfloor>; hm_text = two_digits (local_hour tz ms) @ '':'' @ two_digits (local_minute tz ms) in
       case local_civil tz ms of (y, m, d) \<Rightarrow>
         if local_civil tz now = (y, m, d) then hm_text else show_int d @ ''.'' @ two_digits m @ '' '' @ hm_text)
   | _ \<Rightarrow> ''NaN.NaN NaN:NaN'')"

text \<open>A row of the history: what was traded, when and with which result.\<close>

record trade_row =
  pr_what :: string
  pr_when :: string
  pr_result :: string
  pr_colour :: "sign_colour option"

definition trade_row :: "int \<Rightarrow> int \<Rightarrow> trade \<Rightarrow> trade_row" where
  "trade_row tz now t = (let is_open = \<not> given (td_closed_at t);
       pnl = (case td_pnl t of Some p \<Rightarrow> js_number p | None \<Rightarrow> 0) in
     \<lparr>pr_what = (if td_side t = Long then ''Up'' else ''Down'') @ dot_mark @ trim (td_size t) @ '' @ '' @ trim (td_entry_price t) @
        (if given (td_exit_price t) then right_arrow @ trim (the (td_exit_price t)) else []),
      pr_when = clock_time tz now (td_opened_at t) @
        (if given (td_closed_at t) then en_dash @ clock_time tz now (the (td_closed_at t)) @ dot_mark @ (if td_close_reason t = Some Horizon then ''by timer'' else ''closed'')
         else dot_mark @ ''open''),
      pr_result = (if is_open then ''open'' else (if pnl > 0 then ''+'' else []) @ trim (case td_pnl t of Some p \<Rightarrow> p | None \<Rightarrow> ''0'')),
      pr_colour = (if is_open then None else Some (if pnl > 0 then Up else if pnl < 0 then Down else Ink))\<rparr>)"

definition fill_row :: "int \<Rightarrow> int \<Rightarrow> fill_line \<Rightarrow> string \<times> string" where
  "fill_row tz now ord = (ol_label ord @ dot_mark @ trim (ol_size ord) @ '' @ '' @ trim (ol_price ord),
     clock_time tz now (ol_at ord) @ dot_mark @ ''fee '' @ trim (ol_fee ord))"

section \<open>What they say\<close>

text \<open>The share of the budget is a whole percentage, from 0 and no higher than 999.\<close>

lemma tap_share_range:
  assumes "js_number notional = Num n" "0 \<le> n" "js_number stop = Num f"
    and "js_number (lm_daily_loss (pf_limits s)) = Num l" "js_number (rk_daily_loss (pf_risk s)) = Num d" "budget_left s > 0"
  shows "\<exists>k::int. tap_share notional stop s = Num (of_int k) \<and> 0 \<le> k \<and> k \<le> 999"
proof -
  have two: "js_number default_leverage = Num 2" unfolding default_leverage_def by code_simp
  have left: "budget_left s = Num (l - d)" "0 < l - d"
    using assms(4,5,6) by (auto simp: budget_left_def zero_Num max_def split: if_splits)
  obtain r where r: "tap_at_risk notional stop = Num r" "0 \<le> r"
  proof -
    have "tap_collateral notional = Num (n / 2)" using assms(1) two by (simp add: tap_collateral_def)
    then show ?thesis using that[of "if f > 0 then n / 2 * f else n / 2"] assms(2,3) by (simp add: tap_at_risk_def zero_Num)
  qed
  let ?m = "\<lfloor>r / (l - d) * 100 + 1/2\<rfloor>"
  have "0 \<le> r / (l - d) * 100" using r(2) left(2) by simp
  then have "0 \<le> ?m" by linarith
  moreover have "tap_share notional stop s = Num (of_int (min 999 ?m))"
    using left by (simp add: tap_share_def r(1) numeral_Num of_int_min)
  ultimately show ?thesis by (intro exI[of _ "min 999 ?m"]) simp
qed

text \<open>The card says the leverage the tap opens at, and reckons what the tap risks with the
  default one.\<close>

lemma risk_ignores_leverage: "nc_risk (flat_card fees notional stop state leverage) = nc_risk (flat_card fees notional stop state leverage')"
  by (simp add: flat_card_def)

lemma ten_times_is_said_as_two:
  "nc_risk (flat_card None ''20'' ''0'' None ''10'') = Some (''This tap risks up to 10.0 '' @ em_dash @ '' the whole collateral, no stop'')"
proof -
  have "\<lfloor>201 / 2 :: rat\<rfloor> = 100" by (simp add: floor_eq_iff)
  moreover have "show_nat 100 = ''100''" by code_simp
  ultimately have tenths: "to_fixed (Num 10) 1 = ''10.0''" by (simp add: fixed_abs_def pad_start_def Let_def)
  have read: "js_number ''20'' = Num 20" "js_number default_leverage = Num 2" "js_number ''0'' = Num 0" unfolding default_leverage_def by code_simp+
  show ?thesis
    by (simp add: read tenths[simplified One_nat_def] flat_card_def tap_risk_def tap_collateral_def short_amount_def truthy_def numeral_Num zero_Num Let_def del: to_fixed.simps)
qed

text \<open>Every trade is one fill, and one more once it is closed; no arrangement loses any.\<close>

lemma open_row_has_no_result:
  "\<not> given (td_closed_at t) \<Longrightarrow> pr_result (trade_row tz now t) = ''open'' \<and> pr_colour (trade_row tz now t) = None"
  by (simp add: trade_row_def Let_def)

lemma fills_of_trades:
  "length (order_fills ts) = length ts + length (filter (\<lambda>t. given (td_closed_at t) \<and> given (td_exit_price t)) ts)"
  by (induction ts) (simp_all add: order_fills_def trade_fills_def Let_def)

lemma orders_are_fills: "(\<And>xs. mset (arrange xs) = mset xs) \<Longrightarrow> mset (trades_to_orders arrange ts) = mset (order_fills ts)"
  by (simp add: trades_to_orders_def)

end
