(* ===== verification/Scenes.thy ===== *)
theory Scenes
  imports LessonArt Show
begin

text \<open>
  The promo pictures (ui/illustration.tsx): where the crowd's line ends and yours breaks
  away, the plan drawn around a tap, the week that went to plan, and the invite. What
  they place on the stage is modelled; strokes, colours and fixed decoration are not.
\<close>

section \<open>What the scenes place\<close>

record crowd_scene =
  cs_market :: "(string \<times> string) list"
  cs_scope_x :: jsnum
  cs_scope_y :: jsnum
  cs_market_end :: jsnum
  cs_note_y :: jsnum
  cs_you_end :: jsnum

definition crowd_bars :: "bar list" where "crowd_bars = take 34 lesson_bars"

definition crowd_x :: "nat \<Rightarrow> jsnum" where
  "crowd_x i = stage_x 10 (200 / Num (of_nat (length crowd_bars))) i"

definition crowd_mid_y :: "nat \<Rightarrow> jsnum" where
  "crowd_mid_y i = scale crowd_bars 40 130 (Num (sma crowd_bars 7 ! i))"

definition crowd_picture :: crowd_scene where
  "crowd_picture = (let last_i = length crowd_bars - 1; sy = math_min (crowd_mid_y last_i) (40 + 130 - 30); market_end = math_min (sy + 6) (40 + 130) in
     \<lparr>cs_market = List.map (\<lambda>i. (to_fixed (crowd_x i) 1, to_fixed (crowd_mid_y i) 1)) [3..<length crowd_bars],
      cs_scope_x = crowd_x last_i, cs_scope_y = sy, cs_market_end = market_end - 10, cs_note_y = market_end + 6, cs_you_end = 30\<rparr>)"

record copilot_scene =
  co_at_x :: jsnum
  co_at_y :: jsnum
  co_target_y :: jsnum
  co_stop_y :: jsnum
  co_target_box :: "jsnum \<times> jsnum"
  co_stop_box :: "jsnum \<times> jsnum"
  co_pill :: "jsnum \<times> jsnum"

definition copilot_bars :: "bar list" where "copilot_bars = drop 8 lesson_bars"

text \<open>A box is its upper edge and its height; the pill, its left and its upper edge.\<close>

definition copilot_picture :: copilot_scene where
  "copilot_picture = (let sx = stage_x 10 (300 / Num (of_nat (length copilot_bars))) 24;
       sy = math_min (math_max (scale copilot_bars 26 148 (Num (bar_c (copilot_bars ! 24)))) (26 + 44)) (26 + 148 - 44);
       target_y = sy - 40; stop_y = sy + 40 in
     \<lparr>co_at_x = sx, co_at_y = sy, co_target_y = target_y, co_stop_y = stop_y, co_target_box = (target_y, sy - target_y),
      co_stop_box = (sy, stop_y - sy), co_pill = (sx - 134, sy - 46)\<rparr>)"

definition week_went :: "bool list" where "week_went = [True, True, False, True, True, True]"

definition week_x :: "nat \<Rightarrow> nat" where "week_x i = 24 + i * 24"

definition taps_taken :: "(nat \<times> bool) list" where
  "taps_taken = [(3, True), (11, False), (17, True), (25, False), (31, True), (37, True)]"

definition discipline_bars :: "bar list" where "discipline_bars = drop 6 lesson_bars"

definition tap_place :: "nat \<times> bool \<Rightarrow> jsnum \<times> jsnum" where
  "tap_place t = (stage_x 10 (300 / Num (of_nat (length discipline_bars))) (fst t),
     (let y = scale discipline_bars 50 118; b = discipline_bars ! fst t in
       if snd t then y (Num (bar_l b)) + 14 else y (Num (bar_h b)) - 14))"

definition week_note :: string where "week_note = ''this week'' @ dot_mark @ ''5 of 6 to plan''"

definition floor_y :: jsnum where "floor_y = 50 + 118 + 10"

text \<open>A friend's card, the line out to it and the coin that comes back.\<close>

definition friends :: "(rat \<times> rat \<times> bool) list" where
  "friends = [(212, 40, False), (224, 98, True), (212, 156, False)]"

definition line_from :: "rat \<times> rat" where "line_from = (114, 118)"

definition line_points :: "rat \<times> rat \<Rightarrow> (rat \<times> rat) list" where
  "line_points f = [line_from, (fst line_from + 44, snd line_from), (fst f - 44, snd f + 22), (fst f - 4, snd f + 22)]"

definition coin_at :: "nat \<Rightarrow> rat \<times> rat \<Rightarrow> rat \<times> rat" where
  "coin_at i f = (fst line_from + 52 + of_nat i * 4, (snd line_from + snd f + 22) / 2)"

definition own_rule :: "nat \<Rightarrow> rat \<times> rat \<times> rat" where
  "own_rule i = (38 + of_nat i * 94, 48 - of_nat i * 8, 92 / 100 - of_nat i * (24 / 100))"

section \<open>Where it all lands\<close>

lemma lesson_walk: "length lesson_bars = 46" "list_all bar_ok lesson_bars"
  using walk_legs_ok[of "[(46, 12 / 100, Some 1)]" 7 100]
  by (simp_all add: lesson_bars_def ohlc_one_leg ohlc_legs_def leg_vol_def)

text \<open>A price a bar saw lands in the band the drawing was given.\<close>

lemma seen_price_in_band:
  assumes "list_all bar_ok bars" "b \<in> set bars" "bar_l b \<le> p" "p \<le> bar_h b" "0 < height"
  obtains y where "scale bars (Num y0) (Num height) (Num p) = Num y" "y0 < y" "y < y0 + height"
proof -
  have "bars \<noteq> []" using assms(2) by auto
  from scale_edges[OF this assms(1)] obtain lo hi where e: "scale_bounds bars = (Num hi, Num lo)" "lo < hi" "lo < bar_l b" "bar_h b < hi"
    using assms(2) by metis
  then have "0 < (p - lo) / (hi - lo)" "(p - lo) / (hi - lo) < 1" using assms(3,4) by simp_all
  then have "0 < (p - lo) / (hi - lo) * height" "(p - lo) / (hi - lo) * height < 1 * height"
    using mult_pos_pos[OF _ assms(5)] mult_strict_right_mono[OF _ assms(5)] by blast+
  then show thesis using that[of "y0 + height - (p - lo) / (hi - lo) * height"] e(1,2) by (simp add: scale_def)
qed

lemma bar_close_inside: "bar_ok b \<Longrightarrow> bar_l b \<le> bar_c b \<and> bar_c b \<le> bar_h b"
  by (auto simp: bar_ok_def)

lemma seen_edges_in_band:
  assumes "list_all bar_ok bars" "b \<in> set bars" "0 < height"
  obtains l h where "scale bars (Num y0) (Num height) (Num (bar_l b)) = Num l" "y0 < l" "l < y0 + height"
    "scale bars (Num y0) (Num height) (Num (bar_h b)) = Num h" "y0 < h" "h < y0 + height"
proof -
  have "bar_l b \<le> bar_h b" using assms(1,2) bar_close_inside[of b] by (force simp: list_all_iff)
  then show thesis
    using that seen_price_in_band[OF assms(1,2) _ _ assms(3), of "bar_l b" y0] seen_price_in_band[OF assms(1,2) _ _ assms(3), of "bar_h b" y0]
    by (metis order_refl)
qed

text \<open>
  The copilot's plan is on the stage whatever the bar: the tap sits where it can show
  both, the target forty above it and the stop forty below, each box reaching from the
  tap to its line.
\<close>

theorem plan_fits_stage:
  "\<exists>y. co_at_y copilot_picture = Num y \<and> 70 \<le> y \<and> y \<le> 130 \<and>
     co_target_y copilot_picture = Num (y - 40) \<and> co_target_box copilot_picture = (Num (y - 40), Num 40) \<and>
     co_stop_y copilot_picture = Num (y + 40) \<and> co_stop_box copilot_picture = (Num y, Num 40) \<and> 30 \<le> y - 40 \<and> y + 40 \<le> 170"
proof -
  let ?b = "copilot_bars ! 24"
  have ok: "list_all bar_ok copilot_bars" using lesson_walk by (auto simp: copilot_bars_def list_all_iff dest: in_set_dropD)
  have b: "?b \<in> set copilot_bars" using lesson_walk(1) by (intro nth_mem) (simp add: copilot_bars_def)
  then have "bar_ok ?b" using ok by (simp add: list_all_iff)
  then obtain v where "scale copilot_bars (Num 26) (Num 148) (Num (bar_c ?b)) = Num v"
    using seen_price_in_band[OF ok b, of "bar_c ?b" 148 26] bar_close_inside by auto
  then show ?thesis
    by (intro exI[of _ "min (max v 70) 130"]) (auto simp: copilot_picture_def Let_def numeral_Num)
qed

text \<open>The note over the week counts the days drawn under it.\<close>

lemma week_note_counts:
  "week_note = ''this week'' @ dot_mark @ show_nat (length (filter id week_went)) @ '' of '' @ show_nat (length week_went) @ '' to plan''"
proof -
  have "length (filter id week_went) = 5" "length week_went = 6" "show_nat 5 = ''5''" "show_nat 6 = ''6''"
    by (simp_all add: week_went_def) code_simp+
  then show ?thesis by (simp only:) (simp add: week_note_def)
qed

lemma discipline_market: "list_all bar_ok discipline_bars"
  using lesson_walk(2) by (auto simp: discipline_bars_def list_all_iff dest: in_set_dropD)

text \<open>The floor held: no bar of the picture reaches it, and every tap is drawn between
  the note and the foot of the stage.\<close>

lemma floor_held:
  "\<forall>b \<in> set discipline_bars. \<exists>y. scale discipline_bars 50 118 (Num (bar_l b)) = Num y \<and> Num y < floor_y - 10"
proof
  fix b assume b: "b \<in> set discipline_bars"
  obtain y where "scale discipline_bars (Num 50) (Num 118) (Num (bar_l b)) = Num y" "y < 50 + 118"
    using seen_edges_in_band[OF discipline_market b, of 118 50] by auto
  then show "\<exists>y. scale discipline_bars 50 118 (Num (bar_l b)) = Num y \<and> Num y < floor_y - 10"
    by (simp add: floor_y_def numeral_Num)
qed

lemma taps_on_stage: "list_all (\<lambda>t. \<exists>y. snd (tap_place t) = Num y \<and> 36 < y \<and> y < 182) taps_taken"
proof -
  have "\<exists>y. snd (tap_place t) = Num y \<and> 36 < y \<and> y < 182" if "fst t < 40" for t
  proof -
    let ?b = "discipline_bars ! fst t"
    have "?b \<in> set discipline_bars" using that lesson_walk(1) by (intro nth_mem) (simp add: discipline_bars_def)
    from seen_edges_in_band[OF discipline_market this, of 118 50] obtain l h where
      "scale discipline_bars (Num 50) (Num 118) (Num (bar_l ?b)) = Num l" "50 < l" "l < 168"
      "scale discipline_bars (Num 50) (Num 118) (Num (bar_h ?b)) = Num h" "50 < h" "h < 168" by auto
    then show ?thesis by (simp add: tap_place_def Let_def numeral_Num)
  qed
  then show ?thesis by (simp add: taps_taken_def)
qed

text \<open>Your line ends above the market's: the average of closes the picture follows is a
  price its window saw.\<close>

lemma average_between:
  assumes "bs \<noteq> []" "\<And>b. b \<in> set bs \<Longrightarrow> lo < bar_c b \<and> bar_c b < hi"
  shows "lo < foldl (\<lambda>sum b. sum + bar_c b) 0 bs / of_nat (length bs)" "foldl (\<lambda>sum b. sum + bar_c b) 0 bs / of_nat (length bs) < hi"
proof -
  have sum: "foldl (\<lambda>s b. s + bar_c b) a xs = a + sum_list (List.map bar_c xs)" for a xs by (induction xs arbitrary: a) simp_all
  have n: "(0::rat) < of_nat (length bs)" using assms(1) by simp
  have "of_nat (length bs) * lo < sum_list (List.map bar_c bs) \<and> sum_list (List.map bar_c bs) < of_nat (length bs) * hi"
    using assms by (induction bs rule: list_nonempty_induct) (auto simp: algebra_simps add_strict_mono)
  then show "lo < foldl (\<lambda>sum b. sum + bar_c b) 0 bs / of_nat (length bs)" "foldl (\<lambda>sum b. sum + bar_c b) 0 bs / of_nat (length bs) < hi"
    using n by (simp_all add: sum less_divide_eq divide_less_eq mult.commute)
qed

lemma you_end_above_the_market:
  "\<exists>m. cs_market_end crowd_picture = Num m \<and> 36 < m \<and> m \<le> 136 \<and> cs_you_end crowd_picture < Num m"
proof -
  let ?bs = "crowd_bars" and ?w = "js_slice (Suc 33 - 7) (Suc 33) crowd_bars"
  have len: "length ?bs = 34" using lesson_walk(1) by (simp add: crowd_bars_def)
  have ok: "list_all bar_ok ?bs" using lesson_walk(2) by (auto simp: crowd_bars_def list_all_iff dest: in_set_takeD)
  have "?bs \<noteq> []" using len by auto
  from scale_edges[OF this ok] obtain lo hi where e: "scale_bounds ?bs = (Num hi, Num lo)" "lo < hi"
    "\<And>b. b \<in> set ?bs \<Longrightarrow> lo < bar_l b \<and> bar_h b < hi" by metis
  have w: "?w \<noteq> []" "\<And>b. b \<in> set ?w \<Longrightarrow> lo < bar_c b \<and> bar_c b < hi"
    using len e(3) ok bar_close_inside
    by (auto simp: js_slice_def list_all_iff dest!: in_set_dropD in_set_takeD) (meson less_le_trans le_less_trans)+
  let ?v = "sma ?bs 7 ! 33"
  have "lo < ?v" "?v < hi" using average_between[OF w] len by (simp_all add: sma_def sma_at_def Let_def)
  then have "0 < (?v - lo) / (hi - lo)" "(?v - lo) / (hi - lo) < 1" using e(2) by simp_all
  moreover have "crowd_mid_y 33 = Num (170 - (?v - lo) / (hi - lo) * 130)"
    using e(1,2) by (simp add: crowd_mid_y_def scale_def numeral_Num)
  ultimately obtain r where "crowd_mid_y 33 = Num (170 - r * 130)" "0 < r" "r < 1" by blast
  then show ?thesis using len
    by (intro exI[of _ "min (min (170 - r * 130) 140 + 6) 170 - 10"]) (auto simp: crowd_picture_def Let_def numeral_Num)
qed

text \<open>The coin rides at the height of the middle of its line, at most twelve to the side.\<close>

definition line_middle :: "(rat \<times> rat) list \<Rightarrow> rat \<times> rat" where
  "line_middle ps = ((fst (ps ! 0) + 3 * fst (ps ! 1) + 3 * fst (ps ! 2) + fst (ps ! 3)) / 8, (snd (ps ! 0) + 3 * snd (ps ! 1) + 3 * snd (ps ! 2) + snd (ps ! 3)) / 8)"

lemma coin_on_its_line: "snd (coin_at i f) = snd (line_middle (line_points f))"
  by (simp add: coin_at_def line_middle_def line_points_def line_from_def field_simps)

lemma coin_near_middle:
  "list_all (\<lambda>i. case friends ! i of (x, y, live) \<Rightarrow> \<bar>fst (coin_at i (x, y)) - fst (line_middle (line_points (x, y)))\<bar> < 12) [0..<length friends]"
  by (simp add: friends_def coin_at_def line_middle_def line_points_def line_from_def upt_rec)

end
