(* ===== verification/Addresses.thy ===== *)
theory Addresses
  imports JsText
begin

text \<open>
  Where the app finds the platform and the web build (config.ts): the address named at
  build time, the page's own origin on a deployed site, the laptop otherwise.
\<close>

section \<open>The patterns\<close>

definition after_prefix :: "string \<Rightarrow> string \<Rightarrow> string option" where
  "after_prefix p s = (if take (length p) s = p then Some (drop (length p) s) else None)"

definition local_hosts :: "string list" where
  "local_hosts = [''localhost'', ''127.0.0.1'', ''[::1]'']"

text \<open>The origin is an http address of this machine: the host, then a port or nothing.\<close>

definition host_ends :: "string option \<Rightarrow> bool" where
  "host_ends r = (case r of Some t \<Rightarrow> t = [] \<or> hd t = CHR '':'' | None \<Rightarrow> False)"

definition is_local :: "string \<Rightarrow> bool" where
  "is_local origin = list_ex (\<lambda>scheme. case after_prefix scheme origin of
     Some h \<Rightarrow> list_ex (\<lambda>host. host_ends (after_prefix host h)) local_hosts | None \<Rightarrow> False) [''http://'', ''https://'']"

text \<open>The port at the end of an address becomes Metro's.\<close>

definition with_port :: "string \<Rightarrow> string" where
  "with_port s = (let ds = takeWhile is_digit (rev s); before = dropWhile is_digit (rev s) in
     if ds \<noteq> [] \<and> before \<noteq> [] \<and> hd before = CHR '':'' then rev (tl before) @ '':8081'' else s)"

section \<open>The two addresses\<close>

text \<open>The origin is \<open>None\<close> where there is no page: on a phone.\<close>

definition has_origin :: "string option \<Rightarrow> bool" where
  "has_origin origin = (case origin of Some o' \<Rightarrow> o' \<noteq> [] | None \<Rightarrow> False)"

definition deployed_web :: "string option \<Rightarrow> bool" where
  "deployed_web origin \<longleftrightarrow> has_origin origin \<and> \<not> is_local (the origin)"

definition api_url :: "string option \<Rightarrow> string option \<Rightarrow> string" where
  "api_url named origin = drop_slash (case named of Some u \<Rightarrow> u
     | None \<Rightarrow> if deployed_web origin then the origin else ''http://localhost:8080'')"

definition web_url :: "string option \<Rightarrow> string option \<Rightarrow> string option \<Rightarrow> string" where
  "web_url named_web named_api origin = drop_slash (case named_web of Some u \<Rightarrow> u
     | None \<Rightarrow> if has_origin origin then the origin else with_port (api_url named_api origin))"

section \<open>Where they lead\<close>

lemma drop_slash_plain: "last s \<noteq> CHR ''/'' \<Longrightarrow> drop_slash s = s"
  by (simp add: drop_slash_def)

lemma with_port_at_end:
  assumes "ds \<noteq> []" "list_all is_digit ds"
  shows "with_port (h @ CHR '':'' # ds) = h @ '':8081''"
proof -
  have "list_all is_digit (rev ds)" using assms(2) by (simp add: list_all_iff)
  moreover have "\<not> is_digit (CHR '':'')" by (simp add: is_digit_def code_of_def)
  ultimately have "takeWhile is_digit (rev ds @ CHR '':'' # rev h) = rev ds" "dropWhile is_digit (rev ds @ CHR '':'' # rev h) = CHR '':'' # rev h"
    by (simp_all add: takeWhile_digits dropWhile_digits)
  then show ?thesis using assms(1) by (simp add: with_port_def Let_def)
qed

text \<open>A page of this machine is told by its host, whatever its port.\<close>

lemma after_prefix_append [simp]: "after_prefix p (p @ s) = Some s"
  by (simp add: after_prefix_def)

lemma local_page: "scheme \<in> {''http://'', ''https://''} \<Longrightarrow> host \<in> set local_hosts \<Longrightarrow> is_local (scheme @ host @ CHR '':'' # port)"
proof -
  assume scheme: "scheme \<in> {''http://'', ''https://''}" and host: "host \<in> set local_hosts"
  have "list_ex (\<lambda>g. host_ends (after_prefix g (host @ CHR '':'' # port))) local_hosts"
    using host by (auto simp only: list_ex_iff) (intro bexI[of _ host], simp_all add: host_ends_def)
  then have "case after_prefix scheme (scheme @ host @ CHR '':'' # port) of Some h \<Rightarrow> list_ex (\<lambda>g. host_ends (after_prefix g h)) local_hosts | None \<Rightarrow> False"
    by simp
  then show ?thesis using scheme unfolding is_local_def list_ex_iff by (auto simp del: after_prefix_append)
qed

text \<open>A name that only begins like this machine's is not it.\<close>

lemma lookalike_is_deployed: "deployed_web (Some ''https://localhost.example.com'') \<and> deployed_web (Some ''https://inflight.work'')"
  by (simp add: deployed_web_def has_origin_def is_local_def local_hosts_def after_prefix_def host_ends_def)

text \<open>
  A deployed site with nothing named calls its own origin and is its own web build;
  a page served from this machine calls the platform's port on it; a phone that is told
  the laptop's address looks for the web build there, on Metro's port.
\<close>

lemma deployed_site: "deployed_web (Some origin) \<Longrightarrow> last origin \<noteq> CHR ''/'' \<Longrightarrow>
    api_url None (Some origin) = origin \<and> web_url None None (Some origin) = origin"
  by (auto simp: api_url_def web_url_def drop_slash_plain deployed_web_def)

lemma page_of_this_machine: "scheme \<in> {''http://'', ''https://''} \<Longrightarrow> host \<in> set local_hosts \<Longrightarrow>
    api_url None (Some (scheme @ host @ CHR '':'' # port)) = ''http://localhost:8080''"
  using local_page[of scheme host port] by (simp add: api_url_def deployed_web_def drop_slash_def del: insert_iff)

lemma phone_finds_the_laptop:
  assumes "ds \<noteq> []" "list_all is_digit ds"
  shows "web_url None (Some (h @ CHR '':'' # ds)) None = h @ '':8081''"
proof -
  have "is_digit (last ds)" using assms by (simp add: list_all_iff)
  then have "last (h @ CHR '':'' # ds) \<noteq> CHR ''/''" using assms(1) by (auto simp: is_digit_def code_of_def)
  then have "api_url (Some (h @ CHR '':'' # ds)) None = h @ CHR '':'' # ds" by (simp add: api_url_def drop_slash_plain)
  then show ?thesis using with_port_at_end[OF assms] by (simp add: web_url_def has_origin_def drop_slash_def)
qed

end
