(* ===== verification/Spec2Isabelle.thy ===== *)
theory Spec2Isabelle
  imports PrizePool Settings Client Risk Trading Keys Enroll Activation Account Keychain Show Onboarding Lobby Signals Paging StrategyScreen
    Journal History Leaderboard Controls RiskScreen TradeCards LessonArt Forms Deposit Crowd Rooms Chart Devices TradingParts Scenes Addresses
begin

text \<open>
  A model of the app and of the prize pool's indexer, with what makes them correct.
\<close>

end
